(* ===== verification/Prelude.thy ===== *)
theory Prelude
  imports Main "HOL-Library.Word" "HOL-Library.Finite_Map"
begin

text \<open>
  Vocabulary shared by every component of the development.

  \<^item> Results. A Rust \<open>Result<T, E>\<close> is the sum \<open>'e + 'a\<close> (\<open>Inl\<close> the error). The operator \<open>?\<close>
    is \<open>tryr\<close>, \<open>Option::ok_or\<close> is \<open>ok_or\<close>, \<open>Result::map_err\<close> is \<open>map_err\<close> and
    \<open>collect::<Result<Vec<_>, _>>()\<close> is \<open>collect_results\<close>.
  \<^item> Methods with \<open>&mut self\<close>, and calls that read from or write to the outside world, are
    functions \<open>'s \<Rightarrow> ('e + 'a) \<times> 's\<close>: they return the state also when they fail, because the
    code may have changed it before the error. \<open>try_io\<close> is \<open>?\<close> for these.
  \<^item> \<open>HashMap\<close> and \<open>BTreeMap\<close> are finite maps (\<open>fmap\<close>), \<open>len\<close> is \<open>fmsize\<close>; where the code
    iterates over a \<open>HashMap\<close> or \<open>HashSet\<close>, whose order Rust leaves open, the order is an
    argument of the model constrained by \<open>enumerates\<close>.
\<close>

named_theorems result_simps \<open>equations of the result and state-passing combinators\<close>
named_theorems inv_intros \<open>introduction rules for the component invariants\<close>

section \<open>Bytes and results\<close>

type_synonym byte = "8 word"
type_synonym bytes = "byte list"
type_synonym uuid = "128 word"

definition tryr :: "'e + 'a \<Rightarrow> ('a \<Rightarrow> 'e + 'b) \<Rightarrow> 'e + 'b" where
  "tryr r f = (case r of Inl e \<Rightarrow> Inl e | Inr x \<Rightarrow> f x)"

definition ok_or :: "'a option \<Rightarrow> 'e \<Rightarrow> 'e + 'a" where
  "ok_or x e = (case x of None \<Rightarrow> Inl e | Some y \<Rightarrow> Inr y)"

definition map_err :: "('e \<Rightarrow> 'f) \<Rightarrow> 'e + 'a \<Rightarrow> 'f + 'a" where
  "map_err g r = (case r of Inl e \<Rightarrow> Inl (g e) | Inr x \<Rightarrow> Inr x)"

definition is_ok :: "'e + 'a \<Rightarrow> bool" where
  "is_ok r = (case r of Inl _ \<Rightarrow> False | Inr _ \<Rightarrow> True)"

fun collect_results :: "('e + 'a) list \<Rightarrow> 'e + 'a list" where
  "collect_results [] = Inr []"
| "collect_results (r # rs) =
     (case r of
        Inl e \<Rightarrow> Inl e
      | Inr x \<Rightarrow> (case collect_results rs of Inl e \<Rightarrow> Inl e | Inr xs \<Rightarrow> Inr (x # xs)))"

lemma tryr_simps [simp, result_simps]:
  "tryr (Inl e) f = Inl e"
  "tryr (Inr x) f = f x"
  by (simp_all add: tryr_def)

lemma ok_or_simps [simp, result_simps]:
  "ok_or None e = Inl e"
  "ok_or (Some x) e = Inr x"
  by (simp_all add: ok_or_def)

lemma map_err_simps [simp, result_simps]:
  "map_err g (Inl e) = Inl (g e)"
  "map_err g (Inr x) = Inr x"
  by (simp_all add: map_err_def)

lemma is_ok_simps [simp, result_simps]:
  "is_ok (Inr x)"
  "\<not> is_ok (Inl e)"
  by (simp_all add: is_ok_def)

lemma tryr_eq_Inr [simp]: "tryr r f = Inr y \<longleftrightarrow> (\<exists>x. r = Inr x \<and> f x = Inr y)"
  by (cases r) auto

lemma tryr_eq_Inl: "tryr r f = Inl e \<longleftrightarrow> r = Inl e \<or> (\<exists>x. r = Inr x \<and> f x = Inl e)"
  by (cases r) auto

lemma ok_or_eq_Inr [simp]: "ok_or x e = Inr y \<longleftrightarrow> x = Some y"
  by (cases x) auto

lemma ok_or_eq_Inl [simp]: "ok_or x e = Inl e' \<longleftrightarrow> x = None \<and> e' = e"
  by (cases x) auto

lemma map_err_eq_Inr [simp]: "map_err g r = Inr y \<longleftrightarrow> r = Inr y"
  by (cases r) auto

lemma is_ok_iff: "is_ok r \<longleftrightarrow> (\<exists>x. r = Inr x)"
  by (cases r) auto

lemma collect_results_Inr [simp]: "collect_results (map Inr xs) = Inr xs"
  by (induction xs) auto

lemma collect_results_InrD: "collect_results rs = Inr xs \<Longrightarrow> rs = map Inr xs"
  by (induction rs arbitrary: xs) (auto split: sum.splits)

lemma collect_results_eq_Inr: "collect_results rs = Inr xs \<longleftrightarrow> rs = map Inr xs"
  by (auto dest: collect_results_InrD)

lemma collect_results_map_Inr [simp]: "collect_results (map (\<lambda>x. Inr (f x)) xs) = Inr (map f xs)"
  by (simp add: collect_results_eq_Inr)

lemma collect_results_length: "collect_results rs = Inr xs \<Longrightarrow> length xs = length rs"
  by (simp add: collect_results_eq_Inr)

lemma collect_results_nth:
  "collect_results rs = Inr xs \<Longrightarrow> i < length rs \<Longrightarrow> rs ! i = Inr (xs ! i)"
  by (simp add: collect_results_eq_Inr)

lemma collect_results_map_ex:
  "(\<exists>ys. collect_results (map f xs) = Inr ys) \<longleftrightarrow> (\<forall>x\<in>set xs. is_ok (f x))"
  by (induction xs) (auto simp: is_ok_iff split: sum.splits)

section \<open>State-passing computations\<close>

type_synonym ('w, 'e, 'a) io = "'w \<Rightarrow> ('e + 'a) \<times> 'w"

definition ret_io :: "'a \<Rightarrow> ('w, 'e, 'a) io" where
  "ret_io x = (\<lambda>w. (Inr x, w))"

definition fail_io :: "'e \<Rightarrow> ('w, 'e, 'a) io" where
  "fail_io e = (\<lambda>w. (Inl e, w))"

definition lift_io :: "'e + 'a \<Rightarrow> ('w, 'e, 'a) io" where
  "lift_io r = (\<lambda>w. (r, w))"

definition try_io :: "('w, 'e, 'a) io \<Rightarrow> ('a \<Rightarrow> ('w, 'e, 'b) io) \<Rightarrow> ('w, 'e, 'b) io" where
  "try_io m f = (\<lambda>w. case m w of (Inl e, w') \<Rightarrow> (Inl e, w') | (Inr x, w') \<Rightarrow> f x w')"

fun for_io :: "'a list \<Rightarrow> ('a \<Rightarrow> ('w, 'e, unit) io) \<Rightarrow> ('w, 'e, unit) io" where
  "for_io [] f = ret_io ()"
| "for_io (x # xs) f = try_io (f x) (\<lambda>_. for_io xs f)"

fun map_io :: "('a \<Rightarrow> ('w, 'e, 'b) io) \<Rightarrow> 'a list \<Rightarrow> ('w, 'e, 'b list) io" where
  "map_io f [] = ret_io []"
| "map_io f (x # xs) = try_io (f x) (\<lambda>y. try_io (map_io f xs) (\<lambda>ys. ret_io (y # ys)))"

lemma io_simps [simp, result_simps]:
  "ret_io x w = (Inr x, w)"
  "fail_io e w = (Inl e, w)"
  "lift_io r w = (r, w)"
  by (simp_all add: ret_io_def fail_io_def lift_io_def)

lemma try_io_eq_Inr:
  "try_io m f w = (Inr y, w'') \<longleftrightarrow> (\<exists>x w'. m w = (Inr x, w') \<and> f x w' = (Inr y, w''))"
  by (auto simp: try_io_def split: prod.splits sum.splits)

lemma try_io_Inr [result_simps]: "m w = (Inr x, w') \<Longrightarrow> try_io m f w = f x w'"
  by (simp add: try_io_def)

lemma try_io_Inl [result_simps]: "m w = (Inl e, w') \<Longrightarrow> try_io m f w = (Inl e, w')"
  by (simp add: try_io_def)

lemma try_io_ret [simp, result_simps]: "try_io (ret_io x) f = f x"
  by (simp add: try_io_def ret_io_def)

lemma try_io_ret_right [simp, result_simps]: "try_io m ret_io = m"
  by (auto simp: try_io_def ret_io_def fun_eq_iff split: prod.splits sum.splits)

lemma try_io_fail [simp, result_simps]: "try_io (fail_io e) f = fail_io e"
  by (simp add: try_io_def fail_io_def)

lemma try_io_lift [simp, result_simps]:
  "try_io (lift_io r) f w = (case r of Inl e \<Rightarrow> (Inl e, w) | Inr x \<Rightarrow> f x w)"
  by (cases r) (simp_all add: try_io_def lift_io_def)

text \<open>A predicate of the state that every call keeps is kept by the combinators.\<close>

definition keeps :: "('w \<Rightarrow> bool) \<Rightarrow> ('w, 'e, 'a) io \<Rightarrow> bool" where
  "keeps P m \<longleftrightarrow> (\<forall>w. P w \<longrightarrow> P (snd (m w)))"

lemma keepsI [intro]: "(\<And>w. P w \<Longrightarrow> P (snd (m w))) \<Longrightarrow> keeps P m"
  by (simp add: keeps_def)

lemma keepsD: "keeps P m \<Longrightarrow> P w \<Longrightarrow> m w = (r, w') \<Longrightarrow> P w'"
  by (auto simp: keeps_def)

lemma keeps_basic [inv_intros]:
  "keeps P (ret_io x)"
  "keeps P (fail_io e)"
  "keeps P (lift_io r)"
  by (auto simp: keeps_def)

lemma keeps_try_io [inv_intros]: "keeps P m \<Longrightarrow> (\<And>x. keeps P (f x)) \<Longrightarrow> keeps P (try_io m f)"
  by (fastforce simp: keeps_def try_io_def split: prod.splits sum.splits)

lemma keeps_for_io [inv_intros]: "(\<And>x. keeps P (f x)) \<Longrightarrow> keeps P (for_io xs f)"
  by (induction xs) (auto intro: inv_intros)

lemma keeps_map_io [inv_intros]: "(\<And>x. keeps P (f x)) \<Longrightarrow> keeps P (map_io f xs)"
  by (induction xs) (auto intro: inv_intros)

section \<open>Finite maps\<close>

definition fmsize :: "('k, 'v) fmap \<Rightarrow> nat" where
  "fmsize m = fcard (fmdom m)"

definition fmvals :: "('k, 'v) fmap \<Rightarrow> 'v set" where
  "fmvals m = fset (fmran m)"

lemma fmsize_empty [simp]: "fmsize fmempty = 0"
  by (simp add: fmsize_def)

lemma fmsize_fmupd [simp]:
  "fmsize (fmupd k v m) = (if k |\<in>| fmdom m then fmsize m else Suc (fmsize m))"
  by (simp add: fmsize_def fcard_finsert_if finsert_absorb)

lemma fmsize_eq_0 [simp]: "fmsize m = 0 \<longleftrightarrow> m = fmempty"
  by (metis fmsize_def fcard_0_eq fmdom_empty fmrestrict_fset_dom fmrestrict_fset_null)

lemma fmsize_card: "fmsize m = card (fset (fmdom m))"
  by (simp add: fmsize_def fcard.rep_eq)

lemma fmdom_fmlookup: "k |\<in>| fmdom m \<longleftrightarrow> (\<exists>v. fmlookup m k = Some v)"
  by (auto simp: fmlookup_dom_iff)

lemma fmvals_iff: "v \<in> fmvals m \<longleftrightarrow> (\<exists>k. fmlookup m k = Some v)"
  by (auto simp: fmvals_def fmlookup_ran_iff)

lemma fmvalsI [intro]: "fmlookup m k = Some v \<Longrightarrow> v \<in> fmvals m"
  by (auto simp: fmvals_iff)

lemma fmran_fmvals [simp]: "v |\<in>| fmran m \<longleftrightarrow> v \<in> fmvals m"
  by (simp add: fmvals_def)

lemma finite_fmvals [simp]: "finite (fmvals m)"
  by (simp add: fmvals_def)

lemma fmpred_fmupd_iff:
  "fmpred P (fmupd k v m) \<longleftrightarrow> P k v \<and> fmpred P (fmdrop k m)"
  by (auto simp: fmpred_iff split: if_splits)

lemma fmpred_updI [intro]: "fmpred P m \<Longrightarrow> P k v \<Longrightarrow> fmpred P (fmupd k v m)"
  by (auto simp: fmpred_iff split: if_splits)

lemma fmpred_lookup: "fmpred P m \<Longrightarrow> fmlookup m k = Some v \<Longrightarrow> P k v"
  by (auto simp: fmpred_iff)

lemma fmsize_le_card:
  assumes "fset (fmdom m) \<subseteq> A" and "finite A"
  shows "fmsize m \<le> card A"
  using assms by (simp add: fmsize_card card_mono)

text \<open>Iteration orders of the hash containers: any list of the elements without repetition.\<close>

definition enumerates :: "('a set \<Rightarrow> 'a list) \<Rightarrow> bool" where
  "enumerates ord \<longleftrightarrow> (\<forall>A. finite A \<longrightarrow> distinct (ord A) \<and> set (ord A) = A)"

lemma enumerates_set [simp]: "enumerates ord \<Longrightarrow> finite A \<Longrightarrow> set (ord A) = A"
  by (simp add: enumerates_def)

lemma enumerates_distinct [simp]: "enumerates ord \<Longrightarrow> finite A \<Longrightarrow> distinct (ord A)"
  by (simp add: enumerates_def)

lemma enumerates_length: "enumerates ord \<Longrightarrow> finite A \<Longrightarrow> length (ord A) = card A"
  by (metis distinct_card enumerates_distinct enumerates_set)

lemma enumerates_sorted_list_of_set: "enumerates (sorted_list_of_set :: 'a::linorder set \<Rightarrow> 'a list)"
  by (simp add: enumerates_def)

section \<open>Ordered maps\<close>

text \<open>The entries of a \<open>BTreeMap\<close> in the order of the keys.\<close>

definition btree_items :: "('k::linorder, 'v) fmap \<Rightarrow> ('k \<times> 'v) list" where
  "btree_items m = map (\<lambda>k. (k, the (fmlookup m k))) (sorted_list_of_fset (fmdom m))"

lemma in_btree_items [simp]: "(k, v) \<in> set (btree_items m) \<longleftrightarrow> fmlookup m k = Some v"
  by (auto simp: btree_items_def elim: fmdomE dest: fmdomI)

lemma ball_btree_items:
  "(\<forall>x\<in>set (btree_items m). P x) \<longleftrightarrow> (\<forall>k v. fmlookup m k = Some v \<longrightarrow> P (k, v))"
  by (metis in_btree_items prod.exhaust)

lemma length_btree_items [simp]: "length (btree_items m) = fmsize m"
  by (simp add: btree_items_def fmsize_def fcard.rep_eq sorted_list_of_fset.rep_eq)

lemma btree_items_nth: "j < fmsize m \<Longrightarrow> fmlookup m (fst (btree_items m ! j)) = Some (snd (btree_items m ! j))"
  using nth_mem[of j "btree_items m"] by (metis in_btree_items length_btree_items prod.collapse)

lemma btree_items_keys: "map fst (btree_items m) = sorted_list_of_fset (fmdom m)"
  by (simp add: btree_items_def comp_def)

end
