(* ===== verification/Api.thy ===== *)
theory Api
  imports Prelude
begin

text \<open>
  The types of the server API (\<open>frost-client/src/api.rs\<close>): public keys, messages, the argument
  and output structs of the nine endpoints, the API errors with their numeric codes, and
  \<open>LowError\<close>, the form in which an error crosses the wire. \<open>error\<close> is what the client's
  \<open>Box<dyn Error>\<close> can hold.
\<close>

section \<open>Keys, identifiers and messages\<close>

definition MAX_MSG_SIZE :: nat where
  "MAX_MSG_SIZE = 65535"

datatype public_key = PublicKey (pk_bytes: bytes)

record api_msg =
  sender :: public_key
  msg :: bytes

section \<open>Arguments and outputs of the endpoints\<close>

record challenge_output =
  co_challenge :: uuid

record login_args =
  la_challenge :: uuid
  la_pubkey :: public_key
  la_signature :: bytes

record login_output =
  lo_access_token :: uuid

record create_new_session_args =
  cn_pubkeys :: "public_key list"
  cn_message_count :: "8 word"

record create_new_session_output =
  cn_session_id :: uuid

record list_sessions_output =
  ls_session_ids :: "uuid list"

record get_session_info_args =
  gi_session_id :: uuid

record get_session_info_output =
  gi_message_count :: "8 word"
  gi_pubkeys :: "public_key list"
  gi_coordinator_pubkey :: public_key

record send_args =
  sa_session_id :: uuid
  sa_recipients :: "public_key list"
  sa_msg :: bytes

record receive_args =
  ra_session_id :: uuid
  ra_as_coordinator :: bool

record receive_output =
  ro_msgs :: "api_msg list"

record close_session_args =
  cl_session_id :: uuid

record ('sp, 'r) send_signing_package_args =
  sp_signing_package :: "'sp list"
  sp_aux_msg :: bytes
  sp_randomizer :: "'r list"

section \<open>Errors\<close>

datatype api_error =
    InvalidArgument string
  | Unauthorized
  | SessionNotFound
  | NotCoordinator
  | NotInSession
  | Unknown

definition INVALID_ARGUMENT :: nat where "INVALID_ARGUMENT = 1"
definition UNAUTHORIZED :: nat where "UNAUTHORIZED = 2"
definition SESSION_NOT_FOUND :: nat where "SESSION_NOT_FOUND = 3"
definition NOT_COORDINATOR :: nat where "NOT_COORDINATOR = 4"
definition NOT_IN_SESSION :: nat where "NOT_IN_SESSION = 5"
definition UNKNOWN :: nat where "UNKNOWN = 255"

lemmas error_code_defs =
  INVALID_ARGUMENT_def UNAUTHORIZED_def SESSION_NOT_FOUND_def NOT_COORDINATOR_def
  NOT_IN_SESSION_def UNKNOWN_def

fun error_code :: "api_error \<Rightarrow> nat" where
  "error_code (InvalidArgument _) = INVALID_ARGUMENT"
| "error_code Unauthorized = UNAUTHORIZED"
| "error_code SessionNotFound = SESSION_NOT_FOUND"
| "error_code NotCoordinator = NOT_COORDINATOR"
| "error_code NotInSession = NOT_IN_SESSION"
| "error_code Unknown = UNKNOWN"

text \<open>\<open>to_string\<close> of the error, from its \<open>#[error(...)]\<close> attributes.\<close>

fun error_to_string :: "api_error \<Rightarrow> string" where
  "error_to_string (InvalidArgument s) = ''invalid or missing argument: '' @ s"
| "error_to_string Unauthorized = ''client did not provide proper authorization credentials''"
| "error_to_string SessionNotFound = ''session was not found''"
| "error_to_string NotCoordinator = ''user is not the coordinator''"
| "error_to_string NotInSession = ''user is not part of the given session''"
| "error_to_string Unknown = ''unknown error''"

record low_error =
  le_code :: nat
  le_msg :: string
  le_error :: api_error

definition low_error_of :: "api_error \<Rightarrow> low_error" where
  "low_error_of err = \<lparr>le_code = error_code err, le_msg = error_to_string err, le_error = err\<rparr>"

definition error_of_low :: "low_error \<Rightarrow> api_error" where
  "error_of_low err = le_error err"

lemma error_of_low_error_of [simp]: "error_of_low (low_error_of e) = e"
  by (simp add: error_of_low_def low_error_of_def)

lemma error_code_eq_iff:
  "error_code e = error_code e' \<longleftrightarrow>
     e = e' \<or> (\<exists>s s'. e = InvalidArgument s \<and> e' = InvalidArgument s')"
  by (cases e; cases e') (auto simp: error_code_defs)

text \<open>
  The boxed errors of the client code: a message (\<open>eyre!\<close> or a string), an error of the server,
  of the transport, of a parser or of the cryptographic libraries, or a panic with its message.
\<close>

datatype error =
    Eyre string
  | Server_Error api_error
  | Connection_Error
  | Json_Error
  | Hex_Error
  | Io_Error
  | Parse_Error string
  | Snow_Error
  | Unknown_Recipient
  | Unknown_Sender
  | Invalid_Private_Key
  | Frost_Error string
  | Panic string

end
