(* ===== verification/Session_Machine.thy ===== *)
theory Session_Machine
  imports Api
begin

text \<open>
  What the two session state machines of \<open>frost-client/src/session.rs\<close> have in common, as the
  interface the HTTP communication code relies on: a message is handled by \<open>recv\<close>, which
  changes the state in place and may fail; a rejected message leaves the state as it was; the
  machine's invariant is kept; and the phase never goes back. The receive loops of the clients
  (\<open>for msg in r.msgs { state.recv(msg)? }\<close>) are \<open>for_io\<close> over \<open>recv\<close>.
\<close>

section \<open>The interface of a session state machine\<close>

locale session_machine =
  fixes recv :: "'m \<Rightarrow> ('st, error, unit) io"
    and inv :: "'st \<Rightarrow> bool"
    and phase :: "'st \<Rightarrow> nat"
  assumes recv_inv: "inv st \<Longrightarrow> recv m st = (r, st') \<Longrightarrow> inv st'"
    and recv_reject: "inv st \<Longrightarrow> recv m st = (Inl e, st') \<Longrightarrow> st' = st"
    and recv_phase: "inv st \<Longrightarrow> recv m st = (r, st') \<Longrightarrow> phase st \<le> phase st'"
begin

lemma keeps_recv: "keeps inv (recv m)"
  by (rule keepsI) (metis recv_inv prod.collapse)

lemma drain_inv: "inv st \<Longrightarrow> for_io ms recv st = (r, st') \<Longrightarrow> inv st'"
  using keepsD keeps_for_io keeps_recv by metis

lemma drain_phase: "inv st \<Longrightarrow> for_io ms recv st = (r, st') \<Longrightarrow> phase st \<le> phase st'"
proof (induction ms arbitrary: st)
  case Nil
  then show ?case by simp
next
  case (Cons m ms)
  obtain r1 st1 where r1: "recv m st = (r1, st1)" by (cases "recv m st")
  have p: "phase st \<le> phase st1" and i: "inv st1"
    using Cons.prems(1) r1 by (auto intro: recv_phase recv_inv)
  show ?case
  proof (cases r1)
    case (Inl e)
    with Cons.prems r1 p show ?thesis by (auto simp: try_io_def)
  next
    case (Inr u)
    with Cons.prems r1 i have "phase st1 \<le> phase st'"
      by (intro Cons.IH) (auto simp: try_io_def)
    with p show ?thesis by simp
  qed
qed

text \<open>
  A batch that fails did so at one message; the state is the one reached by the messages before
  it.
\<close>

lemma drain_error:
  assumes "inv st" and "for_io ms recv st = (Inl e, st')"
  shows "\<exists>ms1 m ms2. ms = ms1 @ m # ms2 \<and> for_io ms1 recv st = (Inr (), st') \<and>
           recv m st' = (Inl e, st')"
  using assms
proof (induction ms arbitrary: st)
  case Nil
  then show ?case by simp
next
  case (Cons m ms)
  obtain r1 st1 where r1: "recv m st = (r1, st1)" by (cases "recv m st")
  show ?case
  proof (cases r1)
    case (Inl e1)
    with Cons.prems r1 have "e1 = e" "st1 = st'" by (auto simp: try_io_def)
    moreover from this Inl r1 Cons.prems(1) have "st' = st" using recv_reject by blast
    ultimately have "m # ms = [] @ m # ms" "for_io [] recv st = (Inr (), st')"
      "recv m st' = (Inl e, st')"
      using Inl r1 by auto
    then show ?thesis by blast
  next
    case (Inr u)
    with Cons.prems r1 have "inv st1" "for_io ms recv st1 = (Inl e, st')"
      by (auto simp: try_io_def intro: recv_inv)
    from Cons.IH[OF this] obtain ms1 m' ms2
      where "ms = ms1 @ m' # ms2" "for_io ms1 recv st1 = (Inr (), st')"
        "recv m' st' = (Inl e, st')" by blast
    then have "m # ms = (m # ms1) @ m' # ms2 \<and> for_io (m # ms1) recv st = (Inr (), st') \<and>
        recv m' st' = (Inl e, st')"
      using r1 Inr by (auto simp: try_io_def)
    then show ?thesis by blast
  qed
qed

end

text \<open>The loop over a concatenation is the loop over the parts.\<close>

lemma for_io_append: "for_io (xs @ ys) f = try_io (for_io xs f) (\<lambda>_. for_io ys f)"
  by (induction xs) (auto simp: try_io_def fun_eq_iff split: prod.splits sum.splits)

lemma for_io_append_Inr:
  "for_io xs f w = (Inr (), w') \<Longrightarrow> for_io (xs @ ys) f w = for_io ys f w'"
  by (simp add: for_io_append try_io_def)

lemma for_io_Cons_Inr: "f x w = (Inr (), w') \<Longrightarrow> for_io (x # xs) f w = for_io xs f w'"
  by (simp add: try_io_def)

end
