(* ===== verification/Coordinator_Session.thy ===== *)
theory Coordinator_Session
  imports Session_Machine
begin

text \<open>
  \<open>CoordinatorSessionState\<close> of \<open>frost-client/src/session.rs\<close>: the coordinator's side of a signing
  session. Identifiers, signing commitments and signature shares are values of the \<open>frost-core\<close>
  crate and are type variables (\<open>'id\<close>, \<open>'c\<close>, \<open>'s\<close>); \<open>serde_json::from_slice\<close> at the two message
  types is the pair of parameters \<open>de_c\<close> and \<open>de_s\<close>. Both hash maps are finite maps: the code
  never depends on their iteration order.
\<close>

section \<open>State and operations\<close>

record coordinator_session_state_args =
  num_messages :: nat
  num_signers :: nat

datatype ('id, 'c, 's) coordinator_session_state =
    WaitingForCommitments coordinator_session_state_args
      "('id, 'c list) fmap" "(public_key, 'id) fmap"
  | WaitingForSignatureShares coordinator_session_state_args
      "('id, 'c list) fmap" "(public_key, 'id) fmap" "('id, 's list) fmap"
  | SignatureSharesReady coordinator_session_state_args "('id, 's list) fmap"

definition coordinator_new ::
    "nat \<Rightarrow> nat \<Rightarrow> (public_key, 'id) fmap \<Rightarrow> ('id, 'c, 's) coordinator_session_state" where
  "coordinator_new n_messages n_signers pubkeys =
     WaitingForCommitments \<lparr>num_messages = n_messages, num_signers = n_signers\<rparr> fmempty pubkeys"

fun handle_commitments ::
    "public_key \<Rightarrow> 'c list \<Rightarrow> (('id, 'c, 's) coordinator_session_state, error, unit) io" where
  "handle_commitments pubkey commitments (WaitingForCommitments args commitments_map pubkeys) =
     (if length commitments \<noteq> num_messages args
      then (Inl (Eyre ''wrong number of commitments''),
            WaitingForCommitments args commitments_map pubkeys)
      else case fmlookup pubkeys pubkey of
        None \<Rightarrow> (Inl (Eyre ''unknown participant''),
                 WaitingForCommitments args commitments_map pubkeys)
      | Some identifier \<Rightarrow>
          let commitments_map' = fmupd identifier commitments commitments_map
          in (Inr (),
              if fmsize commitments_map' = num_signers args
              then WaitingForSignatureShares args commitments_map' pubkeys fmempty
              else WaitingForCommitments args commitments_map' pubkeys))"
| "handle_commitments pubkey commitments st = (Inl (Panic ''wrong state''), st)"

fun handle_signature_share ::
    "public_key \<Rightarrow> 's list \<Rightarrow> (('id, 'c, 's) coordinator_session_state, error, unit) io" where
  "handle_signature_share pubkey signature_shares
       (WaitingForSignatureShares args commitments pubkeys signature_shares_map) =
     (if length signature_shares \<noteq> num_messages args
      then (Inl (Eyre ''wrong number of signature shares''),
            WaitingForSignatureShares args commitments pubkeys signature_shares_map)
      else case fmlookup pubkeys pubkey of
        None \<Rightarrow> (Inl (Eyre ''unknown participant''),
                 WaitingForSignatureShares args commitments pubkeys signature_shares_map)
      | Some identifier \<Rightarrow>
          if identifier |\<notin>| fmdom commitments
          then (Inl (Eyre ''invalid identifier''),
                WaitingForSignatureShares args commitments pubkeys signature_shares_map)
          else
            let signature_shares_map' = fmupd identifier signature_shares signature_shares_map
            in (Inr (),
                if fmdom signature_shares_map' = fmdom commitments
                then SignatureSharesReady args signature_shares_map'
                else WaitingForSignatureShares args commitments pubkeys signature_shares_map'))"
| "handle_signature_share pubkey signature_shares st = (Inl (Panic ''wrong state''), st)"

definition coordinator_recv ::
    "(bytes \<Rightarrow> 'c list option) \<Rightarrow> (bytes \<Rightarrow> 's list option) \<Rightarrow> api_msg \<Rightarrow>
     (('id, 'c, 's) coordinator_session_state, error, unit) io" where
  "coordinator_recv de_c de_s m st =
     (case st of
        WaitingForCommitments _ _ _ \<Rightarrow>
          (case de_c (msg m) of
             None \<Rightarrow> (Inl Json_Error, st)
           | Some send_commitments_args \<Rightarrow> handle_commitments (sender m) send_commitments_args st)
      | WaitingForSignatureShares _ _ _ _ \<Rightarrow>
          (case de_s (msg m) of
             None \<Rightarrow> (Inl Json_Error, st)
           | Some send_signature_shares_args \<Rightarrow>
               handle_signature_share (sender m) send_signature_shares_args st)
      | _ \<Rightarrow> (Inl (Eyre ''received message during wrong state''), st))"

fun has_commitments :: "('id, 'c, 's) coordinator_session_state \<Rightarrow> bool" where
  "has_commitments (WaitingForSignatureShares _ _ _ _) = True"
| "has_commitments _ = False"

fun has_signature_shares :: "('id, 'c, 's) coordinator_session_state \<Rightarrow> bool" where
  "has_signature_shares (SignatureSharesReady _ _) = True"
| "has_signature_shares _ = False"

text \<open>
  The accessors turn the map from identifiers to vectors into a vector of maps; \<open>c[i]\<close> panics
  when a vector is too short.
\<close>

definition column :: "('id, 'a list) fmap \<Rightarrow> nat \<Rightarrow> error + ('id, 'a) fmap" where
  "column m i =
     (if fmpred (\<lambda>_ c. i < length c) m then Inr (fmmap (\<lambda>c. c ! i) m)
      else Inl (Panic ''index out of bounds''))"

fun commitments ::
    "('id, 'c, 's) coordinator_session_state \<Rightarrow>
     error + (('id, 'c) fmap list \<times> (public_key, 'id) fmap)" where
  "commitments (WaitingForSignatureShares args commitments_map pubkeys _) =
     tryr (collect_results (map (column commitments_map) [0..<num_messages args]))
       (\<lambda>maps. Inr (maps, pubkeys))"
| "commitments _ = Inl (Panic ''wrong state'')"

fun signature_shares ::
    "('id, 'c, 's) coordinator_session_state \<Rightarrow> error + ('id, 's) fmap list" where
  "signature_shares (SignatureSharesReady args signature_shares_map) =
     collect_results (map (column signature_shares_map) [0..<num_messages args])"
| "signature_shares _ = Inl (Panic ''wrong state'')"

section \<open>Transposition\<close>

definition rows_have :: "nat \<Rightarrow> ('id, 'a list) fmap \<Rightarrow> bool" where
  "rows_have n m \<longleftrightarrow> fmpred (\<lambda>_ c. length c = n) m"

lemma rows_have_empty [simp]: "rows_have n fmempty"
  by (simp add: rows_have_def)

lemma rows_have_upd: "rows_have n m \<Longrightarrow> length c = n \<Longrightarrow> rows_have n (fmupd k c m)"
  by (auto simp: rows_have_def)

lemma columns_ok:
  assumes "rows_have n m"
  shows "collect_results (map (column m) [0..<n]) = Inr (map (\<lambda>i. fmmap (\<lambda>c. c ! i) m) [0..<n])"
  using assms
  by (auto simp: collect_results_eq_Inr column_def rows_have_def fmpred_iff)

section \<open>Invariant\<close>

text \<open>
  Every stored vector has one entry per message, every identifier belongs to a known public key,
  a waiting state is strictly incomplete, and a completed one is exactly complete.
\<close>

fun coordinator_inv :: "('id, 'c, 's) coordinator_session_state \<Rightarrow> bool" where
  "coordinator_inv (WaitingForCommitments args cm pubkeys) \<longleftrightarrow>
     rows_have (num_messages args) cm \<and> fset (fmdom cm) \<subseteq> fmvals pubkeys \<and>
     (0 < num_signers args \<longrightarrow> fmsize cm < num_signers args)"
| "coordinator_inv (WaitingForSignatureShares args cm pubkeys sm) \<longleftrightarrow>
     rows_have (num_messages args) cm \<and> fset (fmdom cm) \<subseteq> fmvals pubkeys \<and>
     fmsize cm = num_signers args \<and> 0 < num_signers args \<and>
     rows_have (num_messages args) sm \<and> fmdom sm |\<subset>| fmdom cm"
| "coordinator_inv (SignatureSharesReady args sm) \<longleftrightarrow>
     rows_have (num_messages args) sm \<and> fmsize sm = num_signers args \<and> 0 < num_signers args"

fun coordinator_phase :: "('id, 'c, 's) coordinator_session_state \<Rightarrow> nat" where
  "coordinator_phase (WaitingForCommitments _ _ _) = 0"
| "coordinator_phase (WaitingForSignatureShares _ _ _ _) = 1"
| "coordinator_phase (SignatureSharesReady _ _) = 2"

lemma coordinator_inv_new: "coordinator_inv (coordinator_new n k pubkeys)"
  by (simp add: coordinator_new_def)

lemma handle_commitments_inv:
  assumes "coordinator_inv (WaitingForCommitments args cm pubkeys)"
  shows "coordinator_inv (snd (handle_commitments pk cs (WaitingForCommitments args cm pubkeys)))"
  using assms by (auto simp: Let_def rows_have_upd fmvals_iff split: option.splits)

lemma handle_signature_share_inv:
  assumes "coordinator_inv (WaitingForSignatureShares args cm pubkeys sm)"
  shows "coordinator_inv (snd (handle_signature_share pk ss
           (WaitingForSignatureShares args cm pubkeys sm)))"
  using assms
  by (auto simp: Let_def rows_have_upd fmsize_def split: option.splits)

lemma coordinator_recv_inv_snd:
  "coordinator_inv st \<Longrightarrow> coordinator_inv (snd (coordinator_recv de_c de_s m st))"
  by (cases st)
    (auto simp: coordinator_recv_def
       simp del: coordinator_inv.simps handle_commitments.simps handle_signature_share.simps
       intro: handle_commitments_inv handle_signature_share_inv split: option.splits)

lemma coordinator_recv_inv:
  "coordinator_inv st \<Longrightarrow> coordinator_recv de_c de_s m st = (r, st') \<Longrightarrow> coordinator_inv st'"
  using coordinator_recv_inv_snd by (metis snd_conv)

lemma coordinator_recv_reject:
  "coordinator_recv de_c de_s m st = (Inl e, st') \<Longrightarrow> st' = st"
  by (cases st) (auto simp: coordinator_recv_def Let_def split: option.splits if_splits)

lemma coordinator_recv_phase:
  "coordinator_recv de_c de_s m st = (r, st') \<Longrightarrow> coordinator_phase st \<le> coordinator_phase st'"
  by (cases st) (auto simp: coordinator_recv_def Let_def split: option.splits if_splits)

interpretation coordinator: session_machine "coordinator_recv de_c de_s" coordinator_inv
  coordinator_phase
  by unfold_locales
    (auto intro: coordinator_recv_inv coordinator_recv_reject coordinator_recv_phase)

end
