(* ===== verification/Gather.thy ===== *)
theory Gather
  imports Session_Machine "HOL-Library.Multiset"
begin

text \<open>
  The reference for what a session collects: \<open>gather\<close> maps the identifier of each sender to the
  value its last message parses to. Both session machines are shown to compute it.
\<close>

section \<open>Messages and what they add\<close>

definition msg_id :: "(public_key, 'id) fmap \<Rightarrow> api_msg \<Rightarrow> 'id" where
  "msg_id pubkeys m = the (fmlookup pubkeys (sender m))"

definition msg_val :: "(bytes \<Rightarrow> 'v option) \<Rightarrow> api_msg \<Rightarrow> 'v" where
  "msg_val de m = the (de (msg m))"

definition known_msg :: "(public_key, 'id) fmap \<Rightarrow> (bytes \<Rightarrow> 'v option) \<Rightarrow> api_msg \<Rightarrow> bool" where
  "known_msg pubkeys de m \<longleftrightarrow> fmlookup pubkeys (sender m) \<noteq> None \<and> de (msg m) \<noteq> None"

definition gather ::
    "(public_key, 'id) fmap \<Rightarrow> (bytes \<Rightarrow> 'v option) \<Rightarrow> api_msg list \<Rightarrow> ('id, 'v) fmap \<Rightarrow>
     ('id, 'v) fmap" where
  "gather pubkeys de ms m0 = fold (\<lambda>m. fmupd (msg_id pubkeys m) (msg_val de m)) ms m0"

lemma known_msgE:
  assumes "known_msg pubkeys de m"
  obtains "fmlookup pubkeys (sender m) = Some (msg_id pubkeys m)"
    and "de (msg m) = Some (msg_val de m)"
  using assms by (auto simp: known_msg_def msg_id_def msg_val_def)

lemma gather_simps [simp]:
  "gather pubkeys de [] m0 = m0"
  "gather pubkeys de (m # ms) m0 = gather pubkeys de ms (fmupd (msg_id pubkeys m) (msg_val de m) m0)"
  "gather pubkeys de (ms @ ms') m0 = gather pubkeys de ms' (gather pubkeys de ms m0)"
  by (simp_all add: gather_def)

lemma fset_fmdom_gather:
  "fset (fmdom (gather pubkeys de ms m0)) = fset (fmdom m0) \<union> msg_id pubkeys ` set ms"
  by (induction ms arbitrary: m0) auto

lemma fmsize_gather:
  "fmsize (gather pubkeys de ms m0) = card (fset (fmdom m0) \<union> msg_id pubkeys ` set ms)"
  by (simp add: fmsize_card fset_fmdom_gather)

lemma fmlookup_gather:
  "fmlookup (gather pubkeys de ms m0) =
     fmlookup m0 ++ map_of (rev (map (\<lambda>m. (msg_id pubkeys m, msg_val de m)) ms))"
proof (induction ms arbitrary: m0)
  case Nil
  show ?case by simp
next
  case (Cons m ms)
  then show ?case by (auto simp: fun_eq_iff map_add_def split: option.splits)
qed

lemma fmlookup_gather_distinct:
  assumes "distinct (map (msg_id pubkeys) ms)" and "m \<in> set ms"
  shows "fmlookup (gather pubkeys de ms fmempty) (msg_id pubkeys m) = Some (msg_val de m)"
proof -
  let ?es = "map (\<lambda>m. (msg_id pubkeys m, msg_val de m)) ms"
  have "distinct (map fst (rev ?es))"
    using assms(1) by (simp add: o_def rev_map[symmetric])
  moreover have "(msg_id pubkeys m, msg_val de m) \<in> set (rev ?es)"
    using assms(2) by auto
  ultimately have "map_of (rev ?es) (msg_id pubkeys m) = Some (msg_val de m)"
    by (rule map_of_is_SomeI)
  then show ?thesis by (simp add: fmlookup_gather)
qed

text \<open>Messages of distinct senders may arrive in any order.\<close>

lemma gather_perm:
  assumes "distinct (map (msg_id pubkeys) ms)" and "mset ms = mset ms'"
  shows "gather pubkeys de ms fmempty = gather pubkeys de ms' fmempty"
proof (rule fmap_ext)
  fix x
  have set: "set ms = set ms'" using assms(2) by (rule mset_eq_setD)
  have "mset (map (msg_id pubkeys) ms) = mset (map (msg_id pubkeys) ms')"
    using assms(2) by simp
  then have d': "distinct (map (msg_id pubkeys) ms')"
    using assms(1) by (rule mset_eq_imp_distinct_iff[THEN iffD1])
  show "fmlookup (gather pubkeys de ms fmempty) x = fmlookup (gather pubkeys de ms' fmempty) x"
  proof (cases "x \<in> msg_id pubkeys ` set ms")
    case True
    then obtain m where m: "m \<in> set ms" "x = msg_id pubkeys m" by blast
    with set have m': "m \<in> set ms'" by simp
    show ?thesis
      using fmlookup_gather_distinct[OF assms(1) m(1), where de = de]
        fmlookup_gather_distinct[OF d' m', where de = de] m(2) by simp
  next
    case False
    then have "x |\<notin>| fmdom (gather pubkeys de ms fmempty)"
      "x |\<notin>| fmdom (gather pubkeys de ms' fmempty)"
      using set by (auto simp: fset_fmdom_gather)
    then show ?thesis by (simp add: fmdom_notD)
  qed
qed

lemma distinct_ids_card:
  "distinct (map (msg_id pubkeys) ms) \<Longrightarrow> card (msg_id pubkeys ` set ms) = length ms"
  by (metis distinct_card length_map list.set_map)

end
