(* ===== verification/Coordinator_Session_Runs.thy ===== *)
theory Coordinator_Session_Runs
  imports Coordinator_Session Gather
begin

text \<open>
  Runs of the coordinator's session: what a sequence of participant messages leads to, with
  \<open>gather\<close> as the reference. The session moves on exactly when the number of identifiers reaches the number of signers, and
  later when the identifiers of the shares are those of the commitments.
\<close>

section \<open>Valid messages\<close>

definition valid_msg ::
    "(public_key, 'id) fmap \<Rightarrow> (bytes \<Rightarrow> 'a list option) \<Rightarrow> nat \<Rightarrow> api_msg \<Rightarrow> bool" where
  "valid_msg pubkeys de n m \<longleftrightarrow> known_msg pubkeys de m \<and> length (msg_val de m) = n"

lemma valid_msgE:
  assumes "valid_msg pubkeys de n m"
  obtains "fmlookup pubkeys (sender m) = Some (msg_id pubkeys m)"
    and "de (msg m) = Some (msg_val de m)" and "length (msg_val de m) = n"
  using assms by (auto simp: valid_msg_def elim: known_msgE)

lemma rows_have_gather:
  "(\<And>m. m \<in> set ms \<Longrightarrow> valid_msg pubkeys de n m) \<Longrightarrow> rows_have n m0 \<Longrightarrow>
     rows_have n (gather pubkeys de ms m0)"
proof (induction ms arbitrary: m0)
  case Nil
  then show ?case by simp
next
  case (Cons m ms)
  from Cons.prems(1)[of m] have "length (msg_val de m) = n" by (auto elim: valid_msgE)
  then have "rows_have n (fmupd (msg_id pubkeys m) (msg_val de m) m0)"
    using Cons.prems(2) by (rule rows_have_upd[rotated])
  then show ?case using Cons.IH Cons.prems(1) by simp
qed

section \<open>One message\<close>

lemma recv_valid_commitments:
  assumes "valid_msg pubkeys de_c (num_messages args) m"
  shows "coordinator_recv de_c de_s m (WaitingForCommitments args cm pubkeys) =
     (Inr (),
      let cm' = gather pubkeys de_c [m] cm
      in if fmsize cm' = num_signers args then WaitingForSignatureShares args cm' pubkeys fmempty
         else WaitingForCommitments args cm' pubkeys)"
  using assms by (elim valid_msgE) (simp add: coordinator_recv_def Let_def)

lemma recv_valid_shares:
  assumes "valid_msg pubkeys de_s (num_messages args) m" and "msg_id pubkeys m |\<in>| fmdom cm"
  shows "coordinator_recv de_c de_s m (WaitingForSignatureShares args cm pubkeys sm) =
     (Inr (),
      let sm' = gather pubkeys de_s [m] sm
      in if fmdom sm' = fmdom cm then SignatureSharesReady args sm'
         else WaitingForSignatureShares args cm pubkeys sm')"
  using assms by (elim valid_msgE) (simp add: coordinator_recv_def Let_def)

section \<open>Sequences of messages\<close>

lemma collect_partial:
  assumes "\<And>m. m \<in> set ms \<Longrightarrow> valid_msg pubkeys de_c (num_messages args) m"
    and "card (fset (fmdom cm) \<union> msg_id pubkeys ` set ms) < num_signers args"
  shows "for_io ms (coordinator_recv de_c de_s) (WaitingForCommitments args cm pubkeys) =
    (Inr (), WaitingForCommitments args (gather pubkeys de_c ms cm) pubkeys)"
  using assms
proof (induction ms arbitrary: cm)
  case Nil
  then show ?case by simp
next
  case (Cons m ms)
  have v: "valid_msg pubkeys de_c (num_messages args) m" using Cons.prems(1) by simp
  let ?cm = "gather pubkeys de_c [m] cm"
  have "fmsize ?cm \<le> card (fset (fmdom cm) \<union> msg_id pubkeys ` set (m # ms))"
    unfolding fmsize_gather by (rule card_mono) auto
  with Cons.prems(2) have "fmsize ?cm \<noteq> num_signers args" by linarith
  then have "coordinator_recv de_c de_s m (WaitingForCommitments args cm pubkeys) =
      (Inr (), WaitingForCommitments args ?cm pubkeys)"
    using recv_valid_commitments[OF v, of de_s cm] by (simp only: Let_def if_False)
  moreover have "for_io ms (coordinator_recv de_c de_s) (WaitingForCommitments args ?cm pubkeys) =
      (Inr (), WaitingForCommitments args (gather pubkeys de_c ms ?cm) pubkeys)"
    using Cons.prems by (intro Cons.IH) auto
  ultimately show ?case by (simp only: for_io_Cons_Inr) simp
qed

lemma collect_complete:
  assumes "\<And>m'. m' \<in> set (ms @ [m]) \<Longrightarrow> valid_msg pubkeys de_c (num_messages args) m'"
    and "card (msg_id pubkeys ` set ms) < num_signers args"
    and "card (msg_id pubkeys ` set (ms @ [m])) = num_signers args"
  shows "for_io (ms @ [m]) (coordinator_recv de_c de_s) (WaitingForCommitments args fmempty pubkeys) =
    (Inr (), WaitingForSignatureShares args (gather pubkeys de_c (ms @ [m]) fmempty) pubkeys fmempty)"
proof -
  have v: "valid_msg pubkeys de_c (num_messages args) m" using assms(1) by simp
  have "for_io ms (coordinator_recv de_c de_s) (WaitingForCommitments args fmempty pubkeys) =
      (Inr (), WaitingForCommitments args (gather pubkeys de_c ms fmempty) pubkeys)"
    using assms by (intro collect_partial) auto
  moreover have "fmsize (gather pubkeys de_c (ms @ [m]) fmempty) = num_signers args"
    using assms(3) unfolding fmsize_gather by simp
  then have "coordinator_recv de_c de_s m
        (WaitingForCommitments args (gather pubkeys de_c ms fmempty) pubkeys) =
      (Inr (), WaitingForSignatureShares args (gather pubkeys de_c (ms @ [m]) fmempty) pubkeys fmempty)"
    using recv_valid_commitments[OF v, of de_s "gather pubkeys de_c ms fmempty"]
    by (simp only: Let_def if_True gather_simps simp_thms)
  ultimately show ?thesis by (simp add: for_io_append_Inr for_io_Cons_Inr)
qed

lemma shares_partial:
  assumes "\<And>m. m \<in> set ms \<Longrightarrow> valid_msg pubkeys de_s (num_messages args) m"
    and "msg_id pubkeys ` set ms \<subseteq> fset (fmdom cm)"
    and "fset (fmdom sm) \<union> msg_id pubkeys ` set ms \<subset> fset (fmdom cm)"
  shows "for_io ms (coordinator_recv de_c de_s) (WaitingForSignatureShares args cm pubkeys sm) =
    (Inr (), WaitingForSignatureShares args cm pubkeys (gather pubkeys de_s ms sm))"
  using assms
proof (induction ms arbitrary: sm)
  case Nil
  then show ?case by simp
next
  case (Cons m ms)
  have v: "valid_msg pubkeys de_s (num_messages args) m" "msg_id pubkeys m |\<in>| fmdom cm"
    using Cons.prems(1,2) by auto
  let ?sm = "gather pubkeys de_s [m] sm"
  have "fset (fmdom ?sm) \<subset> fset (fmdom cm)"
    using Cons.prems(3) by (auto simp: fset_fmdom_gather)
  then have "fmdom ?sm \<noteq> fmdom cm" by auto
  then have "coordinator_recv de_c de_s m (WaitingForSignatureShares args cm pubkeys sm) =
      (Inr (), WaitingForSignatureShares args cm pubkeys ?sm)"
    using recv_valid_shares[OF v, of de_c sm] by (simp only: Let_def if_False)
  moreover have "for_io ms (coordinator_recv de_c de_s)
        (WaitingForSignatureShares args cm pubkeys ?sm) =
      (Inr (), WaitingForSignatureShares args cm pubkeys (gather pubkeys de_s ms ?sm))"
    using Cons.prems by (intro Cons.IH) (auto simp: fset_fmdom_gather)
  ultimately show ?case by (simp only: for_io_Cons_Inr) simp
qed

lemma shares_complete:
  assumes "\<And>m'. m' \<in> set (ms @ [m]) \<Longrightarrow> valid_msg pubkeys de_s (num_messages args) m'"
    and "msg_id pubkeys ` set ms \<subset> fset (fmdom cm)"
    and "msg_id pubkeys ` set (ms @ [m]) = fset (fmdom cm)"
  shows "for_io (ms @ [m]) (coordinator_recv de_c de_s)
      (WaitingForSignatureShares args cm pubkeys fmempty) =
    (Inr (), SignatureSharesReady args (gather pubkeys de_s (ms @ [m]) fmempty))"
proof -
  have v: "valid_msg pubkeys de_s (num_messages args) m" "msg_id pubkeys m |\<in>| fmdom cm"
    using assms(1,3) by auto
  have "for_io ms (coordinator_recv de_c de_s) (WaitingForSignatureShares args cm pubkeys fmempty) =
      (Inr (), WaitingForSignatureShares args cm pubkeys (gather pubkeys de_s ms fmempty))"
    using assms by (intro shares_partial) auto
  moreover have "fset (fmdom (gather pubkeys de_s (ms @ [m]) fmempty)) = fset (fmdom cm)"
    using assms(3) unfolding fset_fmdom_gather by simp
  then have "fmdom (gather pubkeys de_s (ms @ [m]) fmempty) = fmdom cm"
    by (rule fset_inject[THEN iffD1])
  then have "coordinator_recv de_c de_s m
        (WaitingForSignatureShares args cm pubkeys (gather pubkeys de_s ms fmempty)) =
      (Inr (), SignatureSharesReady args (gather pubkeys de_s (ms @ [m]) fmempty))"
    using recv_valid_shares[OF v, of de_c "gather pubkeys de_s ms fmempty"]
    by (simp only: Let_def if_True gather_simps simp_thms)
  ultimately show ?thesis by (simp add: for_io_append_Inr for_io_Cons_Inr)
qed

text \<open>
  Without repeated senders the last message is the one that completes the collection: the two
  lemmas above apply to any list of messages of as many distinct participants.
\<close>

lemma collect_distinct:
  assumes "\<And>m. m \<in> set ms \<Longrightarrow> valid_msg pubkeys de_c (num_messages args) m"
    and "distinct (map (msg_id pubkeys) ms)"
    and "length ms = num_signers args" and "0 < num_signers args"
  shows "for_io ms (coordinator_recv de_c de_s) (WaitingForCommitments args fmempty pubkeys) =
    (Inr (), WaitingForSignatureShares args (gather pubkeys de_c ms fmempty) pubkeys fmempty)"
proof -
  from assms(3,4) obtain ms' m where ms: "ms = ms' @ [m]"
    by (cases ms rule: rev_cases) auto
  have "card (msg_id pubkeys ` set ms') = length ms'"
    using assms(2) ms by (simp add: distinct_ids_card)
  moreover have "card (msg_id pubkeys ` set ms) = length ms"
    using assms(2) by (rule distinct_ids_card)
  ultimately show ?thesis
    using assms(1,3) unfolding ms by (intro collect_complete) auto
qed

lemma shares_distinct:
  assumes "\<And>m. m \<in> set ms \<Longrightarrow> valid_msg pubkeys de_s (num_messages args) m"
    and "distinct (map (msg_id pubkeys) ms)"
    and "msg_id pubkeys ` set ms = fset (fmdom cm)" and "cm \<noteq> fmempty"
  shows "for_io ms (coordinator_recv de_c de_s)
      (WaitingForSignatureShares args cm pubkeys fmempty) =
    (Inr (), SignatureSharesReady args (gather pubkeys de_s ms fmempty))"
proof -
  have "fmdom cm \<noteq> {||}" using assms(4) by (metis fmrestrict_fset_dom fmrestrict_fset_null)
  with assms(3) have "ms \<noteq> []" by (auto simp: fset_inject[symmetric])
  then obtain ms' m where ms: "ms = ms' @ [m]"
    by (cases ms rule: rev_cases) auto
  have "msg_id pubkeys m \<notin> msg_id pubkeys ` set ms'"
    using assms(2) ms by auto
  then have "msg_id pubkeys ` set ms' \<subset> fset (fmdom cm)"
    using assms(3) ms by auto
  then show ?thesis
    using assms(1,3) unfolding ms by (intro shares_complete) auto
qed

end
