(* ===== verification/Coordinator_Session_Props.thy ===== *)
theory Coordinator_Session_Props
  imports Coordinator_Session_Runs
begin

text \<open>
  What the coordinator's session promises: which messages it accepts, that the accessors cannot
  panic in a state that can be reached, what a complete session returns, that the order of the
  participants' messages is irrelevant, and when a session can never complete.
\<close>

section \<open>Reachable sessions\<close>

inductive coordinator_reach ::
    "(bytes \<Rightarrow> 'c list option) \<Rightarrow> (bytes \<Rightarrow> 's list option) \<Rightarrow> nat \<Rightarrow> nat \<Rightarrow>
     (public_key, 'id) fmap \<Rightarrow> ('id, 'c, 's) coordinator_session_state \<Rightarrow> bool"
  for de_c de_s n k pubkeys where
  coordinator_start: "coordinator_reach de_c de_s n k pubkeys (coordinator_new n k pubkeys)"
| coordinator_step: "coordinator_reach de_c de_s n k pubkeys st \<Longrightarrow>
     coordinator_recv de_c de_s m st = (r, st') \<Longrightarrow> coordinator_reach de_c de_s n k pubkeys st'"

fun session_args :: "('id, 'c, 's) coordinator_session_state \<Rightarrow> coordinator_session_state_args" where
  "session_args (WaitingForCommitments args _ _) = args"
| "session_args (WaitingForSignatureShares args _ _ _) = args"
| "session_args (SignatureSharesReady args _) = args"

fun session_pubkeys ::
    "('id, 'c, 's) coordinator_session_state \<Rightarrow> (public_key, 'id) fmap option" where
  "session_pubkeys (WaitingForCommitments _ _ pubkeys) = Some pubkeys"
| "session_pubkeys (WaitingForSignatureShares _ _ pubkeys _) = Some pubkeys"
| "session_pubkeys (SignatureSharesReady _ _) = None"

lemma recv_session_args: "coordinator_recv de_c de_s m st = (r, st') \<Longrightarrow> session_args st' = session_args st"
  by (cases st) (auto simp: coordinator_recv_def Let_def split: option.splits if_splits)

lemma recv_session_pubkeys:
  "coordinator_recv de_c de_s m st = (r, st') \<Longrightarrow>
     session_pubkeys st' = session_pubkeys st \<or> session_pubkeys st' = None"
  by (cases st) (auto simp: coordinator_recv_def Let_def split: option.splits if_splits)

lemma reach_inv: "coordinator_reach de_c de_s n k pubkeys st \<Longrightarrow> coordinator_inv st"
  by (induction rule: coordinator_reach.induct)
    (auto intro: coordinator_inv_new coordinator_recv_inv)

lemma reach_args:
  "coordinator_reach de_c de_s n k pubkeys st \<Longrightarrow>
     session_args st = \<lparr>num_messages = n, num_signers = k\<rparr>"
  by (induction rule: coordinator_reach.induct) (auto simp: coordinator_new_def recv_session_args)

lemma reach_pubkeys:
  "coordinator_reach de_c de_s n k pubkeys st \<Longrightarrow> session_pubkeys st \<in> {Some pubkeys, None}"
  by (induction rule: coordinator_reach.induct)
    (auto simp: coordinator_new_def dest!: recv_session_pubkeys)

lemma reach_drain:
  "coordinator_reach de_c de_s n k pubkeys st \<Longrightarrow> for_io ms (coordinator_recv de_c de_s) st = (r, st') \<Longrightarrow>
     coordinator_reach de_c de_s n k pubkeys st'"
proof (induction ms arbitrary: st)
  case Nil
  then show ?case by simp
next
  case (Cons m ms)
  obtain r1 st1 where "coordinator_recv de_c de_s m st = (r1, st1)"
    by (cases "coordinator_recv de_c de_s m st")
  with Cons show ?case
    by (cases r1) (auto simp: try_io_def intro: coordinator_step)
qed

section \<open>Which messages are accepted\<close>

fun acceptable ::
    "(bytes \<Rightarrow> 'c list option) \<Rightarrow> (bytes \<Rightarrow> 's list option) \<Rightarrow>
     ('id, 'c, 's) coordinator_session_state \<Rightarrow> api_msg \<Rightarrow> bool" where
  "acceptable de_c de_s (WaitingForCommitments args cm pubkeys) m =
     valid_msg pubkeys de_c (num_messages args) m"
| "acceptable de_c de_s (WaitingForSignatureShares args cm pubkeys sm) m =
     (valid_msg pubkeys de_s (num_messages args) m \<and> msg_id pubkeys m |\<in>| fmdom cm)"
| "acceptable de_c de_s (SignatureSharesReady args sm) m = False"

text \<open>C37: A coordinator session accepts a message exactly when it comes from a known participant,
  parses as the vector the current state waits for, has one entry per message being signed and,
  for shares, comes from a participant whose commitments were taken; every other message is
  answered with an error and leaves the session unchanged.\<close>

theorem coordinator_accepts_iff:
  "(fst (coordinator_recv de_c de_s m st) = Inr () \<longleftrightarrow> acceptable de_c de_s st m) \<and>
   (acceptable de_c de_s st m \<or> snd (coordinator_recv de_c de_s m st) = st)"
proof -
  have A: "fst (coordinator_recv de_c de_s m st) = Inr () \<longleftrightarrow> acceptable de_c de_s st m"
    by (cases st) (auto simp: coordinator_recv_def Let_def valid_msg_def known_msg_def msg_id_def msg_val_def
        split: option.splits)
  obtain r st' where r: "coordinator_recv de_c de_s m st = (r, st')" by fastforce
  have "acceptable de_c de_s st m \<or> st' = st"
    using A r by (cases r) (auto dest: coordinator_recv_reject)
  with A r show ?thesis by simp
qed

section \<open>The accessors never fail in a reachable state\<close>

lemma column_keys [simp]: "fmdom (fmmap f m) = fmdom m"
  by simp

lemma fmsize_fmmap [simp]: "fmsize (fmmap f m) = fmsize m"
  by (simp add: fmsize_def)

text \<open>In every reachable session, has_commitments means that commitments() returns, without
  indexing out of bounds: one map per message being signed, each with exactly num_signers entries,
  all of identifiers that belong to a known public key.\<close>

theorem commitments_available:
  assumes "coordinator_reach de_c de_s n k pubkeys st" and "has_commitments st"
  shows "\<exists>maps. commitments st = Inr (maps, pubkeys) \<and> length maps = n \<and>
     (\<forall>cm\<in>set maps. fmsize cm = k \<and> fset (fmdom cm) \<subseteq> fmvals pubkeys)"
proof -
  from assms(2) obtain args cm pk sm where st: "st = WaitingForSignatureShares args cm pk sm"
    by (cases st) auto
  from reach_args[OF assms(1)] st have n: "num_messages args = n" "num_signers args = k" by auto
  from reach_pubkeys[OF assms(1)] st have pk: "pk = pubkeys" by simp
  from reach_inv[OF assms(1)] st have "rows_have n cm" "fset (fmdom cm) \<subseteq> fmvals pubkeys"
    "fmsize cm = k" using n pk by auto
  then show ?thesis using st n pk by (auto simp: columns_ok)
qed

text \<open>In every reachable session, has_signature_shares means that signature_shares() returns,
  without indexing out of bounds, one map per message, each with exactly num_signers entries.\<close>

theorem signature_shares_available:
  assumes "coordinator_reach de_c de_s n k pubkeys st" and "has_signature_shares st"
  shows "\<exists>maps. signature_shares st = Inr maps \<and> length maps = n \<and> (\<forall>sm\<in>set maps. fmsize sm = k)"
proof -
  from assms(2) obtain args sm where st: "st = SignatureSharesReady args sm"
    by (cases st) auto
  from reach_args[OF assms(1)] st have n: "num_messages args = n" "num_signers args = k" by auto
  from reach_inv[OF assms(1)] st have "rows_have n sm" "fmsize sm = k" using n by auto
  then show ?thesis using st n by (auto simp: columns_ok)
qed

section \<open>A complete session\<close>

definition column_of ::
    "(public_key, 'id) fmap \<Rightarrow> (bytes \<Rightarrow> 'a list option) \<Rightarrow> api_msg list \<Rightarrow> nat \<Rightarrow> ('id, 'a) fmap" where
  "column_of pubkeys de ms i = fmmap (\<lambda>v. v ! i) (gather pubkeys de ms fmempty)"

lemma column_of_lookup:
  assumes "distinct (map (msg_id pubkeys) ms)" and "m \<in> set ms"
  shows "fmlookup (column_of pubkeys de ms i) (msg_id pubkeys m) = Some (msg_val de m ! i)"
  using fmlookup_gather_distinct[OF assms, where de = de] by (simp add: column_of_def)

lemma fset_fmdom_column_of: "fset (fmdom (column_of pubkeys de ms i)) = msg_id pubkeys ` set ms"
  by (simp add: column_of_def fset_fmdom_gather)

text \<open>C4: A complete signing session: when num_signers distinct participants each send one vector of
  commitments, commitments() returns for message i the map from each participant to the i-th
  commitment it sent; when the same participants each send their shares, signature_shares()
  returns for message i the map from each participant to the i-th share it sent. The order of the
  messages within each round is arbitrary.\<close>

theorem coordinator_session_complete:
  assumes "0 < k" and "length ms1 = k"
    and "\<And>m. m \<in> set ms1 \<Longrightarrow> valid_msg pubkeys de_c n m"
    and "distinct (map (msg_id pubkeys) ms1)"
    and "\<And>m. m \<in> set ms2 \<Longrightarrow> valid_msg pubkeys de_s n m"
    and "distinct (map (msg_id pubkeys) ms2)"
    and "msg_id pubkeys ` set ms2 = msg_id pubkeys ` set ms1"
  shows "\<exists>st1 st2.
     for_io ms1 (coordinator_recv de_c de_s) (coordinator_new n k pubkeys) = (Inr (), st1) \<and>
     has_commitments st1 \<and>
     commitments st1 = Inr (map (column_of pubkeys de_c ms1) [0..<n], pubkeys) \<and>
     for_io ms2 (coordinator_recv de_c de_s) st1 = (Inr (), st2) \<and>
     has_signature_shares st2 \<and>
     signature_shares st2 = Inr (map (column_of pubkeys de_s ms2) [0..<n])"
proof -
  let ?args = "\<lparr>num_messages = n, num_signers = k\<rparr>"
  let ?cm = "gather pubkeys de_c ms1 fmempty" and ?sm = "gather pubkeys de_s ms2 fmempty"
  have "for_io ms1 (coordinator_recv de_c de_s) (coordinator_new n k pubkeys) =
      (Inr (), WaitingForSignatureShares ?args ?cm pubkeys fmempty)"
    using collect_distinct[of ms1 pubkeys de_c ?args] assms by (simp add: coordinator_new_def)
  moreover have "?cm \<noteq> fmempty"
    using assms(1,2) by (auto simp: fmsize_gather simp flip: fmsize_eq_0)
  then have "for_io ms2 (coordinator_recv de_c de_s)
       (WaitingForSignatureShares ?args ?cm pubkeys fmempty) = (Inr (), SignatureSharesReady ?args ?sm)"
    using shares_distinct[of ms2 pubkeys de_s ?args ?cm] assms by (simp add: fset_fmdom_gather)
  moreover have "rows_have n ?cm" "rows_have n ?sm"
    using assms by (auto intro: rows_have_gather)
  ultimately show ?thesis by (simp add: columns_ok column_of_def[abs_def])
qed

section \<open>Order and starvation\<close>

text \<open>The session's state after a round does not depend on the order in which the messages of
  distinct participants arrive.\<close>

theorem coordinator_any_order:
  assumes "mset ms = mset ms'" and "distinct (map (msg_id pubkeys) ms)" and "length ms = k"
    and "0 < k" and "\<And>m. m \<in> set ms \<Longrightarrow> valid_msg pubkeys de_c n m"
  shows "for_io ms (coordinator_recv de_c de_s) (coordinator_new n k pubkeys) =
     for_io ms' (coordinator_recv de_c de_s) (coordinator_new n k pubkeys)"
proof -
  let ?args = "\<lparr>num_messages = n, num_signers = k\<rparr>"
  have set: "set ms = set ms'" using assms(1) by (rule mset_eq_setD)
  have "mset (map (msg_id pubkeys) ms) = mset (map (msg_id pubkeys) ms')"
    using assms(1) by simp
  then have d': "distinct (map (msg_id pubkeys) ms')"
    using assms(2) by (rule mset_eq_imp_distinct_iff[THEN iffD1])
  have "length ms' = k" using assms(1,3) by (metis size_mset)
  then show ?thesis
    using collect_distinct[where ms = ms and pubkeys = pubkeys and args = ?args and de_c = de_c and de_s = de_s]
      collect_distinct[where ms = ms' and pubkeys = pubkeys and args = ?args and de_c = de_c and de_s = de_s]
      gather_perm[OF assms(2,1), where de = de_c] assms d' set by (simp add: coordinator_new_def)
qed

text \<open>A session whose public keys carry fewer distinct identifiers than num_signers (two keys of
  the same participant, for instance) never has commitments or shares, whatever it receives: the
  coordinator's loop waits for ever.\<close>

theorem coordinator_starves:
  assumes "coordinator_reach de_c de_s n k pubkeys st" and "card (fmvals pubkeys) < k"
  shows "\<not> has_commitments st \<and> \<not> has_signature_shares st"
  using assms(1)
proof (induction rule: coordinator_reach.induct)
  case coordinator_start
  show ?case by (simp add: coordinator_new_def)
next
  case (coordinator_step st m r st')
  from coordinator_step.IH obtain args cm pk where st: "st = WaitingForCommitments args cm pk"
    by (cases st) auto
  have "coordinator_reach de_c de_s n k pubkeys st'"
    using coordinator_step.hyps by (rule coordinator_reach.coordinator_step)
  then have inv: "coordinator_inv st'" "session_args st' = \<lparr>num_messages = n, num_signers = k\<rparr>"
    "session_pubkeys st' \<in> {Some pubkeys, None}"
    by (auto intro: reach_inv reach_args dest: reach_pubkeys)
  have le: "fset (fmdom cm') \<subseteq> fmvals pubkeys \<Longrightarrow> fmsize cm' \<noteq> k" for cm'
    using fmsize_le_card[of cm' "fmvals pubkeys"] assms(2) by auto
  show ?case
  proof (cases st')
    case (WaitingForSignatureShares args' cm' pk' sm')
    then show ?thesis using inv le[of cm'] by auto
  next
    case (SignatureSharesReady args' sm')
    then show ?thesis using coordinator_step.hyps(2) st
      by (auto simp: coordinator_recv_def Let_def split: option.splits if_splits)
  qed auto
qed

section \<open>A concrete session\<close>

text \<open>Two participants, one message, one byte per commitment and share.\<close>

definition ex_pubkeys :: "(public_key, nat) fmap" where
  "ex_pubkeys = fmupd (PublicKey [1]) 1 (fmupd (PublicKey [2]) 2 fmempty)"

definition ex_de :: "bytes \<Rightarrow> nat list option" where
  "ex_de b = Some (map unat b)"

definition ex_commitment_msgs :: "api_msg list" where
  "ex_commitment_msgs = [\<lparr>sender = PublicKey [2], msg = [8]\<rparr>, \<lparr>sender = PublicKey [1], msg = [7]\<rparr>]"

definition ex_share_msgs :: "api_msg list" where
  "ex_share_msgs = [\<lparr>sender = PublicKey [1], msg = [70]\<rparr>, \<lparr>sender = PublicKey [2], msg = [80]\<rparr>]"

lemmas ex_session_defs = ex_pubkeys_def ex_de_def ex_commitment_msgs_def ex_share_msgs_def

definition ex_committed :: "(nat, nat, nat) coordinator_session_state" where
  "ex_committed = snd (for_io ex_commitment_msgs (coordinator_recv ex_de ex_de)
     (coordinator_new 1 2 ex_pubkeys))"

definition ex_shared :: "(nat, nat, nat) coordinator_session_state" where
  "ex_shared = snd (for_io ex_share_msgs (coordinator_recv ex_de ex_de) ex_committed)"

lemma ex_committed_reach: "coordinator_reach ex_de ex_de 1 2 ex_pubkeys ex_committed"
  unfolding ex_committed_def
  by (rule reach_drain[OF coordinator_start, where r = "fst (for_io ex_commitment_msgs
        (coordinator_recv ex_de ex_de) (coordinator_new 1 2 ex_pubkeys))"]) simp

lemma ex_shared_reach: "coordinator_reach ex_de ex_de 1 2 ex_pubkeys ex_shared"
  unfolding ex_shared_def
  by (rule reach_drain[OF ex_committed_reach, where r = "fst (for_io ex_share_msgs
        (coordinator_recv ex_de ex_de) ex_committed)"]) simp

lemma ex_committed_eq:
  "ex_committed = WaitingForSignatureShares \<lparr>num_messages = 1, num_signers = 2\<rparr>
     (fmupd 1 [7] (fmupd 2 [8] fmempty)) ex_pubkeys fmempty"
  by (simp add: ex_committed_def ex_session_defs coordinator_new_def coordinator_recv_def try_io_def
      Let_def)

lemma ex_shared_ready: "has_signature_shares ex_shared"
  by (simp add: ex_shared_def ex_committed_eq ex_session_defs coordinator_recv_def try_io_def Let_def
      finsert_commute)

theorem commitments_available_witness:
  "\<exists>maps. commitments ex_committed = Inr (maps, ex_pubkeys) \<and> length maps = 1 \<and>
     (\<forall>cm\<in>set maps. fmsize cm = 2 \<and> fset (fmdom cm) \<subseteq> fmvals ex_pubkeys)"
  by (rule commitments_available[OF ex_committed_reach]) (simp add: ex_committed_eq)

theorem signature_shares_available_witness:
  "\<exists>maps. signature_shares ex_shared = Inr maps \<and> length maps = 1 \<and> (\<forall>sm\<in>set maps. fmsize sm = 2)"
  by (rule signature_shares_available[OF ex_shared_reach ex_shared_ready])

theorem coordinator_session_complete_witness:
  "\<exists>st1 st2 :: (nat, nat, nat) coordinator_session_state.
     for_io ex_commitment_msgs (coordinator_recv ex_de ex_de) (coordinator_new 1 2 ex_pubkeys) =
       (Inr (), st1) \<and>
     has_commitments st1 \<and>
     commitments st1 = Inr (map (column_of ex_pubkeys ex_de ex_commitment_msgs) [0..<1], ex_pubkeys) \<and>
     for_io ex_share_msgs (coordinator_recv ex_de ex_de) st1 = (Inr (), st2) \<and>
     has_signature_shares st2 \<and>
     signature_shares st2 = Inr (map (column_of ex_pubkeys ex_de ex_share_msgs) [0..<1])"
  by (rule coordinator_session_complete) (auto simp: ex_session_defs valid_msg_def known_msg_def msg_id_def msg_val_def)

theorem coordinator_any_order_witness:
  "for_io ex_commitment_msgs (coordinator_recv ex_de ex_de)
      (coordinator_new 1 2 ex_pubkeys :: (nat, nat, nat) coordinator_session_state) =
   for_io (rev ex_commitment_msgs) (coordinator_recv ex_de ex_de) (coordinator_new 1 2 ex_pubkeys)"
  by (rule coordinator_any_order) (auto simp: ex_session_defs valid_msg_def known_msg_def msg_id_def msg_val_def)

theorem coordinator_starves_witness:
  "coordinator_reach ex_de ex_de 1 3 ex_pubkeys
     (coordinator_new 1 3 ex_pubkeys :: (nat, nat, nat) coordinator_session_state) \<and>
   \<not> has_commitments (coordinator_new 1 3 ex_pubkeys :: (nat, nat, nat) coordinator_session_state)"
proof -
  have "fmvals ex_pubkeys \<subseteq> {1, 2}"
    by (auto simp: fmvals_iff ex_pubkeys_def split: if_splits)
  then have c: "card (fmvals ex_pubkeys) < 3"
    using card_mono[of "{1, 2 :: nat}" "fmvals ex_pubkeys"] by simp
  have r: "coordinator_reach ex_de ex_de 1 3 ex_pubkeys
     (coordinator_new 1 3 ex_pubkeys :: (nat, nat, nat) coordinator_session_state)"
    by (rule coordinator_start)
  show ?thesis using coordinator_starves[OF r c] r by simp
qed

end
