(* ===== verification/Dkg_Session.thy ===== *)
theory Dkg_Session
  imports Session_Machine
begin

text \<open>
  \<open>DKGSessionState\<close> of \<open>frost-client/src/session.rs\<close>: one participant's side of a distributed key
  generation, with the echo broadcast of the round 1 packages. Identifiers and the packages of the
  two rounds come from \<open>frost-core\<close> and are type variables (\<open>'id\<close>, \<open>'p1\<close>, \<open>'p2\<close>);
  \<open>serde_json::from_slice\<close> at the three message types is the parameters \<open>de1\<close>, \<open>deb\<close>, \<open>de2\<close>.
\<close>

section \<open>State and operations\<close>

datatype ('id, 'p1, 'p2) dkg_session_state =
    WaitingForRound1Packages "(public_key, 'id) fmap" "('id, 'p1) fmap"
  | WaitingForRound1PackagesBroadcast "(public_key, 'id) fmap" "('id, 'p1) fmap"
      "('id, ('id, 'p1) fmap) fmap"
  | WaitingForRound2Packages "(public_key, 'id) fmap" "('id, 'p1) fmap" "('id, 'p2) fmap"
  | Round2PackagesReady "(public_key, 'id) fmap" "('id, 'p2) fmap"

definition dkg_default :: "('id, 'p1, 'p2) dkg_session_state" where
  "dkg_default = WaitingForRound1Packages fmempty fmempty"

fun handle_round1_package ::
    "public_key \<Rightarrow> 'p1 \<Rightarrow> (('id, 'p1, 'p2) dkg_session_state, error, unit) io" where
  "handle_round1_package pubkey round1_package (WaitingForRound1Packages pubkeys round1_packages) =
     (case fmlookup pubkeys pubkey of
        None \<Rightarrow> (Inl (Eyre ''unknown participant''), WaitingForRound1Packages pubkeys round1_packages)
      | Some identifier \<Rightarrow>
          let round1_packages' = fmupd identifier round1_package round1_packages
          in if fmsize pubkeys = 0
             then (Inl (Panic ''attempt to subtract with overflow''),
                   WaitingForRound1Packages pubkeys round1_packages')
             else if fmsize round1_packages' = fmsize pubkeys - 1
             then (if fmsize pubkeys > 2
                   then (Inr (), WaitingForRound1PackagesBroadcast pubkeys round1_packages' fmempty)
                   else (Inr (), WaitingForRound2Packages pubkeys round1_packages' fmempty))
             else (Inr (), WaitingForRound1Packages pubkeys round1_packages'))"
| "handle_round1_package pubkey round1_package st = (Inl (Panic ''wrong state''), st)"

text \<open>
  The test that ends the echo broadcast: there is a map for every other participant, and each
  original sender's map has a package from every other participant, equal to the original one.
\<close>

definition broadcast_complete :: "('id, 'p1) fmap \<Rightarrow> ('id, ('id, 'p1) fmap) fmap \<Rightarrow> bool" where
  "broadcast_complete round1_packages round1_broadcasted_packages \<longleftrightarrow>
     fmdom round1_broadcasted_packages = fmdom round1_packages \<and>
     fmpred (\<lambda>original_identifier map.
         finsert original_identifier (fmdom map) = fmdom round1_packages \<and>
         fmpred (\<lambda>_ package. Some package = fmlookup round1_packages original_identifier) map)
       round1_broadcasted_packages"

definition inner_map :: "('id, ('id, 'p1) fmap) fmap \<Rightarrow> 'id \<Rightarrow> ('id, 'p1) fmap" where
  "inner_map rb original = (case fmlookup rb original of None \<Rightarrow> fmempty | Some m \<Rightarrow> m)"

fun handle_round1_package_broadcast ::
    "public_key \<Rightarrow> 'id \<Rightarrow> 'id \<Rightarrow> 'p1 \<Rightarrow> (('id, 'p1, 'p2) dkg_session_state, error, unit) io" where
  "handle_round1_package_broadcast sender_pubkey self_identifier original_identifier round1_package
       (WaitingForRound1PackagesBroadcast pubkeys round1_packages round1_broadcasted_packages) =
     (let st = WaitingForRound1PackagesBroadcast pubkeys round1_packages round1_broadcasted_packages
      in case fmlookup pubkeys sender_pubkey of
        None \<Rightarrow> (Inl (Eyre ''unknown participant''), st)
      | Some sender_identifier \<Rightarrow>
          if original_identifier |\<notin>| fmran pubkeys then (Inl (Eyre ''unknown participant''), st)
          else if original_identifier = self_identifier
          then (Inl (Eyre ''received own broadcast Round 1 Package''), st)
          else if original_identifier = sender_identifier
          then (Inl (Eyre ''received redundant broadcast Round 1 Package''), st)
          else (case fmlookup round1_packages original_identifier of
            None \<Rightarrow> (Inl (Eyre ''Round 1 Package not found''), st)
          | Some original_package \<Rightarrow>
              if original_package \<noteq> round1_package then (Inl (Eyre ''broadcast mismatch''), st)
              else
                let inner = inner_map round1_broadcasted_packages original_identifier;
                    rb = fmupd original_identifier (fmupd sender_identifier round1_package inner)
                           round1_broadcasted_packages
                in if sender_identifier |\<in>| fmdom inner
                   then (Inl (Eyre ''duplicated broadcast Round 1 Package''),
                         WaitingForRound1PackagesBroadcast pubkeys round1_packages rb)
                   else if broadcast_complete round1_packages rb
                   then (Inr (), WaitingForRound2Packages pubkeys round1_packages fmempty)
                   else (Inr (), WaitingForRound1PackagesBroadcast pubkeys round1_packages rb)))"
| "handle_round1_package_broadcast sender_pubkey self_identifier original_identifier round1_package st =
     (Inl (Panic ''wrong state''), st)"

fun handle_round2_package ::
    "public_key \<Rightarrow> 'p2 \<Rightarrow> (('id, 'p1, 'p2) dkg_session_state, error, unit) io" where
  "handle_round2_package pubkey round2_package
       (WaitingForRound2Packages pubkeys round1_packages round2_packages) =
     (let st = WaitingForRound2Packages pubkeys round1_packages round2_packages
      in case fmlookup pubkeys pubkey of
        None \<Rightarrow> (Inl (Eyre ''unknown participant''), st)
      | Some identifier \<Rightarrow>
          if identifier |\<notin>| fmdom round1_packages then (Inl (Eyre ''unkown participant''), st)
          else
            let round2_packages' = fmupd identifier round2_package round2_packages
            in (Inr (),
                if fmdom round2_packages' = fmdom round1_packages
                then Round2PackagesReady pubkeys round2_packages'
                else WaitingForRound2Packages pubkeys round1_packages round2_packages'))"
| "handle_round2_package pubkey round2_package st = (Inl (Panic ''wrong state''), st)"

definition dkg_recv ::
    "(bytes \<Rightarrow> 'p1 option) \<Rightarrow> (bytes \<Rightarrow> ('id \<times> 'p1) option) \<Rightarrow> (bytes \<Rightarrow> 'p2 option) \<Rightarrow> 'id \<Rightarrow>
     api_msg \<Rightarrow> (('id, 'p1, 'p2) dkg_session_state, error, unit) io" where
  "dkg_recv de1 deb de2 self_identifier m st =
     (case st of
        WaitingForRound1Packages _ _ \<Rightarrow>
          (case de1 (msg m) of
             None \<Rightarrow> (Inl Json_Error, st)
           | Some round1_package \<Rightarrow> handle_round1_package (sender m) round1_package st)
      | WaitingForRound1PackagesBroadcast _ _ _ \<Rightarrow>
          (case deb (msg m) of
             None \<Rightarrow> (Inl Json_Error, st)
           | Some (identifier, round1_package) \<Rightarrow>
               handle_round1_package_broadcast (sender m) self_identifier identifier round1_package st)
      | WaitingForRound2Packages _ _ _ \<Rightarrow>
          (case de2 (msg m) of
             None \<Rightarrow> (Inl Json_Error, st)
           | Some round2_package \<Rightarrow> handle_round2_package (sender m) round2_package st)
      | _ \<Rightarrow> (Inl (Eyre ''received message during wrong state''), st))"

fun has_round1_packages :: "('id, 'p1, 'p2) dkg_session_state \<Rightarrow> bool" where
  "has_round1_packages (WaitingForRound1PackagesBroadcast _ _ _) = True"
| "has_round1_packages (WaitingForRound2Packages _ _ _) = True"
| "has_round1_packages _ = False"

fun round1_packages :: "('id, 'p1, 'p2) dkg_session_state \<Rightarrow> error + ('id, 'p1) fmap" where
  "round1_packages (WaitingForRound2Packages _ r1 _) = Inr r1"
| "round1_packages (WaitingForRound1PackagesBroadcast _ r1 _) = Inr r1"
| "round1_packages _ = Inl (Panic ''wrong state'')"

fun has_round1_broadcast_packages :: "('id, 'p1, 'p2) dkg_session_state \<Rightarrow> bool" where
  "has_round1_broadcast_packages (WaitingForRound2Packages _ _ _) = True"
| "has_round1_broadcast_packages _ = False"

fun has_round2_packages :: "('id, 'p1, 'p2) dkg_session_state \<Rightarrow> bool" where
  "has_round2_packages (Round2PackagesReady _ _) = True"
| "has_round2_packages _ = False"

fun round2_packages :: "('id, 'p1, 'p2) dkg_session_state \<Rightarrow> error + ('id, 'p2) fmap" where
  "round2_packages (Round2PackagesReady _ r2) = Inr r2"
| "round2_packages _ = Inl (Panic ''wrong state'')"

section \<open>The echo broadcast as a set of pairs\<close>

text \<open>
  Abstractly the broadcast is the set of the pairs (original sender, broadcasting sender) received
  so far. \<open>echo_inv\<close> is what the guards of the handler keep true of the nested maps; under it the
  test \<open>broadcast_complete\<close> says that the set is all pairs of distinct other participants.
\<close>

definition echo_pairs :: "('id, ('id, 'p1) fmap) fmap \<Rightarrow> ('id \<times> 'id) set" where
  "echo_pairs rb = {(original, s). s |\<in>| fmdom (inner_map rb original)}"

definition all_pairs :: "('id, 'p1) fmap \<Rightarrow> ('id \<times> 'id) set" where
  "all_pairs r1 = {(original, s). original |\<in>| fmdom r1 \<and> s |\<in>| fmdom r1 \<and> s \<noteq> original}"

definition echo_inv :: "(public_key, 'id) fmap \<Rightarrow> ('id, 'p1) fmap \<Rightarrow> ('id, ('id, 'p1) fmap) fmap \<Rightarrow> bool" where
  "echo_inv pubkeys r1 rb \<longleftrightarrow>
     fmpred (\<lambda>original m. original |\<in>| fmdom r1 \<and> m \<noteq> fmempty \<and> original |\<notin>| fmdom m \<and>
        fset (fmdom m) \<subseteq> fmvals pubkeys \<and> fmpred (\<lambda>_ p. fmlookup r1 original = Some p) m) rb"

lemma inner_map_simps [simp]:
  "inner_map fmempty x = fmempty"
  "inner_map (fmupd k m rb) x = (if x = k then m else inner_map rb x)"
  by (simp_all add: inner_map_def)

lemma echo_pairs_empty [simp]: "echo_pairs fmempty = {}"
  by (simp add: echo_pairs_def)

lemma echo_pairs_upd:
  "echo_pairs (fmupd original (fmupd s p (inner_map rb original)) rb) =
     insert (original, s) (echo_pairs rb)"
  by (auto simp: echo_pairs_def split: if_splits)

lemma echo_pairs_lookup:
  "fmlookup rb original = Some m \<Longrightarrow> (original, s) \<in> echo_pairs rb \<longleftrightarrow> s |\<in>| fmdom m"
  by (simp add: echo_pairs_def inner_map_def)

lemma echo_inv_empty [simp]: "echo_inv pubkeys r1 fmempty"
  by (simp add: echo_inv_def)

lemma fmempty_iff_fmdom: "m = fmempty \<longleftrightarrow> fmdom m = {||}"
  by (metis fmdom_empty fmrestrict_fset_dom fmrestrict_fset_null)

lemma fmupd_neq_empty [simp]: "fmupd k v m \<noteq> fmempty" "fmempty \<noteq> fmupd k v m"
  by (auto simp: fmempty_iff_fmdom)

lemma echo_inv_inner:
  assumes "echo_inv pubkeys r1 rb"
  shows "original |\<notin>| fmdom (inner_map rb original)"
    and "fset (fmdom (inner_map rb original)) \<subseteq> fmvals pubkeys"
    and "fmlookup (inner_map rb original) s = Some p \<Longrightarrow> fmlookup r1 original = Some p"
  using assms by (auto simp: echo_inv_def inner_map_def fmpred_iff split: option.splits)

lemma echo_inv_upd:
  assumes "echo_inv pubkeys r1 rb" and "fmlookup r1 original = Some p" and "s \<noteq> original"
    and "s \<in> fmvals pubkeys"
  shows "echo_inv pubkeys r1 (fmupd original (fmupd s p (inner_map rb original)) rb)"
proof -
  have "fmpred (\<lambda>_ p. fmlookup r1 original = Some p) (inner_map rb original)"
    using echo_inv_inner(3)[OF assms(1)] by (auto simp: fmpred_iff)
  then show ?thesis
    using assms echo_inv_inner(1,2)[OF assms(1), of original]
    unfolding echo_inv_def by (intro fmpred_updI) (auto intro: fmdomI)
qed

lemma broadcast_complete_iff:
  assumes "echo_inv pubkeys r1 rb" and "1 < fmsize r1"
  shows "broadcast_complete r1 rb \<longleftrightarrow> all_pairs r1 \<subseteq> echo_pairs rb \<and>
     (\<forall>original s. (original, s) \<in> echo_pairs rb \<longrightarrow> s |\<in>| fmdom r1)"
proof
  assume c: "broadcast_complete r1 rb"
  have i: "fset (fmdom (inner_map rb original)) = fset (fmdom r1) - {original}"
    if "original |\<in>| fmdom r1" for original
  proof -
    from c that have "original |\<in>| fmdom rb" by (simp add: broadcast_complete_def)
    then obtain m where m: "fmlookup rb original = Some m" by (auto simp: fmdom_fmlookup)
    with c have "finsert original (fmdom m) = fmdom r1"
      by (auto simp: broadcast_complete_def fmpred_iff)
    then have "insert original (fset (fmdom m)) = fset (fmdom r1)"
      by (metis finsert.rep_eq)
    moreover have "original |\<notin>| fmdom m" using echo_inv_inner(1)[OF assms(1), of original] m
      by (simp add: inner_map_def)
    ultimately show ?thesis using m by (auto simp: inner_map_def)
  qed
  have "original |\<in>| fmdom r1" if "(original, s) \<in> echo_pairs rb" for original s
    using that c by (auto simp: echo_pairs_def inner_map_def broadcast_complete_def
        fmlookup_dom_iff split: option.splits)
  with i show "all_pairs r1 \<subseteq> echo_pairs rb \<and>
      (\<forall>original s. (original, s) \<in> echo_pairs rb \<longrightarrow> s |\<in>| fmdom r1)"
    unfolding all_pairs_def echo_pairs_def by blast
next
  assume c: "all_pairs r1 \<subseteq> echo_pairs rb \<and>
      (\<forall>original s. (original, s) \<in> echo_pairs rb \<longrightarrow> s |\<in>| fmdom r1)"
  have dom: "fset (fmdom rb) = fset (fmdom r1)"
  proof
    show "fset (fmdom rb) \<subseteq> fset (fmdom r1)"
      using assms(1) by (auto simp: echo_inv_def fmpred_iff fmdom_fmlookup)
    show "fset (fmdom r1) \<subseteq> fset (fmdom rb)"
    proof
      fix x assume x: "x \<in> fset (fmdom r1)"
      have "\<not> fset (fmdom r1) \<subseteq> {x}"
        using assms(2) card_mono[of "{x}" "fset (fmdom r1)"] by (auto simp: fmsize_card)
      then obtain y where "y |\<in>| fmdom r1" "y \<noteq> x" by blast
      with x c have "(x, y) \<in> echo_pairs rb" by (auto simp: all_pairs_def)
      then show "x \<in> fset (fmdom rb)"
        by (auto simp: echo_pairs_def inner_map_def split: option.splits intro: fmdomI)
    qed
  qed
  moreover have "finsert original (fmdom m) = fmdom r1 \<and>
      fmpred (\<lambda>_ p. Some p = fmlookup r1 original) m"
    if m: "fmlookup rb original = Some m" for original m
  proof -
    have o: "original |\<in>| fmdom r1" using m dom by (auto intro: fmdomI)
    have "insert original (fset (fmdom m)) = fset (fmdom r1)"
    proof
      show "insert original (fset (fmdom m)) \<subseteq> fset (fmdom r1)"
        using c o echo_pairs_lookup[OF m] by blast
      show "fset (fmdom r1) \<subseteq> insert original (fset (fmdom m))"
        using c o echo_pairs_lookup[OF m] by (auto simp: all_pairs_def)
    qed
    then have "finsert original (fmdom m) = fmdom r1"
      by (metis finsert.rep_eq fset_inject)
    moreover have "fmpred (\<lambda>_ p. Some p = fmlookup r1 original) m"
      using assms(1) m by (auto simp: echo_inv_def fmpred_iff)
    ultimately show ?thesis by simp
  qed
  ultimately show "broadcast_complete r1 rb"
    unfolding broadcast_complete_def by (auto simp: fmpred_iff fset_inject[symmetric])
qed

section \<open>Invariant\<close>

fun dkg_inv :: "('id, 'p1, 'p2) dkg_session_state \<Rightarrow> bool" where
  "dkg_inv (WaitingForRound1Packages pubkeys r1) \<longleftrightarrow>
     fset (fmdom r1) \<subseteq> fmvals pubkeys \<and> (2 \<le> fmsize pubkeys \<longrightarrow> fmsize r1 + 1 < fmsize pubkeys)"
| "dkg_inv (WaitingForRound1PackagesBroadcast pubkeys r1 rb) \<longleftrightarrow>
     fset (fmdom r1) \<subseteq> fmvals pubkeys \<and> fmsize r1 + 1 = fmsize pubkeys \<and> 2 < fmsize pubkeys \<and>
     echo_inv pubkeys r1 rb \<and> \<not> broadcast_complete r1 rb"
| "dkg_inv (WaitingForRound2Packages pubkeys r1 r2) \<longleftrightarrow>
     fset (fmdom r1) \<subseteq> fmvals pubkeys \<and> fmsize r1 + 1 = fmsize pubkeys \<and> 2 \<le> fmsize pubkeys \<and>
     fmdom r2 |\<subset>| fmdom r1"
| "dkg_inv (Round2PackagesReady pubkeys r2) \<longleftrightarrow>
     fset (fmdom r2) \<subseteq> fmvals pubkeys \<and> fmsize r2 + 1 = fmsize pubkeys \<and> 2 \<le> fmsize pubkeys"

fun dkg_phase :: "('id, 'p1, 'p2) dkg_session_state \<Rightarrow> nat" where
  "dkg_phase (WaitingForRound1Packages _ _) = 0"
| "dkg_phase (WaitingForRound1PackagesBroadcast _ _ _) = 1"
| "dkg_phase (WaitingForRound2Packages _ _ _) = 2"
| "dkg_phase (Round2PackagesReady _ _) = 3"

fun dkg_pubkeys :: "('id, 'p1, 'p2) dkg_session_state \<Rightarrow> (public_key, 'id) fmap" where
  "dkg_pubkeys (WaitingForRound1Packages pubkeys _) = pubkeys"
| "dkg_pubkeys (WaitingForRound1PackagesBroadcast pubkeys _ _) = pubkeys"
| "dkg_pubkeys (WaitingForRound2Packages pubkeys _ _) = pubkeys"
| "dkg_pubkeys (Round2PackagesReady pubkeys _) = pubkeys"

lemma not_broadcast_complete_empty [simp]: "r1 \<noteq> fmempty \<Longrightarrow> \<not> broadcast_complete r1 fmempty"
  by (auto simp: broadcast_complete_def fmempty_iff_fmdom)

lemma fmempty_psubset_fmdom [simp]: "{||} |\<subset>| fmdom r1 \<longleftrightarrow> r1 \<noteq> fmempty"
  by (auto simp: fmempty_iff_fmdom)

lemma handle_round1_package_inv:
  "dkg_inv (WaitingForRound1Packages pubkeys r1) \<Longrightarrow>
     dkg_inv (snd (handle_round1_package pk p (WaitingForRound1Packages pubkeys r1)))"
  by (auto simp: Let_def split: option.splits)

text \<open>A duplicate is written over an equal package: the nested maps do not change.\<close>

lemma duplicate_same:
  assumes "echo_inv pubkeys r1 rb" and "fmlookup r1 original = Some p"
    and "s |\<in>| fmdom (inner_map rb original)"
  shows "fmupd original (fmupd s p (inner_map rb original)) rb = rb"
proof -
  from assms(3) obtain p' where p': "fmlookup (inner_map rb original) s = Some p'"
    by (auto simp: fmdom_fmlookup)
  with echo_inv_inner(3)[OF assms(1)] assms(2) have "p' = p" by fastforce
  with p' have "fmupd s p (inner_map rb original) = inner_map rb original"
    by (intro fmap_ext) auto
  moreover have "fmlookup rb original = Some (inner_map rb original)"
    using assms(3) by (auto simp: inner_map_def split: option.splits)
  ultimately show ?thesis by (intro fmap_ext) auto
qed

lemma broadcast_inv:
  assumes "dkg_inv (WaitingForRound1PackagesBroadcast pubkeys r1 rb)"
  shows "dkg_inv (snd (handle_round1_package_broadcast pk self_id original p
           (WaitingForRound1PackagesBroadcast pubkeys r1 rb)))"
  using assms duplicate_same[of pubkeys r1 rb original p "the (fmlookup pubkeys pk)"]
  by (auto simp: Let_def intro: echo_inv_upd split: option.splits)

lemma handle_round2_package_inv:
  assumes "dkg_inv (WaitingForRound2Packages pubkeys r1 r2)"
  shows "dkg_inv (snd (handle_round2_package pk p (WaitingForRound2Packages pubkeys r1 r2)))"
  using assms by (auto simp: Let_def fmsize_def split: option.splits)

lemma dkg_recv_inv_snd: "dkg_inv st \<Longrightarrow> dkg_inv (snd (dkg_recv de1 deb de2 self_id m st))"
  by (cases st)
    (auto simp: dkg_recv_def
       simp del: dkg_inv.simps handle_round1_package.simps handle_round1_package_broadcast.simps
         handle_round2_package.simps
       intro: handle_round1_package_inv broadcast_inv handle_round2_package_inv
       split: option.splits)

lemma dkg_recv_inv:
  "dkg_inv st \<Longrightarrow> dkg_recv de1 deb de2 self_id m st = (r, st') \<Longrightarrow> dkg_inv st'"
  using dkg_recv_inv_snd by (metis snd_conv)

lemma dkg_recv_reject:
  assumes "dkg_inv st" and "dkg_recv de1 deb de2 self_id m st = (Inl e, st')"
  shows "st' = st"
proof (cases st)
  case (WaitingForRound1Packages pubkeys r1)
  then show ?thesis using assms(2)
    by (auto simp: dkg_recv_def Let_def split: option.splits if_splits)
next
  case (WaitingForRound1PackagesBroadcast pubkeys r1 rb)
  then show ?thesis using assms duplicate_same[of pubkeys r1 rb]
    by (auto simp: dkg_recv_def Let_def split: option.splits if_splits prod.splits)
qed (use assms(2) in \<open>auto simp: dkg_recv_def Let_def split: option.splits if_splits\<close>)

lemma dkg_recv_phase:
  "dkg_recv de1 deb de2 self_id m st = (r, st') \<Longrightarrow> dkg_phase st \<le> dkg_phase st'"
  by (cases st) (auto simp: dkg_recv_def Let_def split: option.splits if_splits prod.splits)

lemma dkg_recv_pubkeys:
  "dkg_recv de1 deb de2 self_id m st = (r, st') \<Longrightarrow> dkg_pubkeys st' = dkg_pubkeys st"
  by (cases st) (auto simp: dkg_recv_def Let_def split: option.splits if_splits prod.splits)

interpretation dkg: session_machine "dkg_recv de1 deb de2 self_id" dkg_inv dkg_phase
  by unfold_locales (auto intro: dkg_recv_inv dkg_recv_reject dkg_recv_phase)

end
