(* ===== verification/Dkg_Session_Runs.thy ===== *)
theory Dkg_Session_Runs
  imports Dkg_Session Gather
begin

text \<open>
  Runs of a participant's DKG session: each of the three rounds as a function of the messages
  received in it, in any order, and the evidence a completed echo broadcast leaves behind.
\<close>

section \<open>Round 1 and round 2\<close>

lemma recv_round1:
  assumes "known_msg pubkeys de1 m"
  shows "dkg_recv de1 deb de2 self_id m (WaitingForRound1Packages pubkeys r1) =
    (Inr (),
     let r1' = gather pubkeys de1 [m] r1
     in if fmsize r1' = fmsize pubkeys - 1
        then (if fmsize pubkeys > 2 then WaitingForRound1PackagesBroadcast pubkeys r1' fmempty
              else WaitingForRound2Packages pubkeys r1' fmempty)
        else WaitingForRound1Packages pubkeys r1')"
  using assms by (elim known_msgE) (auto simp: dkg_recv_def Let_def)

lemma recv_round2:
  assumes "known_msg pubkeys de2 m" and "msg_id pubkeys m |\<in>| fmdom r1"
  shows "dkg_recv de1 deb de2 self_id m (WaitingForRound2Packages pubkeys r1 r2) =
    (Inr (),
     let r2' = gather pubkeys de2 [m] r2
     in if fmdom r2' = fmdom r1 then Round2PackagesReady pubkeys r2'
        else WaitingForRound2Packages pubkeys r1 r2')"
  using assms by (elim known_msgE) (simp add: dkg_recv_def Let_def)

lemma round1_partial:
  assumes "\<And>m. m \<in> set ms \<Longrightarrow> known_msg pubkeys de1 m"
    and "card (fset (fmdom r1) \<union> msg_id pubkeys ` set ms) < fmsize pubkeys - 1"
  shows "for_io ms (dkg_recv de1 deb de2 self_id) (WaitingForRound1Packages pubkeys r1) =
    (Inr (), WaitingForRound1Packages pubkeys (gather pubkeys de1 ms r1))"
  using assms
proof (induction ms arbitrary: r1)
  case Nil
  then show ?case by simp
next
  case (Cons m ms)
  have v: "known_msg pubkeys de1 m" using Cons.prems(1) by simp
  let ?r1 = "gather pubkeys de1 [m] r1"
  have "fmsize ?r1 \<le> card (fset (fmdom r1) \<union> msg_id pubkeys ` set (m # ms))"
    unfolding fmsize_gather by (rule card_mono) auto
  with Cons.prems(2) have "fmsize ?r1 \<noteq> fmsize pubkeys - 1" by linarith
  then have "dkg_recv de1 deb de2 self_id m (WaitingForRound1Packages pubkeys r1) =
      (Inr (), WaitingForRound1Packages pubkeys ?r1)"
    using recv_round1[OF v, of deb de2 self_id r1] by (simp only: Let_def if_False)
  moreover have "for_io ms (dkg_recv de1 deb de2 self_id) (WaitingForRound1Packages pubkeys ?r1) =
      (Inr (), WaitingForRound1Packages pubkeys (gather pubkeys de1 ms ?r1))"
    using Cons.prems by (intro Cons.IH) auto
  ultimately show ?case by (simp only: for_io_Cons_Inr) simp
qed

lemma round1_complete:
  assumes "\<And>m. m \<in> set ms \<Longrightarrow> known_msg pubkeys de1 m" and "distinct (map (msg_id pubkeys) ms)"
    and "length ms + 1 = fmsize pubkeys" and "2 \<le> fmsize pubkeys"
  shows "for_io ms (dkg_recv de1 deb de2 self_id) (WaitingForRound1Packages pubkeys fmempty) =
    (Inr (), if fmsize pubkeys > 2
             then WaitingForRound1PackagesBroadcast pubkeys (gather pubkeys de1 ms fmempty) fmempty
             else WaitingForRound2Packages pubkeys (gather pubkeys de1 ms fmempty) fmempty)"
proof -
  from assms(3,4) obtain ms' m where ms: "ms = ms' @ [m]" by (cases ms rule: rev_cases) auto
  have v: "known_msg pubkeys de1 m" using assms(1) ms by simp
  have "card (msg_id pubkeys ` set ms') = length ms'"
    using assms(2) ms by (simp add: distinct_ids_card)
  then have "for_io ms' (dkg_recv de1 deb de2 self_id) (WaitingForRound1Packages pubkeys fmempty) =
      (Inr (), WaitingForRound1Packages pubkeys (gather pubkeys de1 ms' fmempty))"
    using assms ms by (intro round1_partial) auto
  moreover have "card (msg_id pubkeys ` set ms) = length ms"
    using assms(2) by (rule distinct_ids_card)
  then have "fmsize (gather pubkeys de1 ms fmempty) = fmsize pubkeys - 1"
    using assms(3) unfolding fmsize_gather by simp
  then have "dkg_recv de1 deb de2 self_id m
        (WaitingForRound1Packages pubkeys (gather pubkeys de1 ms' fmempty)) =
      (Inr (), if fmsize pubkeys > 2
             then WaitingForRound1PackagesBroadcast pubkeys (gather pubkeys de1 ms fmempty) fmempty
             else WaitingForRound2Packages pubkeys (gather pubkeys de1 ms fmempty) fmempty)"
    using recv_round1[OF v, of deb de2 self_id "gather pubkeys de1 ms' fmempty"] unfolding ms
    by (simp only: Let_def if_True gather_simps simp_thms)
  ultimately show ?thesis unfolding ms by (simp add: for_io_append_Inr)
qed

lemma round2_partial:
  assumes "\<And>m. m \<in> set ms \<Longrightarrow> known_msg pubkeys de2 m"
    and "fset (fmdom r2) \<union> msg_id pubkeys ` set ms \<subset> fset (fmdom r1)"
  shows "for_io ms (dkg_recv de1 deb de2 self_id) (WaitingForRound2Packages pubkeys r1 r2) =
    (Inr (), WaitingForRound2Packages pubkeys r1 (gather pubkeys de2 ms r2))"
  using assms
proof (induction ms arbitrary: r2)
  case Nil
  then show ?case by simp
next
  case (Cons m ms)
  have v: "known_msg pubkeys de2 m" "msg_id pubkeys m |\<in>| fmdom r1"
    using Cons.prems by auto
  let ?r2 = "gather pubkeys de2 [m] r2"
  have "fset (fmdom ?r2) \<subset> fset (fmdom r1)"
    using Cons.prems(2) by (auto simp: fset_fmdom_gather)
  then have "fmdom ?r2 \<noteq> fmdom r1" by auto
  then have "dkg_recv de1 deb de2 self_id m (WaitingForRound2Packages pubkeys r1 r2) =
      (Inr (), WaitingForRound2Packages pubkeys r1 ?r2)"
    using recv_round2[OF v, of de1 deb self_id r2] by (simp only: Let_def if_False)
  moreover have "for_io ms (dkg_recv de1 deb de2 self_id) (WaitingForRound2Packages pubkeys r1 ?r2) =
      (Inr (), WaitingForRound2Packages pubkeys r1 (gather pubkeys de2 ms ?r2))"
    using Cons.prems by (intro Cons.IH) (auto simp: fset_fmdom_gather)
  ultimately show ?case by (simp only: for_io_Cons_Inr) simp
qed

lemma round2_complete:
  assumes "\<And>m. m \<in> set ms \<Longrightarrow> known_msg pubkeys de2 m" and "distinct (map (msg_id pubkeys) ms)"
    and "msg_id pubkeys ` set ms = fset (fmdom r1)" and "r1 \<noteq> fmempty"
  shows "for_io ms (dkg_recv de1 deb de2 self_id) (WaitingForRound2Packages pubkeys r1 fmempty) =
    (Inr (), Round2PackagesReady pubkeys (gather pubkeys de2 ms fmempty))"
proof -
  have "ms \<noteq> []" using assms(3,4) by (auto simp: fmempty_iff_fmdom fset_inject[symmetric])
  then obtain ms' m where ms: "ms = ms' @ [m]" by (cases ms rule: rev_cases) auto
  have v: "known_msg pubkeys de2 m" "msg_id pubkeys m |\<in>| fmdom r1" using assms(1,3) ms by auto
  have "msg_id pubkeys m \<notin> msg_id pubkeys ` set ms'" using assms(2) ms by auto
  then have "msg_id pubkeys ` set ms' \<subset> fset (fmdom r1)" using assms(3) ms by auto
  then have "for_io ms' (dkg_recv de1 deb de2 self_id) (WaitingForRound2Packages pubkeys r1 fmempty) =
      (Inr (), WaitingForRound2Packages pubkeys r1 (gather pubkeys de2 ms' fmempty))"
    using assms(1) ms by (intro round2_partial) auto
  moreover have "fset (fmdom (gather pubkeys de2 ms fmempty)) = fset (fmdom r1)"
    using assms(3) unfolding fset_fmdom_gather by simp
  then have "fmdom (gather pubkeys de2 ms fmempty) = fmdom r1"
    by (rule fset_inject[THEN iffD1])
  then have "dkg_recv de1 deb de2 self_id m
        (WaitingForRound2Packages pubkeys r1 (gather pubkeys de2 ms' fmempty)) =
      (Inr (), Round2PackagesReady pubkeys (gather pubkeys de2 ms fmempty))"
    using recv_round2[OF v, of de1 deb self_id "gather pubkeys de2 ms' fmempty"] unfolding ms
    by (simp only: Let_def if_True gather_simps simp_thms)
  ultimately show ?thesis unfolding ms by (simp add: for_io_append_Inr)
qed

section \<open>The echo broadcast\<close>

definition echo_pair ::
    "(public_key, 'id) fmap \<Rightarrow> (bytes \<Rightarrow> ('id \<times> 'p1) option) \<Rightarrow> api_msg \<Rightarrow> 'id \<times> 'id" where
  "echo_pair pubkeys deb m = (fst (msg_val deb m), msg_id pubkeys m)"

text \<open>An honest echo: a known participant repeats the package this node got from the original sender.\<close>

definition honest_echo ::
    "(public_key, 'id) fmap \<Rightarrow> (bytes \<Rightarrow> ('id \<times> 'p1) option) \<Rightarrow> ('id, 'p1) fmap \<Rightarrow> api_msg \<Rightarrow> bool" where
  "honest_echo pubkeys deb r1 m \<longleftrightarrow> known_msg pubkeys deb m \<and>
     fmlookup r1 (fst (msg_val deb m)) = Some (snd (msg_val deb m))"

lemma recv_echo:
  assumes "honest_echo pubkeys deb r1 m" and "echo_pair pubkeys deb m \<in> all_pairs r1 - echo_pairs rb"
    and "fset (fmdom r1) \<subseteq> fmvals pubkeys - {self_id}" and "echo_inv pubkeys r1 rb"
  shows "\<exists>rb'. echo_inv pubkeys r1 rb' \<and> echo_pairs rb' = insert (echo_pair pubkeys deb m) (echo_pairs rb) \<and>
    dkg_recv de1 deb de2 self_id m (WaitingForRound1PackagesBroadcast pubkeys r1 rb) =
    (Inr (), if broadcast_complete r1 rb' then WaitingForRound2Packages pubkeys r1 fmempty
             else WaitingForRound1PackagesBroadcast pubkeys r1 rb')"
proof -
  obtain original p where v: "msg_val deb m = (original, p)" by fastforce
  let ?s = "msg_id pubkeys m"
  let ?rb = "fmupd original (fmupd ?s p (inner_map rb original)) rb"
  have h: "fmlookup pubkeys (sender m) = Some ?s" "deb (msg m) = Some (original, p)"
    "fmlookup r1 original = Some p"
    using assms(1) v by (auto simp: honest_echo_def elim!: known_msgE)
  have pr: "original |\<in>| fmdom r1" "?s \<noteq> original" "?s |\<notin>| fmdom (inner_map rb original)"
    using assms(2) v by (auto simp: echo_pair_def all_pairs_def echo_pairs_def)
  with assms(3) have "original \<in> fmvals pubkeys" "original \<noteq> self_id" by auto
  with h pr have "dkg_recv de1 deb de2 self_id m (WaitingForRound1PackagesBroadcast pubkeys r1 rb) =
    (Inr (), if broadcast_complete r1 ?rb then WaitingForRound2Packages pubkeys r1 fmempty
             else WaitingForRound1PackagesBroadcast pubkeys r1 ?rb)"
    by (simp add: dkg_recv_def Let_def)
  moreover have "echo_pairs ?rb = insert (echo_pair pubkeys deb m) (echo_pairs rb)"
    using v by (simp add: echo_pairs_upd echo_pair_def)
  moreover have "echo_inv pubkeys r1 ?rb"
    using assms(4) h pr by (intro echo_inv_upd) auto
  ultimately show ?thesis by blast
qed

lemma echo_run:
  assumes "echo_inv pubkeys r1 rb \<and> 1 < fmsize r1 \<and> \<not> broadcast_complete r1 rb"
    and "\<And>m. m \<in> set ms \<Longrightarrow> honest_echo pubkeys deb r1 m"
    and "distinct (map (echo_pair pubkeys deb) ms)"
    and "echo_pairs rb \<inter> echo_pair pubkeys deb ` set ms = {}"
    and "echo_pairs rb \<union> echo_pair pubkeys deb ` set ms = all_pairs r1"
    and "fset (fmdom r1) \<subseteq> fmvals pubkeys - {self_id}"
  shows "for_io ms (dkg_recv de1 deb de2 self_id) (WaitingForRound1PackagesBroadcast pubkeys r1 rb) =
    (Inr (), WaitingForRound2Packages pubkeys r1 fmempty)"
  using assms
proof (induction ms arbitrary: rb)
  case Nil
  then have "broadcast_complete r1 rb"
    using broadcast_complete_iff[of pubkeys r1 rb] by (auto simp: all_pairs_def)
  with Nil.prems(1) show ?case by simp
next
  case (Cons m ms)
  have n: "echo_pair pubkeys deb m \<in> all_pairs r1 - echo_pairs rb" using Cons.prems(4,5) by auto
  have i: "echo_inv pubkeys r1 rb" "1 < fmsize r1" using Cons.prems(1) by auto
  from recv_echo[OF _ n Cons.prems(6) i(1), of de1 de2] Cons.prems(2)[of m] obtain rb' where
    i': "echo_inv pubkeys r1 rb'" and
    p: "echo_pairs rb' = insert (echo_pair pubkeys deb m) (echo_pairs rb)" and
    r: "dkg_recv de1 deb de2 self_id m (WaitingForRound1PackagesBroadcast pubkeys r1 rb) =
      (Inr (), if broadcast_complete r1 rb' then WaitingForRound2Packages pubkeys r1 fmempty
               else WaitingForRound1PackagesBroadcast pubkeys r1 rb')" by auto
  show ?case
  proof (cases "broadcast_complete r1 rb'")
    case True
    \<comment> \<open>all pairs are there, so this was the last message\<close>
    have "all_pairs r1 \<subseteq> echo_pairs rb'"
      using True broadcast_complete_iff[OF i' i(2)] by simp
    moreover have "echo_pair pubkeys deb ` set ms \<inter> echo_pairs rb' = {}"
      using Cons.prems(3,4) p by auto
    moreover have "echo_pair pubkeys deb ` set ms \<subseteq> all_pairs r1" using Cons.prems(5) by auto
    ultimately have "echo_pair pubkeys deb ` set ms = {}"
      by (metis inf.absorb_iff1 subset_trans)
    then have "ms = []" by simp
    with True r show ?thesis by simp
  next
    case False
    with r have r': "dkg_recv de1 deb de2 self_id m (WaitingForRound1PackagesBroadcast pubkeys r1 rb) =
        (Inr (), WaitingForRound1PackagesBroadcast pubkeys r1 rb')" by simp
    have "for_io ms (dkg_recv de1 deb de2 self_id) (WaitingForRound1PackagesBroadcast pubkeys r1 rb') =
        (Inr (), WaitingForRound2Packages pubkeys r1 fmempty)"
      by (rule Cons.IH) (use Cons.prems p i' False in auto)
    with r' show ?thesis by (simp only: for_io_Cons_Inr)
  qed
qed

end
