(* ===== verification/Dkg_Session_Props.thy ===== *)
theory Dkg_Session_Props
  imports Dkg_Session_Runs
begin

text \<open>
  What the DKG session promises: agreement of the echo broadcast between honest participants,
  completion for any order of honest messages, exact rejection, and the absence of panics.
\<close>

section \<open>Runs with their messages\<close>

inductive dkg_run ::
    "(bytes \<Rightarrow> 'p1 option) \<Rightarrow> (bytes \<Rightarrow> ('id \<times> 'p1) option) \<Rightarrow> (bytes \<Rightarrow> 'p2 option) \<Rightarrow> 'id \<Rightarrow>
     (public_key, 'id) fmap \<Rightarrow> api_msg list \<Rightarrow> ('id, 'p1, 'p2) dkg_session_state \<Rightarrow> bool"
  for de1 deb de2 self_id pubkeys where
  dkg_start: "2 \<le> fmsize pubkeys \<Longrightarrow>
     dkg_run de1 deb de2 self_id pubkeys [] (WaitingForRound1Packages pubkeys fmempty)"
| dkg_step: "dkg_run de1 deb de2 self_id pubkeys ms st \<Longrightarrow> dkg_recv de1 deb de2 self_id m st = (r, st') \<Longrightarrow>
     dkg_run de1 deb de2 self_id pubkeys (ms @ [m]) st'"

lemma dkg_run_inv: "dkg_run de1 deb de2 self_id pubkeys ms st \<Longrightarrow> dkg_inv st"
  by (induction rule: dkg_run.induct) (auto intro: dkg_recv_inv)

lemma dkg_run_pubkeys: "dkg_run de1 deb de2 self_id pubkeys ms st \<Longrightarrow> dkg_pubkeys st = pubkeys"
  by (induction rule: dkg_run.induct) (auto simp: dkg_recv_pubkeys)

lemma dkg_run_append:
  "dkg_run de1 deb de2 self_id pubkeys ms st \<Longrightarrow>
   for_io ms' (dkg_recv de1 deb de2 self_id) st = (Inr (), st') \<Longrightarrow>
   dkg_run de1 deb de2 self_id pubkeys (ms @ ms') st'"
proof (induction ms' arbitrary: ms st)
  case Nil
  then show ?case by simp
next
  case (Cons m ms')
  obtain r1 st1 where r1: "dkg_recv de1 deb de2 self_id m st = (r1, st1)" by fastforce
  with Cons.prems(2) have "r1 = Inr ()" "for_io ms' (dkg_recv de1 deb de2 self_id) st1 = (Inr (), st')"
    by (cases r1; simp add: try_io_def)+
  then have "dkg_run de1 deb de2 self_id pubkeys ((ms @ [m]) @ ms') st'"
    using Cons.IH[OF dkg_step[OF Cons.prems(1) r1]] by blast
  then show ?case by simp
qed

section \<open>The evidence of a completed echo broadcast\<close>

definition echoed ::
    "(public_key, 'id) fmap \<Rightarrow> (bytes \<Rightarrow> ('id \<times> 'p1) option) \<Rightarrow> ('id, 'p1) fmap \<Rightarrow> api_msg list \<Rightarrow>
     'id \<Rightarrow> 'id \<Rightarrow> bool" where
  "echoed pubkeys deb r1 ms original s \<longleftrightarrow>
     (\<exists>m\<in>set ms. \<exists>p. fmlookup pubkeys (sender m) = Some s \<and> deb (msg m) = Some (original, p) \<and>
        fmlookup r1 original = Some p)"

text \<open>
  While the broadcast runs, every recorded pair has its message; afterwards every pair of other
  participants has one. Every round 1 package was taken from a message of its sender.
\<close>

fun evidence ::
    "(bytes \<Rightarrow> ('id \<times> 'p1) option) \<Rightarrow> api_msg list \<Rightarrow> ('id, 'p1, 'p2) dkg_session_state \<Rightarrow> bool" where
  "evidence deb ms (WaitingForRound1PackagesBroadcast pubkeys r1 rb) \<longleftrightarrow>
     (\<forall>(original, s)\<in>echo_pairs rb. echoed pubkeys deb r1 ms original s)"
| "evidence deb ms (WaitingForRound2Packages pubkeys r1 r2) \<longleftrightarrow>
     (2 < fmsize pubkeys \<longrightarrow> (\<forall>(original, s)\<in>all_pairs r1. echoed pubkeys deb r1 ms original s))"
| "evidence deb ms _ \<longleftrightarrow> True"

lemma echoed_mono: "echoed pubkeys deb r1 ms original s \<Longrightarrow> echoed pubkeys deb r1 (ms @ ms') original s"
  by (auto simp: echoed_def)

lemma broadcast_step_evidence:
  assumes "dkg_inv st" and "evidence deb ms st" and "dkg_recv de1 deb de2 self_id m st = (r, st')"
    and st: "st = WaitingForRound1PackagesBroadcast pubkeys r1 rb"
  shows "evidence deb (ms @ [m]) st'"
proof (cases r)
  case (Inl e)
  from assms(3) have "st' = st" unfolding Inl by (rule dkg_recv_reject[OF assms(1)])
  with assms(2) st show ?thesis by (auto intro: echoed_mono)
next
  case (Inr u)
  with assms(3) st obtain s original p where h: "fmlookup pubkeys (sender m) = Some s"
      "deb (msg m) = Some (original, p)" "fmlookup r1 original = Some p" "original \<noteq> s" and
    st': "st' = (let rb' = fmupd original (fmupd s p (inner_map rb original)) rb
      in if broadcast_complete r1 rb' then WaitingForRound2Packages pubkeys r1 fmempty
         else WaitingForRound1PackagesBroadcast pubkeys r1 rb')"
    by (auto simp: dkg_recv_def Let_def split: option.splits if_splits prod.splits)
  let ?rb = "fmupd original (fmupd s p (inner_map rb original)) rb"
  have e: "\<forall>(original, s)\<in>echo_pairs ?rb. echoed pubkeys deb r1 (ms @ [m]) original s"
    using assms(2) h st unfolding echo_pairs_upd by (auto intro: echoed_mono) (auto simp: echoed_def)
  have "echo_inv pubkeys r1 ?rb" "1 < fmsize r1"
    using assms(1) h st by (auto intro: echo_inv_upd)
  then have "broadcast_complete r1 ?rb \<Longrightarrow> all_pairs r1 \<subseteq> echo_pairs ?rb"
    by (simp add: broadcast_complete_iff)
  with e st' show ?thesis by (auto simp: Let_def)
qed

lemma evidence_mono:
  "evidence deb ms st \<Longrightarrow> evidence deb (ms @ ms') st"
  by (cases st) (auto intro: echoed_mono)

lemma dkg_step_evidence:
  assumes "dkg_inv st" and "evidence deb ms st" and "dkg_recv de1 deb de2 self_id m st = (r, st')"
  shows "evidence deb (ms @ [m]) st'"
proof (cases st)
  case (WaitingForRound1Packages pubkeys r1)
  with assms(3) show ?thesis
    by (auto simp: dkg_recv_def Let_def split: option.splits if_splits)
next
  case (WaitingForRound1PackagesBroadcast pubkeys r1 rb)
  with assms show ?thesis by (rule broadcast_step_evidence)
next
  case (WaitingForRound2Packages pubkeys r1 r2)
  with assms(2,3) have "evidence deb ms st'"
    by (auto simp: dkg_recv_def Let_def split: option.splits if_splits)
  then show ?thesis by (rule evidence_mono)
next
  case (Round2PackagesReady pubkeys r2)
  with assms show ?thesis by (auto simp: dkg_recv_def)
qed

lemma dkg_run_evidence: "dkg_run de1 deb de2 self_id pubkeys ms st \<Longrightarrow> evidence deb ms st"
proof (induction rule: dkg_run.induct)
  case (dkg_step ms st m r st')
  show ?case
    by (rule dkg_step_evidence[OF dkg_run_inv[OF dkg_step.hyps(1)] dkg_step.IH dkg_step.hyps(2)])
qed simp

text \<open>Without messages from itself a participant collects packages of the others only.\<close>

fun packages_of ::
    "('id, 'p1, 'p2) dkg_session_state \<Rightarrow> 'id set" where
  "packages_of (WaitingForRound1Packages _ r1) = fset (fmdom r1)"
| "packages_of (WaitingForRound1PackagesBroadcast _ r1 _) = fset (fmdom r1)"
| "packages_of (WaitingForRound2Packages _ r1 _) = fset (fmdom r1)"
| "packages_of (Round2PackagesReady _ r2) = fset (fmdom r2)"

lemma dkg_recv_packages_of:
  assumes "dkg_recv de1 deb de2 self_id m st = (r, st')"
  shows "packages_of st' \<subseteq> packages_of st \<union> {i. fmlookup (dkg_pubkeys st) (sender m) = Some i}"
proof (cases st)
  case (WaitingForRound1Packages pubkeys r1)
  then show ?thesis using assms
    by (auto simp: dkg_recv_def Let_def split: option.splits if_split_asm)
next
  case (WaitingForRound1PackagesBroadcast pubkeys r1 rb)
  with assms have "packages_of st' = packages_of st"
    by (auto simp: dkg_recv_def Let_def split: option.splits if_split_asm prod.splits)
  then show ?thesis by simp
next
  case (WaitingForRound2Packages pubkeys r1 r2)
  then have "packages_of st' = packages_of st"
  proof (cases st')
    case (Round2PackagesReady pubkeys' r2')
    with WaitingForRound2Packages assms have "fmdom r2' = fmdom r1"
      by (clarsimp simp: dkg_recv_def Let_def split: option.splits if_split_asm)
    with WaitingForRound2Packages Round2PackagesReady show ?thesis by simp
  qed (use assms in \<open>simp_all add: dkg_recv_def Let_def split: option.splits if_split_asm\<close>)
  then show ?thesis by simp
next
  case (Round2PackagesReady pubkeys r2)
  then show ?thesis using assms by (simp add: dkg_recv_def)
qed

lemma dkg_run_packages_of:
  assumes "dkg_run de1 deb de2 self_id pubkeys ms st"
    and "\<And>m. m \<in> set ms \<Longrightarrow> fmlookup pubkeys (sender m) \<noteq> Some self_id"
  shows "packages_of st \<subseteq> fmvals pubkeys - {self_id}"
  using assms
proof (induction rule: dkg_run.induct)
  case dkg_start
  then show ?case by simp
next
  case (dkg_step ms st m r st')
  have "packages_of st' \<subseteq> packages_of st \<union> {i. fmlookup pubkeys (sender m) = Some i}"
    using dkg_recv_packages_of[OF dkg_step.hyps(2)]
      dkg_run_pubkeys[OF dkg_step.hyps(1)] by simp
  moreover have "fmlookup pubkeys (sender m) \<noteq> Some self_id" using dkg_step.prems by simp
  moreover have "packages_of st \<subseteq> fmvals pubkeys - {self_id}"
    using dkg_step.prems by (intro dkg_step.IH) auto
  ultimately show ?case by (auto simp: fmvals_iff)
qed

lemma card_fmvals_le: "card (fmvals m) \<le> fmsize m"
proof -
  have "fmvals m \<subseteq> (\<lambda>k. the (fmlookup m k)) ` fset (fmdom m)"
    by (force simp: fmvals_iff fmdom_fmlookup)
  then show ?thesis
    unfolding fmsize_card by (meson card_image_le card_mono finite_fset finite_imageI le_trans)
qed

lemma dkg_run_others:
  assumes "dkg_run de1 deb de2 self_id pubkeys ms (WaitingForRound2Packages pk r1 r2)"
    and "\<And>m. m \<in> set ms \<Longrightarrow> fmlookup pubkeys (sender m) \<noteq> Some self_id"
    and "self_id \<in> fmvals pubkeys"
  shows "fset (fmdom r1) = fmvals pubkeys - {self_id}"
proof (rule card_seteq)
  show "fset (fmdom r1) \<subseteq> fmvals pubkeys - {self_id}"
    using dkg_run_packages_of[OF assms(1,2)] by simp
  have "pk = pubkeys" using dkg_run_pubkeys[OF assms(1)] by simp
  then have "fmsize r1 + 1 = fmsize pubkeys" using dkg_run_inv[OF assms(1)] by simp
  then show "card (fmvals pubkeys - {self_id}) \<le> card (fset (fmdom r1))"
    using card_fmvals_le[of pubkeys] assms(3) by (simp add: fmsize_card)
qed simp

section \<open>Acceptance\<close>

text \<open>What each phase accepts, and the resulting state, as the guards read.\<close>

fun dkg_acceptable ::
    "(bytes \<Rightarrow> 'p1 option) \<Rightarrow> (bytes \<Rightarrow> ('id \<times> 'p1) option) \<Rightarrow> (bytes \<Rightarrow> 'p2 option) \<Rightarrow> 'id \<Rightarrow>
     api_msg \<Rightarrow> ('id, 'p1, 'p2) dkg_session_state \<Rightarrow> bool" where
  "dkg_acceptable de1 deb de2 self_id m (WaitingForRound1Packages pubkeys r1) \<longleftrightarrow>
     known_msg pubkeys de1 m"
| "dkg_acceptable de1 deb de2 self_id m (WaitingForRound1PackagesBroadcast pubkeys r1 rb) \<longleftrightarrow>
     known_msg pubkeys deb m \<and>
     (let (original, p) = msg_val deb m; s = msg_id pubkeys m
      in original \<in> fmvals pubkeys - {self_id, s} \<and> fmlookup r1 original = Some p \<and>
         (original, s) \<notin> echo_pairs rb)"
| "dkg_acceptable de1 deb de2 self_id m (WaitingForRound2Packages pubkeys r1 r2) \<longleftrightarrow>
     known_msg pubkeys de2 m \<and> msg_id pubkeys m |\<in>| fmdom r1"
| "dkg_acceptable de1 deb de2 self_id m (Round2PackagesReady pubkeys r2) \<longleftrightarrow> False"

lemma broadcast_accepts_iff:
  "fst (dkg_recv de1 deb de2 self_id m (WaitingForRound1PackagesBroadcast pubkeys r1 rb)) = Inr () \<longleftrightarrow>
     dkg_acceptable de1 deb de2 self_id m (WaitingForRound1PackagesBroadcast pubkeys r1 rb)"
  by (cases "deb (msg m)"; cases "fmlookup pubkeys (sender m)")
    (auto simp: dkg_recv_def known_msg_def msg_val_def msg_id_def echo_pairs_def Let_def
       split: option.splits prod.splits)

text \<open>
  C38: Every DKG session message is accepted exactly when its phase's conditions hold: a known
  sender and a well-formed package, and during the echo broadcast a package that equals the one
  received in round 1 from its original sender, who is neither this participant nor the
  broadcasting one, and that this broadcaster has not echoed before. In round 2 the sender must
  have sent a round 1 package. No message makes the session panic.
\<close>

theorem dkg_accepts_iff:
  "(fst (dkg_recv de1 deb de2 self_id m st) = Inr () \<longleftrightarrow>
      dkg_acceptable de1 deb de2 self_id m st) \<and>
   fst (dkg_recv de1 deb de2 self_id m st) \<noteq> Inl (Panic s)"
proof (cases st)
  case (WaitingForRound1PackagesBroadcast pubkeys r1 rb)
  then show ?thesis
    using broadcast_accepts_iff[of de1 deb de2 self_id m pubkeys r1 rb]
    by (auto simp: dkg_recv_def Let_def split: option.splits if_split_asm prod.splits)
qed (auto simp: dkg_recv_def known_msg_def msg_id_def Let_def split: option.splits)

section \<open>Agreement\<close>

lemma dkg_agreement:
  assumes run: "dkg_run de1 deb de2 a pubkeys ms (WaitingForRound2Packages pk r1 r2)"
    and own: "\<And>m. m \<in> set ms \<Longrightarrow> fmlookup pubkeys (sender m) \<noteq> Some a"
    and a: "a \<in> fmvals pubkeys" and n: "2 < fmsize pubkeys"
    and b: "b \<in> fmvals pubkeys" "b \<noteq> a"
    and honest: "\<And>m original p. m \<in> set ms \<Longrightarrow> fmlookup pubkeys (sender m) = Some b \<Longrightarrow>
      deb (msg m) = Some (original, p) \<Longrightarrow> fmlookup r1b original = Some p"
    and x: "x \<in> fmvals pubkeys - {a, b}"
  shows "\<exists>p. fmlookup r1 x = Some p \<and> fmlookup r1b x = Some p"
proof -
  have "pk = pubkeys" using dkg_run_pubkeys[OF run] by simp
  moreover have d: "fset (fmdom r1) = fmvals pubkeys - {a}" using dkg_run_others[OF run own a] .
  then have "(x, b) \<in> all_pairs r1" using x b by (auto simp: all_pairs_def)
  ultimately have "echoed pubkeys deb r1 ms x b"
    using dkg_run_evidence[OF run] n by auto
  then obtain m p where "m \<in> set ms" "fmlookup pubkeys (sender m) = Some b"
    "deb (msg m) = Some (x, p)" "fmlookup r1 x = Some p" by (auto simp: echoed_def)
  with honest show ?thesis by blast
qed

text \<open>
  C3: The echo broadcast gives agreement. When participant \<open>a\<close> has completed the broadcast, having
  received no message under its own key, and another participant \<open>b\<close> has only ever echoed what it
  holds itself (\<open>r1b\<close>), then \<open>a\<close> and \<open>b\<close> hold the same round 1 package of every third
  participant: nobody can have sent different packages to two honest participants.
\<close>

theorem echo_agreement:
  assumes "dkg_run de1 deb de2 a pubkeys ms st" and "has_round1_broadcast_packages st"
    and "round1_packages st = Inr r1a"
    and "\<forall>m\<in>set ms. fmlookup pubkeys (sender m) \<noteq> Some a"
    and "a \<in> fmvals pubkeys" and "2 < fmsize pubkeys"
    and "b \<in> fmvals pubkeys" and "b \<noteq> a"
    and "\<forall>m\<in>set ms. \<forall>original p. fmlookup pubkeys (sender m) = Some b \<longrightarrow>
      deb (msg m) = Some (original, p) \<longrightarrow> fmlookup r1b original = Some p"
    and "x \<in> fmvals pubkeys - {a, b}"
  shows "\<exists>p. fmlookup r1a x = Some p \<and> fmlookup r1b x = Some p"
proof (cases st)
  case (WaitingForRound2Packages pk r1 r2)
  with assms show ?thesis
    by (intro dkg_agreement[of de1 deb de2 a pubkeys ms pk r1a r2]) auto
qed (use assms(2) in auto)

lemma broadcast_done:
  assumes "\<forall>m\<in>set ms1. known_msg pubkeys de1 m" and "distinct (map (msg_id pubkeys) ms1)"
    and "length ms1 + 1 = fmsize pubkeys" and "2 \<le> fmsize pubkeys"
    and "msg_id pubkeys ` set ms1 = fmvals pubkeys - {self_id}"
    and "if 2 < fmsize pubkeys
         then (\<forall>m\<in>set echoes. honest_echo pubkeys deb (gather pubkeys de1 ms1 fmempty) m) \<and>
           distinct (map (echo_pair pubkeys deb) echoes) \<and>
           echo_pair pubkeys deb ` set echoes = all_pairs (gather pubkeys de1 ms1 fmempty)
         else echoes = []"
  shows "for_io (ms1 @ echoes) (dkg_recv de1 deb de2 self_id) (WaitingForRound1Packages pubkeys fmempty) =
      (Inr (), WaitingForRound2Packages pubkeys (gather pubkeys de1 ms1 fmempty) fmempty)"
proof -
  let ?r1 = "gather pubkeys de1 ms1 fmempty"
  let ?recv = "dkg_recv de1 deb de2 self_id"
  have d: "fset (fmdom ?r1) = fmvals pubkeys - {self_id}"
    using assms(5) by (simp add: fset_fmdom_gather)
  have sz: "fmsize ?r1 + 1 = fmsize pubkeys"
    using assms(2,3) by (simp add: fmsize_gather distinct_ids_card)
  then have ne: "?r1 \<noteq> fmempty" using assms(4) by auto
  have r1: "for_io ms1 ?recv (WaitingForRound1Packages pubkeys fmempty) =
    (Inr (), if fmsize pubkeys > 2 then WaitingForRound1PackagesBroadcast pubkeys ?r1 fmempty
             else WaitingForRound2Packages pubkeys ?r1 fmempty)"
    using assms(1,2,3,4) by (intro round1_complete) auto
  show ?thesis
  proof (cases "2 < fmsize pubkeys")
    case True
    with assms(6) sz d ne have
      "for_io echoes ?recv (WaitingForRound1PackagesBroadcast pubkeys ?r1 fmempty) =
        (Inr (), WaitingForRound2Packages pubkeys ?r1 fmempty)"
      by (intro echo_run) auto
    with r1 True show ?thesis by (simp add: for_io_append_Inr)
  next
    case False
    with r1 assms(6) show ?thesis by simp
  qed
qed

text \<open>
  C5: A DKG session completes for any order of arrival within each round. Starting afresh, the
  round 1 packages of all others, then (with more than two participants) one honest echo for every
  ordered pair of others, then the round 2 packages of all others are all accepted; before
  round 2 the collected round 1 packages are those sent, and at the end the collected round 2
  packages are those sent.
\<close>

theorem dkg_session_complete:
  assumes "\<forall>m\<in>set ms1. known_msg pubkeys de1 m" and "distinct (map (msg_id pubkeys) ms1)"
    and "length ms1 + 1 = fmsize pubkeys" and "2 \<le> fmsize pubkeys"
    and "msg_id pubkeys ` set ms1 = fmvals pubkeys - {self_id}"
    and "if 2 < fmsize pubkeys
         then (\<forall>m\<in>set echoes. honest_echo pubkeys deb (gather pubkeys de1 ms1 fmempty) m) \<and>
           distinct (map (echo_pair pubkeys deb) echoes) \<and>
           echo_pair pubkeys deb ` set echoes = all_pairs (gather pubkeys de1 ms1 fmempty)
         else echoes = []"
    and "\<forall>m\<in>set ms2. known_msg pubkeys de2 m" and "distinct (map (msg_id pubkeys) ms2)"
    and "msg_id pubkeys ` set ms2 = fmvals pubkeys - {self_id}"
  shows "for_io (ms1 @ echoes) (dkg_recv de1 deb de2 self_id) (WaitingForRound1Packages pubkeys fmempty) =
      (Inr (), WaitingForRound2Packages pubkeys (gather pubkeys de1 ms1 fmempty) fmempty) \<and>
    for_io (ms1 @ echoes @ ms2) (dkg_recv de1 deb de2 self_id) (WaitingForRound1Packages pubkeys fmempty) =
      (Inr (), Round2PackagesReady pubkeys (gather pubkeys de2 ms2 fmempty))"
proof -
  let ?r1 = "gather pubkeys de1 ms1 fmempty"
  let ?recv = "dkg_recv de1 deb de2 self_id"
  have e: "for_io (ms1 @ echoes) ?recv (WaitingForRound1Packages pubkeys fmempty) =
      (Inr (), WaitingForRound2Packages pubkeys ?r1 fmempty)"
    using broadcast_done[OF assms(1-6)] .
  have d: "fset (fmdom ?r1) = fmvals pubkeys - {self_id}"
    using assms(5) by (simp add: fset_fmdom_gather)
  have "ms1 \<noteq> []" using assms(3,4) by auto
  then have "fset (fmdom ?r1) \<noteq> {}" by (simp add: fset_fmdom_gather)
  then have "?r1 \<noteq> fmempty" by (auto simp: fmempty_iff_fmdom)
  then have "for_io ms2 ?recv (WaitingForRound2Packages pubkeys ?r1 fmempty) =
      (Inr (), Round2PackagesReady pubkeys (gather pubkeys de2 ms2 fmempty))"
    using assms(7,8,9) d by (intro round2_complete) auto
  then have "for_io ((ms1 @ echoes) @ ms2) ?recv (WaitingForRound1Packages pubkeys fmempty) =
      (Inr (), Round2PackagesReady pubkeys (gather pubkeys de2 ms2 fmempty))"
    by (rule for_io_append_Inr[OF e, THEN trans])
  with e show ?thesis by simp
qed

section \<open>An instance with three participants\<close>

text \<open>
  Participants 1, 2 and 3 with keys of one byte; a package is a number. A round 1 or round 2
  package is encoded in one byte and an echo in two.
\<close>

definition ex3_pubkeys :: "(public_key, nat) fmap" where
  "ex3_pubkeys = fmap_of_list [(PublicKey [1], 1), (PublicKey [2], 2), (PublicKey [3], 3)]"

fun ex_de :: "bytes \<Rightarrow> nat option" where
  "ex_de [b] = Some (unat b)"
| "ex_de _ = None"

fun ex_deb :: "bytes \<Rightarrow> (nat \<times> nat) option" where
  "ex_deb [i, b] = Some (unat i, unat b)"
| "ex_deb _ = None"

definition ex_m :: "byte \<Rightarrow> bytes \<Rightarrow> api_msg" where
  "ex_m k b = \<lparr>sender = PublicKey [k], msg = b\<rparr>"

lemma ex3_facts:
  "fmlookup ex3_pubkeys (PublicKey [1]) = Some 1"
  "fmlookup ex3_pubkeys (PublicKey [2]) = Some 2"
  "fmlookup ex3_pubkeys (PublicKey [3]) = Some 3"
  "fmsize ex3_pubkeys = 3"
  "fmvals ex3_pubkeys = {1, 2, 3}"
  by (auto simp: ex3_pubkeys_def fmvals_iff split: if_splits)

definition ex3_round1 :: "api_msg list" where
  "ex3_round1 = [ex_m 3 [30], ex_m 2 [20]]"

definition ex3_echoes :: "api_msg list" where
  "ex3_echoes = [ex_m 2 [3, 30], ex_m 3 [2, 20]]"

definition ex3_round2 :: "api_msg list" where
  "ex3_round2 = [ex_m 2 [21], ex_m 3 [31]]"

definition ex3_packages :: "(nat, nat) fmap" where
  "ex3_packages = fmupd 2 20 (fmupd 3 30 fmempty)"

lemmas ex3_defs = ex3_round1_def ex3_echoes_def ex3_round2_def ex_m_def
lemmas msg_defs = known_msg_def msg_id_def msg_val_def honest_echo_def echo_pair_def

lemma ex3_gather [simp]: "gather ex3_pubkeys ex_de ex3_round1 fmempty = ex3_packages"
  by (simp add: ex3_defs msg_defs ex3_facts ex3_packages_def)

lemma ex3_all_pairs: "all_pairs ex3_packages = {(2, 3), (3, 2)}"
  by (auto simp: all_pairs_def ex3_packages_def)

lemma ex3_msgs:
  "\<forall>m\<in>set ex3_round1. known_msg ex3_pubkeys ex_de m" "distinct (map (msg_id ex3_pubkeys) ex3_round1)"
  "length ex3_round1 + 1 = fmsize ex3_pubkeys" "2 \<le> fmsize ex3_pubkeys"
  "msg_id ex3_pubkeys ` set ex3_round1 = fmvals ex3_pubkeys - {1}"
  "if 2 < fmsize ex3_pubkeys
   then (\<forall>m\<in>set ex3_echoes. honest_echo ex3_pubkeys ex_deb (gather ex3_pubkeys ex_de ex3_round1 fmempty) m) \<and>
     distinct (map (echo_pair ex3_pubkeys ex_deb) ex3_echoes) \<and>
     echo_pair ex3_pubkeys ex_deb ` set ex3_echoes =
       all_pairs (gather ex3_pubkeys ex_de ex3_round1 fmempty)
   else ex3_echoes = []"
  "\<forall>m\<in>set ex3_round2. known_msg ex3_pubkeys ex_de m" "distinct (map (msg_id ex3_pubkeys) ex3_round2)"
  "msg_id ex3_pubkeys ` set ex3_round2 = fmvals ex3_pubkeys - {1}"
  unfolding ex3_gather ex3_all_pairs
  by (auto simp: ex3_defs msg_defs ex3_facts ex3_packages_def)

theorem dkg_session_complete_witness:
  "for_io (ex3_round1 @ ex3_echoes) (dkg_recv ex_de ex_deb ex_de 1)
      (WaitingForRound1Packages ex3_pubkeys fmempty) =
      (Inr (), WaitingForRound2Packages ex3_pubkeys (gather ex3_pubkeys ex_de ex3_round1 fmempty) fmempty) \<and>
    for_io (ex3_round1 @ ex3_echoes @ ex3_round2) (dkg_recv ex_de ex_deb ex_de 1)
      (WaitingForRound1Packages ex3_pubkeys fmempty) =
      (Inr (), Round2PackagesReady ex3_pubkeys (gather ex3_pubkeys ex_de ex3_round2 fmempty))"
  by (rule dkg_session_complete[OF ex3_msgs])

lemma ex3_run:
  "dkg_run ex_de ex_deb ex_de 1 ex3_pubkeys (ex3_round1 @ ex3_echoes)
     (WaitingForRound2Packages ex3_pubkeys ex3_packages fmempty)"
  using dkg_run_append[OF dkg_start[of ex3_pubkeys] broadcast_done[OF ex3_msgs(1-6)]] ex3_msgs(4) by simp

theorem echo_agreement_witness:
  "\<exists>p :: nat. fmlookup ex3_packages 3 = Some p \<and> fmlookup (fmupd 1 10 (fmupd (3 :: nat) 30 fmempty)) 3 = Some p"
  by (rule echo_agreement[OF ex3_run, where b = 2])
    (auto simp: ex3_defs ex3_facts ex3_packages_def)

end
