(* ===== verification/Cipher.thy ===== *)
theory Cipher
  imports Api
begin

text \<open>
  End-to-end encryption between clients (\<open>frost-client/src/cipher.rs\<close>). The Noise implementation
  (crate \<open>snow\<close>) and XEd25519 signing (crate \<open>xeddsa\<close>) are parameters: the record \<open>snow_ops\<close> holds
  the calls the code makes, and the locale \<open>snow\<close> what the Noise pattern K documents about them.
  \<open>secure_channel\<close> is the interface the communication code relies on.
\<close>

section \<open>The Noise library\<close>

record ('h, 't) snow_ops =
  build_initiator :: "bytes \<Rightarrow> bytes \<Rightarrow> 'h option"
  build_responder :: "bytes \<Rightarrow> bytes \<Rightarrow> 'h option"
  hs_write :: "bytes \<Rightarrow> nat \<Rightarrow> 'h \<Rightarrow> bytes option \<times> 'h"
  hs_read :: "bytes \<Rightarrow> nat \<Rightarrow> 'h \<Rightarrow> bytes option \<times> 'h"
  hs_finished :: "'h \<Rightarrow> bool"
  into_transport_mode :: "'h \<Rightarrow> 't option"
  ts_write :: "bytes \<Rightarrow> nat \<Rightarrow> 't \<Rightarrow> bytes option \<times> 't"
  ts_read :: "bytes \<Rightarrow> nat \<Rightarrow> 't \<Rightarrow> bytes option \<times> 't"

section \<open>Private keys\<close>

datatype private_key = PrivateKey (sk_bytes: bytes)

text \<open>\<open>xsign\<close> is \<open>xed25519::PrivateKey::sign\<close> with the random numbers it draws.\<close>

definition private_key_sign ::
    "(bytes \<Rightarrow> bytes \<Rightarrow> 'rng \<Rightarrow> bytes) \<Rightarrow> private_key \<Rightarrow> bytes \<Rightarrow> 'rng \<Rightarrow> error + bytes" where
  "private_key_sign xsign key m rng =
     (if length (sk_bytes key) \<noteq> 32 then Inl Invalid_Private_Key
      else Inr (xsign (sk_bytes key) m rng))"

section \<open>Noise states\<close>

record ('h, 't) noise =
  no_handshake_state :: "'h option"
  no_transport_state :: "'t option"

definition noise_new :: "'h \<Rightarrow> ('h, 't) noise" where
  "noise_new h = \<lparr>no_handshake_state = Some h, no_transport_state = None\<rparr>"

definition snow_result :: "bytes option \<Rightarrow> error + bytes" where
  "snow_result r = ok_or r Snow_Error"

text \<open>
  The message buffer is the argument \<open>buf\<close>, its contents up to the returned length the result.
\<close>

definition noise_write_message ::
    "('h, 't) snow_ops \<Rightarrow> bytes \<Rightarrow> nat \<Rightarrow> (('h, 't) noise, error, bytes) io" where
  "noise_write_message ops payload buf noise =
     (case no_handshake_state noise of
        Some h \<Rightarrow>
          let (r, h) = hs_write ops payload buf h
          in if hs_finished ops h
             then (case into_transport_mode ops h of
                None \<Rightarrow> (Inl Snow_Error, noise\<lparr>no_handshake_state := None\<rparr>)
              | Some t \<Rightarrow> (snow_result r, \<lparr>no_handshake_state = None, no_transport_state = Some t\<rparr>))
             else (snow_result r, noise\<lparr>no_handshake_state := Some h\<rparr>)
      | None \<Rightarrow>
          (case no_transport_state noise of
             Some t \<Rightarrow>
               let (r, t) = ts_write ops payload buf t
               in (snow_result r, noise\<lparr>no_transport_state := Some t\<rparr>)
           | None \<Rightarrow> (Inl (Panic ''invalid state''), noise)))"

definition noise_read_message ::
    "('h, 't) snow_ops \<Rightarrow> bytes \<Rightarrow> nat \<Rightarrow> (('h, 't) noise, error, bytes) io" where
  "noise_read_message ops payload buf noise =
     (case no_handshake_state noise of
        Some h \<Rightarrow>
          let (r, h) = hs_read ops payload buf h
          in if hs_finished ops h
             then (case into_transport_mode ops h of
                None \<Rightarrow> (Inl Snow_Error, noise\<lparr>no_handshake_state := None\<rparr>)
              | Some t \<Rightarrow> (snow_result r, \<lparr>no_handshake_state = None, no_transport_state = Some t\<rparr>))
             else (snow_result r, noise\<lparr>no_handshake_state := Some h\<rparr>)
      | None \<Rightarrow>
          (case no_transport_state noise of
             Some t \<Rightarrow>
               let (r, t) = ts_read ops payload buf t
               in (snow_result r, noise\<lparr>no_transport_state := Some t\<rparr>)
           | None \<Rightarrow> (Inl (Panic ''invalid state''), noise)))"

section \<open>The cipher\<close>

record ('h, 't) cipher =
  ci_send_noise_map :: "(public_key, ('h, 't) noise) fmap"
  ci_recv_noise_map :: "(public_key, ('h, 't) noise) fmap"

fun cipher_build ::
    "('h, 't) snow_ops \<Rightarrow> private_key \<Rightarrow> public_key list \<Rightarrow> ('h, 't) cipher \<Rightarrow> error + ('h, 't) cipher" where
  "cipher_build ops private_key [] c = Inr c"
| "cipher_build ops private_key (pubkey # pubkeys) c =
     (case build_initiator ops (sk_bytes private_key) (pk_bytes pubkey) of
        None \<Rightarrow> Inl Snow_Error
      | Some i \<Rightarrow>
          (case build_responder ops (sk_bytes private_key) (pk_bytes pubkey) of
             None \<Rightarrow> Inl Snow_Error
           | Some r \<Rightarrow> cipher_build ops private_key pubkeys
               \<lparr>ci_send_noise_map = fmupd pubkey (noise_new i) (ci_send_noise_map c),
                ci_recv_noise_map = fmupd pubkey (noise_new r) (ci_recv_noise_map c)\<rparr>))"

definition cipher_new ::
    "('h, 't) snow_ops \<Rightarrow> private_key \<Rightarrow> public_key list \<Rightarrow> error + ('h, 't) cipher" where
  "cipher_new ops private_key peers_public_keys =
     cipher_build ops private_key peers_public_keys
       \<lparr>ci_send_noise_map = fmempty, ci_recv_noise_map = fmempty\<rparr>"

definition single_key :: "('k, 'v) fmap \<Rightarrow> 'k option" where
  "single_key m = (if fmsize m = 1 then Some (fthe_elem (fmdom m)) else None)"

definition encrypt ::
    "('h, 't) snow_ops \<Rightarrow> public_key option \<Rightarrow> bytes \<Rightarrow> (('h, 't) cipher, error, bytes) io" where
  "encrypt ops recipient m c =
     (case (case recipient of Some r \<Rightarrow> Some r | None \<Rightarrow> single_key (ci_send_noise_map c)) of
        None \<Rightarrow> (Inl (Panic ''no recipient specified and more than one recipient was passed''), c)
      | Some r \<Rightarrow>
          (case fmlookup (ci_send_noise_map c) r of
             None \<Rightarrow> (Inl Unknown_Recipient, c)
           | Some noise \<Rightarrow>
               let (res, noise') = noise_write_message ops m MAX_MSG_SIZE noise
               in (res, c\<lparr>ci_send_noise_map := fmupd r noise' (ci_send_noise_map c)\<rparr>)))"

definition decrypt ::
    "('h, 't) snow_ops \<Rightarrow> api_msg \<Rightarrow> (('h, 't) cipher, error, api_msg) io" where
  "decrypt ops m c =
     (case fmlookup (ci_recv_noise_map c) (sender m) of
        None \<Rightarrow> (Inl Unknown_Sender, c)
      | Some noise \<Rightarrow>
          let (res, noise') = noise_read_message ops (msg m) MAX_MSG_SIZE noise
          in (tryr res (\<lambda>p. Inr \<lparr>sender = sender m, msg = p\<rparr>),
              c\<lparr>ci_recv_noise_map := fmupd (sender m) noise' (ci_recv_noise_map c)\<rparr>))"

section \<open>Documented behaviour of the Noise pattern K\<close>

text \<open>
  \<open>key_pair\<close> relates a private key and its public key. An initiator and a responder built
  for each other are linked; what one writes the other reads, in order, and they stay linked.
  The first message carries the ephemeral key (32 bytes) and every message a tag (16 bytes).
  A message that is written fits the buffer. A message has at most 65535 bytes, and the nonces of
  a transport state run out: \<open>ts_linked n\<close> has (at least) \<open>n\<close> left, a fresh one \<open>2 ^ 64 - 1\<close>.
\<close>

locale snow =
  fixes ops :: "('h, 't) snow_ops"
    and key_pair :: "bytes \<Rightarrow> bytes \<Rightarrow> bool"
    and hs_linked :: "'h \<Rightarrow> 'h \<Rightarrow> bool"
    and ts_linked :: "nat \<Rightarrow> 't \<Rightarrow> 't \<Rightarrow> bool"
  assumes build_ok: "key_pair sk pk \<Longrightarrow> key_pair sk' pk' \<Longrightarrow>
      \<exists>i r. build_initiator ops sk pk' = Some i \<and> build_responder ops sk' pk = Some r \<and> hs_linked i r"
    and hs_ok: "hs_linked i r \<Longrightarrow> length p + 48 \<le> buf \<Longrightarrow> buf \<le> 65535 \<Longrightarrow>
      \<exists>c i' r' t t'. hs_write ops p buf i = (Some c, i') \<and> hs_finished ops i' \<and>
        into_transport_mode ops i' = Some t \<and> hs_read ops c buf r = (Some p, r') \<and>
        hs_finished ops r' \<and> into_transport_mode ops r' = Some t' \<and> ts_linked (2 ^ 64 - 1) t t'"
    and ts_ok: "ts_linked (Suc n) t t' \<Longrightarrow> length p + 16 \<le> buf \<Longrightarrow> buf \<le> 65535 \<Longrightarrow>
      \<exists>c u u'. ts_write ops p buf t = (Some c, u) \<and> ts_read ops c buf t' = (Some p, u') \<and> ts_linked n u u'"
    and ts_fewer: "ts_linked n t t' \<Longrightarrow> k \<le> n \<Longrightarrow> ts_linked k t t'"
    and hs_fits: "hs_write ops p buf i = (Some c, i') \<Longrightarrow> length c \<le> buf"
    and ts_fits: "ts_write ops p buf t = (Some c, t') \<Longrightarrow> length c \<le> buf"

text \<open>
  What a client relies on: what one end encrypts, the other decrypts, in order; \<open>linked n\<close> says
  that the ends are in step and can exchange \<open>n\<close> more messages.
\<close>

locale secure_channel =
  fixes enc :: "bytes \<Rightarrow> ('s, error, bytes) io"
    and dec :: "bytes \<Rightarrow> ('r, error, bytes) io"
    and linked :: "nat \<Rightarrow> 's \<Rightarrow> 'r \<Rightarrow> bool"
    and sendable :: "bytes \<Rightarrow> bool"
  assumes transfer: "linked (Suc n) s r \<Longrightarrow> sendable p \<Longrightarrow>
      \<exists>c s' r'. enc p s = (Inr c, s') \<and> dec c r = (Inr p, r') \<and> linked n s' r'"
begin

lemma transfer_all:
  "linked (length ps + n) s r \<Longrightarrow> list_all sendable ps \<Longrightarrow>
     \<exists>cs s' r'. map_io enc ps s = (Inr cs, s') \<and> map_io dec cs r = (Inr ps, r') \<and> linked n s' r'"
proof (induction ps arbitrary: s r)
  case Nil
  then show ?case by auto
next
  case (Cons p ps)
  from transfer[of "length ps + n" s r p] Cons.prems obtain c s1 r1 where
    1: "enc p s = (Inr c, s1)" "dec c r = (Inr p, r1)" "linked (length ps + n) s1 r1" by auto
  from Cons.IH[OF 1(3)] Cons.prems(2) obtain cs s2 r2 where
    2: "map_io enc ps s1 = (Inr cs, s2)" "map_io dec cs r1 = (Inr ps, r2)" "linked n s2 r2" by auto
  have "map_io enc (p # ps) s = (Inr (c # cs), s2)" "map_io dec (c # cs) r = (Inr (p # ps), r2)"
    using 1 2 by (simp_all add: try_io_def)
  with 2 show ?case by blast
qed

end

section \<open>The cipher provides a channel\<close>

definition noise_linked ::
    "('h \<Rightarrow> 'h \<Rightarrow> bool) \<Rightarrow> (nat \<Rightarrow> 't \<Rightarrow> 't \<Rightarrow> bool) \<Rightarrow> nat \<Rightarrow> ('h, 't) noise \<Rightarrow> ('h, 't) noise \<Rightarrow> bool" where
  "noise_linked hs_linked ts_linked k n n' \<longleftrightarrow>
     (case (no_handshake_state n, no_handshake_state n') of
        (Some i, Some r) \<Rightarrow> hs_linked i r \<and> k \<le> 2 ^ 64
      | (None, None) \<Rightarrow> (case (no_transport_state n, no_transport_state n') of
           (Some t, Some t') \<Rightarrow> ts_linked k t t' | _ \<Rightarrow> False)
      | _ \<Rightarrow> False)"

definition sendable :: "bytes \<Rightarrow> bool" where
  "sendable p \<longleftrightarrow> length p + 48 \<le> MAX_MSG_SIZE"

text \<open>Alice (key \<open>pk\<close>) sends to Bob (key \<open>pk'\<close>): her sending state is linked to his receiving one.\<close>

definition ciphers_linked ::
    "('h \<Rightarrow> 'h \<Rightarrow> bool) \<Rightarrow> (nat \<Rightarrow> 't \<Rightarrow> 't \<Rightarrow> bool) \<Rightarrow> public_key \<Rightarrow> public_key \<Rightarrow> nat \<Rightarrow>
     ('h, 't) cipher \<Rightarrow> ('h, 't) cipher \<Rightarrow> bool" where
  "ciphers_linked hs_linked ts_linked pk pk' k a b \<longleftrightarrow>
     (\<exists>n n'. fmlookup (ci_send_noise_map a) pk' = Some n \<and> fmlookup (ci_recv_noise_map b) pk = Some n' \<and>
        noise_linked hs_linked ts_linked k n n')"

definition decrypt_from ::
    "('h, 't) snow_ops \<Rightarrow> public_key \<Rightarrow> bytes \<Rightarrow> (('h, 't) cipher, error, bytes) io" where
  "decrypt_from ops pk c b =
     (case decrypt ops \<lparr>sender = pk, msg = c\<rparr> b of (r, b') \<Rightarrow> (tryr r (\<lambda>m. Inr (msg m)), b'))"

context snow
begin

lemma noise_transfer:
  assumes "noise_linked hs_linked ts_linked (Suc k) n n'" and "length p + 48 \<le> buf" and "buf \<le> 65535"
  shows "\<exists>c m m'. noise_write_message ops p buf n = (Inr c, m) \<and>
    noise_read_message ops c buf n' = (Inr p, m') \<and> noise_linked hs_linked ts_linked k m m'"
proof (cases "no_handshake_state n")
  case (Some i)
  with assms(1) obtain r where r: "no_handshake_state n' = Some r" "hs_linked i r" "Suc k \<le> 2 ^ 64"
    by (auto simp: noise_linked_def split: option.splits)
  from hs_ok[OF r(2) assms(2,3)] obtain c i' r' t t' where h:
    "hs_write ops p buf i = (Some c, i')" "hs_finished ops i'" "into_transport_mode ops i' = Some t"
    "hs_read ops c buf r = (Some p, r')" "hs_finished ops r'" "into_transport_mode ops r' = Some t'"
    "ts_linked (2 ^ 64 - 1) t t'" by blast
  moreover have "ts_linked k t t'" using r(3) by (intro ts_fewer[OF h(7)]) simp
  ultimately show ?thesis using Some r
    by (simp add: noise_write_message_def noise_read_message_def noise_linked_def snow_result_def)
next
  case None
  with assms(1) obtain t t' where t: "no_handshake_state n' = None" "no_transport_state n = Some t"
    "no_transport_state n' = Some t'" "ts_linked (Suc k) t t'"
    by (auto simp: noise_linked_def split: option.splits)
  have "length p + 16 \<le> buf" using assms(2) by simp
  from ts_ok[OF t(4) this assms(3)] obtain c u u' where h: "ts_write ops p buf t = (Some c, u)"
    "ts_read ops c buf t' = (Some p, u')" "ts_linked k u u'" by blast
  with None t show ?thesis
    by (simp add: noise_write_message_def noise_read_message_def noise_linked_def snow_result_def)
qed

lemma cipher_transfer:
  assumes "ciphers_linked hs_linked ts_linked pk pk' (Suc k) a b" and "sendable p"
  shows "\<exists>c a' b'. encrypt ops (Some pk') p a = (Inr c, a') \<and> decrypt_from ops pk c b = (Inr p, b') \<and>
    ciphers_linked hs_linked ts_linked pk pk' k a' b'"
proof -
  from assms(1) obtain n n' where n: "fmlookup (ci_send_noise_map a) pk' = Some n"
    "fmlookup (ci_recv_noise_map b) pk = Some n'" "noise_linked hs_linked ts_linked (Suc k) n n'"
    by (auto simp: ciphers_linked_def)
  from noise_transfer[OF n(3), of p MAX_MSG_SIZE] assms(2) obtain c m m' where
    "noise_write_message ops p MAX_MSG_SIZE n = (Inr c, m)"
    "noise_read_message ops c MAX_MSG_SIZE n' = (Inr p, m')" "noise_linked hs_linked ts_linked k m m'"
    by (auto simp: sendable_def MAX_MSG_SIZE_def)
  with n show ?thesis
    by (auto simp: encrypt_def decrypt_from_def decrypt_def ciphers_linked_def)
qed

end

sublocale snow \<subseteq> channel: secure_channel "encrypt ops (Some pk')" "decrypt_from ops pk"
    "ciphers_linked hs_linked ts_linked pk pk'" sendable for pk pk'
  by unfold_locales (rule cipher_transfer)

end
