(* ===== verification/Cipher_Props.thy ===== *)
theory Cipher_Props
  imports Cipher
begin

text \<open>
  What the cipher promises: whole conversations decrypt, what is encrypted fits the server's
  limit, and which calls fail. The laws of \<open>snow\<close> are shown consistent on an instance
  without secrecy.
\<close>

section \<open>Building\<close>

lemma cipher_build_keep:
  "cipher_build ops sk pks c = Inr c' \<Longrightarrow> pk \<notin> set pks \<Longrightarrow>
     fmlookup (ci_send_noise_map c') pk = fmlookup (ci_send_noise_map c) pk \<and>
     fmlookup (ci_recv_noise_map c') pk = fmlookup (ci_recv_noise_map c) pk"
  by (induction pks arbitrary: c) (auto split: option.splits)

lemma cipher_build_lookup:
  "cipher_build ops sk pks c = Inr c' \<Longrightarrow> pk \<in> set pks \<Longrightarrow>
     \<exists>i r. build_initiator ops (sk_bytes sk) (pk_bytes pk) = Some i \<and>
       build_responder ops (sk_bytes sk) (pk_bytes pk) = Some r \<and>
       fmlookup (ci_send_noise_map c') pk = Some (noise_new i) \<and>
       fmlookup (ci_recv_noise_map c') pk = Some (noise_new r)"
proof (induction pks arbitrary: c)
  case (Cons pk0 pks)
  then obtain i r where b: "build_initiator ops (sk_bytes sk) (pk_bytes pk0) = Some i"
    "build_responder ops (sk_bytes sk) (pk_bytes pk0) = Some r" and
    c': "cipher_build ops sk pks \<lparr>ci_send_noise_map = fmupd pk0 (noise_new i) (ci_send_noise_map c),
      ci_recv_noise_map = fmupd pk0 (noise_new r) (ci_recv_noise_map c)\<rparr> = Inr c'"
    by (auto split: option.splits)
  show ?case
  proof (cases "pk \<in> set pks")
    case True
    with Cons.IH[OF c'] show ?thesis by blast
  next
    case False
    with Cons.prems(2) cipher_build_keep[OF c' False] b show ?thesis by auto
  qed
qed simp

lemma decrypt_from_all:
  "map_io (decrypt_from ops pk) cs b = (Inr ps, b') \<Longrightarrow>
   map_io (\<lambda>c. decrypt ops \<lparr>sender = pk, msg = c\<rparr>) cs b = (Inr (map (\<lambda>p. \<lparr>sender = pk, msg = p\<rparr>) ps), b')"
proof (induction cs arbitrary: b ps)
  case Nil
  then show ?case by auto
next
  case (Cons c cs)
  then obtain p b1 ps1 where 1: "decrypt_from ops pk c b = (Inr p, b1)"
    "map_io (decrypt_from ops pk) cs b1 = (Inr ps1, b')" "ps = p # ps1"
    by (auto simp: try_io_eq_Inr)
  from 1(1) have "decrypt ops \<lparr>sender = pk, msg = c\<rparr> b = (Inr \<lparr>sender = pk, msg = p\<rparr>, b1)"
    by (auto simp: decrypt_from_def decrypt_def split: option.splits prod.splits)
  with Cons.IH[OF 1(2)] 1(3) show ?case by (simp add: try_io_def)
qed

context snow
begin

lemma conversation:
  assumes "key_pair (sk_bytes ska) (pk_bytes pka)" and "key_pair (sk_bytes skb) (pk_bytes pkb)"
    and "cipher_new ops ska peers_a = Inr a" and "pkb \<in> set peers_a"
    and "cipher_new ops skb peers_b = Inr b" and "pka \<in> set peers_b"
    and "list_all sendable ps" and "length ps \<le> 2 ^ 64"
  shows "\<exists>cs a' b'. map_io (encrypt ops (Some pkb)) ps a = (Inr cs, a') \<and>
    map_io (\<lambda>c. decrypt ops \<lparr>sender = pka, msg = c\<rparr>) cs b = (Inr (map (\<lambda>p. \<lparr>sender = pka, msg = p\<rparr>) ps), b')"
proof -
  from cipher_build_lookup[OF assms(3)[unfolded cipher_new_def] assms(4)] obtain i where
    i: "build_initiator ops (sk_bytes ska) (pk_bytes pkb) = Some i"
      "fmlookup (ci_send_noise_map a) pkb = Some (noise_new i)" by blast
  from cipher_build_lookup[OF assms(5)[unfolded cipher_new_def] assms(6)] obtain r where
    r: "build_responder ops (sk_bytes skb) (pk_bytes pka) = Some r"
      "fmlookup (ci_recv_noise_map b) pka = Some (noise_new r)" by blast
  have "hs_linked i r" using build_ok[OF assms(1,2)] i(1) r(1) by auto
  then have "ciphers_linked hs_linked ts_linked pka pkb (length ps + 0) a b"
    using i r assms(8) by (auto simp: ciphers_linked_def noise_linked_def noise_new_def)
  from channel.transfer_all[OF this assms(7)] show ?thesis using decrypt_from_all by blast
qed

lemma encrypt_fits:
  assumes "encrypt ops recipient p a = (Inr c, a')"
  shows "length c \<le> MAX_MSG_SIZE"
  using assms
  by (auto simp: encrypt_def noise_write_message_def snow_result_def Let_def
      split: option.splits prod.splits if_splits dest: hs_fits ts_fits)

end

section \<open>Consistency of the laws\<close>

text \<open>
  A transport state is the number of nonces left; messages are padded by as many zero bytes as
  Noise adds.
\<close>

definition plain_snow :: "(bool, nat) snow_ops" where
  "plain_snow = \<lparr>
     build_initiator = (\<lambda>sk pk. Some False),
     build_responder = (\<lambda>sk pk. Some False),
     hs_write = (\<lambda>p buf h. if length p + 48 \<le> buf then (Some (replicate 48 0 @ p), True) else (None, h)),
     hs_read = (\<lambda>c buf h. if 48 \<le> length c then (Some (drop 48 c), True) else (None, h)),
     hs_finished = (\<lambda>h. h),
     into_transport_mode = (\<lambda>h. if h then Some (2 ^ 64 - 1) else None),
     ts_write = (\<lambda>p buf t. if length p + 16 \<le> buf \<and> 0 < t then (Some (replicate 16 0 @ p), t - 1) else (None, t)),
     ts_read = (\<lambda>c buf t. if 16 \<le> length c \<and> 0 < t then (Some (drop 16 c), t - 1) else (None, t))\<rparr>"

interpretation plain: snow plain_snow "(=)" "\<lambda>i r. \<not> i \<and> \<not> r" "\<lambda>n t t'. n \<le> t \<and> n \<le> t'"
  by unfold_locales (auto simp: plain_snow_def split: if_splits)

section \<open>Properties\<close>

text \<open>
  C7: Two clients whose ciphers were created with their own private key and each other's public
  key can hold a conversation: every message of up to 65487 bytes that Alice encrypts for Bob
  encrypts, and Bob, decrypting the ciphertexts in the order sent, gets exactly the messages with
  Alice as the sender, for up to \<open>2 ^ 64\<close> messages.
\<close>

theorem cipher_conversation:
  assumes "snow ops key_pair hs_linked ts_linked"
    and "key_pair (sk_bytes ska) (pk_bytes pka)" and "key_pair (sk_bytes skb) (pk_bytes pkb)"
    and "cipher_new ops ska peers_a = Inr a" and "pkb \<in> set peers_a"
    and "cipher_new ops skb peers_b = Inr b" and "pka \<in> set peers_b"
    and "list_all (\<lambda>p. length p \<le> 65487) ps" and "length ps \<le> 2 ^ 64"
  shows "\<exists>cs a' b'. map_io (encrypt ops (Some pkb)) ps a = (Inr cs, a') \<and>
    map_io (\<lambda>c. decrypt ops \<lparr>sender = pka, msg = c\<rparr>) cs b = (Inr (map (\<lambda>p. \<lparr>sender = pka, msg = p\<rparr>) ps), b')"
proof -
  have "list_all sendable ps" using assms(8) by (simp add: sendable_def[abs_def] MAX_MSG_SIZE_def list_all_iff)
  from snow.conversation[OF assms(1-7) this assms(9)] show ?thesis .
qed

text \<open>
  C40: Encryption and decryption fail as documented: an unknown recipient or sender is an error
  that leaves the cipher as it was; without a recipient, \<open>encrypt\<close> uses the only peer and panics
  exactly when there is not exactly one; and a message that encrypts never exceeds the server's
  \<open>MAX_MSG_SIZE\<close>.
\<close>

theorem cipher_errors:
  assumes "snow ops key_pair hs_linked ts_linked"
  shows "(fmlookup (ci_send_noise_map c) r = None \<longrightarrow> encrypt ops (Some r) m c = (Inl Unknown_Recipient, c)) \<and>
    (fmlookup (ci_recv_noise_map c) (sender d) = None \<longrightarrow> decrypt ops d c = (Inl Unknown_Sender, c)) \<and>
    (fmdom (ci_send_noise_map c) = {|r|} \<longrightarrow> encrypt ops None m c = encrypt ops (Some r) m c) \<and>
    (fmsize (ci_send_noise_map c) \<noteq> 1 \<longrightarrow> (\<exists>s. encrypt ops None m c = (Inl (Panic s), c))) \<and>
    (\<forall>x c'. encrypt ops recipient m c = (Inr x, c') \<longrightarrow> length x \<le> 65535)"
proof (intro conjI impI allI)
  assume "fmdom (ci_send_noise_map c) = {|r|}"
  then have "single_key (ci_send_noise_map c) = Some r"
    by (simp add: single_key_def fmsize_card)
  then show "encrypt ops None m c = encrypt ops (Some r) m c" by (simp add: encrypt_def)
next
  fix x c' assume "encrypt ops recipient m c = (Inr x, c')"
  then show "length x \<le> 65535" using snow.encrypt_fits[OF assms] by (simp add: MAX_MSG_SIZE_def)
qed (auto simp: encrypt_def decrypt_def single_key_def)

section \<open>Witnesses\<close>

lemma plain_cipher:
  "cipher_new plain_snow sk [pk] = Inr \<lparr>ci_send_noise_map = fmupd pk (noise_new False) fmempty,
     ci_recv_noise_map = fmupd pk (noise_new False) fmempty\<rparr>"
  by (simp add: cipher_new_def plain_snow_def)

theorem cipher_conversation_witness:
  "\<exists>cs a' b'. map_io (encrypt plain_snow (Some (PublicKey [2]))) [[5], [6, 7]]
      \<lparr>ci_send_noise_map = fmupd (PublicKey [2]) (noise_new False) fmempty,
       ci_recv_noise_map = fmupd (PublicKey [2]) (noise_new False) fmempty\<rparr> = (Inr cs, a') \<and>
    map_io (\<lambda>c. decrypt plain_snow \<lparr>sender = PublicKey [1], msg = c\<rparr>) cs
      \<lparr>ci_send_noise_map = fmupd (PublicKey [1]) (noise_new False) fmempty,
       ci_recv_noise_map = fmupd (PublicKey [1]) (noise_new False) fmempty\<rparr> =
      (Inr (map (\<lambda>p. \<lparr>sender = PublicKey [1], msg = p\<rparr>) [[5], [6, 7]]), b')"
  by (rule cipher_conversation[OF plain.snow_axioms, where ska = "PrivateKey [1]" and skb = "PrivateKey [2]"
        and peers_a = "[PublicKey [2]]" and peers_b = "[PublicKey [1]]"])
    (simp_all add: plain_cipher)

theorem cipher_errors_witness:
  "\<exists>s. encrypt plain_snow None [] \<lparr>ci_send_noise_map = fmempty, ci_recv_noise_map = fmempty\<rparr> =
     (Inl (Panic s), \<lparr>ci_send_noise_map = fmempty, ci_recv_noise_map = fmempty\<rparr>)"
  using cipher_errors[OF plain.snow_axioms, of "\<lparr>ci_send_noise_map = fmempty, ci_recv_noise_map = fmempty\<rparr>"]
  by auto

end
