(* ===== verification/Delay_Map.thy ===== *)
theory Delay_Map
  imports Prelude
begin

text \<open>
  The containers with timeouts that the server keeps its state in: \<open>HashMapDelay\<close> and
  \<open>HashSetDelay\<close> of the crate \<open>delay_map\<close> (a set is a map to \<open>unit\<close>). The crate is not part of the
  repository, so its operations are the fields of a record the server model takes as a parameter,
  and what the server relies on is the locale \<open>delay_map\<close>, with the deadlines in \<open>timed_delay_map\<close>.
  Time is in seconds and is an argument of the operations that read the clock.
  \<open>d_set\<close> is a write through the reference that \<open>get_mut\<close> returns; \<open>d_next\<close> is one poll of the
  stream of expired entries.
\<close>

section \<open>Operations\<close>

record ('m, 'k, 'v) delay_ops =
  d_new :: "nat \<Rightarrow> 'm"
  d_get :: "'k \<Rightarrow> 'm \<Rightarrow> 'v option"
  d_insert :: "nat \<Rightarrow> 'k \<Rightarrow> 'v \<Rightarrow> 'm \<Rightarrow> 'm"
  d_set :: "'k \<Rightarrow> 'v \<Rightarrow> 'm \<Rightarrow> 'm"
  d_remove :: "'k \<Rightarrow> 'm \<Rightarrow> 'v option \<times> 'm"
  d_update_timeout :: "nat \<Rightarrow> 'k \<Rightarrow> nat \<Rightarrow> 'm \<Rightarrow> 'm"
  d_next :: "nat \<Rightarrow> 'm \<Rightarrow> ('k \<times> 'v) option \<times> 'm"

section \<open>Documented behaviour\<close>

locale delay_map =
  fixes ops :: "('m, 'k, 'v) delay_ops"
  assumes get_new: "d_get ops k (d_new ops t) = None"
    and get_insert: "d_get ops k (d_insert ops now k' v m) = (if k = k' then Some v else d_get ops k m)"
    and get_set: "d_get ops k (d_set ops k' v m) =
      (if k = k' \<and> d_get ops k m \<noteq> None then Some v else d_get ops k m)"
    and remove_val: "fst (d_remove ops k m) = d_get ops k m"
    and get_remove: "d_get ops k (snd (d_remove ops k' m)) = (if k = k' then None else d_get ops k m)"
    and get_update: "d_get ops k (d_update_timeout ops now k' t m) = d_get ops k m"
    and next_Some: "d_next ops now m = (Some (k, v), m') \<Longrightarrow> d_get ops k m = Some v"
    and get_next: "d_next ops now m = (r, m') \<Longrightarrow>
      d_get ops k' m' = (if r \<noteq> None \<and> fst (the r) = k' then None else d_get ops k' m)"
begin

lemmas get_simps = get_new get_insert get_set remove_val get_remove get_update

lemma next_None: "d_next ops now m = (None, m') \<Longrightarrow> d_get ops k m' = d_get ops k m"
  using get_next[of now m None m' k] by simp

lemma next_sub: "d_next ops now m = (r, m') \<Longrightarrow> d_get ops k m' = Some v \<Longrightarrow> d_get ops k m = Some v"
  using get_next[of now m r m' k] by (auto split: if_splits)

lemma next_removed: "d_next ops now m = (Some (k, v), m') \<Longrightarrow> d_get ops k m' = None"
  using get_next[of now m "Some (k, v)" m' k] by simp

end

text \<open>The deadlines of the entries of a map.\<close>

definition deadlines :: "('m, 'k, 'v) delay_ops \<Rightarrow> ('k \<Rightarrow> 'm \<Rightarrow> nat) \<Rightarrow> 'm \<Rightarrow> 'k \<Rightarrow> nat option" where
  "deadlines ops deadline m k = map_option (\<lambda>v. deadline k m) (d_get ops k m)"

text \<open>
  With deadlines: an insertion expires after the timeout the map was created with, a write
  through a reference keeps the deadline, \<open>update_timeout\<close> moves it. An entry is yielded only when
  its deadline has passed, and while one has passed the stream yields one.
\<close>

locale timed_delay_map = delay_map ops
  for ops :: "('m, 'k, 'v) delay_ops" +
  fixes timeout :: "'m \<Rightarrow> nat"
    and deadline :: "'k \<Rightarrow> 'm \<Rightarrow> nat"
  assumes timeout_new: "timeout (d_new ops t) = t"
    and timeout_keep: "timeout (d_insert ops now k v m) = timeout m"
      "timeout (d_set ops k v m) = timeout m"
      "timeout (snd (d_remove ops k m)) = timeout m"
      "timeout (d_update_timeout ops now k t m) = timeout m"
      "timeout (snd (d_next ops now m)) = timeout m"
    and deadline_insert: "deadline k (d_insert ops now k' v m) =
      (if k = k' then now + timeout m else deadline k m)"
    and deadline_set: "deadline k (d_set ops k' v m) = deadline k m"
    and deadline_remove: "d_get ops k m' \<noteq> None \<Longrightarrow> m' = snd (d_remove ops k' m) \<Longrightarrow>
      deadline k m' = deadline k m"
    and deadline_update: "d_get ops k m \<noteq> None \<Longrightarrow> deadline k (d_update_timeout ops now k' t m) =
      (if k = k' then now + t else deadline k m)"
    and deadline_next: "d_next ops now m = (r, m') \<Longrightarrow> d_get ops k m' \<noteq> None \<Longrightarrow>
      deadline k m' = deadline k m"
    and next_expired: "d_next ops now m = (Some (k, v), m') \<Longrightarrow> deadline k m \<le> now"
    and next_live: "d_get ops k m \<noteq> None \<Longrightarrow> deadline k m \<le> now \<Longrightarrow> fst (d_next ops now m) \<noteq> None"
begin

lemma not_expired_kept:
  assumes "d_next ops now m = (r, m')" and "d_get ops k m = Some v" and "now < deadline k m"
  shows "d_get ops k m' = Some v"
proof (cases r)
  case None
  with assms show ?thesis using next_None by simp
next
  case (Some kv)
  obtain k1 v1 where "kv = (k1, v1)" by fastforce
  with Some assms next_expired[of now m k1 v1 m'] have "k1 \<noteq> k" by auto
  with assms Some \<open>kv = (k1, v1)\<close> show ?thesis using get_next[of now m r m' k] by simp
qed

lemma deadlines_new: "deadlines ops deadline (d_new ops t) = (\<lambda>_. None)"
  by (simp add: deadlines_def fun_eq_iff get_new)

lemma deadlines_insert:
  "deadlines ops deadline (d_insert ops now k v m) = (deadlines ops deadline m)(k \<mapsto> now + timeout m)"
  by (simp add: deadlines_def fun_eq_iff get_insert deadline_insert)

lemma deadlines_set: "deadlines ops deadline (d_set ops k v m) = deadlines ops deadline m"
proof
  fix k'
  show "deadlines ops deadline (d_set ops k v m) k' = deadlines ops deadline m k'"
    by (cases "d_get ops k' m") (auto simp: deadlines_def get_set deadline_set)
qed

lemma deadlines_update:
  assumes "d_get ops k m \<noteq> None"
  shows "deadlines ops deadline (d_update_timeout ops now k t m) = (deadlines ops deadline m)(k \<mapsto> now + t)"
proof
  fix k'
  show "deadlines ops deadline (d_update_timeout ops now k t m) k' =
      ((deadlines ops deadline m)(k \<mapsto> now + t)) k'"
    using assms deadline_update[of k' m now k t]
    by (cases "d_get ops k' m") (auto simp: deadlines_def get_update)
qed

lemma deadlines_remove:
  "deadlines ops deadline (snd (d_remove ops k m)) = (deadlines ops deadline m)(k := None)"
proof
  fix k'
  show "deadlines ops deadline (snd (d_remove ops k m)) k' = ((deadlines ops deadline m)(k := None)) k'"
    using deadline_remove[OF _ refl, of k' k m]
    by (cases "d_get ops k' m") (auto simp: deadlines_def get_remove)
qed

lemma deadlines_next:
  assumes "d_next ops now m = (r, m')"
  shows "deadlines ops deadline m' = (case r of None \<Rightarrow> deadlines ops deadline m
    | Some (k, v) \<Rightarrow> (deadlines ops deadline m)(k := None))"
proof
  fix k'
  show "deadlines ops deadline m' k' = (case r of None \<Rightarrow> deadlines ops deadline m
    | Some (k, v) \<Rightarrow> (deadlines ops deadline m)(k := None)) k'"
    using get_next[OF assms, of k'] deadline_next[OF assms, of k']
    by (cases "d_get ops k' m") (auto simp: deadlines_def split: option.splits if_splits)
qed

end

section \<open>A lawful implementation\<close>

text \<open>
  The laws hold of a finite map with a deadline per entry that yields the expired entry of the
  least deadline and key first.
\<close>

type_synonym ('k, 'v) timed_map = "nat \<times> ('k, 'v \<times> nat) fmap"

definition due :: "nat \<Rightarrow> ('k, 'v \<times> nat) fmap \<Rightarrow> 'k fset" where
  "due now m = ffilter (\<lambda>k. case fmlookup m k of None \<Rightarrow> False | Some (v, t) \<Rightarrow> t \<le> now) (fmdom m)"

definition timed_map_next ::
    "nat \<Rightarrow> ('k::linorder, 'v) timed_map \<Rightarrow> ('k \<times> 'v) option \<times> ('k, 'v) timed_map" where
  "timed_map_next now tm = (case sorted_list_of_fset (due now (snd tm)) of
     [] \<Rightarrow> (None, tm)
   | k # _ \<Rightarrow> (map_option (\<lambda>(v, t). (k, v)) (fmlookup (snd tm) k), (fst tm, fmdrop k (snd tm))))"

definition timed_map_ops :: "(('k::linorder, 'v) timed_map, 'k, 'v) delay_ops" where
  "timed_map_ops = \<lparr>
     d_new = (\<lambda>t. (t, fmempty)),
     d_get = (\<lambda>k tm. map_option fst (fmlookup (snd tm) k)),
     d_insert = (\<lambda>now k v tm. (fst tm, fmupd k (v, now + fst tm) (snd tm))),
     d_set = (\<lambda>k v tm. (case fmlookup (snd tm) k of
        None \<Rightarrow> tm | Some (_, t) \<Rightarrow> (fst tm, fmupd k (v, t) (snd tm)))),
     d_remove = (\<lambda>k tm. (map_option fst (fmlookup (snd tm) k), (fst tm, fmdrop k (snd tm)))),
     d_update_timeout = (\<lambda>now k d tm. (case fmlookup (snd tm) k of
        None \<Rightarrow> tm | Some (v, _) \<Rightarrow> (fst tm, fmupd k (v, now + d) (snd tm)))),
     d_next = timed_map_next\<rparr>"

definition timed_map_deadline :: "'k \<Rightarrow> ('k, 'v) timed_map \<Rightarrow> nat" where
  "timed_map_deadline k tm = (case fmlookup (snd tm) k of None \<Rightarrow> 0 | Some (v, t) \<Rightarrow> t)"

lemma due_iff: "k |\<in>| due now m \<longleftrightarrow> (\<exists>v t. fmlookup m k = Some (v, t) \<and> t \<le> now)"
  by (auto simp: due_def fmdom_fmlookup split: option.splits)

lemma timed_map_next_cases:
  assumes "timed_map_next now tm = (r, tm')"
  obtains "r = None" "tm' = tm" "due now (snd tm) = {||}"
    | k v t where "r = Some (k, v)" "fmlookup (snd tm) k = Some (v, t)" "t \<le> now"
        "tm' = (fst tm, fmdrop k (snd tm))"
proof (cases "sorted_list_of_fset (due now (snd tm))")
  case Nil
  then have "due now (snd tm) = {||}"
    by (metis fset_of_list_simps(1) sorted_list_of_fset_simps(2))
  with Nil assms show ?thesis by (intro that(1)) (auto simp: timed_map_next_def)
next
  case (Cons k ks)
  then have "k |\<in>| due now (snd tm)"
    by (metis list.set_intros(1) sorted_list_of_fset_simps(1))
  then obtain v t where "fmlookup (snd tm) k = Some (v, t)" "t \<le> now" by (auto simp: due_iff)
  with Cons assms show ?thesis by (intro that(2)[of k v t]) (auto simp: timed_map_next_def)
qed

interpretation timed_map: timed_delay_map timed_map_ops fst timed_map_deadline
proof unfold_locales
  fix now m k v m'
  assume "d_next timed_map_ops now m = (Some (k, v), m')"
  then have n: "timed_map_next now m = (Some (k, v), m')" by (simp add: timed_map_ops_def)
  from n show "d_get timed_map_ops k m = Some v"
    by (rule timed_map_next_cases) (auto simp: timed_map_ops_def)
  from n show "timed_map_deadline k m \<le> now"
    by (rule timed_map_next_cases) (auto simp: timed_map_deadline_def)
next
  fix now m r m' k
  assume "d_next timed_map_ops now m = (r, m')"
  then have n: "timed_map_next now m = (r, m')" by (simp add: timed_map_ops_def)
  from n show "d_get timed_map_ops k m' =
      (if r \<noteq> None \<and> fst (the r) = k then None else d_get timed_map_ops k m)"
    by (rule timed_map_next_cases) (auto simp: timed_map_ops_def)
  assume "d_get timed_map_ops k m' \<noteq> None"
  with n show "timed_map_deadline k m' = timed_map_deadline k m"
    by (elim timed_map_next_cases) (auto simp: timed_map_deadline_def timed_map_ops_def split: if_splits)
next
  fix now k m
  assume "d_get timed_map_ops k m \<noteq> None" and "timed_map_deadline k m \<le> now"
  then have "k |\<in>| due now (snd m)"
    by (auto simp: due_iff timed_map_ops_def timed_map_deadline_def)
  moreover obtain r m' where n: "timed_map_next now m = (r, m')"
    by (cases "timed_map_next now m")
  ultimately have "r \<noteq> None" by (elim timed_map_next_cases) auto
  with n show "fst (d_next timed_map_ops now m) \<noteq> None" by (simp add: timed_map_ops_def)
next
  fix now m
  show "fst (snd (d_next timed_map_ops now m)) = fst m"
    by (cases "timed_map_next now m") (auto simp: timed_map_ops_def elim: timed_map_next_cases)
qed (auto simp: timed_map_ops_def timed_map_deadline_def split: option.splits)

end
