(* ===== verification/Server.thy ===== *)
theory Server
  imports Api Delay_Map
begin

text \<open>
  The server \<open>frostd\<close>: its state (\<open>state.rs\<close>), the extraction of the authenticated user
  (\<open>user.rs\<close>), the handlers of the nine endpoints (\<open>functions.rs\<close>), the router (\<open>lib.rs\<close>) and the
  three background tasks that remove what has timed out.

  Parameters (the record \<open>server_env\<close>): the operations of the delay maps, signature verification
  of the crate \<open>xeddsa\<close>, \<open>Uuid::from_str\<close>, and the iteration order of a \<open>HashSet\<close>. The clock
  reading and the result of \<open>Uuid::new_v4\<close> of a request are arguments of the handlers.
\<close>

section \<open>State\<close>

datatype session_participant = Coordinator | Participant public_key

record session =
  se_pubkeys :: "public_key list"
  se_coordinator_pubkey :: public_key
  se_message_count :: "8 word"
  se_queue :: "(session_participant, api_msg list) fmap"

record ('sm, 'cs, 'tm) app_state =
  as_sessions :: 'sm
  as_sessions_by_pubkey :: "(public_key, uuid fset) fmap"
  as_challenges :: 'cs
  as_access_tokens :: 'tm

record ('sm, 'cs, 'tm) server_env =
  ses_ops :: "('sm, uuid, session) delay_ops"
  cha_ops :: "('cs, uuid, unit) delay_ops"
  tok_ops :: "('tm, uuid, public_key) delay_ops"
  verify :: "bytes \<Rightarrow> uuid \<Rightarrow> bytes \<Rightarrow> bool"
  parse_uuid :: "string \<Rightarrow> uuid option"
  set_order :: "uuid set \<Rightarrow> uuid list"

definition SESSION_TIMEOUT :: nat where "SESSION_TIMEOUT = 60 * 60 * 24"
definition CHALLENGE_TIMEOUT :: nat where "CHALLENGE_TIMEOUT = 10"
definition ACCESS_TOKEN_TIMEOUT :: nat where "ACCESS_TOKEN_TIMEOUT = 60 * 60"

definition app_state_new :: "('sm, 'cs, 'tm) server_env \<Rightarrow> ('sm, 'cs, 'tm) app_state" where
  "app_state_new env = \<lparr>
     as_sessions = d_new (ses_ops env) SESSION_TIMEOUT,
     as_sessions_by_pubkey = fmempty,
     as_challenges = d_new (cha_ops env) CHALLENGE_TIMEOUT,
     as_access_tokens = d_new (tok_ops env) ACCESS_TOKEN_TIMEOUT\<rparr>"

text \<open>\<open>entry(..).or_default().insert(id)\<close> and \<open>if let Some(v) = get_mut(..) { v.remove(&id) }\<close>.\<close>

definition index_insert ::
    "uuid \<Rightarrow> public_key \<Rightarrow> (public_key, uuid fset) fmap \<Rightarrow> (public_key, uuid fset) fmap" where
  "index_insert sid pubkey idx =
     fmupd pubkey (finsert sid (case fmlookup idx pubkey of None \<Rightarrow> {||} | Some s \<Rightarrow> s)) idx"

definition index_remove ::
    "uuid \<Rightarrow> public_key \<Rightarrow> (public_key, uuid fset) fmap \<Rightarrow> (public_key, uuid fset) fmap" where
  "index_remove sid pubkey idx =
     (case fmlookup idx pubkey of None \<Rightarrow> idx | Some s \<Rightarrow> fmupd pubkey (s |-| {|sid|}) idx)"

section \<open>The authenticated user\<close>

record user =
  us_pubkey :: public_key
  us_current_token :: uuid

text \<open>\<open>auth\<close> is the token of the bearer authorization header, when there is one.\<close>

definition user_from_request ::
    "('sm, 'cs, 'tm) server_env \<Rightarrow> string option \<Rightarrow> ('sm, 'cs, 'tm) app_state \<Rightarrow> api_error + user" where
  "user_from_request env auth st =
     tryr (ok_or auth Unauthorized) (\<lambda>bearer.
     tryr (ok_or (parse_uuid env bearer) Unauthorized) (\<lambda>access_token.
     case d_get (tok_ops env) access_token (as_access_tokens st) of
       Some pubkey \<Rightarrow> Inr \<lparr>us_pubkey = pubkey, us_current_token = access_token\<rparr>
     | None \<Rightarrow> Inl Unauthorized))"

section \<open>Handlers\<close>

definition challenge ::
    "('sm, 'cs, 'tm) server_env \<Rightarrow> nat \<Rightarrow> uuid \<Rightarrow>
     (('sm, 'cs, 'tm) app_state, api_error, challenge_output) io" where
  "challenge env now fresh st =
     (Inr \<lparr>co_challenge = fresh\<rparr>,
      st\<lparr>as_challenges := d_insert (cha_ops env) now fresh () (as_challenges st)\<rparr>)"

definition login ::
    "('sm, 'cs, 'tm) server_env \<Rightarrow> nat \<Rightarrow> uuid \<Rightarrow> login_args \<Rightarrow>
     (('sm, 'cs, 'tm) app_state, api_error, login_output) io" where
  "login env now fresh args st =
     (if la_signature args = [] \<or> pk_bytes (la_pubkey args) = []
      then (Inl (InvalidArgument ''signature or pubkey''), st)
      else if length (pk_bytes (la_pubkey args)) \<noteq> 32 then (Inl (InvalidArgument ''pubkey''), st)
      else if length (la_signature args) \<noteq> 64 then (Inl (InvalidArgument ''signature''), st)
      else if \<not> verify env (pk_bytes (la_pubkey args)) (la_challenge args) (la_signature args)
      then (Inl Unauthorized, st)
      else
        let (removed, challenges) = d_remove (cha_ops env) (la_challenge args) (as_challenges st);
            st = st\<lparr>as_challenges := challenges\<rparr>
        in if removed = None then (Inl Unauthorized, st)
           else (Inr \<lparr>lo_access_token = fresh\<rparr>,
                 st\<lparr>as_access_tokens :=
                   d_insert (tok_ops env) now fresh (la_pubkey args) (as_access_tokens st)\<rparr>))"

definition logout ::
    "('sm, 'cs, 'tm) server_env \<Rightarrow> user \<Rightarrow> (('sm, 'cs, 'tm) app_state, api_error, unit) io" where
  "logout env user st =
     (Inr (), st\<lparr>as_access_tokens :=
        snd (d_remove (tok_ops env) (us_current_token user) (as_access_tokens st))\<rparr>)"

definition create_new_session ::
    "('sm, 'cs, 'tm) server_env \<Rightarrow> nat \<Rightarrow> uuid \<Rightarrow> user \<Rightarrow> create_new_session_args \<Rightarrow>
     (('sm, 'cs, 'tm) app_state, api_error, create_new_session_output) io" where
  "create_new_session env now fresh user args st =
     (if cn_message_count args = 0 then (Inl (InvalidArgument ''message_count''), st)
      else
        let idx = fold (index_insert fresh) (cn_pubkeys args) (as_sessions_by_pubkey st);
            idx = index_insert fresh (us_pubkey user) idx;
            session = \<lparr>se_pubkeys = cn_pubkeys args, se_coordinator_pubkey = us_pubkey user,
              se_message_count = cn_message_count args, se_queue = fmempty\<rparr>
        in (Inr \<lparr>cn_session_id = fresh\<rparr>,
            st\<lparr>as_sessions_by_pubkey := idx,
               as_sessions := d_insert (ses_ops env) now fresh session (as_sessions st)\<rparr>))"

definition list_sessions ::
    "('sm, 'cs, 'tm) server_env \<Rightarrow> user \<Rightarrow>
     (('sm, 'cs, 'tm) app_state, api_error, list_sessions_output) io" where
  "list_sessions env user st =
     (Inr \<lparr>ls_session_ids = (case fmlookup (as_sessions_by_pubkey st) (us_pubkey user) of
         None \<Rightarrow> [] | Some s \<Rightarrow> set_order env (fset s))\<rparr>, st)"

text \<open>The check that opens \<open>get_session_info\<close> and \<open>close_session\<close>: the session is in the user's list.\<close>

definition lookup_own_session ::
    "('sm, 'cs, 'tm) server_env \<Rightarrow> user \<Rightarrow> uuid \<Rightarrow> ('sm, 'cs, 'tm) app_state \<Rightarrow> api_error + session" where
  "lookup_own_session env user session_id st =
     tryr (ok_or (fmlookup (as_sessions_by_pubkey st) (us_pubkey user)) SessionNotFound) (\<lambda>user_sessions.
     if session_id |\<notin>| user_sessions then Inl SessionNotFound
     else ok_or (d_get (ses_ops env) session_id (as_sessions st)) SessionNotFound)"

definition get_session_info ::
    "('sm, 'cs, 'tm) server_env \<Rightarrow> user \<Rightarrow> get_session_info_args \<Rightarrow>
     (('sm, 'cs, 'tm) app_state, api_error, get_session_info_output) io" where
  "get_session_info env user args st =
     (tryr (lookup_own_session env user (gi_session_id args) st) (\<lambda>session.
        Inr \<lparr>gi_message_count = se_message_count session, gi_pubkeys = se_pubkeys session,
          gi_coordinator_pubkey = se_coordinator_pubkey session\<rparr>), st)"

definition recipients_of :: "send_args \<Rightarrow> session_participant list" where
  "recipients_of args =
     (if sa_recipients args = [] then [Coordinator] else map Participant (sa_recipients args))"

definition queue_of :: "session \<Rightarrow> session_participant \<Rightarrow> api_msg list" where
  "queue_of session p = (case fmlookup (se_queue session) p of None \<Rightarrow> [] | Some q \<Rightarrow> q)"

definition push_back :: "api_msg \<Rightarrow> session_participant \<Rightarrow> session \<Rightarrow> session" where
  "push_back m p session = session\<lparr>se_queue := fmupd p (queue_of session p @ [m]) (se_queue session)\<rparr>"

definition in_session :: "user \<Rightarrow> session \<Rightarrow> bool" where
  "in_session user session \<longleftrightarrow>
     us_pubkey user \<in> set (se_pubkeys session) \<or> se_coordinator_pubkey session = us_pubkey user"

fun unknown_recipient :: "session \<Rightarrow> session_participant \<Rightarrow> bool" where
  "unknown_recipient session Coordinator = False"
| "unknown_recipient session (Participant pubkey) = (pubkey \<notin> set (se_pubkeys session))"

definition send ::
    "('sm, 'cs, 'tm) server_env \<Rightarrow> nat \<Rightarrow> user \<Rightarrow> send_args \<Rightarrow>
     (('sm, 'cs, 'tm) app_state, api_error, unit) io" where
  "send env now user args st =
     (if length (sa_msg args) > MAX_MSG_SIZE then (Inl (InvalidArgument ''msg is too big''), st)
      else case d_get (ses_ops env) (sa_session_id args) (as_sessions st) of
        None \<Rightarrow> (Inl SessionNotFound, st)
      | Some session \<Rightarrow>
          if \<not> in_session user session \<or> list_ex (unknown_recipient session) (recipients_of args)
          then (Inl NotInSession, st)
          else
            let session = fold (push_back \<lparr>sender = us_pubkey user, msg = sa_msg args\<rparr>)
                  (recipients_of args) session;
                sessions = d_set (ses_ops env) (sa_session_id args) session (as_sessions st)
            in (Inr (), st\<lparr>as_sessions :=
                  d_update_timeout (ses_ops env) now (sa_session_id args) SESSION_TIMEOUT sessions\<rparr>))"

definition participant_of :: "public_key \<Rightarrow> public_key \<Rightarrow> bool \<Rightarrow> session_participant" where
  "participant_of coordinator pubkey as_coordinator =
     (if pubkey = coordinator \<and> as_coordinator then Coordinator else Participant pubkey)"

definition receive ::
    "('sm, 'cs, 'tm) server_env \<Rightarrow> nat \<Rightarrow> user \<Rightarrow> receive_args \<Rightarrow>
     (('sm, 'cs, 'tm) app_state, api_error, receive_output) io" where
  "receive env now user args st =
     (case d_get (ses_ops env) (ra_session_id args) (as_sessions st) of
        None \<Rightarrow> (Inl SessionNotFound, st)
      | Some session \<Rightarrow>
          if \<not> in_session user session then (Inl NotInSession, st)
          else
            let p = participant_of (se_coordinator_pubkey session) (us_pubkey user) (ra_as_coordinator args)
            in case fmlookup (se_queue session) p of
              None \<Rightarrow> (Inr \<lparr>ro_msgs = []\<rparr>, st)
            | Some msgs \<Rightarrow>
                let session = session\<lparr>se_queue := fmupd p [] (se_queue session)\<rparr>;
                    sessions = d_set (ses_ops env) (ra_session_id args) session (as_sessions st);
                    sessions = (if msgs = [] then sessions
                      else d_update_timeout (ses_ops env) now (ra_session_id args) SESSION_TIMEOUT sessions)
                in (Inr \<lparr>ro_msgs = msgs\<rparr>, st\<lparr>as_sessions := sessions\<rparr>))"

definition close_session ::
    "('sm, 'cs, 'tm) server_env \<Rightarrow> user \<Rightarrow> close_session_args \<Rightarrow>
     (('sm, 'cs, 'tm) app_state, api_error, unit) io" where
  "close_session env user args st =
     (case lookup_own_session env user (cl_session_id args) st of
        Inl e \<Rightarrow> (Inl e, st)
      | Inr session \<Rightarrow>
          if se_coordinator_pubkey session \<noteq> us_pubkey user then (Inl NotCoordinator, st)
          else
            let idx = fold (index_remove (cl_session_id args)) (se_pubkeys session)
                  (as_sessions_by_pubkey st);
                idx = index_remove (cl_session_id args) (us_pubkey user) idx
            in (Inr (), st\<lparr>as_sessions_by_pubkey := idx,
                  as_sessions := snd (d_remove (ses_ops env) (cl_session_id args) (as_sessions st))\<rparr>))"

section \<open>The router\<close>

text \<open>Requests to the authenticated endpoints carry the bearer token.\<close>

datatype request =
    Challenge_Request
  | Login_Request login_args
  | Logout_Request "string option"
  | Create_Request "string option" create_new_session_args
  | List_Request "string option"
  | Info_Request "string option" get_session_info_args
  | Send_Request "string option" send_args
  | Receive_Request "string option" receive_args
  | Close_Request "string option" close_session_args

datatype response =
    Challenge_Response challenge_output
  | Login_Response login_output
  | Create_Response create_new_session_output
  | List_Response list_sessions_output
  | Info_Response get_session_info_output
  | Receive_Response receive_output
  | Unit_Response

fun bearer_of :: "request \<Rightarrow> string option" where
  "bearer_of Challenge_Request = None"
| "bearer_of (Login_Request _) = None"
| "bearer_of (Logout_Request auth) = auth"
| "bearer_of (Create_Request auth _) = auth"
| "bearer_of (List_Request auth) = auth"
| "bearer_of (Info_Request auth _) = auth"
| "bearer_of (Send_Request auth _) = auth"
| "bearer_of (Receive_Request auth _) = auth"
| "bearer_of (Close_Request auth _) = auth"

definition respond :: "('a \<Rightarrow> response) \<Rightarrow> (api_error + 'a) \<times> 'w \<Rightarrow> (api_error + response) \<times> 'w" where
  "respond f r = (case r of (Inl e, st) \<Rightarrow> (Inl e, st) | (Inr x, st) \<Rightarrow> (Inr (f x), st))"

fun handle_user ::
    "('sm, 'cs, 'tm) server_env \<Rightarrow> nat \<Rightarrow> uuid \<Rightarrow> request \<Rightarrow> user \<Rightarrow>
     (('sm, 'cs, 'tm) app_state, api_error, response) io" where
  "handle_user env now fresh (Create_Request _ args) user st =
     respond Create_Response (create_new_session env now fresh user args st)"
| "handle_user env now fresh (List_Request _) user st = respond List_Response (list_sessions env user st)"
| "handle_user env now fresh (Info_Request _ args) user st =
     respond Info_Response (get_session_info env user args st)"
| "handle_user env now fresh (Send_Request _ args) user st =
     respond (\<lambda>_. Unit_Response) (send env now user args st)"
| "handle_user env now fresh (Receive_Request _ args) user st =
     respond Receive_Response (receive env now user args st)"
| "handle_user env now fresh (Close_Request _ args) user st =
     respond (\<lambda>_. Unit_Response) (close_session env user args st)"
| "handle_user env now fresh (Logout_Request _) user st = respond (\<lambda>_. Unit_Response) (logout env user st)"
| "handle_user env now fresh _ user st = (Inl Unknown, st)"

fun router ::
    "('sm, 'cs, 'tm) server_env \<Rightarrow> nat \<Rightarrow> uuid \<Rightarrow> request \<Rightarrow>
     (('sm, 'cs, 'tm) app_state, api_error, response) io" where
  "router env now fresh Challenge_Request st = respond Challenge_Response (challenge env now fresh st)"
| "router env now fresh (Login_Request args) st = respond Login_Response (login env now fresh args st)"
| "router env now fresh req st =
     (case user_from_request env (bearer_of req) st of
        Inl e \<Rightarrow> (Inl e, st)
      | Inr user \<Rightarrow> handle_user env now fresh req user st)"

text \<open>\<open>IntoResponse\<close>: a failed handler answers with status 500 and the \<open>LowError\<close> as its body.\<close>

datatype http_body = Ok_Body response | Error_Body low_error

record http_response =
  hr_status :: nat
  hr_body :: http_body

definition into_response :: "api_error + response \<Rightarrow> http_response" where
  "into_response r = (case r of
     Inl e \<Rightarrow> \<lparr>hr_status = 500, hr_body = Error_Body (low_error_of e)\<rparr>
   | Inr x \<Rightarrow> \<lparr>hr_status = 200, hr_body = Ok_Body x\<rparr>)"

section \<open>Background tasks\<close>

text \<open>
  The session task polls the sessions (which removes the expired one) and, after releasing that
  lock, removes the id from the index. Requests may run in between, so the session it holds
  is part of the system's state.
\<close>

record ('sm, 'cs, 'tm) system =
  sy_app :: "('sm, 'cs, 'tm) app_state"
  sy_timed_out :: "(uuid \<times> session) option"

definition poll_sessions ::
    "('sm, 'cs, 'tm) server_env \<Rightarrow> nat \<Rightarrow> ('sm, 'cs, 'tm) system \<Rightarrow> ('sm, 'cs, 'tm) system" where
  "poll_sessions env now sys =
     (case sy_timed_out sys of
        Some _ \<Rightarrow> sys
      | None \<Rightarrow>
          let (r, sessions) = d_next (ses_ops env) now (as_sessions (sy_app sys))
          in sys\<lparr>sy_app := (sy_app sys)\<lparr>as_sessions := sessions\<rparr>, sy_timed_out := r\<rparr>)"

definition unindex_timed_out :: "('sm, 'cs, 'tm) system \<Rightarrow> ('sm, 'cs, 'tm) system" where
  "unindex_timed_out sys =
     (case sy_timed_out sys of
        None \<Rightarrow> sys
      | Some (sid, session) \<Rightarrow>
          let idx = fold (index_remove sid) (se_pubkeys session) (as_sessions_by_pubkey (sy_app sys))
          in sys\<lparr>sy_app := (sy_app sys)\<lparr>as_sessions_by_pubkey := idx\<rparr>, sy_timed_out := None\<rparr>)"

definition poll_challenges ::
    "('sm, 'cs, 'tm) server_env \<Rightarrow> nat \<Rightarrow> ('sm, 'cs, 'tm) app_state \<Rightarrow> ('sm, 'cs, 'tm) app_state" where
  "poll_challenges env now st =
     st\<lparr>as_challenges := snd (d_next (cha_ops env) now (as_challenges st))\<rparr>"

definition poll_access_tokens ::
    "('sm, 'cs, 'tm) server_env \<Rightarrow> nat \<Rightarrow> ('sm, 'cs, 'tm) app_state \<Rightarrow> ('sm, 'cs, 'tm) app_state" where
  "poll_access_tokens env now st =
     st\<lparr>as_access_tokens := snd (d_next (tok_ops env) now (as_access_tokens st))\<rparr>"

section \<open>The running server\<close>

datatype event =
    Request nat uuid request
  | Poll_Sessions nat
  | Unindex
  | Poll_Challenges nat
  | Poll_Access_Tokens nat

fun server_step ::
    "('sm, 'cs, 'tm) server_env \<Rightarrow> event \<Rightarrow> ('sm, 'cs, 'tm) system \<Rightarrow>
     (api_error + response) option \<times> ('sm, 'cs, 'tm) system" where
  "server_step env (Request now fresh req) sys =
     (case router env now fresh req (sy_app sys) of (r, st) \<Rightarrow> (Some r, sys\<lparr>sy_app := st\<rparr>))"
| "server_step env (Poll_Sessions now) sys = (None, poll_sessions env now sys)"
| "server_step env Unindex sys = (None, unindex_timed_out sys)"
| "server_step env (Poll_Challenges now) sys = (None, sys\<lparr>sy_app := poll_challenges env now (sy_app sys)\<rparr>)"
| "server_step env (Poll_Access_Tokens now) sys =
     (None, sys\<lparr>sy_app := poll_access_tokens env now (sy_app sys)\<rparr>)"

definition server_start :: "('sm, 'cs, 'tm) server_env \<Rightarrow> ('sm, 'cs, 'tm) system" where
  "server_start env = \<lparr>sy_app = app_state_new env, sy_timed_out = None\<rparr>"

end
