(* ===== verification/Server_Runs.thy ===== *)
theory Server_Runs
  imports Server
begin

text \<open>
  Runs of the server. The locale \<open>server\<close> collects the laws of the three delay maps; every
  fact about the handlers is proved in it once. A run is recorded as the list of its
  entries: the event, the authenticated user, the reply and the session an expiry poll
  yielded. \<open>Uuid::new_v4\<close> is assumed not to repeat: a request's id is new to the run.
\<close>

section \<open>The laws the server relies on\<close>

locale server =
  ses: delay_map "ses_ops env" + cha: delay_map "cha_ops env" + tok: delay_map "tok_ops env"
  for env :: "('sm, 'cs, 'tm) server_env"

definition live :: "('sm, 'cs, 'tm) server_env \<Rightarrow> ('sm, 'cs, 'tm) system \<Rightarrow> uuid \<Rightarrow> session option" where
  "live env sys sid = d_get (ses_ops env) sid (as_sessions (sy_app sys))"

definition listed_in :: "(public_key, uuid fset) fmap \<Rightarrow> public_key \<Rightarrow> uuid set" where
  "listed_in idx pubkey = (case fmlookup idx pubkey of None \<Rightarrow> {} | Some s \<Rightarrow> fset s)"

definition listed :: "('sm, 'cs, 'tm) system \<Rightarrow> public_key \<Rightarrow> uuid set" where
  "listed sys = listed_in (as_sessions_by_pubkey (sy_app sys))"

definition members :: "session \<Rightarrow> public_key set" where
  "members s = insert (se_coordinator_pubkey s) (set (se_pubkeys s))"

section \<open>Entries and runs\<close>

record entry =
  en_event :: event
  en_user :: "user option"
  en_reply :: "(api_error + response) option"
  en_timed_out :: "(uuid \<times> session) option"

fun requester :: "('sm, 'cs, 'tm) server_env \<Rightarrow> event \<Rightarrow> ('sm, 'cs, 'tm) system \<Rightarrow> user option" where
  "requester env (Request now fresh req) sys =
     (case user_from_request env (bearer_of req) (sy_app sys) of Inl e \<Rightarrow> None | Inr u \<Rightarrow> Some u)"
| "requester env _ sys = None"

fun yielded :: "('sm, 'cs, 'tm) server_env \<Rightarrow> event \<Rightarrow> ('sm, 'cs, 'tm) system \<Rightarrow> (uuid \<times> session) option" where
  "yielded env (Poll_Sessions now) sys =
     (if sy_timed_out sys = None then fst (d_next (ses_ops env) now (as_sessions (sy_app sys))) else None)"
| "yielded env _ sys = None"

definition entry_of :: "('sm, 'cs, 'tm) server_env \<Rightarrow> event \<Rightarrow> ('sm, 'cs, 'tm) system \<Rightarrow> entry" where
  "entry_of env ev sys = \<lparr>en_event = ev, en_user = requester env ev sys,
     en_reply = fst (server_step env ev sys), en_timed_out = yielded env ev sys\<rparr>"

fun event_id :: "event \<Rightarrow> uuid option" where
  "event_id (Request now fresh req) = Some fresh"
| "event_id _ = None"

definition issued :: "entry list \<Rightarrow> uuid set" where
  "issued h = {fresh. Some fresh \<in> (event_id \<circ> en_event) ` set h}"

definition timed_out :: "entry list \<Rightarrow> (uuid \<times> session) set" where
  "timed_out h = {x. Some x \<in> en_timed_out ` set h}"

inductive server_run ::
    "('sm, 'cs, 'tm) server_env \<Rightarrow> entry list \<Rightarrow> ('sm, 'cs, 'tm) system \<Rightarrow> bool" for env where
  server_run_start: "server_run env [] (server_start env)"
| server_run_step: "server_run env h sys \<Longrightarrow> event_id ev \<notin> Some ` issued h \<Longrightarrow>
     server_step env ev sys = (r, sys') \<Longrightarrow> server_run env (h @ [entry_of env ev sys]) sys'"

lemma entry_of_simps [simp]:
  "en_event (entry_of env ev sys) = ev"
  "en_user (entry_of env ev sys) = requester env ev sys"
  "en_reply (entry_of env ev sys) = fst (server_step env ev sys)"
  "en_timed_out (entry_of env ev sys) = yielded env ev sys"
  by (simp_all add: entry_of_def)

lemma issued_simps [simp]:
  "issued [] = {}"
  "issued (h @ [e]) = issued h \<union> set_option (event_id (en_event e))"
  by (auto simp: issued_def elem_set)

lemma timed_out_simps [simp]:
  "timed_out [] = {}"
  "timed_out (h @ [e]) = timed_out h \<union> set_option (en_timed_out e)"
  by (auto simp: timed_out_def elem_set)

text \<open>The run that a list of events makes.\<close>

fun run_events ::
    "('sm, 'cs, 'tm) server_env \<Rightarrow> event list \<Rightarrow> ('sm, 'cs, 'tm) system \<Rightarrow>
     entry list \<times> ('sm, 'cs, 'tm) system" where
  "run_events env [] sys = ([], sys)"
| "run_events env (ev # evs) sys =
     (let (h, sys') = run_events env evs (snd (server_step env ev sys)) in (entry_of env ev sys # h, sys'))"

fun event_ids :: "event list \<Rightarrow> uuid list" where
  "event_ids [] = []"
| "event_ids (ev # evs) = (case event_id ev of None \<Rightarrow> event_ids evs | Some f \<Rightarrow> f # event_ids evs)"

lemma run_events_run:
  assumes "server_run env h sys" and "distinct (event_ids evs)" and "set (event_ids evs) \<inter> issued h = {}"
    and "run_events env evs sys = (h', sys')"
  shows "server_run env (h @ h') sys'"
  using assms
proof (induction evs arbitrary: h sys h')
  case Nil
  then show ?case by simp
next
  case (Cons ev evs)
  obtain r sys1 where r: "server_step env ev sys = (r, sys1)" by fastforce
  obtain h1 where h1: "run_events env evs sys1 = (h1, sys')" "h' = entry_of env ev sys # h1"
    using Cons.prems(4) r by (auto split: prod.splits)
  have "server_run env (h @ [entry_of env ev sys]) sys1"
    using Cons.prems r by (intro server_run_step[OF Cons.prems(1) _ r]) (auto split: option.splits)
  moreover have "set (event_ids evs) \<inter> issued (h @ [entry_of env ev sys]) = {}"
    "distinct (event_ids evs)"
    using Cons.prems(2,3) by (auto split: option.splits)
  ultimately have "server_run env ((h @ [entry_of env ev sys]) @ h1) sys'"
    using h1(1) by (intro Cons.IH) auto
  then show ?case using h1(2) by simp
qed

lemma run_events_start:
  "distinct (event_ids evs) \<Longrightarrow>
   server_run env (fst (run_events env evs (server_start env))) (snd (run_events env evs (server_start env)))"
  using run_events_run[OF server_run_start, of evs env] by simp

section \<open>The index\<close>

lemma listed_in_empty [simp]: "listed_in fmempty pubkey = {}"
  by (simp add: listed_in_def)

lemma listed_in_insert [simp]:
  "listed_in (index_insert sid pubkey idx) pubkey' =
     (if pubkey' = pubkey then insert sid (listed_in idx pubkey') else listed_in idx pubkey')"
  by (auto simp: listed_in_def index_insert_def split: option.splits)

lemma listed_in_remove [simp]:
  "listed_in (index_remove sid pubkey idx) pubkey' =
     (if pubkey' = pubkey then listed_in idx pubkey' - {sid} else listed_in idx pubkey')"
  by (auto simp: listed_in_def index_remove_def split: option.splits)

lemma listed_in_fold_insert [simp]:
  "listed_in (fold (index_insert sid) pubkeys idx) pubkey =
     (if pubkey \<in> set pubkeys then insert sid (listed_in idx pubkey) else listed_in idx pubkey)"
  by (induction pubkeys arbitrary: idx) auto

lemma listed_in_fold_remove [simp]:
  "listed_in (fold (index_remove sid) pubkeys idx) pubkey =
     (if pubkey \<in> set pubkeys then listed_in idx pubkey - {sid} else listed_in idx pubkey)"
  by (induction pubkeys arbitrary: idx) auto

section \<open>The session directory\<close>

text \<open>
  The abstract machine of the server's sessions: which are live, who lists them, and the one
  whose expiry is being processed. Queues only change through \<open>directory_queue\<close>.
\<close>

record directory =
  di_live :: "uuid \<Rightarrow> session option"
  di_listed :: "public_key \<Rightarrow> uuid set"
  di_timed_out :: "(uuid \<times> session) option"

definition directory_of :: "('sm, 'cs, 'tm) server_env \<Rightarrow> ('sm, 'cs, 'tm) system \<Rightarrow> directory" where
  "directory_of env sys = \<lparr>di_live = live env sys, di_listed = listed sys, di_timed_out = sy_timed_out sys\<rparr>"

inductive directory_step :: "uuid option \<Rightarrow> (uuid \<times> session) option \<Rightarrow> directory \<Rightarrow> directory \<Rightarrow> bool" for fresh where
  directory_keep: "directory_step fresh None d d"
| directory_create: "fresh = Some sid \<Longrightarrow> se_queue s = fmempty \<Longrightarrow> directory_step fresh None d
    (d\<lparr>di_live := (di_live d)(sid \<mapsto> s),
       di_listed := (\<lambda>pk. if pk \<in> members s then insert sid (di_listed d pk) else di_listed d pk)\<rparr>)"
| directory_queue: "di_live d sid = Some s \<Longrightarrow> s' = s\<lparr>se_queue := q\<rparr> \<Longrightarrow>
    directory_step fresh None d (d\<lparr>di_live := (di_live d)(sid \<mapsto> s')\<rparr>)"
| directory_close: "di_live d sid = Some s \<Longrightarrow> directory_step fresh None d
    (d\<lparr>di_live := (di_live d)(sid := None),
       di_listed := (\<lambda>pk. if pk \<in> members s then di_listed d pk - {sid} else di_listed d pk)\<rparr>)"
| directory_time_out: "di_timed_out d = None \<Longrightarrow> di_live d sid = Some s \<Longrightarrow>
    directory_step fresh (Some (sid, s)) d
      (d\<lparr>di_live := (di_live d)(sid := None), di_timed_out := Some (sid, s)\<rparr>)"
| directory_unindex: "di_timed_out d = Some (sid, s) \<Longrightarrow> directory_step fresh None d
    (d\<lparr>di_listed := (\<lambda>pk. if pk \<in> set (se_pubkeys s) then di_listed d pk - {sid} else di_listed d pk),
       di_timed_out := None\<rparr>)"

lemma directory_queue_same: "di_live d sid = Some s \<Longrightarrow> d\<lparr>di_live := (di_live d)(sid \<mapsto> s)\<rparr> = d"
  by (simp add: fun_upd_idem)

section \<open>Queues\<close>

lemma queue_of_push_back [simp]:
  "queue_of (push_back m p s) p' = (if p' = p then queue_of s p @ [m] else queue_of s p')"
  by (auto simp: queue_of_def push_back_def)

lemma push_back_fields [simp]:
  "se_pubkeys (push_back m p s) = se_pubkeys s"
  "se_coordinator_pubkey (push_back m p s) = se_coordinator_pubkey s"
  "se_message_count (push_back m p s) = se_message_count s"
  by (simp_all add: push_back_def)

lemma queue_of_fold_push_back:
  "queue_of (fold (push_back m) ps s) p = queue_of s p @ map (\<lambda>_. m) (filter ((=) p) ps)"
  by (induction ps arbitrary: s) auto

lemma fold_push_back_queue: "\<exists>q. fold (push_back m) ps s = s\<lparr>se_queue := q\<rparr>"
proof (induction ps arbitrary: s)
  case Nil
  show ?case by (rule exI[of _ "se_queue s"]) simp
next
  case (Cons p ps)
  from Cons.IH[of "push_back m p s"] show ?case by (auto simp: push_back_def)
qed

section \<open>Every step of the server is a step of the directory\<close>

lemma directory_same:
  "as_sessions st = as_sessions (sy_app sys) \<Longrightarrow>
   as_sessions_by_pubkey st = as_sessions_by_pubkey (sy_app sys) \<Longrightarrow>
   directory_of env (sys\<lparr>sy_app := st\<rparr>) = directory_of env sys"
  by (simp add: directory_of_def live_def listed_def fun_eq_iff)

lemma respond_cases:
  assumes "respond f rst = (r, st')"
  obtains e where "rst = (Inl e, st')" "r = Inl e" | x where "rst = (Inr x, st')" "r = Inr (f x)"
  using assms by (auto simp: respond_def split: prod.splits sum.splits)

lemma respond_snd: "respond f rst = (r, st') \<Longrightarrow> snd rst = st'"
  by (auto elim: respond_cases)

fun public_request :: "request \<Rightarrow> bool" where
  "public_request Challenge_Request = True"
| "public_request (Login_Request _) = True"
| "public_request _ = False"

lemma router_user:
  "\<not> public_request req \<Longrightarrow> router env now fresh req st =
     (case user_from_request env (bearer_of req) st of
        Inl e \<Rightarrow> (Inl e, st)
      | Inr user \<Rightarrow> handle_user env now fresh req user st)"
  by (induction req) simp_all

context server
begin

lemma live_update: "live env (sys\<lparr>sy_app := (sy_app sys)\<lparr>as_sessions := m\<rparr>\<rparr>) sid = d_get (ses_ops env) sid m"
  by (simp add: live_def)

lemma requeue_step:
  assumes "live env sys sid = Some s"
    and "live env (sys\<lparr>sy_app := st\<rparr>) = (live env sys)(sid \<mapsto> s\<lparr>se_queue := q\<rparr>)"
    and "as_sessions_by_pubkey st = as_sessions_by_pubkey (sy_app sys)"
  shows "directory_step fresh None (directory_of env sys) (directory_of env (sys\<lparr>sy_app := st\<rparr>))"
proof -
  have "directory_of env (sys\<lparr>sy_app := st\<rparr>) = (directory_of env sys)
    \<lparr>di_live := (di_live (directory_of env sys))(sid \<mapsto> s\<lparr>se_queue := q\<rparr>)\<rparr>"
    using assms by (simp add: directory_of_def listed_def)
  then show ?thesis
    using directory_queue[of "directory_of env sys" sid s "s\<lparr>se_queue := q\<rparr>" q fresh] assms(1)
    by (simp add: directory_of_def)
qed

lemma challenge_directory:
  "challenge env now fresh (sy_app sys) = (r, st) \<Longrightarrow>
   directory_of env (sys\<lparr>sy_app := st\<rparr>) = directory_of env sys"
  by (rule directory_same) (auto simp: challenge_def)

lemma login_directory:
  "login env now fresh args (sy_app sys) = (r, st) \<Longrightarrow>
   directory_of env (sys\<lparr>sy_app := st\<rparr>) = directory_of env sys"
  by (rule directory_same) (auto simp: login_def Let_def split: prod.splits if_splits)

lemma logout_directory:
  "logout env user (sy_app sys) = (r, st) \<Longrightarrow>
   directory_of env (sys\<lparr>sy_app := st\<rparr>) = directory_of env sys"
  by (rule directory_same) (auto simp: logout_def)

lemma create_directory:
  assumes "create_new_session env now fresh user args (sy_app sys) = (r, st)"
  shows "directory_step (Some fresh) None (directory_of env sys) (directory_of env (sys\<lparr>sy_app := st\<rparr>))"
proof (cases "cn_message_count args = 0")
  case True
  with assms have "st = sy_app sys" by (simp add: create_new_session_def)
  then show ?thesis by (simp add: directory_keep)
next
  case False
  let ?s = "\<lparr>se_pubkeys = cn_pubkeys args, se_coordinator_pubkey = us_pubkey user,
              se_message_count = cn_message_count args, se_queue = fmempty\<rparr>"
  have "directory_of env (sys\<lparr>sy_app := st\<rparr>) = (directory_of env sys)
    \<lparr>di_live := (di_live (directory_of env sys))(fresh \<mapsto> ?s),
     di_listed := (\<lambda>pk. if pk \<in> members ?s then insert fresh (di_listed (directory_of env sys) pk)
       else di_listed (directory_of env sys) pk)\<rparr>"
    using assms False
    by (auto simp: create_new_session_def Let_def directory_of_def live_def listed_def members_def
        ses.get_simps fun_eq_iff split: if_split_asm)
  then show ?thesis using directory_create[of "Some fresh" fresh ?s "directory_of env sys"] by simp
qed

lemma send_ok:
  assumes "send env now user args (sy_app sys) = (Inr u, st)"
  obtains s where "live env sys (sa_session_id args) = Some s" "in_session user s"
    "\<not> list_ex (unknown_recipient s) (recipients_of args)" "length (sa_msg args) \<le> MAX_MSG_SIZE"
    "live env (sys\<lparr>sy_app := st\<rparr>) = (live env sys)(sa_session_id args \<mapsto>
       fold (push_back \<lparr>sender = us_pubkey user, msg = sa_msg args\<rparr>) (recipients_of args) s)"
    "as_sessions_by_pubkey st = as_sessions_by_pubkey (sy_app sys)"
  using assms
  by (auto simp: send_def live_def Let_def ses.get_simps fun_eq_iff split: if_splits option.splits)

lemma send_err: "send env now user args st = (Inl e, st') \<Longrightarrow> st' = st"
  by (auto simp: send_def Let_def split: if_splits option.splits)

lemma send_directory:
  assumes "send env now user args (sy_app sys) = (r, st)"
  shows "directory_step fresh None (directory_of env sys) (directory_of env (sys\<lparr>sy_app := st\<rparr>))"
proof (cases r)
  case (Inl e)
  with assms have "st = sy_app sys" using send_err by simp
  then show ?thesis by (simp add: directory_keep)
next
  case (Inr u)
  with assms obtain s where s: "live env sys (sa_session_id args) = Some s" and
    l: "live env (sys\<lparr>sy_app := st\<rparr>) = (live env sys)(sa_session_id args \<mapsto>
       fold (push_back \<lparr>sender = us_pubkey user, msg = sa_msg args\<rparr>) (recipients_of args) s)" and
    i: "as_sessions_by_pubkey st = as_sessions_by_pubkey (sy_app sys)"
    by (auto elim: send_ok)
  obtain q where "fold (push_back \<lparr>sender = us_pubkey user, msg = sa_msg args\<rparr>) (recipients_of args) s
      = s\<lparr>se_queue := q\<rparr>" using fold_push_back_queue by blast
  with s l i show ?thesis by (intro requeue_step) auto
qed

lemma receive_ok:
  assumes "receive env now user args (sy_app sys) = (Inr out, st)"
  obtains s q where "live env sys (ra_session_id args) = Some s" "in_session user s"
    "ro_msgs out = queue_of s (participant_of (se_coordinator_pubkey s) (us_pubkey user) (ra_as_coordinator args))"
    "live env (sys\<lparr>sy_app := st\<rparr>) = (live env sys)(ra_session_id args \<mapsto> s\<lparr>se_queue := q\<rparr>)"
    "\<And>p. queue_of (s\<lparr>se_queue := q\<rparr>) p =
       (if p = participant_of (se_coordinator_pubkey s) (us_pubkey user) (ra_as_coordinator args)
        then [] else queue_of s p)"
    "as_sessions_by_pubkey st = as_sessions_by_pubkey (sy_app sys)"
proof -
  from assms obtain s where s: "live env sys (ra_session_id args) = Some s" and u: "in_session user s"
    by (auto simp: receive_def live_def split: option.splits if_splits)
  let ?p = "participant_of (se_coordinator_pubkey s) (us_pubkey user) (ra_as_coordinator args)"
  show ?thesis
  proof (cases "fmlookup (se_queue s) ?p")
    case None
    with assms s u have "out = \<lparr>ro_msgs = []\<rparr>" "st = sy_app sys"
      by (auto simp: receive_def live_def Let_def)
    with None s u show ?thesis
      by (intro that[of s "se_queue s"]) (auto simp: queue_of_def fun_upd_idem)
  next
    case (Some msgs)
    with assms s u have "out = \<lparr>ro_msgs = msgs\<rparr>"
      "live env (sys\<lparr>sy_app := st\<rparr>) = (live env sys)(ra_session_id args \<mapsto> s\<lparr>se_queue := fmupd ?p [] (se_queue s)\<rparr>)"
      "as_sessions_by_pubkey st = as_sessions_by_pubkey (sy_app sys)"
      by (auto simp: receive_def live_def Let_def ses.get_simps fun_eq_iff)
    with Some s u show ?thesis
      by (intro that[of s "fmupd ?p [] (se_queue s)"]) (auto simp: queue_of_def)
  qed
qed

lemma receive_err: "receive env now user args st = (Inl e, st') \<Longrightarrow> st' = st"
  by (auto simp: receive_def Let_def split: if_splits option.splits)

lemma receive_directory:
  assumes "receive env now user args (sy_app sys) = (r, st)"
  shows "directory_step fresh None (directory_of env sys) (directory_of env (sys\<lparr>sy_app := st\<rparr>))"
proof (cases r)
  case (Inl e)
  with assms have "st = sy_app sys" using receive_err by simp
  then show ?thesis by (simp add: directory_keep)
next
  case (Inr out)
  with assms obtain s q where s: "live env sys (ra_session_id args) = Some s" and
    "live env (sys\<lparr>sy_app := st\<rparr>) = (live env sys)(ra_session_id args \<mapsto> s\<lparr>se_queue := q\<rparr>)"
    "as_sessions_by_pubkey st = as_sessions_by_pubkey (sy_app sys)"
    by (auto elim: receive_ok)
  with s show ?thesis by (intro requeue_step) auto
qed

lemma close_ok:
  assumes "close_session env user args (sy_app sys) = (Inr u, st)"
  obtains s where "live env sys (cl_session_id args) = Some s" "se_coordinator_pubkey s = us_pubkey user"
    "cl_session_id args \<in> listed sys (us_pubkey user)"
    "live env (sys\<lparr>sy_app := st\<rparr>) = (live env sys)(cl_session_id args := None)"
    "listed (sys\<lparr>sy_app := st\<rparr>) = (\<lambda>pk. if pk \<in> members s
       then listed sys pk - {cl_session_id args} else listed sys pk)"
  using assms
  by (auto simp: close_session_def lookup_own_session_def live_def listed_def Let_def ses.get_simps
      fun_eq_iff members_def tryr_def ok_or_def listed_in_def[of "as_sessions_by_pubkey (sy_app sys)"]
      split: if_splits option.splits sum.splits)

lemma close_err: "close_session env user args st = (Inl e, st') \<Longrightarrow> st' = st"
  by (auto simp: close_session_def Let_def split: if_splits sum.splits)

lemma close_directory:
  assumes "close_session env user args (sy_app sys) = (r, st)"
  shows "directory_step fresh None (directory_of env sys) (directory_of env (sys\<lparr>sy_app := st\<rparr>))"
proof (cases r)
  case (Inl e)
  with assms have "st = sy_app sys" using close_err by simp
  then show ?thesis by (simp add: directory_keep)
next
  case (Inr u)
  with assms obtain s where s: "live env sys (cl_session_id args) = Some s" and
    "live env (sys\<lparr>sy_app := st\<rparr>) = (live env sys)(cl_session_id args := None)"
    "listed (sys\<lparr>sy_app := st\<rparr>) = (\<lambda>pk. if pk \<in> members s
       then listed sys pk - {cl_session_id args} else listed sys pk)"
    by (auto elim: close_ok)
  then have "directory_of env (sys\<lparr>sy_app := st\<rparr>) = (directory_of env sys)
    \<lparr>di_live := (di_live (directory_of env sys))(cl_session_id args := None),
     di_listed := (\<lambda>pk. if pk \<in> members s then di_listed (directory_of env sys) pk - {cl_session_id args}
       else di_listed (directory_of env sys) pk)\<rparr>"
    by (simp add: directory_of_def cong: if_cong)
  then show ?thesis using s directory_close[of "directory_of env sys" "cl_session_id args" s]
    by (simp add: directory_of_def cong: if_cong)
qed

lemma handle_user_directory:
  assumes "handle_user env now fresh req user (sy_app sys) = (r, st)"
  shows "directory_step (Some fresh) None (directory_of env sys) (directory_of env (sys\<lparr>sy_app := st\<rparr>))"
proof (cases req)
  case (Logout_Request auth)
  obtain r' where "logout env user (sy_app sys) = (r', st)"
    using assms Logout_Request by (auto elim: respond_cases)
  from logout_directory[OF this] show ?thesis by (simp add: directory_keep)
next
  case (Create_Request auth args)
  with assms show ?thesis by (auto elim!: respond_cases intro: create_directory)
next
  case (Send_Request auth args)
  with assms show ?thesis by (auto elim!: respond_cases intro: send_directory)
next
  case (Receive_Request auth args)
  with assms show ?thesis by (auto elim!: respond_cases intro: receive_directory)
next
  case (Close_Request auth args)
  with assms show ?thesis by (auto elim!: respond_cases intro: close_directory)
qed (use assms in \<open>auto elim!: respond_cases simp: list_sessions_def get_session_info_def
  intro: directory_keep\<close>)

lemma router_directory:
  assumes "router env now fresh req (sy_app sys) = (r, st)"
  shows "directory_step (Some fresh) None (directory_of env sys) (directory_of env (sys\<lparr>sy_app := st\<rparr>))"
proof (cases "public_request req")
  case True
  with assms have "directory_of env (sys\<lparr>sy_app := st\<rparr>) = directory_of env sys"
    by (cases req) (auto elim!: respond_cases dest: challenge_directory login_directory)
  then show ?thesis by (simp add: directory_keep)
next
  case False
  with assms show ?thesis
    by (auto simp: router_user split: sum.splits intro: directory_keep handle_user_directory)
qed

lemma poll_sessions_directory:
  "directory_step fresh (yielded env (Poll_Sessions now) sys) (directory_of env sys)
     (directory_of env (poll_sessions env now sys))"
proof (cases "sy_timed_out sys")
  case (Some x)
  then show ?thesis by (simp add: poll_sessions_def directory_keep)
next
  case None
  obtain r m where n: "d_next (ses_ops env) now (as_sessions (sy_app sys)) = (r, m)"
    by (cases "d_next (ses_ops env) now (as_sessions (sy_app sys))")
  show ?thesis
  proof (cases r)
    case None
    with n \<open>sy_timed_out sys = None\<close> have "directory_of env (poll_sessions env now sys) = directory_of env sys"
      by (simp add: poll_sessions_def directory_of_def live_def listed_def fun_eq_iff ses.next_None)
    with None n show ?thesis by (simp add: directory_keep)
  next
    case (Some x)
    obtain sid s where x: "x = (sid, s)" by fastforce
    with n Some \<open>sy_timed_out sys = None\<close> have "directory_of env (poll_sessions env now sys) =
        (directory_of env sys)\<lparr>di_live := (di_live (directory_of env sys))(sid := None),
           di_timed_out := Some (sid, s)\<rparr>"
      by (auto simp: poll_sessions_def directory_of_def live_def listed_def fun_eq_iff ses.get_next)
    moreover have "di_live (directory_of env sys) sid = Some s"
      using n Some x by (simp add: directory_of_def live_def ses.next_Some)
    ultimately show ?thesis
      using n Some x \<open>sy_timed_out sys = None\<close>
        directory_time_out[of "directory_of env sys" sid s fresh]
      by (simp add: directory_of_def)
  qed
qed

lemma unindex_directory:
  "directory_step fresh None (directory_of env sys) (directory_of env (unindex_timed_out sys))"
proof (cases "sy_timed_out sys")
  case None
  then show ?thesis by (simp add: unindex_timed_out_def directory_keep)
next
  case (Some x)
  obtain sid s where x: "x = (sid, s)" by fastforce
  with Some have "directory_of env (unindex_timed_out sys) = (directory_of env sys)
     \<lparr>di_listed := (\<lambda>pk. if pk \<in> set (se_pubkeys s) then di_listed (directory_of env sys) pk - {sid}
        else di_listed (directory_of env sys) pk), di_timed_out := None\<rparr>"
    by (auto simp: unindex_timed_out_def directory_of_def live_def listed_def fun_eq_iff)
  moreover have "di_timed_out (directory_of env sys) = Some (sid, s)"
    using Some x by (simp add: directory_of_def)
  ultimately show ?thesis using directory_unindex[of "directory_of env sys" sid s fresh] by simp
qed

lemma server_step_directory:
  assumes "server_step env ev sys = (r, sys')"
  shows "directory_step (event_id ev) (yielded env ev sys) (directory_of env sys) (directory_of env sys')"
proof (cases ev)
  case (Request now f req)
  with assms show ?thesis by (auto split: prod.splits intro: router_directory)
next
  case (Poll_Sessions now)
  with assms show ?thesis using poll_sessions_directory[of None now sys] by simp
next
  case Unindex
  with assms show ?thesis using unindex_directory[of None sys] by simp
next
  case (Poll_Challenges now)
  with assms have "directory_of env sys' = directory_of env sys"
    by (auto simp: poll_challenges_def intro!: directory_same)
  with Poll_Challenges show ?thesis by (simp add: directory_keep)
next
  case (Poll_Access_Tokens now)
  with assms have "directory_of env sys' = directory_of env sys"
    by (auto simp: poll_access_tokens_def intro!: directory_same)
  with Poll_Access_Tokens show ?thesis by (simp add: directory_keep)
qed

end

section \<open>The lawful reference environment\<close>

text \<open>
  The laws hold of finite maps with deadlines; verification and UUID parsing are stand-ins for
  concrete runs: a signature is valid when all its bytes are equal to the key's first byte, and
  a UUID is written as the characters of its value.
\<close>

definition ref_env ::
    "((uuid, session) timed_map, (uuid, unit) timed_map, (uuid, public_key) timed_map) server_env" where
  "ref_env = \<lparr>ses_ops = timed_map_ops, cha_ops = timed_map_ops, tok_ops = timed_map_ops,
     verify = (\<lambda>pk c sig. \<forall>b\<in>set sig. b = hd pk),
     parse_uuid = (\<lambda>s. Some (of_nat (length s))),
     set_order = sorted_list_of_set\<rparr>"

interpretation ref_server: server ref_env
  unfolding ref_env_def server_def server_env.simps by (intro conjI timed_map.delay_map_axioms)

end
