(* ===== verification/Server_Examples.thy ===== *)
theory Server_Examples
  imports Server_Runs
begin

text \<open>
  Concrete runs of the server on the reference environment: user 7 logs in and creates a session
  for participants 8 and 9, which is then used, closed or left to expire.
\<close>

section \<open>Evaluation on the reference environment\<close>

lemma ref_env_fields [simp]:
  "ses_ops ref_env = timed_map_ops"
  "cha_ops ref_env = timed_map_ops"
  "tok_ops ref_env = timed_map_ops"
  "verify ref_env pk c sig \<longleftrightarrow> (\<forall>b\<in>set sig. b = hd pk)"
  "parse_uuid ref_env s = Some (of_nat (length s))"
  by (simp_all add: ref_env_def)

lemma timed_map_fields [simp]:
  "d_new timed_map_ops t = (t, fmempty)"
  "d_get timed_map_ops k (T, m) = map_option fst (fmlookup m k)"
  "d_insert timed_map_ops now k v (T, m) = (T, fmupd k (v, now + T) m)"
  "d_set timed_map_ops k v (T, m) = (case fmlookup m k of
     None \<Rightarrow> (T, m) | Some (_, t) \<Rightarrow> (T, fmupd k (v, t) m))"
  "d_remove timed_map_ops k (T, m) = (map_option fst (fmlookup m k), (T, fmdrop k m))"
  "d_update_timeout timed_map_ops now k d (T, m) = (case fmlookup m k of
     None \<Rightarrow> (T, m) | Some (v, _) \<Rightarrow> (T, fmupd k (v, now + d) m))"
  "d_next timed_map_ops now (T, m) = timed_map_next now (T, m)"
  by (simp_all add: timed_map_ops_def split: option.splits)

lemma timed_map_next_single:
  assumes "t \<le> now"
  shows "timed_map_next now (T, fmupd k (v, t) fmempty) = (Some (k, v), (T, fmdrop k (fmupd k (v, t) fmempty)))"
proof -
  obtain r tm where n: "timed_map_next now (T, fmupd k (v, t) fmempty) = (r, tm)"
    by (cases "timed_map_next now (T, fmupd k (v, t) fmempty)")
  have "k |\<in>| due now (fmupd k (v, t) fmempty)" using assms by (simp add: due_iff)
  with n have "r = Some (k, v) \<and> tm = (T, fmdrop k (fmupd k (v, t) fmempty))"
    by (elim timed_map_next_cases) (auto split: if_splits)
  with n show ?thesis by simp
qed

lemmas server_eval = server_start_def app_state_new_def Let_def respond_def challenge_def login_def
  user_from_request_def create_new_session_def send_def receive_def close_session_def
  lookup_own_session_def logout_def list_sessions_def get_session_info_def
  poll_sessions_def unindex_timed_out_def in_session_def recipients_of_def push_back_def queue_of_def
  participant_of_def
  SESSION_TIMEOUT_def CHALLENGE_TIMEOUT_def ACCESS_TOKEN_TIMEOUT_def MAX_MSG_SIZE_def
  timed_map_next_single

section \<open>Requests\<close>

definition ex_key :: "byte \<Rightarrow> public_key" where
  "ex_key b = PublicKey (replicate 32 b)"

definition ex_login :: "uuid \<Rightarrow> byte \<Rightarrow> request" where
  "ex_login c b = Login_Request \<lparr>la_challenge = c, la_pubkey = ex_key b, la_signature = replicate 64 b\<rparr>"

definition ex_auth :: "nat \<Rightarrow> string option" where
  "ex_auth n = Some (replicate n CHR ''x'')"

definition ex_user :: "byte \<Rightarrow> uuid \<Rightarrow> user" where
  "ex_user b t = \<lparr>us_pubkey = ex_key b, us_current_token = t\<rparr>"

definition ex_create :: request where
  "ex_create = Create_Request (ex_auth 2) \<lparr>cn_pubkeys = [ex_key 8, ex_key 9], cn_message_count = 1\<rparr>"

definition ex_session :: session where
  "ex_session = \<lparr>se_pubkeys = [ex_key 8, ex_key 9], se_coordinator_pubkey = ex_key 7,
     se_message_count = 1, se_queue = fmempty\<rparr>"

lemma ex_key_eq [simp]: "ex_key a = ex_key b \<longleftrightarrow> a = b"
  by (simp add: ex_key_def)

lemma pk_bytes_ex_key [simp]: "pk_bytes (ex_key b) = replicate 32 b"
  by (simp add: ex_key_def)

lemmas ex_defs = ex_login_def ex_create_def ex_auth_def

section \<open>Runs\<close>

text \<open>User 7 logs in with challenge 1, gets token 2 and creates session 3.\<close>

definition ex_created :: "event list" where
  "ex_created = [Request 0 1 Challenge_Request, Request 1 2 (ex_login 1 7), Request 2 3 ex_create]"

text \<open>The session times out a day later.\<close>

definition ex_expired :: "event list" where
  "ex_expired = ex_created @ [Poll_Sessions 100000, Unindex]"

abbreviation ex_sys :: "event list \<Rightarrow> ((uuid, session) timed_map, (uuid, unit) timed_map,
    (uuid, public_key) timed_map) system" where
  "ex_sys evs \<equiv> snd (run_events ref_env evs (server_start ref_env))"

abbreviation ex_log :: "event list \<Rightarrow> entry list" where
  "ex_log evs \<equiv> fst (run_events ref_env evs (server_start ref_env))"

lemma run_events_append:
  "run_events env (evs @ evs') sys =
     (let (h, sys1) = run_events env evs sys; (h', sys2) = run_events env evs' sys1 in (h @ h', sys2))"
  by (induction evs arbitrary: sys) (auto simp: Let_def split: prod.splits)

lemma ex_sys_created:
  "ex_sys ex_created = \<lparr>sy_app = \<lparr>
     as_sessions = (86400, fmupd 3 (ex_session, 86402) fmempty),
     as_sessions_by_pubkey =
       index_insert 3 (ex_key 7) (index_insert 3 (ex_key 9) (index_insert 3 (ex_key 8) fmempty)),
     as_challenges = (10, fmdrop 1 (fmupd 1 ((), 10) fmempty)),
     as_access_tokens = (3600, fmupd 2 (ex_key 7, 3601) fmempty)\<rparr>, sy_timed_out = None\<rparr>"
  by (simp add: ex_created_def ex_defs server_eval ex_session_def)

lemma ex_sys_expired:
  "ex_sys ex_expired = \<lparr>sy_app = \<lparr>
     as_sessions = (86400, fmdrop 3 (fmupd 3 (ex_session, 86402) fmempty)),
     as_sessions_by_pubkey = index_remove 3 (ex_key 9) (index_remove 3 (ex_key 8)
       (index_insert 3 (ex_key 7) (index_insert 3 (ex_key 9) (index_insert 3 (ex_key 8) fmempty)))),
     as_challenges = (10, fmdrop 1 (fmupd 1 ((), 10) fmempty)),
     as_access_tokens = (3600, fmupd 2 (ex_key 7, 3601) fmempty)\<rparr>, sy_timed_out = None\<rparr>"
proof -
  have "ex_sys ex_expired = snd (run_events ref_env [Poll_Sessions 100000, Unindex] (ex_sys ex_created))"
    unfolding ex_expired_def run_events_append by (simp add: Let_def split: prod.splits)
  then show ?thesis
    unfolding ex_sys_created by (simp add: server_eval) (simp add: ex_session_def)
qed

lemma ex_created_run: "server_run ref_env (ex_log ex_created) (ex_sys ex_created)"
  by (rule run_events_start) (simp add: ex_created_def)

lemma ex_expired_run: "server_run ref_env (ex_log ex_expired) (ex_sys ex_expired)"
  by (rule run_events_start) (simp add: ex_expired_def ex_created_def)

end
