(* ===== verification/Server_Index.thy ===== *)
theory Server_Index
  imports Server_Examples
begin

text \<open>
  The server's index of sessions by public key (\<open>sessions_by_pubkey\<close>): exactly which ids it
  lists in every reachable state, who may close a session, and what expiry leaves behind.
\<close>

section \<open>The invariant\<close>

definition index_ok :: "uuid set \<Rightarrow> (uuid \<times> session) set \<Rightarrow> directory \<Rightarrow> bool" where
  "index_ok used out d \<longleftrightarrow>
     (\<forall>pk sid. sid \<in> di_listed d pk \<longleftrightarrow>
        (\<exists>s. di_live d sid = Some s \<and> pk \<in> members s) \<or>
        (\<exists>s. di_timed_out d = Some (sid, s) \<and> pk \<in> members s) \<or>
        (\<exists>s. (sid, s) \<in> out \<and> pk = se_coordinator_pubkey s \<and> pk \<notin> set (se_pubkeys s))) \<and>
     dom (di_live d) \<subseteq> used \<and> fst ` out \<subseteq> used \<and> fst ` out \<inter> dom (di_live d) = {} \<and>
     inj_on fst out \<and> set_option (di_timed_out d) \<subseteq> out"

lemma index_okD:
  assumes "index_ok used out d"
  shows "sid \<in> di_listed d pk \<longleftrightarrow>
        (\<exists>s. di_live d sid = Some s \<and> pk \<in> members s) \<or>
        (\<exists>s. di_timed_out d = Some (sid, s) \<and> pk \<in> members s) \<or>
        (\<exists>s. (sid, s) \<in> out \<and> pk = se_coordinator_pubkey s \<and> pk \<notin> set (se_pubkeys s))"
    and "di_live d sid = Some s \<Longrightarrow> sid \<in> used"
    and "(sid, s) \<in> out \<Longrightarrow> sid \<in> used"
    and "(sid, s) \<in> out \<Longrightarrow> di_live d sid = None"
    and "(sid, s) \<in> out \<Longrightarrow> (sid, s') \<in> out \<Longrightarrow> s' = s"
    and "di_timed_out d = Some (sid, s) \<Longrightarrow> (sid, s) \<in> out"
  using assms unfolding index_ok_def
  by (auto simp: dom_def image_iff inj_on_def elem_set subset_iff disjoint_iff) force+

lemma index_okI:
  assumes "\<And>pk sid. sid \<in> di_listed d pk \<longleftrightarrow>
        (\<exists>s. di_live d sid = Some s \<and> pk \<in> members s) \<or>
        (\<exists>s. di_timed_out d = Some (sid, s) \<and> pk \<in> members s) \<or>
        (\<exists>s. (sid, s) \<in> out \<and> pk = se_coordinator_pubkey s \<and> pk \<notin> set (se_pubkeys s))"
    and "\<And>sid s. di_live d sid = Some s \<Longrightarrow> sid \<in> used"
    and "\<And>sid s. (sid, s) \<in> out \<Longrightarrow> sid \<in> used \<and> di_live d sid = None"
    and "\<And>sid s s'. (sid, s) \<in> out \<Longrightarrow> (sid, s') \<in> out \<Longrightarrow> s' = s"
    and "\<And>sid s. di_timed_out d = Some (sid, s) \<Longrightarrow> (sid, s) \<in> out"
  shows "index_ok used out d"
  unfolding index_ok_def
proof (intro conjI allI)
  show "inj_on fst out" using assms(4) by (auto simp: inj_on_def)
qed (use assms in \<open>auto simp: elem_set dest: assms(3)\<close>)

lemma coordinator_member [simp]: "se_coordinator_pubkey s \<in> members s"
  by (simp add: members_def)

lemma members_queue [simp]: "members (s\<lparr>se_queue := q\<rparr>) = members s"
  by (simp add: members_def)

lemma directory_step_index:
  assumes "directory_step fresh y d d'" and "index_ok used out d" and "set_option fresh \<inter> used = {}"
  shows "index_ok (used \<union> set_option fresh) (out \<union> set_option y) d'"
  using assms(1)
proof cases
  case directory_keep
  then show ?thesis using assms(2)
    by (intro index_okI) (auto dest: index_okD(2-6)[OF assms(2)] simp: index_okD(1)[OF assms(2)])
next
  case (directory_create sid s)
  have n: "di_live d sid = None" "\<And>s. (sid, s) \<notin> out" "\<And>s. di_timed_out d \<noteq> Some (sid, s)"
    using assms(3) directory_create(3) index_okD(2,3,6)[OF assms(2)] by (auto, metis option.exhaust)
  with directory_create show ?thesis
    by (intro index_okI) (auto dest: index_okD(2-6)[OF assms(2)] simp: index_okD(1)[OF assms(2)] split: if_split_asm)
next
  case (directory_queue sid s s' q)
  then show ?thesis
    by (intro index_okI) (auto dest: index_okD(2-6)[OF assms(2)] simp: index_okD(1)[OF assms(2)] split: if_split_asm)
next
  case (directory_close sid s)
  have n: "\<And>s. (sid, s) \<notin> out" "\<And>s. di_timed_out d \<noteq> Some (sid, s)"
    using directory_close index_okD(4,6)[OF assms(2)] by auto
  with directory_close show ?thesis
    by (intro index_okI) (auto dest: index_okD(2-6)[OF assms(2)] simp: index_okD(1)[OF assms(2)] split: if_split_asm)
next
  case (directory_time_out sid s)
  have n: "\<And>s. (sid, s) \<notin> out" using directory_time_out index_okD(4)[OF assms(2)] by auto
  with directory_time_out show ?thesis
    by (intro index_okI) (auto dest: index_okD(2-6)[OF assms(2)] simp: index_okD(1)[OF assms(2)] split: if_split_asm)
next
  case (directory_unindex sid s)
  have n: "(sid, s) \<in> out" "di_live d sid = None" using directory_unindex index_okD(4,6)[OF assms(2)] by auto
  with directory_unindex show ?thesis
    by (intro index_okI)
      (auto dest: index_okD(2-6)[OF assms(2)] simp: index_okD(1)[OF assms(2)] members_def split: if_split_asm)
qed

context server
begin

lemma run_index:
  "server_run env h sys \<Longrightarrow> index_ok (issued h) (timed_out h) (directory_of env sys)"
proof (induction rule: server_run.induct)
  case server_run_start
  show ?case
    by (rule index_okI)
      (auto simp: directory_of_def server_start_def live_def listed_def app_state_new_def ses.get_new)
next
  case (server_run_step h sys ev r sys')
  then show ?case
    using directory_step_index[OF server_step_directory[OF server_run_step.hyps(3)]
        server_run_step.IH] by (cases "event_id ev") auto
qed

end

section \<open>Properties\<close>

text \<open>
  C35: In every state the server can reach, the list of a public key holds exactly the live
  sessions it is a participant or the coordinator of, the session whose expiry is being
  processed, and the timed-out sessions it coordinated without being a participant: those ids
  are never removed.
\<close>

theorem index_exact:
  assumes "server env" and "server_run env h sys"
  shows "sid \<in> listed sys pk \<longleftrightarrow>
     (\<exists>s. live env sys sid = Some s \<and> pk \<in> members s) \<or>
     (\<exists>s. sy_timed_out sys = Some (sid, s) \<and> pk \<in> members s) \<or>
     (\<exists>s. (sid, s) \<in> timed_out h \<and> pk = se_coordinator_pubkey s \<and> pk \<notin> set (se_pubkeys s))"
  using index_okD(1)[OF server.run_index[OF assms]] by (simp add: directory_of_def)

lemma close_session_ok_iff:
  assumes "server env"
  shows "fst (close_session env user args (sy_app sys)) = Inr () \<longleftrightarrow>
     cl_session_id args \<in> listed sys (us_pubkey user) \<and>
     (\<exists>s. live env sys (cl_session_id args) = Some s \<and> se_coordinator_pubkey s = us_pubkey user)"
  by (auto simp: close_session_def lookup_own_session_def listed_def listed_in_def live_def Let_def
      tryr_def ok_or_def split: option.splits sum.splits if_splits)

text \<open>
  C36: In a reachable state a session is closed by a request exactly when the user is its
  coordinator; then it is gone, no public key lists it (a participant's list is only ever read
  through the index), and every other session and list entry is untouched.
\<close>

theorem close_session_correct:
  assumes "server env" and "server_run env h sys"
  shows "(fst (close_session env user args (sy_app sys)) = Inr () \<longleftrightarrow>
      (\<exists>s. live env sys (cl_session_id args) = Some s \<and> se_coordinator_pubkey s = us_pubkey user)) \<and>
    (\<forall>st. close_session env user args (sy_app sys) = (Inr (), st) \<longrightarrow>
       live env (sys\<lparr>sy_app := st\<rparr>) = (live env sys)(cl_session_id args := None) \<and>
       (\<forall>pk. listed (sys\<lparr>sy_app := st\<rparr>) pk = listed sys pk - {cl_session_id args}))"
proof (intro conjI allI impI)
  have "cl_session_id args \<in> listed sys (us_pubkey user)"
    if "live env sys (cl_session_id args) = Some s" "se_coordinator_pubkey s = us_pubkey user" for s
    using that index_okD(1)[OF server.run_index[OF assms], of "cl_session_id args" "us_pubkey user"]
    by (auto simp: directory_of_def members_def)
  then show "fst (close_session env user args (sy_app sys)) = Inr () \<longleftrightarrow>
      (\<exists>s. live env sys (cl_session_id args) = Some s \<and> se_coordinator_pubkey s = us_pubkey user)"
    using close_session_ok_iff[OF assms(1)] by blast
next
  fix st assume c: "close_session env user args (sy_app sys) = (Inr (), st)"
  from server.close_ok[OF assms(1) c] obtain s where s: "live env sys (cl_session_id args) = Some s"
      "live env (sys\<lparr>sy_app := st\<rparr>) = (live env sys)(cl_session_id args := None)" and
    l: "listed (sys\<lparr>sy_app := st\<rparr>) = (\<lambda>pk. if pk \<in> members s
       then listed sys pk - {cl_session_id args} else listed sys pk)" by blast
  show "live env (sys\<lparr>sy_app := st\<rparr>) = (live env sys)(cl_session_id args := None)" by (rule s(2))
  fix pk
  note ix = server.run_index[OF assms]
  have "cl_session_id args \<notin> listed sys pk" if "pk \<notin> members s"
    using that s(1) index_okD(1)[OF ix, of "cl_session_id args" pk]
      index_okD(4,6)[OF ix, of "cl_session_id args"]
    by (auto simp: directory_of_def)
  then show "listed (sys\<lparr>sy_app := st\<rparr>) pk = listed sys pk - {cl_session_id args}"
    unfolding l by auto
qed

text \<open>
  \<open>get_session_info\<close> answers exactly the members of a live session, with its message count,
  public keys and coordinator, and everybody else gets \<open>SessionNotFound\<close>: a user cannot tell
  a foreign session from none.
\<close>

theorem get_session_info_correct:
  assumes "server env" and "server_run env h sys"
  shows "get_session_info env user args (sy_app sys) =
    (case live env sys (gi_session_id args) of
       None \<Rightarrow> Inl SessionNotFound
     | Some s \<Rightarrow> if us_pubkey user \<in> members s
         then Inr \<lparr>gi_message_count = se_message_count s, gi_pubkeys = se_pubkeys s,
           gi_coordinator_pubkey = se_coordinator_pubkey s\<rparr>
         else Inl SessionNotFound, sy_app sys)"
proof (cases "live env sys (gi_session_id args)")
  case None
  then show ?thesis
    by (auto simp: get_session_info_def lookup_own_session_def live_def tryr_def ok_or_def
        split: option.splits)
next
  case (Some s)
  note ix = server.run_index[OF assms]
  have "gi_session_id args \<in> listed sys (us_pubkey user) \<longleftrightarrow> us_pubkey user \<in> members s"
    using Some index_okD(1)[OF ix, of "gi_session_id args" "us_pubkey user"]
      index_okD(4,6)[OF ix, of "gi_session_id args"]
    by (auto simp: directory_of_def)
  with Some show ?thesis
    by (auto simp: get_session_info_def lookup_own_session_def live_def listed_def listed_in_def
        tryr_def ok_or_def split: option.splits)
qed

section \<open>Witnesses\<close>

text \<open>
  After the session has expired and the index has been cleaned up, the coordinator, who is no
  participant, still lists it.
\<close>

lemma ex_stale: "3 \<in> listed (ex_sys ex_expired) (ex_key 7)" "live ref_env (ex_sys ex_expired) 3 = None"
  unfolding ex_sys_expired by (simp_all add: listed_def live_def)

theorem index_exact_witness:
  "\<exists>s. (3, s) \<in> timed_out (ex_log ex_expired) \<and> ex_key 7 = se_coordinator_pubkey s \<and>
     ex_key 7 \<notin> set (se_pubkeys s)"
  using index_exact[OF ref_server.server_axioms ex_expired_run, of 3 "ex_key 7"] ex_stale
  unfolding ex_sys_expired by simp

theorem close_session_correct_witness:
  "fst (close_session ref_env (ex_user 7 2) \<lparr>cl_session_id = 3\<rparr> (sy_app (ex_sys ex_created))) = Inr ()"
  using conjunct1[OF close_session_correct[OF ref_server.server_axioms ex_created_run,
      of "ex_user 7 2" "\<lparr>cl_session_id = 3\<rparr>"]]
  unfolding ex_sys_created by (simp add: live_def ex_user_def ex_session_def)

theorem get_session_info_correct_witness:
  "get_session_info ref_env (ex_user 9 5) \<lparr>gi_session_id = 3\<rparr> (sy_app (ex_sys ex_created)) =
     (Inr \<lparr>gi_message_count = 1, gi_pubkeys = [ex_key 8, ex_key 9], gi_coordinator_pubkey = ex_key 7\<rparr>,
      sy_app (ex_sys ex_created))"
  using get_session_info_correct[OF ref_server.server_axioms ex_created_run,
      of "ex_user 9 5" "\<lparr>gi_session_id = 3\<rparr>"]
  unfolding ex_sys_created by (simp add: live_def ex_user_def ex_session_def members_def)

end
