(* ===== verification/Server_Delivery.thy ===== *)
theory Server_Delivery
  imports Server_Index
begin

text \<open>
  Message delivery through the server: for every live session and every queue of it, what has
  been received followed by what is still queued is what has been sent, in order and once; and
  what the sending and receiving handlers accept.
\<close>

section \<open>What a run sends and receives\<close>

fun sent_entry :: "uuid \<Rightarrow> session_participant \<Rightarrow> event \<Rightarrow> user option \<Rightarrow> (api_error + response) option \<Rightarrow>
    api_msg list" where
  "sent_entry sid p (Request now fresh (Send_Request auth args)) (Some u) (Some (Inr x)) =
     (if sa_session_id args = sid
      then map (\<lambda>_. \<lparr>sender = us_pubkey u, msg = sa_msg args\<rparr>) (filter ((=) p) (recipients_of args))
      else [])"
| "sent_entry sid p _ _ _ = []"

fun received_entry :: "public_key \<Rightarrow> uuid \<Rightarrow> session_participant \<Rightarrow> event \<Rightarrow> user option \<Rightarrow>
    (api_error + response) option \<Rightarrow> api_msg list" where
  "received_entry coordinator sid p (Request now fresh (Receive_Request auth args)) (Some u)
       (Some (Inr (Receive_Response out))) =
     (if ra_session_id args = sid \<and> participant_of coordinator (us_pubkey u) (ra_as_coordinator args) = p
      then ro_msgs out else [])"
| "received_entry coordinator sid p _ _ _ = []"

definition sent :: "entry list \<Rightarrow> uuid \<Rightarrow> session_participant \<Rightarrow> api_msg list" where
  "sent h sid p = concat (map (\<lambda>e. sent_entry sid p (en_event e) (en_user e) (en_reply e)) h)"

definition received :: "public_key \<Rightarrow> entry list \<Rightarrow> uuid \<Rightarrow> session_participant \<Rightarrow> api_msg list" where
  "received coordinator h sid p =
     concat (map (\<lambda>e. received_entry coordinator sid p (en_event e) (en_user e) (en_reply e)) h)"

lemma sent_simps [simp]:
  "sent [] sid p = []"
  "sent (h @ [e]) sid p = sent h sid p @ sent_entry sid p (en_event e) (en_user e) (en_reply e)"
  by (simp_all add: sent_def)

lemma received_simps [simp]:
  "received c [] sid p = []"
  "received c (h @ [e]) sid p =
     received c h sid p @ received_entry c sid p (en_event e) (en_user e) (en_reply e)"
  by (simp_all add: received_def)

fun moves_messages :: "event \<Rightarrow> bool" where
  "moves_messages (Request _ _ (Send_Request _ _)) = True"
| "moves_messages (Request _ _ (Receive_Request _ _)) = True"
| "moves_messages _ = False"

lemma no_messages:
  assumes "\<not> moves_messages ev"
  shows "sent_entry sid p ev u r = []" and "received_entry c sid p ev u r = []"
proof -
  show "sent_entry sid p ev u r = []"
    using assms by (cases "(sid, p, ev, u, r)" rule: sent_entry.cases) auto
  show "received_entry c sid p ev u r = []"
    using assms by (cases "(c, sid, p, ev, u, r)" rule: received_entry.cases) auto
qed

section \<open>The effect of one step on one queue\<close>

context server
begin

lemma live_same: "as_sessions st = as_sessions (sy_app sys) \<Longrightarrow> live env (sys\<lparr>sy_app := st\<rparr>) = live env sys"
  by (simp add: live_def fun_eq_iff)

lemma create_live:
  assumes "create_new_session env now fresh user args (sy_app sys) = (r, st)"
    and "live env (sys\<lparr>sy_app := st\<rparr>) sid = Some s'"
  shows "live env sys sid = Some s' \<or> fresh = sid \<and> se_queue s' = fmempty"
  using assms by (auto simp: create_new_session_def live_def Let_def ses.get_simps split: if_splits)

lemma close_live:
  assumes "close_session env user args (sy_app sys) = (r, st)"
    and "live env (sys\<lparr>sy_app := st\<rparr>) sid = Some s'"
  shows "live env sys sid = Some s'"
proof (cases r)
  case (Inl e)
  with assms have "st = sy_app sys" using close_err by simp
  with assms(2) show ?thesis by simp
next
  case (Inr u)
  with assms obtain s where "live env (sys\<lparr>sy_app := st\<rparr>) = (live env sys)(cl_session_id args := None)"
    by (auto elim: close_ok)
  with assms(2) show ?thesis by (simp split: if_splits)
qed

lemma user_live:
  assumes "handle_user env now fresh req user (sy_app sys) = (r, st)"
    and "\<not> moves_messages (Request now fresh req)" and "live env (sys\<lparr>sy_app := st\<rparr>) sid = Some s'"
  shows "live env sys sid = Some s' \<or> fresh = sid \<and> se_queue s' = fmempty"
proof (cases req)
  case (Create_Request auth args)
  with assms show ?thesis by (auto elim!: respond_cases dest: create_live)
next
  case (Close_Request auth args)
  with assms show ?thesis by (auto elim!: respond_cases dest: close_live)
next
  case (Logout_Request auth)
  with assms have "as_sessions st = as_sessions (sy_app sys)"
    by (auto elim!: respond_cases simp: logout_def)
  with assms(3) show ?thesis by (simp add: live_same)
qed (use assms in \<open>auto elim!: respond_cases simp: list_sessions_def get_session_info_def\<close>)

lemma router_live:
  assumes "router env now fresh req (sy_app sys) = (r, st)"
    and "\<not> moves_messages (Request now fresh req)" and "live env (sys\<lparr>sy_app := st\<rparr>) sid = Some s'"
  shows "live env sys sid = Some s' \<or> fresh = sid \<and> se_queue s' = fmempty"
proof (cases "public_request req")
  case True
  with assms(1) have "as_sessions st = as_sessions (sy_app sys)"
    by (cases req) (auto elim!: respond_cases simp: challenge_def login_def Let_def split: prod.splits if_splits)
  with assms(3) show ?thesis by (simp add: live_same)
next
  case False
  with assms show ?thesis
    by (auto simp: router_user split: sum.splits dest: user_live)
qed

lemma other_step_live:
  assumes "server_step env ev sys = (r, sys')" and "\<not> moves_messages ev" and "live env sys' sid = Some s'"
  shows "live env sys sid = Some s' \<or> event_id ev = Some sid \<and> se_queue s' = fmempty"
proof (cases ev)
  case (Request now fresh req)
  with assms show ?thesis by (auto split: prod.splits dest: router_live)
next
  case (Poll_Sessions now)
  obtain y m where n: "d_next (ses_ops env) now (as_sessions (sy_app sys)) = (y, m)"
    by (cases "d_next (ses_ops env) now (as_sessions (sy_app sys))")
  with assms Poll_Sessions show ?thesis using ses.next_sub[OF n]
    by (auto simp: poll_sessions_def live_def split: option.splits)
qed (use assms in \<open>auto simp: live_def unindex_timed_out_def poll_challenges_def
  poll_access_tokens_def split: option.splits\<close>)

lemma send_step_queue:
  assumes "server_step env (Request now fresh (Send_Request auth args)) sys = (r, sys')"
    and "live env sys' sid = Some s'"
  shows "\<exists>s. live env sys sid = Some s \<and> se_coordinator_pubkey s' = se_coordinator_pubkey s \<and>
     queue_of s' p = queue_of s p @ sent_entry sid p (Request now fresh (Send_Request auth args))
       (requester env (Request now fresh (Send_Request auth args)) sys) r"
proof (cases "user_from_request env auth (sy_app sys)")
  case (Inl e)
  with assms show ?thesis by auto
next
  case (Inr u)
  obtain r1 st where s1: "send env now u args (sy_app sys) = (r1, st)" by fastforce
  with Inr assms(1) have sys': "sys' = sys\<lparr>sy_app := st\<rparr>"
    by (auto simp: respond_def split: sum.splits)
  show ?thesis
  proof (cases r1)
    case (Inl e)
    with s1 have "st = sy_app sys" using send_err by simp
    with sys' have "sys' = sys" by simp
    moreover have "r = Some (Inl e)" using assms(1) \<open>user_from_request _ _ _ = _\<close> s1 Inl
      by (auto simp: respond_def)
    ultimately show ?thesis using assms(2) by (cases "requester env (Request now fresh (Send_Request auth args)) sys") auto
  next
    case r1: (Inr x)
    then have r: "r = Some (Inr Unit_Response)" using assms(1) Inr s1
      by (auto simp: respond_def)
    from s1 r1 obtain s where s: "live env sys (sa_session_id args) = Some s" and
      l: "live env (sys\<lparr>sy_app := st\<rparr>) = (live env sys)(sa_session_id args \<mapsto>
       fold (push_back \<lparr>sender = us_pubkey u, msg = sa_msg args\<rparr>) (recipients_of args) s)"
      by (auto elim: send_ok)
    obtain q where q: "fold (push_back \<lparr>sender = us_pubkey u, msg = sa_msg args\<rparr>) (recipients_of args) s
      = s\<lparr>se_queue := q\<rparr>" using fold_push_back_queue by blast
    show ?thesis
    proof (cases "sid = sa_session_id args")
      case True
      with l sys' assms(2) have s': "s' = fold (push_back \<lparr>sender = us_pubkey u, msg = sa_msg args\<rparr>)
          (recipients_of args) s" by simp
      then have "queue_of s' p = queue_of s p @
          map (\<lambda>_. \<lparr>sender = us_pubkey u, msg = sa_msg args\<rparr>) (filter ((=) p) (recipients_of args))"
        by (simp add: queue_of_fold_push_back)
      moreover have "se_coordinator_pubkey s' = se_coordinator_pubkey s" using s' q by simp
      ultimately show ?thesis using s True r Inr by auto
    next
      case False
      with l sys' assms(2) r Inr show ?thesis by auto
    qed
  qed
qed

lemma receive_step_queue:
  assumes "server_step env (Request now fresh (Receive_Request auth args)) sys = (r, sys')"
    and "live env sys' sid = Some s'"
  shows "\<exists>s. live env sys sid = Some s \<and> se_coordinator_pubkey s' = se_coordinator_pubkey s \<and>
     received_entry (se_coordinator_pubkey s) sid p (Request now fresh (Receive_Request auth args))
       (requester env (Request now fresh (Receive_Request auth args)) sys) r @ queue_of s' p = queue_of s p"
proof (cases "user_from_request env auth (sy_app sys)")
  case (Inl e)
  with assms show ?thesis by auto
next
  case (Inr u)
  obtain r1 st where s1: "receive env now u args (sy_app sys) = (r1, st)" by fastforce
  with Inr assms(1) have sys': "sys' = sys\<lparr>sy_app := st\<rparr>"
    by (auto simp: respond_def split: sum.splits)
  show ?thesis
  proof (cases r1)
    case (Inl e)
    with s1 have "st = sy_app sys" using receive_err by simp
    with sys' have "sys' = sys" by simp
    moreover have "r = Some (Inl e)" using assms(1) \<open>user_from_request _ _ _ = _\<close> s1 Inl
      by (auto simp: respond_def)
    ultimately show ?thesis using assms(2)
      by (cases "requester env (Request now fresh (Receive_Request auth args)) sys") auto
  next
    case r1: (Inr out)
    then have r: "r = Some (Inr (Receive_Response out))" using assms(1) Inr s1
      by (auto simp: respond_def)
    from s1 r1 obtain s q where s: "live env sys (ra_session_id args) = Some s"
      "ro_msgs out = queue_of s (participant_of (se_coordinator_pubkey s) (us_pubkey u) (ra_as_coordinator args))" and
      l: "live env (sys\<lparr>sy_app := st\<rparr>) = (live env sys)(ra_session_id args \<mapsto> s\<lparr>se_queue := q\<rparr>)" and
      q: "\<And>p. queue_of (s\<lparr>se_queue := q\<rparr>) p =
       (if p = participant_of (se_coordinator_pubkey s) (us_pubkey u) (ra_as_coordinator args)
        then [] else queue_of s p)"
      by (auto elim: receive_ok)
    show ?thesis
    proof (cases "sid = ra_session_id args")
      case True
      with l sys' assms(2) have "s' = s\<lparr>se_queue := q\<rparr>" by simp
      then show ?thesis using s True r Inr q by auto
    next
      case False
      with l sys' assms(2) r Inr show ?thesis by auto
    qed
  qed
qed

text \<open>A successful exchange of messages needs a live session.\<close>

lemma exchange_live:
  assumes "live env sys sid = None" and "server_step env ev sys = (r, sys')"
  shows "sent_entry sid p ev (requester env ev sys) r = []"
    and "received_entry c sid p ev (requester env ev sys) r = []"
proof -
  have send: "\<exists>s. live env sys (sa_session_id args) = Some s"
    if "send env now u args (sy_app sys) = (Inr x, st)" for now u args x st
    using that by (auto elim!: send_ok)
  have receive: "\<exists>s. live env sys (ra_session_id args) = Some s"
    if "receive env now u args (sy_app sys) = (Inr x, st)" for now u args x st
    using that by (auto elim!: receive_ok)
  show "sent_entry sid p ev (requester env ev sys) r = []"
    using assms
    by (cases "(sid, p, ev, requester env ev sys, r)" rule: sent_entry.cases)
      (auto split: sum.splits prod.splits elim!: respond_cases dest!: send)
  show "received_entry c sid p ev (requester env ev sys) r = []"
    using assms
    by (cases "(c, sid, p, ev, requester env ev sys, r)" rule: received_entry.cases)
      (auto split: sum.splits prod.splits elim!: respond_cases dest!: receive)
qed

lemma step_queue:
  assumes "server_step env ev sys = (r, sys')" and "live env sys' sid = Some s'"
  shows "(\<exists>s. live env sys sid = Some s \<and> se_coordinator_pubkey s' = se_coordinator_pubkey s \<and>
      received_entry (se_coordinator_pubkey s) sid p ev (requester env ev sys) r @ queue_of s' p =
        queue_of s p @ sent_entry sid p ev (requester env ev sys) r) \<or>
    event_id ev = Some sid \<and> se_queue s' = fmempty"
proof (cases "moves_messages ev")
  case False
  then show ?thesis using other_step_live[OF assms(1) False assms(2)] no_messages[OF False] by auto
next
  case True
  then consider now fresh auth args where "ev = Request now fresh (Send_Request auth args)"
    | now fresh auth args where "ev = Request now fresh (Receive_Request auth args)"
    by (cases ev rule: moves_messages.cases) auto
  then show ?thesis
  proof cases
    case 1
    then show ?thesis using send_step_queue[of now fresh auth args sys r sys' sid s' p] assms
      by (auto simp del: requester.simps server_step.simps)
  next
    case 2
    then show ?thesis using receive_step_queue[of now fresh auth args sys r sys' sid s' p] assms
      by (auto simp del: requester.simps server_step.simps)
  qed
qed

lemma not_issued_silent:
  "server_run env h sys \<Longrightarrow> sid \<notin> issued h \<Longrightarrow> sent h sid p = [] \<and> received c h sid p = []"
proof (induction rule: server_run.induct)
  case server_run_start
  show ?case by simp
next
  case (server_run_step h sys ev r sys')
  then have "live env sys sid = None"
    using index_okD(2)[OF run_index[OF server_run_step.hyps(1)], of sid]
    by (cases "live env sys sid") (auto simp: directory_of_def)
  from exchange_live[OF this server_run_step.hyps(3)] server_run_step show ?case by simp
qed

lemma run_delivery:
  "server_run env h sys \<Longrightarrow> live env sys sid = Some s \<Longrightarrow>
     received (se_coordinator_pubkey s) h sid p @ queue_of s p = sent h sid p"
proof (induction arbitrary: s rule: server_run.induct)
  case server_run_start
  then show ?case by (simp add: live_def server_start_def app_state_new_def ses.get_new)
next
  case (server_run_step h sys ev r sys')
  note step = server_run_step.hyps(3)
  have r: "en_reply (entry_of env ev sys) = r" using step by simp
  from step_queue[OF step server_run_step.prems, of p] show ?case
  proof
    assume "\<exists>s0. live env sys sid = Some s0 \<and> se_coordinator_pubkey s = se_coordinator_pubkey s0 \<and>
      received_entry (se_coordinator_pubkey s0) sid p ev (requester env ev sys) r @ queue_of s p =
        queue_of s0 p @ sent_entry sid p ev (requester env ev sys) r"
    then obtain s0 where s0: "live env sys sid = Some s0" "se_coordinator_pubkey s = se_coordinator_pubkey s0"
      "received_entry (se_coordinator_pubkey s0) sid p ev (requester env ev sys) r @ queue_of s p =
        queue_of s0 p @ sent_entry sid p ev (requester env ev sys) r" by blast
    with server_run_step.IH[OF s0(1)] r show ?thesis by simp
  next
    assume c: "event_id ev = Some sid \<and> se_queue s = fmempty"
    with server_run_step.hyps(2) have n: "sid \<notin> issued h" by auto
    have "live env sys sid = None"
      using n index_okD(2)[OF run_index[OF server_run_step.hyps(1)], of sid]
      by (cases "live env sys sid") (auto simp: directory_of_def)
    from exchange_live[OF this step] not_issued_silent[OF server_run_step.hyps(1) n] c r
    show ?thesis by (simp add: queue_of_def)
  qed
qed

end

section \<open>Properties\<close>

text \<open>
  C2: The server delivers messages in order and exactly once. In every reachable state and for
  every queue of a live session, the messages received from the queue followed by the messages
  waiting in it are the messages sent to it, each with the authenticated key of its sender.
\<close>

theorem delivery:
  assumes "server env" and "server_run env h sys" and "live env sys sid = Some s"
  shows "received (se_coordinator_pubkey s) h sid p @ queue_of s p = sent h sid p"
  by (rule server.run_delivery[OF assms])

text \<open>
  C6: \<open>send\<close> succeeds exactly for a message of at most \<open>MAX_MSG_SIZE\<close> bytes from a participant or
  the coordinator of a live session to participants of it (or to the coordinator, when no recipient
  is given). It then appends the message to the queue of every recipient and changes no other
  queue, session or list; when it fails it changes nothing.
\<close>

theorem send_correct:
  assumes "server env"
  shows "(case send env now user args (sy_app sys) of
     (Inr u, st) \<Rightarrow> \<exists>s q. length (sa_msg args) \<le> 65535 \<and> live env sys (sa_session_id args) = Some s \<and>
        us_pubkey user \<in> members s \<and> set (sa_recipients args) \<subseteq> set (se_pubkeys s) \<and>
        live env (sys\<lparr>sy_app := st\<rparr>) = (live env sys)(sa_session_id args \<mapsto> s\<lparr>se_queue := q\<rparr>) \<and>
        (\<forall>p. queue_of (s\<lparr>se_queue := q\<rparr>) p = queue_of s p @ map (\<lambda>_. \<lparr>sender = us_pubkey user, msg = sa_msg args\<rparr>)
           (filter ((=) p) (recipients_of args))) \<and>
        listed (sys\<lparr>sy_app := st\<rparr>) = listed sys
   | (Inl e, st) \<Rightarrow> st = sy_app sys \<and>
       e = (if length (sa_msg args) > 65535 then InvalidArgument ''msg is too big''
            else if live env sys (sa_session_id args) = None then SessionNotFound else NotInSession) \<and>
       (length (sa_msg args) > 65535 \<or> live env sys (sa_session_id args) = None \<or>
        (\<exists>s. live env sys (sa_session_id args) = Some s \<and>
          (us_pubkey user \<notin> members s \<or> \<not> set (sa_recipients args) \<subseteq> set (se_pubkeys s)))))"
proof -
  have members: "in_session user s \<longleftrightarrow> us_pubkey user \<in> members s" for s
    by (auto simp: in_session_def members_def)
  have recipients: "list_ex (unknown_recipient s) (recipients_of args) \<longleftrightarrow>
      \<not> set (sa_recipients args) \<subseteq> set (se_pubkeys s)" for s
    by (auto simp: recipients_of_def list_ex_iff)
  obtain r st where s: "send env now user args (sy_app sys) = (r, st)" by fastforce
  show ?thesis
  proof (cases r)
    case (Inl e)
    with s have "st = sy_app sys" using server.send_err[OF assms] by simp
    with s Inl members recipients show ?thesis
      by (auto simp: send_def live_def MAX_MSG_SIZE_def Let_def split: if_splits option.splits)
  next
    case (Inr u)
    from server.send_ok[OF assms s[unfolded Inr]] obtain se where se:
      "live env sys (sa_session_id args) = Some se" "in_session user se"
      "\<not> list_ex (unknown_recipient se) (recipients_of args)" "length (sa_msg args) \<le> MAX_MSG_SIZE"
      "live env (sys\<lparr>sy_app := st\<rparr>) = (live env sys)(sa_session_id args \<mapsto>
       fold (push_back \<lparr>sender = us_pubkey user, msg = sa_msg args\<rparr>) (recipients_of args) se)"
      "as_sessions_by_pubkey st = as_sessions_by_pubkey (sy_app sys)" by blast
    obtain q where q: "fold (push_back \<lparr>sender = us_pubkey user, msg = sa_msg args\<rparr>)
        (recipients_of args) se = se\<lparr>se_queue := q\<rparr>" using fold_push_back_queue by blast
    then have "queue_of (se\<lparr>se_queue := q\<rparr>) p = queue_of se p @
        map (\<lambda>_. \<lparr>sender = us_pubkey user, msg = sa_msg args\<rparr>) (filter ((=) p) (recipients_of args))" for p
      using queue_of_fold_push_back by metis
    moreover have "listed (sys\<lparr>sy_app := st\<rparr>) = listed sys" using se(6) by (simp add: listed_def)
    ultimately have "length (sa_msg args) \<le> 65535 \<and> live env sys (sa_session_id args) = Some se \<and>
        us_pubkey user \<in> members se \<and> set (sa_recipients args) \<subseteq> set (se_pubkeys se) \<and>
        live env (sys\<lparr>sy_app := st\<rparr>) = (live env sys)(sa_session_id args \<mapsto> se\<lparr>se_queue := q\<rparr>) \<and>
        (\<forall>p. queue_of (se\<lparr>se_queue := q\<rparr>) p = queue_of se p @
           map (\<lambda>_. \<lparr>sender = us_pubkey user, msg = sa_msg args\<rparr>) (filter ((=) p) (recipients_of args))) \<and>
        listed (sys\<lparr>sy_app := st\<rparr>) = listed sys"
      using se q members recipients by (simp add: MAX_MSG_SIZE_def)
    then show ?thesis unfolding s Inr prod.case sum.case by blast
  qed
qed

text \<open>
  \<open>receive\<close> hands out a queue of a live session to its owner only: a member gets exactly what is
  queued for its own key (the coordinator's queue when it is the coordinator and asks for it),
  that queue is emptied and nothing else changes; everybody else gets an error.
\<close>

theorem receive_correct:
  assumes "server env"
  shows "(case receive env now user args (sy_app sys) of
     (Inr out, st) \<Rightarrow> \<exists>s q p. live env sys (ra_session_id args) = Some s \<and>
        us_pubkey user \<in> members s \<and>
        p = (if us_pubkey user = se_coordinator_pubkey s \<and> ra_as_coordinator args then Coordinator
             else Participant (us_pubkey user)) \<and>
        ro_msgs out = queue_of s p \<and>
        live env (sys\<lparr>sy_app := st\<rparr>) = (live env sys)(ra_session_id args \<mapsto> s\<lparr>se_queue := q\<rparr>) \<and>
        queue_of (s\<lparr>se_queue := q\<rparr>) = (queue_of s)(p := []) \<and>
        listed (sys\<lparr>sy_app := st\<rparr>) = listed sys
   | (Inl e, st) \<Rightarrow> st = sy_app sys \<and>
       (live env sys (ra_session_id args) = None \<and> e = SessionNotFound \<or>
        (\<exists>s. live env sys (ra_session_id args) = Some s \<and> us_pubkey user \<notin> members s \<and>
           e = NotInSession)))"
proof -
  have members: "in_session user s \<longleftrightarrow> us_pubkey user \<in> members s" for s
    by (auto simp: in_session_def members_def)
  obtain r st where s: "receive env now user args (sy_app sys) = (r, st)" by fastforce
  show ?thesis
  proof (cases r)
    case (Inl e)
    with s have "st = sy_app sys" using server.receive_err[OF assms] by simp
    with s Inl members show ?thesis
      by (auto simp: receive_def live_def Let_def split: if_splits option.splits)
  next
    case (Inr out)
    from server.receive_ok[OF assms s[unfolded Inr]] obtain se q where se:
      "live env sys (ra_session_id args) = Some se" "in_session user se"
      "ro_msgs out = queue_of se (participant_of (se_coordinator_pubkey se) (us_pubkey user) (ra_as_coordinator args))"
      "live env (sys\<lparr>sy_app := st\<rparr>) = (live env sys)(ra_session_id args \<mapsto> se\<lparr>se_queue := q\<rparr>)"
      "\<And>p. queue_of (se\<lparr>se_queue := q\<rparr>) p =
         (if p = participant_of (se_coordinator_pubkey se) (us_pubkey user) (ra_as_coordinator args)
          then [] else queue_of se p)"
      "as_sessions_by_pubkey st = as_sessions_by_pubkey (sy_app sys)" by blast
    have q: "queue_of (se\<lparr>se_queue := q\<rparr>) = (queue_of se)
      (participant_of (se_coordinator_pubkey se) (us_pubkey user) (ra_as_coordinator args) := [])"
      using se(5) by (auto simp: fun_eq_iff)
    with s Inr se(1-4,6) members show ?thesis
      by (auto simp: listed_def participant_of_def intro!: exI[of _ se] exI[of _ q])
  qed
qed

section \<open>Witnesses\<close>

text \<open>
  Participant 8 logs in with challenge 4 and token 5 and sends two messages, one to the coordinator
  and one to participant 9; the coordinator receives the first.
\<close>

definition ex_sending :: "event list" where
  "ex_sending = ex_created @ [Request 3 4 Challenge_Request, Request 4 5 (ex_login 4 8),
     Request 5 6 (Send_Request (ex_auth 5) \<lparr>sa_session_id = 3, sa_recipients = [], sa_msg = [1, 2]\<rparr>),
     Request 6 7 (Send_Request (ex_auth 5) \<lparr>sa_session_id = 3, sa_recipients = [ex_key 9], sa_msg = [3]\<rparr>),
     Request 7 8 (Receive_Request (ex_auth 2) \<lparr>ra_session_id = 3, ra_as_coordinator = True\<rparr>)]"

lemma ex_sending_run: "server_run ref_env (ex_log ex_sending) (ex_sys ex_sending)"
  by (rule run_events_start) (simp add: ex_sending_def ex_created_def)

definition ex_session_sending :: session where
  "ex_session_sending = ex_session\<lparr>se_queue := fmupd Coordinator []
     (fmupd (Participant (ex_key 9)) [\<lparr>sender = ex_key 8, msg = [3]\<rparr>]
       (fmupd Coordinator [\<lparr>sender = ex_key 8, msg = [1, 2]\<rparr>] fmempty))\<rparr>"

lemma ex_sending_live: "live ref_env (ex_sys ex_sending) 3 = Some ex_session_sending"
proof -
  have "ex_sys ex_sending = snd (run_events ref_env (drop 3 ex_sending) (ex_sys ex_created))"
    unfolding ex_sending_def run_events_append by (simp add: ex_created_def Let_def split: prod.splits)
  then show ?thesis
    unfolding ex_sys_created
    by (simp add: ex_sending_def ex_created_def ex_defs server_eval ex_session_def ex_session_sending_def
        live_def)
qed

theorem delivery_witness:
  "received (ex_key 7) (ex_log ex_sending) 3 Coordinator @ queue_of ex_session_sending Coordinator =
     sent (ex_log ex_sending) 3 Coordinator"
  using delivery[OF ref_server.server_axioms ex_sending_run ex_sending_live]
  by (simp add: ex_session_sending_def ex_session_def)

theorem send_correct_witness:
  "fst (send ref_env 9 (ex_user 6 9) \<lparr>sa_session_id = 3, sa_recipients = [], sa_msg = []\<rparr>
     (sy_app (ex_sys ex_created))) = Inl NotInSession"
proof -
  let ?r = "send ref_env 9 (ex_user 6 9) \<lparr>sa_session_id = 3, sa_recipients = [], sa_msg = []\<rparr>
     (sy_app (ex_sys ex_created))"
  have l: "live ref_env (ex_sys ex_created) 3 = Some ex_session"
    unfolding ex_sys_created by (simp add: live_def)
  have "us_pubkey (ex_user 6 9) \<notin> members ex_session"
    by (simp add: ex_user_def ex_session_def members_def)
  with l show ?thesis
    using send_correct[OF ref_server.server_axioms, where now = 9 and user = "ex_user 6 9" and
        args = "\<lparr>sa_session_id = 3, sa_recipients = [], sa_msg = []\<rparr>" and sys = "ex_sys ex_created"]
    by (cases "fst ?r"; cases ?r) auto
qed

theorem receive_correct_witness:
  "fst (receive ref_env 9 (ex_user 8 5) \<lparr>ra_session_id = 3, ra_as_coordinator = True\<rparr>
     (sy_app (ex_sys ex_sending))) = Inr \<lparr>ro_msgs = []\<rparr>"
proof -
  let ?r = "receive ref_env 9 (ex_user 8 5) \<lparr>ra_session_id = 3, ra_as_coordinator = True\<rparr>
     (sy_app (ex_sys ex_sending))"
  have "us_pubkey (ex_user 8 5) \<in> members ex_session_sending"
    "us_pubkey (ex_user 8 5) \<noteq> se_coordinator_pubkey ex_session_sending"
    "queue_of ex_session_sending (Participant (us_pubkey (ex_user 8 5))) = []"
    by (simp_all add: ex_user_def ex_session_def ex_session_sending_def members_def queue_of_def)
  then show ?thesis
    using receive_correct[OF ref_server.server_axioms, where now = 9 and user = "ex_user 8 5" and
        args = "\<lparr>ra_session_id = 3, ra_as_coordinator = True\<rparr>" and sys = "ex_sys ex_sending"] ex_sending_live
    by (cases "fst ?r"; cases ?r) auto
qed

end
