(* ===== verification/Server_Auth.thy ===== *)
theory Server_Auth
  imports Server_Delivery
begin

text \<open>
  Authentication at the server: which tokens identify a user, how often a challenge can be used,
  and what logging out revokes.
\<close>

section \<open>Logins, challenges and logouts of a run\<close>

fun grant_of :: "event \<Rightarrow> (api_error + response) option \<Rightarrow> (uuid \<times> login_args) option" where
  "grant_of (Request now fresh (Login_Request args)) (Some (Inr x)) = Some (fresh, args)"
| "grant_of _ _ = None"

fun grants :: "entry list \<Rightarrow> (uuid \<times> login_args) list" where
  "grants [] = []"
| "grants (e # h) = (case grant_of (en_event e) (en_reply e) of None \<Rightarrow> grants h | Some g \<Rightarrow> g # grants h)"

fun challenge_of :: "event \<Rightarrow> uuid option" where
  "challenge_of (Request now fresh Challenge_Request) = Some fresh"
| "challenge_of _ = None"

definition challenged :: "entry list \<Rightarrow> uuid set" where
  "challenged h = {c. Some c \<in> (challenge_of \<circ> en_event) ` set h}"

fun revoked_by :: "event \<Rightarrow> user option \<Rightarrow> uuid option" where
  "revoked_by (Request now fresh (Logout_Request auth)) (Some u) = Some (us_current_token u)"
| "revoked_by _ _ = None"

definition revoked :: "entry list \<Rightarrow> uuid set" where
  "revoked h = {t. \<exists>e\<in>set h. revoked_by (en_event e) (en_user e) = Some t}"

lemma grants_append [simp]: "grants (h @ h') = grants h @ grants h'"
  by (induction h) (auto split: option.splits)

lemma challenged_simps [simp]:
  "challenged [] = {}"
  "challenged (h @ [e]) = challenged h \<union> set_option (challenge_of (en_event e))"
  by (auto simp: challenged_def elem_set)

lemma revoked_simps [simp]:
  "revoked [] = {}"
  "revoked (h @ [e]) = revoked h \<union> set_option (revoked_by (en_event e) (en_user e))"
  by (auto simp: revoked_def elem_set)

section \<open>The effect of a step on challenges and tokens\<close>

definition challenge_live :: "('sm, 'cs, 'tm) server_env \<Rightarrow> ('sm, 'cs, 'tm) system \<Rightarrow> uuid \<Rightarrow> bool" where
  "challenge_live env sys c \<longleftrightarrow> d_get (cha_ops env) c (as_challenges (sy_app sys)) \<noteq> None"

definition token_user :: "('sm, 'cs, 'tm) server_env \<Rightarrow> ('sm, 'cs, 'tm) system \<Rightarrow> uuid \<Rightarrow> public_key option" where
  "token_user env sys t = d_get (tok_ops env) t (as_access_tokens (sy_app sys))"

lemma user_from_request_token:
  "user_from_request env auth (sy_app sys) = Inr u \<Longrightarrow>
     token_user env sys (us_current_token u) = Some (us_pubkey u)"
  by (auto simp: user_from_request_def token_user_def split: option.splits)

lemma handle_user_auth:
  assumes "handle_user env now fresh req user st = (r, st')"
  shows "as_challenges st' = as_challenges st"
    and "as_access_tokens st' = (case req of
       Logout_Request _ \<Rightarrow> snd (d_remove (tok_ops env) (us_current_token user) (as_access_tokens st))
     | _ \<Rightarrow> as_access_tokens st)"
  using assms
  by (cases req; auto elim!: respond_cases simp: logout_def create_new_session_def list_sessions_def
      get_session_info_def send_def receive_def close_session_def Let_def
      split: if_splits option.splits sum.splits)+

context server
begin

lemma login_cases:
  assumes "login env now fresh args st = (r, st')"
  obtains e where "r = Inl e" "as_access_tokens st' = as_access_tokens st"
      "\<And>c. d_get (cha_ops env) c (as_challenges st') \<noteq> None \<Longrightarrow>
        d_get (cha_ops env) c (as_challenges st) \<noteq> None"
    | "r = Inr \<lparr>lo_access_token = fresh\<rparr>"
      "length (pk_bytes (la_pubkey args)) = 32" "length (la_signature args) = 64"
      "verify env (pk_bytes (la_pubkey args)) (la_challenge args) (la_signature args)"
      "d_get (cha_ops env) (la_challenge args) (as_challenges st) \<noteq> None"
      "\<And>c. d_get (cha_ops env) c (as_challenges st') =
        (if c = la_challenge args then None else d_get (cha_ops env) c (as_challenges st))"
      "\<And>t. d_get (tok_ops env) t (as_access_tokens st') =
        (if t = fresh then Some (la_pubkey args) else d_get (tok_ops env) t (as_access_tokens st))"
proof -
  obtain rm cs where d: "d_remove (cha_ops env) (la_challenge args) (as_challenges st) = (rm, cs)"
    by fastforce
  have rm: "rm = d_get (cha_ops env) (la_challenge args) (as_challenges st)"
    using cha.remove_val[of "la_challenge args" "as_challenges st"] d by simp
  have cs: "d_get (cha_ops env) k cs =
      (if k = la_challenge args then None else d_get (cha_ops env) k (as_challenges st))" for k
    using cha.get_remove[of k "la_challenge args" "as_challenges st"] d by simp
  show ?thesis
  proof (cases r)
    case (Inl e)
    with assms have "as_access_tokens st' = as_access_tokens st"
      "as_challenges st' = as_challenges st \<or> as_challenges st' = cs"
      by (auto simp: login_def Let_def d split: if_splits)
    with Inl cs show ?thesis by (intro that(1)[of e]) (auto split: if_splits)
  next
    case (Inr out)
    with assms show ?thesis
      by (intro that(2)) (auto simp: login_def Let_def d rm cs tok.get_simps split: if_splits)
  qed
qed

lemma login_step:
  assumes "server_step env (Request now fresh (Login_Request args)) sys = (r, sys')"
  obtains "grant_of (Request now fresh (Login_Request args)) r = None"
      "token_user env sys' = token_user env sys"
      "\<And>c. challenge_live env sys' c \<Longrightarrow> challenge_live env sys c"
    | "grant_of (Request now fresh (Login_Request args)) r = Some (fresh, args)"
      "length (pk_bytes (la_pubkey args)) = 32" "length (la_signature args) = 64"
      "verify env (pk_bytes (la_pubkey args)) (la_challenge args) (la_signature args)"
      "challenge_live env sys (la_challenge args)"
      "\<And>c. challenge_live env sys' c \<Longrightarrow> challenge_live env sys c \<and> c \<noteq> la_challenge args"
      "token_user env sys' = (token_user env sys)(fresh \<mapsto> la_pubkey args)"
proof -
  obtain r1 st where l: "login env now fresh args (sy_app sys) = (r1, st)" by fastforce
  with assms have sys': "sys' = sys\<lparr>sy_app := st\<rparr>" and
    r: "r = Some (case r1 of Inl e \<Rightarrow> Inl e | Inr x \<Rightarrow> Inr (Login_Response x))"
    by (auto simp: respond_def split: sum.splits)
  from l show ?thesis
  proof (cases rule: login_cases)
    case (1 e)
    with sys' r show ?thesis
      by (intro that(1)) (auto simp: token_user_def challenge_live_def fun_eq_iff)
  next
    case 2
    with sys' r show ?thesis
      by (intro that(2)) (auto simp: token_user_def challenge_live_def fun_eq_iff split: if_splits)
  qed
qed

text \<open>A step other than a login creates no token, and no challenge except by a challenge request.\<close>

lemma other_step_auth:
  assumes "server_step env ev sys = (r, sys')" and "\<And>now fresh args. ev \<noteq> Request now fresh (Login_Request args)"
  shows "grant_of ev r = None"
    and "token_user env sys' t = Some pk \<Longrightarrow> token_user env sys t = Some pk"
    and "revoked_by ev (requester env ev sys) = Some t \<Longrightarrow> token_user env sys' t = None"
    and "challenge_live env sys' c \<Longrightarrow> challenge_live env sys c \<or> challenge_of ev = Some c"
proof -
  show "grant_of ev r = None" using assms(2) by (cases "(ev, r)" rule: grant_of.cases) auto
  have request: "(token_user env sys' t = Some pk \<longrightarrow> token_user env sys t = Some pk) \<and>
      (revoked_by ev (requester env ev sys) = Some t \<longrightarrow> token_user env sys' t = None) \<and>
      (challenge_live env sys' c \<longrightarrow> challenge_live env sys c \<or> challenge_of ev = Some c)"
    if ev: "ev = Request now fresh req" for now fresh req
  proof (cases "public_request req")
    case True
    with assms ev show ?thesis
      by (cases req) (auto simp: challenge_def respond_def token_user_def challenge_live_def
          cha.get_simps split: if_splits)
  next
    case False
    show ?thesis
    proof (cases "user_from_request env (bearer_of req) (sy_app sys)")
      case (Inl e)
      with assms(1) ev False have "sys' = sys" by (auto simp: router_user)
      moreover have "revoked_by ev (requester env ev sys) = None" using ev Inl by simp
      ultimately show ?thesis by simp
    next
      case (Inr u)
      obtain r1 st where h: "handle_user env now fresh req u (sy_app sys) = (r1, st)" by fastforce
      with assms(1) ev False Inr have "sys' = sys\<lparr>sy_app := st\<rparr>" by (auto simp: router_user)
      with handle_user_auth[OF h] ev Inr show ?thesis
        by (cases req) (auto simp: token_user_def challenge_live_def tok.get_simps split: if_splits)
    qed
  qed
  have poll: "(token_user env sys' t = Some pk \<longrightarrow> token_user env sys t = Some pk) \<and>
      revoked_by ev (requester env ev sys) = None \<and>
      (challenge_live env sys' c \<longrightarrow> challenge_live env sys c)"
    if ev: "\<And>now fresh req. ev \<noteq> Request now fresh req"
  proof (cases ev)
    case (Poll_Sessions now)
    with assms(1) have "as_challenges (sy_app sys') = as_challenges (sy_app sys)"
      "as_access_tokens (sy_app sys') = as_access_tokens (sy_app sys)"
      by (auto simp: poll_sessions_def split: option.splits prod.splits)
    with Poll_Sessions show ?thesis by (simp add: token_user_def challenge_live_def)
  next
    case (Poll_Challenges now)
    obtain y m where n: "d_next (cha_ops env) now (as_challenges (sy_app sys)) = (y, m)" by fastforce
    with assms(1) Poll_Challenges show ?thesis
      by (auto simp: poll_challenges_def token_user_def challenge_live_def dest: cha.next_sub[OF n])
  next
    case (Poll_Access_Tokens now)
    obtain y m where n: "d_next (tok_ops env) now (as_access_tokens (sy_app sys)) = (y, m)" by fastforce
    with assms(1) Poll_Access_Tokens show ?thesis
      by (auto simp: poll_access_tokens_def token_user_def challenge_live_def dest: tok.next_sub[OF n])
  next
    case Unindex
    with assms(1) have "as_challenges (sy_app sys') = as_challenges (sy_app sys)"
      "as_access_tokens (sy_app sys') = as_access_tokens (sy_app sys)"
      by (auto simp: unindex_timed_out_def split: option.splits)
    with Unindex show ?thesis by (simp add: token_user_def challenge_live_def)
  qed (use ev in simp)
  show "token_user env sys' t = Some pk \<Longrightarrow> token_user env sys t = Some pk"
    and "revoked_by ev (requester env ev sys) = Some t \<Longrightarrow> token_user env sys' t = None"
    and "challenge_live env sys' c \<Longrightarrow> challenge_live env sys c \<or> challenge_of ev = Some c"
    using request poll by (cases ev; fastforce)+
qed

lemma challenge_of_id: "challenge_of ev = Some c \<Longrightarrow> event_id ev = Some c"
  by (cases ev rule: challenge_of.cases) auto

lemma grant_of_id: "grant_of ev r = Some (t, args) \<Longrightarrow> event_id ev = Some t"
  by (cases "(ev, r)" rule: grant_of.cases) auto

definition auth_ok :: "entry list \<Rightarrow> ('sm, 'cs, 'tm) system \<Rightarrow> bool" where
  "auth_ok h sys \<longleftrightarrow>
     distinct (map (la_challenge \<circ> snd) (grants h)) \<and>
     (\<forall>(t, args)\<in>set (grants h). t \<in> issued h \<and> la_challenge args \<in> challenged h \<and>
        length (pk_bytes (la_pubkey args)) = 32 \<and> length (la_signature args) = 64 \<and>
        verify env (pk_bytes (la_pubkey args)) (la_challenge args) (la_signature args) \<and>
        \<not> challenge_live env sys (la_challenge args)) \<and>
     (\<forall>c. challenge_live env sys c \<longrightarrow> c \<in> challenged h) \<and> challenged h \<subseteq> issued h \<and>
     (\<forall>t pk. token_user env sys t = Some pk \<longrightarrow>
        t \<notin> revoked h \<and> (\<exists>args. (t, args) \<in> set (grants h) \<and> la_pubkey args = pk)) \<and>
     revoked h \<subseteq> issued h"

lemma run_auth: "server_run env h sys \<Longrightarrow> auth_ok h sys"
proof (induction rule: server_run.induct)
  case server_run_start
  show ?case
    by (simp add: auth_ok_def challenge_live_def token_user_def server_start_def app_state_new_def
        cha.get_new tok.get_new)
next
  case (server_run_step h sys ev r sys')
  note step = server_run_step.hyps(3) and IH = server_run_step.IH[unfolded auth_ok_def]
  have r: "fst (server_step env ev sys) = r" using step by simp
  show ?case
  proof (cases "\<exists>now fresh args. ev = Request now fresh (Login_Request args)")
    case True
    then obtain now fresh args where ev: "ev = Request now fresh (Login_Request args)" by blast
    have f: "fresh \<notin> issued h" using server_run_step.hyps(2) ev by auto
    have rv: "revoked_by ev u = None" "challenge_of ev = None" for u using ev by auto
    from step[unfolded ev] show ?thesis
    proof (cases rule: login_step)
      case 1
      with IH r rv ev show ?thesis
        unfolding auth_ok_def by (auto simp del: server_step.simps)
    next
      case 2
      have "la_challenge args \<notin> set (map (la_challenge \<circ> snd) (grants h))"
        using 2(5) IH by auto
      with 2 IH r rv ev f show ?thesis
        unfolding auth_ok_def by (auto simp del: server_step.simps split: if_splits)
    qed
  next
    case False
    note o = other_step_auth[OF step]
    have g: "grant_of ev r = None" using o(1) False by blast
    have n: "challenge_of ev = Some c \<Longrightarrow> c \<notin> issued h" for c
      using server_run_step.hyps(2) challenge_of_id by (metis image_eqI)
    have t: "token_user env sys' t = Some pk \<Longrightarrow> token_user env sys t = Some pk \<and>
        revoked_by ev (requester env ev sys) \<noteq> Some t" for t pk
      using o(2,3) False by fastforce
    have c: "challenge_live env sys' c \<Longrightarrow> challenge_live env sys c \<or> challenge_of ev = Some c" for c
      using o(4) False by blast
    have rv: "revoked_by ev (requester env ev sys) = Some t \<Longrightarrow> t \<in> issued h" for t
    proof -
      assume a: "revoked_by ev (requester env ev sys) = Some t"
      then obtain u where "requester env ev sys = Some u" "us_current_token u = t"
        by (cases "(ev, requester env ev sys)" rule: revoked_by.cases) auto
      then have "token_user env sys t = Some (us_pubkey u)"
        using user_from_request_token by (cases ev) (auto split: sum.splits)
      with IH show "t \<in> issued h" by blast
    qed
    have d: "distinct (map (la_challenge \<circ> snd) (grants (h @ [entry_of env ev sys])))"
      using IH g r by simp
    have gr: "grants (h @ [entry_of env ev sys]) = grants h" using g r by simp
    show ?thesis
      unfolding auth_ok_def gr
    proof (intro conjI)
      show "distinct (map (la_challenge \<circ> snd) (grants h))" using IH by blast
      show "\<forall>(t, args)\<in>set (grants h). t \<in> issued (h @ [entry_of env ev sys]) \<and>
          la_challenge args \<in> challenged (h @ [entry_of env ev sys]) \<and>
          length (pk_bytes (la_pubkey args)) = 32 \<and> length (la_signature args) = 64 \<and>
          verify env (pk_bytes (la_pubkey args)) (la_challenge args) (la_signature args) \<and>
          \<not> challenge_live env sys' (la_challenge args)"
        using IH c n by fastforce
      show "\<forall>c. challenge_live env sys' c \<longrightarrow> c \<in> challenged (h @ [entry_of env ev sys])"
        using IH c by fastforce
      show "challenged (h @ [entry_of env ev sys]) \<subseteq> issued (h @ [entry_of env ev sys])"
        using IH challenge_of_id[of ev] by (auto simp: elem_set)
      show "\<forall>t pk. token_user env sys' t = Some pk \<longrightarrow> t \<notin> revoked (h @ [entry_of env ev sys]) \<and>
          (\<exists>args. (t, args) \<in> set (grants h) \<and> la_pubkey args = pk)"
        using IH t by fastforce
      show "revoked (h @ [entry_of env ev sys]) \<subseteq> issued (h @ [entry_of env ev sys])"
        using IH rv by (auto simp: elem_set)
    qed
  qed
qed

end

section \<open>Properties\<close>

text \<open>
  C1: Only the holder of a key acts in its name. In every reachable state, a request that
  authenticates as a public key carries a token that a login gave out for a signature valid under
  that key, of 64 bytes on a key of 32, over a challenge the server issued; no two logins of the
  run used the same challenge.
\<close>

theorem authentication:
  assumes "server env" and "server_run env h sys" and "user_from_request env auth (sy_app sys) = Inr u"
  shows "(\<exists>args. (us_current_token u, args) \<in> set (grants h) \<and> la_pubkey args = us_pubkey u \<and>
      la_challenge args \<in> challenged h \<and> length (pk_bytes (us_pubkey u)) = 32 \<and>
      length (la_signature args) = 64 \<and>
      verify env (pk_bytes (us_pubkey u)) (la_challenge args) (la_signature args)) \<and>
    distinct (map (la_challenge \<circ> snd) (grants h))"
proof -
  from server.run_auth[OF assms(1,2)] have ok: "server.auth_ok env h sys" .
  from user_from_request_token[OF assms(3)] ok obtain args where
    a: "(us_current_token u, args) \<in> set (grants h)" "la_pubkey args = us_pubkey u"
    unfolding server.auth_ok_def[OF assms(1)] by blast
  with ok show ?thesis unfolding server.auth_ok_def[OF assms(1)] by fastforce
qed

text \<open>
  Logging out is final: once a user has logged out, no request with that user's token is ever
  authenticated again.
\<close>

theorem logout_revokes:
  assumes "server env" and "server_run env h sys" and "t \<in> revoked h" and "parse_uuid env bearer = Some t"
  shows "user_from_request env (Some bearer) (sy_app sys) = Inl Unauthorized"
proof -
  have "token_user env sys t = None"
    using server.run_auth[OF assms(1,2)] assms(3) unfolding server.auth_ok_def[OF assms(1)]
    by (cases "token_user env sys t") auto
  with assms(4) show ?thesis by (simp add: user_from_request_def token_user_def)
qed

section \<open>Witnesses\<close>

lemma ex_created_user: "user_from_request ref_env (ex_auth 2) (sy_app (ex_sys ex_created)) = Inr (ex_user 7 2)"
  unfolding ex_sys_created by (simp add: user_from_request_def ex_auth_def ex_user_def)

theorem authentication_witness:
  "\<exists>args. (2, args) \<in> set (grants (ex_log ex_created)) \<and> la_pubkey args = ex_key 7"
  using authentication[OF ref_server.server_axioms ex_created_run ex_created_user]
  by (auto simp: ex_user_def)

definition ex_logged_out :: "event list" where
  "ex_logged_out = ex_created @ [Request 3 4 (Logout_Request (ex_auth 2))]"

lemma ex_logged_out_run: "server_run ref_env (ex_log ex_logged_out) (ex_sys ex_logged_out)"
  by (rule run_events_start) (simp add: ex_logged_out_def ex_created_def)

lemma ex_logged_out_revoked: "2 \<in> revoked (ex_log ex_logged_out)"
proof -
  have "ex_log ex_logged_out = ex_log ex_created @
      [entry_of ref_env (Request 3 4 (Logout_Request (ex_auth 2))) (ex_sys ex_created)]"
    unfolding ex_logged_out_def run_events_append by (simp add: Let_def split: prod.splits)
  then show ?thesis using ex_created_user by (simp add: ex_user_def)
qed

theorem logout_revokes_witness:
  "user_from_request ref_env (ex_auth 2) (sy_app (ex_sys ex_logged_out)) = Inl Unauthorized"
  unfolding ex_auth_def
  by (rule logout_revokes[OF ref_server.server_axioms ex_logged_out_run ex_logged_out_revoked]) simp

end
