(* ===== verification/Server_Timeouts.thy ===== *)
theory Server_Timeouts
  imports Server_Auth
begin

text \<open>
  Deadlines of sessions over whole runs of the server: an abstract clock that only sees the
  requests and replies of a run tells which sessions are live and until when, and the background
  task removes exactly what has passed the time of that clock.
\<close>

section \<open>The clock of a run\<close>

text \<open>
  A session lives for a day of 86400 seconds from its creation, from every send that succeeds and
  from every receive that returns a message. It ends when it is closed or removed by the
  background task.
\<close>

fun clock_request :: "nat \<Rightarrow> uuid \<Rightarrow> request \<Rightarrow> response \<Rightarrow> (uuid \<Rightarrow> nat option) \<Rightarrow> uuid \<Rightarrow> nat option" where
  "clock_request now fresh (Create_Request _ args) out c = c(fresh \<mapsto> now + 86400)"
| "clock_request now fresh (Send_Request _ args) out c = c(sa_session_id args \<mapsto> now + 86400)"
| "clock_request now fresh (Receive_Request _ args) (Receive_Response out) c =
     (if ro_msgs out = [] then c else c(ra_session_id args \<mapsto> now + 86400))"
| "clock_request now fresh (Close_Request _ args) out c = c(cl_session_id args := None)"
| "clock_request now fresh _ _ c = c"

definition clock_entry :: "entry \<Rightarrow> (uuid \<Rightarrow> nat option) \<Rightarrow> uuid \<Rightarrow> nat option" where
  "clock_entry e c =
     (case (en_event e, en_reply e, en_timed_out e) of
        (Request now fresh req, Some (Inr out), _) \<Rightarrow> clock_request now fresh req out c
      | (_, _, Some (sid, s)) \<Rightarrow> c(sid := None)
      | _ \<Rightarrow> c)"

definition session_clock :: "entry list \<Rightarrow> uuid \<Rightarrow> nat option" where
  "session_clock h = fold clock_entry h (\<lambda>_. None)"

lemma clock_simps [simp]:
  "session_clock [] = (\<lambda>_. None)"
  "session_clock (h @ [e]) = clock_entry e (session_clock h)"
  by (simp_all add: session_clock_def)

section \<open>The handlers follow the clock\<close>

locale clocked_server =
  server env + clocked: timed_delay_map "ses_ops env" timeout deadline
  for env :: "('sm, 'cs, 'tm) server_env"
    and timeout :: "'sm \<Rightarrow> nat" and deadline :: "uuid \<Rightarrow> 'sm \<Rightarrow> nat"
begin

abbreviation clocked :: "('sm, 'cs, 'tm) app_state \<Rightarrow> (uuid \<Rightarrow> nat option) \<Rightarrow> bool" where
  "clocked st c \<equiv> timeout (as_sessions st) = 86400 \<and> deadlines (ses_ops env) deadline (as_sessions st) = c"

lemmas clocked_simps = ses.get_simps clocked.timeout_keep clocked.deadlines_insert
  clocked.deadlines_set clocked.deadlines_update clocked.deadlines_remove SESSION_TIMEOUT_def Let_def

lemma create_clocked:
  assumes "create_new_session env now fresh user args st = (r, st')" and "clocked st c"
  shows "clocked st' (case r of Inl e \<Rightarrow> c | Inr out \<Rightarrow> c(fresh \<mapsto> now + 86400))"
  using assms by (auto simp: create_new_session_def clocked_simps split: if_splits)

lemma send_clocked:
  assumes "send env now user args st = (r, st')" and "clocked st c"
  shows "clocked st' (case r of Inl e \<Rightarrow> c | Inr out \<Rightarrow> c(sa_session_id args \<mapsto> now + 86400))"
  using assms by (auto simp: send_def clocked_simps split: if_splits option.splits)

lemma receive_clocked:
  assumes "receive env now user args st = (r, st')" and "clocked st c"
  shows "clocked st' (case r of Inl e \<Rightarrow> c
    | Inr out \<Rightarrow> if ro_msgs out = [] then c else c(ra_session_id args \<mapsto> now + 86400))"
  using assms by (auto simp: receive_def clocked_simps split: if_splits option.splits)

lemma close_clocked:
  assumes "close_session env user args st = (r, st')" and "clocked st c"
  shows "clocked st' (case r of Inl e \<Rightarrow> c | Inr out \<Rightarrow> c(cl_session_id args := None))"
  using assms by (auto simp: close_session_def clocked_simps split: if_splits sum.splits)

lemma same_sessions_clocked:
  "as_sessions st' = as_sessions st \<Longrightarrow> clocked st c \<Longrightarrow> clocked st' c"
  by auto

lemma handle_user_clocked:
  assumes "handle_user env now fresh req user st = (r, st')" and "clocked st c"
  shows "clocked st' (case r of Inl e \<Rightarrow> c | Inr out \<Rightarrow> clock_request now fresh req out c)"
proof (cases req)
  case (Create_Request auth args)
  with assms show ?thesis by (auto elim!: respond_cases dest: create_clocked)
next
  case (Send_Request auth args)
  with assms show ?thesis by (auto elim!: respond_cases dest: send_clocked)
next
  case (Receive_Request auth args)
  with assms show ?thesis by (auto elim!: respond_cases dest: receive_clocked)
next
  case (Close_Request auth args)
  with assms show ?thesis by (auto elim!: respond_cases dest: close_clocked)
next
  case (Logout_Request auth)
  with assms(1) have "as_sessions st' = as_sessions st" by (auto elim!: respond_cases simp: logout_def)
  with Logout_Request assms(2) show ?thesis by (simp split: sum.splits)
next
  case (List_Request auth)
  with assms(1) have "as_sessions st' = as_sessions st" by (auto elim!: respond_cases simp: list_sessions_def)
  with List_Request assms(2) show ?thesis by (simp split: sum.splits)
next
  case (Info_Request auth args)
  with assms(1) have "as_sessions st' = as_sessions st" by (auto elim!: respond_cases simp: get_session_info_def)
  with Info_Request assms(2) show ?thesis by (simp split: sum.splits)
qed (use assms in auto)

lemma router_clocked:
  assumes r: "router env now fresh req st = (r, st')" and c: "clocked st c"
  shows "clocked st' (case r of Inl e \<Rightarrow> c | Inr out \<Rightarrow> clock_request now fresh req out c)"
proof (cases "public_request req")
  case True
  with r have "as_sessions st' = as_sessions st"
    by (cases req) (auto elim!: respond_cases simp: challenge_def login_def Let_def split: prod.splits if_splits)
  with c have "clocked st' c" by simp
  moreover from True have "clock_request now fresh req out c = c" for out by (cases req) auto
  ultimately show ?thesis by (simp split: sum.splits)
next
  case False
  show ?thesis
  proof (cases "user_from_request env (bearer_of req) st")
    case (Inl e)
    with r False c show ?thesis by (auto simp: router_user)
  next
    case (Inr u)
    with r False have "handle_user env now fresh req u st = (r, st')" by (simp add: router_user)
    then show ?thesis using c by (rule handle_user_clocked)
  qed
qed

lemma poll_clocked:
  assumes "clocked (sy_app sys) c"
  shows "clocked (sy_app (poll_sessions env now sys))
    (case yielded env (Poll_Sessions now) sys of None \<Rightarrow> c | Some (sid, s) \<Rightarrow> c(sid := None))"
proof (cases "sy_timed_out sys")
  case (Some x)
  with assms show ?thesis by (simp add: poll_sessions_def)
next
  case None
  obtain r m where n: "d_next (ses_ops env) now (as_sessions (sy_app sys)) = (r, m)" by fastforce
  then have t: "timeout m = timeout (as_sessions (sy_app sys))" by (metis clocked.timeout_keep(5) snd_conv)
  from clocked.deadlines_next[OF n] None n t assms show ?thesis by (auto simp: poll_sessions_def)
qed

lemma step_clocked:
  assumes "server_step env ev sys = (r, sys')" and "clocked (sy_app sys) c"
  shows "clocked (sy_app sys') (clock_entry (entry_of env ev sys) c)"
proof (cases ev)
  case (Request now fresh req)
  with assms show ?thesis
    by (auto simp: clock_entry_def dest!: router_clocked split: prod.splits sum.splits)
next
  case (Poll_Sessions now)
  with assms poll_clocked[OF assms(2), of now] show ?thesis
    by (auto simp: clock_entry_def split: option.splits)
next
  case Unindex
  with assms show ?thesis
    by (auto simp: clock_entry_def unindex_timed_out_def split: option.splits)
qed (use assms in \<open>auto simp: clock_entry_def poll_challenges_def poll_access_tokens_def\<close>)

lemma run_clocked: "server_run env h sys \<Longrightarrow> clocked (sy_app sys) (session_clock h)"
proof (induction rule: server_run.induct)
  case server_run_start
  show ?case
    by (auto simp: server_start_def app_state_new_def clocked.deadlines_new clocked.timeout_new
        SESSION_TIMEOUT_def)
next
  case (server_run_step h sys ev r sys')
  show ?case using step_clocked[OF server_run_step.hyps(3) server_run_step.IH] by simp
qed

lemma run_due:
  assumes "server_run env h sys"
  shows "session_clock h sid = map_option (\<lambda>s. deadline sid (as_sessions (sy_app sys))) (live env sys sid)"
  using run_clocked[OF assms] by (simp add: deadlines_def live_def fun_eq_iff)

lemma poll_yields:
  assumes "server_run env h sys"
  shows "yielded env (Poll_Sessions now) sys = Some (sid, s) \<Longrightarrow>
      live env sys sid = Some s \<and> (\<exists>t. session_clock h sid = Some t \<and> t \<le> now)"
    and "sy_timed_out sys = None \<Longrightarrow> session_clock h sid = Some t \<Longrightarrow> t \<le> now \<Longrightarrow>
      yielded env (Poll_Sessions now) sys \<noteq> None"
proof -
  obtain r m where n: "d_next (ses_ops env) now (as_sessions (sy_app sys)) = (r, m)" by fastforce
  show "live env sys sid = Some s \<and> (\<exists>t. session_clock h sid = Some t \<and> t \<le> now)"
    if "yielded env (Poll_Sessions now) sys = Some (sid, s)"
    using that n ses.next_Some clocked.next_expired run_due[OF assms, of sid]
    by (auto simp: live_def split: if_splits)
  show "yielded env (Poll_Sessions now) sys \<noteq> None"
    if "sy_timed_out sys = None" "session_clock h sid = Some t" "t \<le> now"
    using that clocked.next_live[of sid "as_sessions (sy_app sys)" now] run_due[OF assms, of sid]
    by (auto simp: live_def simp del: not_None_eq)
qed

end

interpretation ref_clocked: clocked_server ref_env fst timed_map_deadline
  by (intro clocked_server.intro ref_server.server_axioms) (simp add: timed_map.timed_delay_map_axioms)

section \<open>Properties\<close>

text \<open>
  C39: In every state the server can reach from its start, a session is live exactly as long as
  the clock of the run says, and its deadline is the one of that clock: 24 hours from its creation,
  from the last successful send to it or from the last receive that returned a message, whichever
  came last. A receive that returns nothing does not extend its life, and a closed session has
  none. The background task takes a session out only when that time has passed, and as long as
  the time of some session has passed it takes one out.
\<close>

theorem session_deadlines:
  assumes "server env" and "timed_delay_map (ses_ops env) timeout deadline" and "server_run env h sys"
  shows "(\<forall>sid. session_clock h sid =
      map_option (\<lambda>s. deadline sid (as_sessions (sy_app sys))) (live env sys sid)) \<and>
    (\<forall>now sid s. sy_timed_out sys = None \<longrightarrow>
      sy_timed_out (poll_sessions env now sys) = Some (sid, s) \<longrightarrow>
      live env sys sid = Some s \<and> live env (poll_sessions env now sys) sid = None \<and>
      (\<exists>t. session_clock h sid = Some t \<and> t \<le> now)) \<and>
    (\<forall>now sid t. sy_timed_out sys = None \<longrightarrow> session_clock h sid = Some t \<longrightarrow> t \<le> now \<longrightarrow>
      sy_timed_out (poll_sessions env now sys) \<noteq> None)"
proof -
  have cs: "clocked_server env timeout deadline" by (rule clocked_server.intro[OF assms(1,2)])
  have y: "yielded env (Poll_Sessions now) sys = sy_timed_out (poll_sessions env now sys)"
    if "sy_timed_out sys = None" for now
    using that by (simp add: poll_sessions_def split: prod.splits)
  have gone: "live env (poll_sessions env now sys) sid = None"
    if "sy_timed_out sys = None" "sy_timed_out (poll_sessions env now sys) = Some (sid, s)" for now sid s
    using that delay_map.next_removed[OF timed_delay_map.axioms(1)[OF assms(2)]]
    by (auto simp: poll_sessions_def live_def split: prod.splits)
  note yields = clocked_server.poll_yields[OF cs assms(3)]
  show ?thesis
  proof (intro conjI allI impI)
    fix now sid s
    assume n: "sy_timed_out sys = None" and p: "sy_timed_out (poll_sessions env now sys) = Some (sid, s)"
    with y have "yielded env (Poll_Sessions now) sys = Some (sid, s)" by metis
    with yields(1) show "live env sys sid = Some s" "\<exists>t. session_clock h sid = Some t \<and> t \<le> now" by blast+
    from n p show "live env (poll_sessions env now sys) sid = None" by (rule gone)
  next
    fix now sid t
    assume "sy_timed_out sys = None" and "session_clock h sid = Some t" and "t \<le> now"
    with yields(2) y show "sy_timed_out (poll_sessions env now sys) \<noteq> None" by metis
  qed (rule clocked_server.run_due[OF cs assms(3)])
qed

theorem session_deadlines_witness:
  "session_clock (ex_log ex_created) 3 = Some 86402 \<and>
   sy_timed_out (poll_sessions ref_env 86402 (ex_sys ex_created)) \<noteq> None"
proof -
  have "server ref_env" "timed_delay_map (ses_ops ref_env) fst timed_map_deadline"
    by (simp_all add: ref_server.server_axioms timed_map.timed_delay_map_axioms)
  note d = session_deadlines[OF this ex_created_run]
  have "session_clock (ex_log ex_created) 3 = Some 86402"
    unfolding conjunct1[OF d, rule_format] ex_sys_created by (simp add: live_def timed_map_deadline_def)
  with d show ?thesis by (simp add: ex_sys_created)
qed

end
