(* ===== verification/Client.thy ===== *)
theory Client
  imports Server_Timeouts "HOL-Library.Countable"
begin

text \<open>
  The HTTP client of the server (\<open>frost-client/src/client.rs\<close>), over a transport and JSON codecs
  that are parameters (\<open>reqwest\<close>, \<open>serde_json\<close>), and its composition with the modelled server.
  The client is part of the state its methods act on, beside the state \<open>'w\<close> of the world that
  the transport reaches.
\<close>

section \<open>Codecs\<close>

type_synonym 'a codec = "('a \<Rightarrow> bytes) \<times> (bytes \<Rightarrow> 'a option)"

definition lawful :: "'a codec \<Rightarrow> bool" where
  "lawful c \<longleftrightarrow> (\<forall>x. snd c (fst c x) = Some x \<and> fst c x \<noteq> [])"

lemma lawfulD [simp]: "lawful c \<Longrightarrow> snd c (fst c x) = Some x" "lawful c \<Longrightarrow> fst c x \<noteq> []"
  by (simp_all add: lawful_def)

record api_codecs =
  c_unit :: "unit codec"
  c_challenge_output :: "challenge_output codec"
  c_login_args :: "login_args codec"
  c_login_output :: "login_output codec"
  c_create_args :: "create_new_session_args codec"
  c_create_output :: "create_new_session_output codec"
  c_list_output :: "list_sessions_output codec"
  c_info_args :: "get_session_info_args codec"
  c_info_output :: "get_session_info_output codec"
  c_send_args :: "send_args codec"
  c_receive_args :: "receive_args codec"
  c_receive_output :: "receive_output codec"
  c_close_args :: "close_session_args codec"
  c_low_error :: "low_error codec"

text \<open>The bytes of \<open>null\<close>, which the client substitutes for an empty body.\<close>

definition json_null :: bytes where
  "json_null = [0x6E, 0x75, 0x6C, 0x6C]"

definition codecs_ok :: "api_codecs \<Rightarrow> bool" where
  "codecs_ok cd \<longleftrightarrow> lawful (c_unit cd) \<and> fst (c_unit cd) () = json_null \<and>
     lawful (c_challenge_output cd) \<and> lawful (c_login_args cd) \<and> lawful (c_login_output cd) \<and>
     lawful (c_create_args cd) \<and> lawful (c_create_output cd) \<and> lawful (c_list_output cd) \<and>
     lawful (c_info_args cd) \<and> lawful (c_info_output cd) \<and> lawful (c_send_args cd) \<and>
     lawful (c_receive_args cd) \<and> lawful (c_receive_output cd) \<and> lawful (c_close_args cd) \<and>
     lawful (c_low_error cd)"

section \<open>The client\<close>

record http_reply =
  rp_status :: nat
  rp_body :: bytes

record 'w client_env =
  post :: "string \<Rightarrow> bytes \<Rightarrow> string option \<Rightarrow> 'w \<Rightarrow> http_reply option \<times> 'w"
  uuid_to_string :: "uuid \<Rightarrow> string"
  codecs :: api_codecs

record client =
  cl_host_port :: string
  cl_access_token :: "uuid option"

definition client_new :: "string \<Rightarrow> client" where
  "client_new host_port = \<lparr>cl_host_port = host_port, cl_access_token = None\<rparr>"

definition is_success :: "nat \<Rightarrow> bool" where
  "is_success status \<longleftrightarrow> 200 \<le> status \<and> status < 300"

text \<open>
  \<open>error_for_status\<close> is an error for the statuses 400 to 599 only: \<open>expect_err\<close> panics on any other
  status that is not a success.
\<close>

definition call ::
    "'w client_env \<Rightarrow> string \<Rightarrow> bytes \<Rightarrow> 'o codec \<Rightarrow> ('w \<times> client, error, 'o) io" where
  "call ce name args out s =
     (case s of (w, c) \<Rightarrow>
      (case post ce (cl_host_port c @ ''/'' @ name) args (map_option (uuid_to_string ce) (cl_access_token c)) w of
         (None, w) \<Rightarrow> (Inl Connection_Error, (w, c))
       | (Some response, w) \<Rightarrow>
           if \<not> is_success (rp_status response)
           then if rp_status response = 500
                then (case snd (c_low_error (codecs ce)) (rp_body response) of
                   None \<Rightarrow> (Inl Connection_Error, (w, c))
                 | Some err \<Rightarrow> (Inl (Server_Error (error_of_low err)), (w, c)))
                else if 400 \<le> rp_status response \<and> rp_status response < 600
                then (Inl Connection_Error, (w, c))
                else (Inl (Panic ''we know the response is not success''), (w, c))
           else
             let json_str = (if rp_body response = [] then json_null else rp_body response)
             in (case snd out json_str of
                   None \<Rightarrow> (Inl Json_Error, (w, c))
                 | Some x \<Rightarrow> (Inr x, (w, c)))))"

definition client_challenge :: "'w client_env \<Rightarrow> ('w \<times> client, error, challenge_output) io" where
  "client_challenge ce =
     call ce ''challenge'' (fst (c_unit (codecs ce)) ()) (c_challenge_output (codecs ce))"

definition client_login :: "'w client_env \<Rightarrow> login_args \<Rightarrow> ('w \<times> client, error, login_output) io" where
  "client_login ce args =
     try_io (call ce ''login'' (fst (c_login_args (codecs ce)) args) (c_login_output (codecs ce)))
       (\<lambda>login_output (w, c).
          (Inr login_output, (w, c\<lparr>cl_access_token := Some (lo_access_token login_output)\<rparr>)))"

definition client_logout :: "'w client_env \<Rightarrow> ('w \<times> client, error, unit) io" where
  "client_logout ce =
     try_io (call ce ''logout'' (fst (c_unit (codecs ce)) ()) (c_unit (codecs ce)))
       (\<lambda>_ (w, c). (Inr (), (w, c\<lparr>cl_access_token := None\<rparr>)))"

definition client_create_new_session ::
    "'w client_env \<Rightarrow> create_new_session_args \<Rightarrow> ('w \<times> client, error, create_new_session_output) io" where
  "client_create_new_session ce args =
     call ce ''create_new_session'' (fst (c_create_args (codecs ce)) args) (c_create_output (codecs ce))"

definition client_list_sessions :: "'w client_env \<Rightarrow> ('w \<times> client, error, list_sessions_output) io" where
  "client_list_sessions ce =
     call ce ''list_sessions'' (fst (c_unit (codecs ce)) ()) (c_list_output (codecs ce))"

definition client_get_session_info ::
    "'w client_env \<Rightarrow> get_session_info_args \<Rightarrow> ('w \<times> client, error, get_session_info_output) io" where
  "client_get_session_info ce args =
     call ce ''get_session_info'' (fst (c_info_args (codecs ce)) args) (c_info_output (codecs ce))"

definition client_send :: "'w client_env \<Rightarrow> send_args \<Rightarrow> ('w \<times> client, error, unit) io" where
  "client_send ce args = call ce ''send'' (fst (c_send_args (codecs ce)) args) (c_unit (codecs ce))"

definition client_receive :: "'w client_env \<Rightarrow> receive_args \<Rightarrow> ('w \<times> client, error, receive_output) io" where
  "client_receive ce args =
     call ce ''receive'' (fst (c_receive_args (codecs ce)) args) (c_receive_output (codecs ce))"

definition client_close_session :: "'w client_env \<Rightarrow> close_session_args \<Rightarrow> ('w \<times> client, error, unit) io" where
  "client_close_session ce args =
     call ce ''close_session'' (fst (c_close_args (codecs ce)) args) (c_unit (codecs ce))"

section \<open>The server behind HTTP\<close>

text \<open>
  The routes of the server: a path, the bearer token and a JSON body make a request; a request the
  framework rejects (no such path, malformed body) gets its reply \<open>rejection\<close>. A successful
  \<open>send\<close> returns the unit value itself, an empty body.
\<close>

definition request_of :: "api_codecs \<Rightarrow> string \<Rightarrow> bytes \<Rightarrow> string option \<Rightarrow> request option" where
  "request_of cd path body auth =
     (if path = ''/challenge'' then Some Challenge_Request
      else if path = ''/login'' then map_option Login_Request (snd (c_login_args cd) body)
      else if path = ''/logout'' then Some (Logout_Request auth)
      else if path = ''/create_new_session'' then map_option (Create_Request auth) (snd (c_create_args cd) body)
      else if path = ''/list_sessions'' then Some (List_Request auth)
      else if path = ''/get_session_info'' then map_option (Info_Request auth) (snd (c_info_args cd) body)
      else if path = ''/send'' then map_option (Send_Request auth) (snd (c_send_args cd) body)
      else if path = ''/receive'' then map_option (Receive_Request auth) (snd (c_receive_args cd) body)
      else if path = ''/close_session'' then map_option (Close_Request auth) (snd (c_close_args cd) body)
      else None)"

fun encode_response :: "api_codecs \<Rightarrow> request \<Rightarrow> response \<Rightarrow> bytes" where
  "encode_response cd req (Challenge_Response x) = fst (c_challenge_output cd) x"
| "encode_response cd req (Login_Response x) = fst (c_login_output cd) x"
| "encode_response cd req (Create_Response x) = fst (c_create_output cd) x"
| "encode_response cd req (List_Response x) = fst (c_list_output cd) x"
| "encode_response cd req (Info_Response x) = fst (c_info_output cd) x"
| "encode_response cd req (Receive_Response x) = fst (c_receive_output cd) x"
| "encode_response cd (Send_Request _ _) Unit_Response = []"
| "encode_response cd req Unit_Response = fst (c_unit cd) ()"

definition encode_reply :: "api_codecs \<Rightarrow> request \<Rightarrow> http_response \<Rightarrow> http_reply" where
  "encode_reply cd req r = \<lparr>rp_status = hr_status r, rp_body = (case hr_body r of
     Ok_Body x \<Rightarrow> encode_response cd req x | Error_Body e \<Rightarrow> fst (c_low_error cd) e)\<rparr>"

text \<open>
  The world of a client that talks to the server alone: the server's state and the number of
  requests so far, which selects the clock reading and the fresh uuid of the next one.
\<close>

definition authenticated_path :: "string \<Rightarrow> bool" where
  "authenticated_path path \<longleftrightarrow> path \<in> {''/logout'', ''/create_new_session'', ''/list_sessions'', ''/get_session_info'',
     ''/send'', ''/receive'', ''/close_session''}"

text \<open>A body that does not parse is rejected after the user is authenticated.\<close>

definition reject ::
    "('sm, 'cs, 'tm) server_env \<Rightarrow> api_codecs \<Rightarrow> http_reply \<Rightarrow> string \<Rightarrow> string option \<Rightarrow>
     ('sm, 'cs, 'tm) app_state \<Rightarrow> http_reply" where
  "reject env cd rejection path auth st =
     (if authenticated_path path
      then (case user_from_request env auth st of
          Inl e \<Rightarrow> \<lparr>rp_status = 500, rp_body = fst (c_low_error cd) (low_error_of e)\<rparr>
        | Inr u \<Rightarrow> rejection)
      else rejection)"

definition server_post ::
    "('sm, 'cs, 'tm) server_env \<Rightarrow> api_codecs \<Rightarrow> string \<Rightarrow> http_reply \<Rightarrow> (nat \<Rightarrow> nat) \<Rightarrow> (nat \<Rightarrow> uuid) \<Rightarrow>
     string \<Rightarrow> bytes \<Rightarrow> string option \<Rightarrow> ('sm, 'cs, 'tm) app_state \<times> nat \<Rightarrow>
     http_reply option \<times> (('sm, 'cs, 'tm) app_state \<times> nat)" where
  "server_post env cd host rejection clock supply url body auth w =
     (case w of (st, k) \<Rightarrow>
        if take (length host) url \<noteq> host then (None, w)
        else case request_of cd (drop (length host) url) body auth of
          None \<Rightarrow> (Some (reject env cd rejection (drop (length host) url) auth st), (st, Suc k))
        | Some req \<Rightarrow>
            (case router env (clock k) (supply k) req st of
               (r, st') \<Rightarrow> (Some (encode_reply cd req (into_response r)), (st', Suc k))))"

section \<open>Calls that reach the server\<close>

definition on_server :: "('st, api_error, 'a) io \<Rightarrow> (('st \<times> nat) \<times> client, error, 'a) io" where
  "on_server h s = (case s of ((st, k), c) \<Rightarrow>
     (case h st of (r, st') \<Rightarrow> (map_err Server_Error r, ((st', Suc k), c))))"

definition authenticated ::
    "('sm, 'cs, 'tm) server_env \<Rightarrow> string option \<Rightarrow> (user \<Rightarrow> (('sm, 'cs, 'tm) app_state, api_error, 'a) io) \<Rightarrow>
     (('sm, 'cs, 'tm) app_state, api_error, 'a) io" where
  "authenticated env auth h st =
     (case user_from_request env auth st of Inl e \<Rightarrow> (Inl e, st) | Inr u \<Rightarrow> h u st)"

lemma call_server:
  assumes "post ce = server_post env (codecs ce) (cl_host_port c) rejection clock supply"
    and "lawful (c_low_error (codecs ce))"
    and "request_of (codecs ce) (''/'' @ name) args (map_option (uuid_to_string ce) (cl_access_token c)) = Some req"
    and "router env (clock k) (supply k) req st = respond f (h st)"
    and "\<And>x. snd out (if encode_response (codecs ce) req (f x) = [] then json_null
           else encode_response (codecs ce) req (f x)) = Some x"
  shows "call ce name args out ((st, k), c) = on_server h ((st, k), c)"
  using assms(1-4) assms(5)[of "projr (fst (h st))"]
  by (cases "h st"; cases "fst (h st)") (auto simp: call_def server_post_def on_server_def encode_reply_def
      into_response_def is_success_def Let_def respond_def split: if_split_asm)

text \<open>Each method is the handler of its endpoint, run for the user of the client's token.\<close>

lemma unit_of_null: "codecs_ok cd \<Longrightarrow> snd (c_unit cd) json_null = Some ()"
  using lawfulD(1)[of "c_unit cd" "()"] by (simp add: codecs_ok_def)

lemma client_challenge_server:
  assumes post: "post ce = server_post env (codecs ce) (cl_host_port c) rejection clock supply"
    and cd: "codecs_ok (codecs ce)"
  shows "client_challenge ce ((st, k), c) = on_server (challenge env (clock k) (supply k)) ((st, k), c)"
  unfolding client_challenge_def
  by (rule call_server[OF post _ _ _, where f = Challenge_Response])
    (use cd in \<open>auto simp: codecs_ok_def request_of_def\<close>)

lemma client_login_server:
  assumes post: "post ce = server_post env (codecs ce) (cl_host_port c) rejection clock supply"
    and cd: "codecs_ok (codecs ce)"
  shows "client_login ce la ((st, k), c) =
    (case login env (clock k) (supply k) la st of
       (Inl e, st') \<Rightarrow> (Inl (Server_Error e), ((st', Suc k), c))
     | (Inr out, st') \<Rightarrow> (Inr out, ((st', Suc k), c\<lparr>cl_access_token := Some (lo_access_token out)\<rparr>)))"
proof -
  have "call ce ''login'' (fst (c_login_args (codecs ce)) la) (c_login_output (codecs ce)) ((st, k), c) =
      on_server (login env (clock k) (supply k) la) ((st, k), c)"
    by (rule call_server[OF post _ _ _, where f = Login_Response])
      (use cd in \<open>auto simp: codecs_ok_def request_of_def\<close>)
  then show ?thesis
    by (simp add: client_login_def try_io_def on_server_def split: prod.splits sum.splits)
qed

lemma client_logout_server:
  assumes post: "post ce = server_post env (codecs ce) (cl_host_port c) rejection clock supply"
    and cd: "codecs_ok (codecs ce)"
    and auth: "auth = map_option (uuid_to_string ce) (cl_access_token c)"
  shows "client_logout ce ((st, k), c) =
    (case authenticated env auth (logout env) st of
       (Inl e, st') \<Rightarrow> (Inl (Server_Error e), ((st', Suc k), c))
     | (Inr u, st') \<Rightarrow> (Inr (), ((st', Suc k), c\<lparr>cl_access_token := None\<rparr>)))"
proof -
  have "call ce ''logout'' (fst (c_unit (codecs ce)) ()) (c_unit (codecs ce)) ((st, k), c) =
      on_server (authenticated env auth (logout env)) ((st, k), c)"
    by (rule call_server[OF post _ _ _, where f = "\<lambda>_. Unit_Response" and req = "Logout_Request auth"])
      (use cd auth in \<open>auto simp: codecs_ok_def request_of_def unit_of_null[OF cd] authenticated_def respond_def
        split: sum.splits\<close>)
  then show ?thesis
    by (simp add: client_logout_def try_io_def on_server_def split: prod.splits sum.splits)
qed

lemma client_create_new_session_server:
  assumes post: "post ce = server_post env (codecs ce) (cl_host_port c) rejection clock supply"
    and cd: "codecs_ok (codecs ce)"
    and auth: "auth = map_option (uuid_to_string ce) (cl_access_token c)"
  shows "client_create_new_session ce cn ((st, k), c) =
    on_server (authenticated env auth (\<lambda>u. create_new_session env (clock k) (supply k) u cn)) ((st, k), c)"
  unfolding client_create_new_session_def
  by (rule call_server[OF post _ _ _, where f = Create_Response and req = "Create_Request auth cn"])
    (use cd auth in \<open>auto simp: codecs_ok_def request_of_def unit_of_null[OF cd] authenticated_def respond_def
      split: sum.splits\<close>)

lemma client_list_sessions_server:
  assumes post: "post ce = server_post env (codecs ce) (cl_host_port c) rejection clock supply"
    and cd: "codecs_ok (codecs ce)"
    and auth: "auth = map_option (uuid_to_string ce) (cl_access_token c)"
  shows "client_list_sessions ce ((st, k), c) =
    on_server (authenticated env auth (list_sessions env)) ((st, k), c)"
  unfolding client_list_sessions_def
  by (rule call_server[OF post _ _ _, where f = List_Response and req = "List_Request auth"])
    (use cd auth in \<open>auto simp: codecs_ok_def request_of_def unit_of_null[OF cd] authenticated_def respond_def
      split: sum.splits\<close>)

lemma client_get_session_info_server:
  assumes post: "post ce = server_post env (codecs ce) (cl_host_port c) rejection clock supply"
    and cd: "codecs_ok (codecs ce)"
    and auth: "auth = map_option (uuid_to_string ce) (cl_access_token c)"
  shows "client_get_session_info ce gi ((st, k), c) =
    on_server (authenticated env auth (\<lambda>u. get_session_info env u gi)) ((st, k), c)"
  unfolding client_get_session_info_def
  by (rule call_server[OF post _ _ _, where f = Info_Response and req = "Info_Request auth gi"])
    (use cd auth in \<open>auto simp: codecs_ok_def request_of_def unit_of_null[OF cd] authenticated_def respond_def
      split: sum.splits\<close>)

lemma client_send_server:
  assumes post: "post ce = server_post env (codecs ce) (cl_host_port c) rejection clock supply"
    and cd: "codecs_ok (codecs ce)"
    and auth: "auth = map_option (uuid_to_string ce) (cl_access_token c)"
  shows "client_send ce sa ((st, k), c) =
    on_server (authenticated env auth (\<lambda>u. send env (clock k) u sa)) ((st, k), c)"
  unfolding client_send_def
  by (rule call_server[OF post _ _ _, where f = "\<lambda>_. Unit_Response" and req = "Send_Request auth sa"])
    (use cd auth in \<open>auto simp: codecs_ok_def request_of_def unit_of_null[OF cd] authenticated_def respond_def
      split: sum.splits\<close>)

lemma client_receive_server:
  assumes post: "post ce = server_post env (codecs ce) (cl_host_port c) rejection clock supply"
    and cd: "codecs_ok (codecs ce)"
    and auth: "auth = map_option (uuid_to_string ce) (cl_access_token c)"
  shows "client_receive ce ra ((st, k), c) =
    on_server (authenticated env auth (\<lambda>u. receive env (clock k) u ra)) ((st, k), c)"
  unfolding client_receive_def
  by (rule call_server[OF post _ _ _, where f = Receive_Response and req = "Receive_Request auth ra"])
    (use cd auth in \<open>auto simp: codecs_ok_def request_of_def unit_of_null[OF cd] authenticated_def respond_def
      split: sum.splits\<close>)

lemma client_close_session_server:
  assumes post: "post ce = server_post env (codecs ce) (cl_host_port c) rejection clock supply"
    and cd: "codecs_ok (codecs ce)"
    and auth: "auth = map_option (uuid_to_string ce) (cl_access_token c)"
  shows "client_close_session ce cl ((st, k), c) =
    on_server (authenticated env auth (\<lambda>u. close_session env u cl)) ((st, k), c)"
  unfolding client_close_session_def
  by (rule call_server[OF post _ _ _, where f = "\<lambda>_. Unit_Response" and req = "Close_Request auth cl"])
    (use cd auth in \<open>auto simp: codecs_ok_def request_of_def unit_of_null[OF cd] authenticated_def respond_def
      split: sum.splits\<close>)

text \<open>
  C8: The client and the server fit together. When the client's transport is the modelled server
  (and the codecs round-trip), every client method returns exactly what the handler of its endpoint
  returns for the user of the client's token, with the handler's effect on the server's state;
  the handler's error comes back as the same \<open>api::Error\<close>.
\<close>

theorem client_reaches_server:
  assumes post: "post ce = server_post env (codecs ce) (cl_host_port c) rejection clock supply"
    and cd: "codecs_ok (codecs ce)"
    and auth: "auth = map_option (uuid_to_string ce) (cl_access_token c)"
  shows "client_challenge ce ((st, k), c) = on_server (challenge env (clock k) (supply k)) ((st, k), c) \<and>
    client_login ce la ((st, k), c) =
      (case login env (clock k) (supply k) la st of
         (Inl e, st') \<Rightarrow> (Inl (Server_Error e), ((st', Suc k), c))
       | (Inr out, st') \<Rightarrow> (Inr out, ((st', Suc k), c\<lparr>cl_access_token := Some (lo_access_token out)\<rparr>))) \<and>
    client_logout ce ((st, k), c) =
      (case authenticated env auth (logout env) st of
         (Inl e, st') \<Rightarrow> (Inl (Server_Error e), ((st', Suc k), c))
       | (Inr u, st') \<Rightarrow> (Inr (), ((st', Suc k), c\<lparr>cl_access_token := None\<rparr>))) \<and>
    client_create_new_session ce cn ((st, k), c) =
      on_server (authenticated env auth (\<lambda>u. create_new_session env (clock k) (supply k) u cn)) ((st, k), c) \<and>
    client_list_sessions ce ((st, k), c) =
      on_server (authenticated env auth (list_sessions env)) ((st, k), c) \<and>
    client_get_session_info ce gi ((st, k), c) =
      on_server (authenticated env auth (\<lambda>u. get_session_info env u gi)) ((st, k), c) \<and>
    client_send ce sa ((st, k), c) =
      on_server (authenticated env auth (\<lambda>u. send env (clock k) u sa)) ((st, k), c) \<and>
    client_receive ce ra ((st, k), c) =
      on_server (authenticated env auth (\<lambda>u. receive env (clock k) u ra)) ((st, k), c) \<and>
    client_close_session ce cl ((st, k), c) =
      on_server (authenticated env auth (\<lambda>u. close_session env u cl)) ((st, k), c)"
  by (intro conjI client_challenge_server[OF post cd] client_login_server[OF post cd] client_logout_server[OF post cd auth]
      client_create_new_session_server[OF post cd auth] client_list_sessions_server[OF post cd auth]
      client_get_session_info_server[OF post cd auth] client_send_server[OF post cd auth]
      client_receive_server[OF post cd auth] client_close_session_server[OF post cd auth])

section \<open>Witness\<close>

text \<open>
  Codecs that round-trip exist for every type: the number of a value, in unary.
\<close>

instance public_key :: countable
  by countable_datatype

instance api_error :: countable
  by countable_datatype

definition unary :: "('a \<Rightarrow> 'b::countable) \<Rightarrow> ('b \<Rightarrow> 'a) \<Rightarrow> 'a codec" where
  "unary f g = (\<lambda>x. replicate (Suc (to_nat (f x))) 0, \<lambda>b. Some (g (from_nat (length b - 1))))"

lemma lawful_unary: "(\<And>x. g (f x) = x) \<Longrightarrow> lawful (unary f g)"
  by (simp add: lawful_def unary_def)

definition ex_codecs :: api_codecs where
  "ex_codecs = \<lparr>
     c_unit = (\<lambda>_. json_null, \<lambda>_. Some ()),
     c_challenge_output = unary co_challenge challenge_output.make,
     c_login_args = unary (\<lambda>x. (la_challenge x, la_pubkey x, la_signature x))
       (\<lambda>(a, b, c). login_args.make a b c),
     c_login_output = unary lo_access_token login_output.make,
     c_create_args = unary (\<lambda>x. (cn_pubkeys x, cn_message_count x)) (\<lambda>(a, b). create_new_session_args.make a b),
     c_create_output = unary cn_session_id create_new_session_output.make,
     c_list_output = unary ls_session_ids list_sessions_output.make,
     c_info_args = unary gi_session_id get_session_info_args.make,
     c_info_output = unary (\<lambda>x. (gi_message_count x, gi_pubkeys x, gi_coordinator_pubkey x))
       (\<lambda>(a, b, c). get_session_info_output.make a b c),
     c_send_args = unary (\<lambda>x. (sa_session_id x, sa_recipients x, sa_msg x)) (\<lambda>(a, b, c). send_args.make a b c),
     c_receive_args = unary (\<lambda>x. (ra_session_id x, ra_as_coordinator x)) (\<lambda>(a, b). receive_args.make a b),
     c_receive_output = unary (\<lambda>x. map (\<lambda>m. (sender m, msg m)) (ro_msgs x))
       (\<lambda>xs. receive_output.make (map (\<lambda>(a, b). api_msg.make a b) xs)),
     c_close_args = unary cl_session_id close_session_args.make,
     c_low_error = unary (\<lambda>x. (le_code x, le_msg x, le_error x)) (\<lambda>(a, b, c). low_error.make a b c)\<rparr>"

lemma map_api_msg [simp]: "map (\<lambda>x. \<lparr>sender = sender x, msg = msg x\<rparr>) xs = xs"
  by (simp add: map_idI)

lemma ex_codecs_ok: "codecs_ok ex_codecs"
  unfolding codecs_ok_def ex_codecs_def api_codecs.simps
  by (intro conjI lawful_unary)
    (simp_all add: lawful_def json_null_def challenge_output.defs login_args.defs login_output.defs
      create_new_session_args.defs create_new_session_output.defs list_sessions_output.defs
      get_session_info_args.defs get_session_info_output.defs send_args.defs receive_args.defs
      receive_output.defs close_session_args.defs low_error.defs api_msg.defs o_def)

definition ex_client_env ::
    "(((uuid, session) timed_map, (uuid, unit) timed_map, (uuid, public_key) timed_map) app_state \<times> nat)
       client_env" where
  "ex_client_env = \<lparr>
     post = server_post ref_env ex_codecs ''https://localhost:443'' \<lparr>rp_status = 404, rp_body = []\<rparr>
       (\<lambda>k. k) of_nat,
     uuid_to_string = (\<lambda>t. replicate (unat t) CHR ''x''), codecs = ex_codecs\<rparr>"

theorem client_reaches_server_witness:
  "client_list_sessions ex_client_env ((sy_app (ex_sys ex_created), 9),
     \<lparr>cl_host_port = ''https://localhost:443'', cl_access_token = Some 6\<rparr>) =
   (Inl (Server_Error Unauthorized), ((sy_app (ex_sys ex_created), 10),
     \<lparr>cl_host_port = ''https://localhost:443'', cl_access_token = Some 6\<rparr>))"
proof -
  let ?c = "\<lparr>cl_host_port = ''https://localhost:443'', cl_access_token = Some 6\<rparr>"
  have "client_list_sessions ex_client_env ((sy_app (ex_sys ex_created), 9), ?c) =
      on_server (authenticated ref_env (Some (replicate (unat (6 :: uuid)) CHR ''x'')) (list_sessions ref_env)) ((sy_app (ex_sys ex_created), 9), ?c)"
    using client_reaches_server[of ex_client_env ref_env ?c "\<lparr>rp_status = 404, rp_body = []\<rparr>"
        "\<lambda>k. k" of_nat "Some (replicate (unat (6 :: uuid)) CHR ''x'')" "sy_app (ex_sys ex_created)" 9] ex_codecs_ok
    by (simp add: ex_client_env_def)
  then show ?thesis
    unfolding ex_sys_created by (simp add: on_server_def authenticated_def user_from_request_def)
qed

end
