(* ===== verification/Loops.thy ===== *)
theory Loops
  imports Session_Machine
begin

text \<open>
  Computations that may not return. \<open>('w, 'e, 'a) iop\<close> is a state-passing computation with the
  result \<open>None\<close> when it runs for ever; \<open>poll_until\<close> is the polling loop of the HTTP clients
  (\<open>loop { receive and handle; sleep; if ready { break } }\<close>).
\<close>

section \<open>Possibly diverging computations\<close>

type_synonym ('w, 'e, 'a) iop = "'w \<Rightarrow> (('e + 'a) \<times> 'w) option"

definition run_io :: "('w, 'e, 'a) io \<Rightarrow> ('w, 'e, 'a) iop" where
  "run_io m = (\<lambda>w. Some (m w))"

definition try_iop :: "('w, 'e, 'a) iop \<Rightarrow> ('a \<Rightarrow> ('w, 'e, 'b) iop) \<Rightarrow> ('w, 'e, 'b) iop" where
  "try_iop m f = (\<lambda>w. case m w of
     None \<Rightarrow> None | Some (Inl e, w') \<Rightarrow> Some (Inl e, w') | Some (Inr x, w') \<Rightarrow> f x w')"

lemma run_io_simps [simp]: "run_io m w = Some (m w)"
  by (simp add: run_io_def)

lemma try_iop_simps [simp]:
  "try_iop (run_io m) f w = (case m w of (Inl e, w') \<Rightarrow> Some (Inl e, w') | (Inr x, w') \<Rightarrow> f x w')"
  by (simp add: try_iop_def run_io_def)

lemma try_iop_Some_Inr:
  "try_iop m f w = Some (Inr y, w'') \<longleftrightarrow> (\<exists>x w'. m w = Some (Inr x, w') \<and> f x w' = Some (Inr y, w''))"
  by (auto simp: try_iop_def split: option.splits prod.splits sum.splits)

lemma try_iop_Some:
  "try_iop m f w = Some (r, w'') \<longleftrightarrow> (\<exists>e. m w = Some (Inl e, w'') \<and> r = Inl e) \<or>
     (\<exists>x w'. m w = Some (Inr x, w') \<and> f x w' = Some (r, w''))"
  by (auto simp: try_iop_def split: option.splits prod.splits sum.splits)

lemma try_iop_Inr: "m w = Some (Inr x, w') \<Longrightarrow> try_iop m f w = f x w'"
  by (simp add: try_iop_def)

lemma try_iop_Inl: "m w = Some (Inl e, w') \<Longrightarrow> try_iop m f w = Some (Inl e, w')"
  by (simp add: try_iop_def)

lemma try_iop_None: "m w = None \<Longrightarrow> try_iop m f w = None"
  by (simp add: try_iop_def)

section \<open>The polling loop\<close>

partial_function (option) poll_until ::
    "('w, 'e, unit) io \<Rightarrow> ('w \<Rightarrow> bool) \<Rightarrow> ('w, 'e, unit) iop" where
  "poll_until body ready w =
     (case body w of
        (Inl e, w') \<Rightarrow> Some (Inl e, w')
      | (Inr _, w') \<Rightarrow> if ready w' then Some (Inr (), w') else poll_until body ready w')"

lemma poll_until_error: "body w = (Inl e, w') \<Longrightarrow> poll_until body ready w = Some (Inl e, w')"
  by (subst poll_until.simps) simp

lemma poll_until_done: "body w = (Inr u, w') \<Longrightarrow> ready w' \<Longrightarrow> poll_until body ready w = Some (Inr (), w')"
  by (subst poll_until.simps) simp

lemma poll_until_again:
  "body w = (Inr u, w') \<Longrightarrow> \<not> ready w' \<Longrightarrow> poll_until body ready w = poll_until body ready w'"
  by (subst poll_until.simps) simp

lemma poll_until_induct:
  assumes "poll_until body ready w = Some y"
    and err: "\<And>w e w'. body w = (Inl e, w') \<Longrightarrow> P w (Inl e, w')"
    and stop: "\<And>w u w'. body w = (Inr u, w') \<Longrightarrow> ready w' \<Longrightarrow> P w (Inr (), w')"
    and again: "\<And>w u w' y. body w = (Inr u, w') \<Longrightarrow> \<not> ready w' \<Longrightarrow> P w' y \<Longrightarrow> P w y"
  shows "P w y"
proof -
  have "body = body \<and> ready = ready \<longrightarrow> P w y"
  proof (rule poll_until.raw_induct[where P = "\<lambda>b r w y. b = body \<and> r = ready \<longrightarrow> P w y", OF _ assms(1)],
      intro impI)
    fix loop b r w y
    assume IH: "\<And>b r w y. loop b r w = Some y \<Longrightarrow> b = body \<and> r = ready \<longrightarrow> P w y"
      and eq: "(case b w of
        (Inl e, w') \<Rightarrow> Some (Inl e, w')
      | (Inr _, w') \<Rightarrow> if r w' then Some (Inr (), w') else loop b r w') = Some y"
      and b: "b = body \<and> r = ready"
    obtain r1 w1 where r1: "body w = (r1, w1)" by fastforce
    show "P w y"
    proof (cases r1)
      case (Inl e)
      with eq r1 b err show ?thesis by auto
    next
      case (Inr u)
      show ?thesis
      proof (cases "ready w1")
        case True
        with eq r1 b Inr stop show ?thesis by auto
      next
        case False
        with eq r1 b Inr have "loop body ready w1 = Some y" by simp
        with IH b have "P w1 y" by blast
        with again r1 Inr False show ?thesis by blast
      qed
    qed
  qed
  then show ?thesis by simp
qed

text \<open>When the loop returns: a round failed, or the last round made the state ready.\<close>

lemma poll_until_result:
  assumes "poll_until body ready w = Some (r, w')"
    and "I w" and "\<And>w r w'. I w \<Longrightarrow> body w = (r, w') \<Longrightarrow> I w'"
  shows "I w' \<and> (r = Inr () \<longrightarrow> ready w')"
proof -
  have "I w \<longrightarrow> I (snd (r, w')) \<and> (fst (r, w') = Inr () \<longrightarrow> ready (snd (r, w')))"
    using assms(1)
  proof (rule poll_until_induct)
    fix w e w1 assume "body w = (Inl e, w1)"
    with assms(3) show "I w \<longrightarrow> I (snd (Inl e, w1)) \<and> (fst (Inl e, w1) = Inr () \<longrightarrow> ready (snd (Inl e, w1)))"
      by auto
  next
    fix w u w1 assume "body w = (Inr u, w1)" and "ready w1"
    with assms(3) show "I w \<longrightarrow> I (snd (Inr (), w1)) \<and> (fst (Inr (), w1) = Inr () \<longrightarrow> ready (snd (Inr (), w1)))"
      by auto
  next
    fix w u w1 y assume "body w = (Inr u, w1)"
      and "I w1 \<longrightarrow> I (snd y) \<and> (fst y = Inr () \<longrightarrow> ready (snd y))"
    with assms(3) show "I w \<longrightarrow> I (snd y) \<and> (fst y = Inr () \<longrightarrow> ready (snd y))"
      by blast
  qed
  with assms(2) show ?thesis by simp
qed

lemma poll_until_ready: "poll_until body ready w = Some (Inr (), w') \<Longrightarrow> ready w'"
  using poll_until_result[of body ready w "Inr ()" w' "\<lambda>_. True"] by simp

text \<open>A loop whose rounds all succeed without making the state ready never returns.\<close>

lemma poll_until_diverges:
  assumes "I w" and "\<And>w. I w \<Longrightarrow> \<exists>u w'. body w = (Inr u, w') \<and> \<not> ready w' \<and> I w'"
  shows "poll_until body ready w = None"
proof (rule ccontr)
  assume "poll_until body ready w \<noteq> None"
  then obtain y where y: "poll_until body ready w = Some y" by auto
  then have "\<not> I w" by (rule poll_until_induct) (use assms(2) in fastforce)+
  with assms(1) show False by simp
qed

text \<open>
  Rounds that each succeed: \<open>rounds body k w w'\<close> says that \<open>k\<close> rounds lead from \<open>w\<close> to \<open>w'\<close>, the
  state being not ready before.
\<close>

inductive rounds :: "('w, 'e, unit) io \<Rightarrow> ('w \<Rightarrow> bool) \<Rightarrow> nat \<Rightarrow> 'w \<Rightarrow> 'w \<Rightarrow> bool" for body ready where
  rounds_0: "rounds body ready 0 w w"
| rounds_Suc: "body w = (Inr (), w1) \<Longrightarrow> \<not> ready w1 \<Longrightarrow> rounds body ready k w1 w' \<Longrightarrow>
     rounds body ready (Suc k) w w'"

lemma poll_until_rounds: "rounds body ready k w w' \<Longrightarrow> poll_until body ready w = poll_until body ready w'"
  by (induction rule: rounds.induct) (auto dest: poll_until_again)

end
