(* ===== verification/Console.thy ===== *)
theory Console
  imports Loops
begin

text \<open>
  The console and file system the command line code uses, and the parsing of user input that the
  Rust standard library does (\<open>trim\<close>, \<open>parse::<u16>\<close>). The crate \<open>hex\<close> and the conversion of a
  file's bytes to text are the fields of \<open>text_env\<close>. Writing to the console does not fail.
\<close>

section \<open>The machine\<close>

record console =
  co_input :: "string list"
  co_output :: "string list"
  co_files :: "(string, bytes) fmap"

record text_env =
  hex_decode :: "string \<Rightarrow> bytes option"
  hex_encode :: "bytes \<Rightarrow> string"
  utf8 :: "bytes \<Rightarrow> string option"

text \<open>\<open>read_line\<close> yields the next line, and the empty string at the end of the input.\<close>

definition read_line :: "(console, error, string) io" where
  "read_line c = (case co_input c of
     [] \<Rightarrow> (Inr [], c) | l # ls \<Rightarrow> (Inr l, c\<lparr>co_input := ls\<rparr>))"

definition writeln :: "string \<Rightarrow> (console, error, unit) io" where
  "writeln s c = (Inr (), c\<lparr>co_output := co_output c @ [s]\<rparr>)"

definition read_file :: "string \<Rightarrow> (console, error, bytes) io" where
  "read_file path c = (ok_or (fmlookup (co_files c) path) Io_Error, c)"

definition read_to_string :: "text_env \<Rightarrow> string \<Rightarrow> (console, error, string) io" where
  "read_to_string te path =
     try_io (read_file path) (\<lambda>b. lift_io (ok_or (utf8 te b) Io_Error))"

section \<open>Text\<close>

definition is_space :: "char \<Rightarrow> bool" where
  "is_space c \<longleftrightarrow> c \<in> {CHR '' '', CHR 0x09, CHR 0x0A, CHR 0x0B, CHR 0x0C, CHR 0x0D}"

definition trim :: "string \<Rightarrow> string" where
  "trim s = rev (dropWhile is_space (rev (dropWhile is_space s)))"

definition is_digit :: "char \<Rightarrow> bool" where
  "is_digit c \<longleftrightarrow> 48 \<le> (of_char c :: nat) \<and> (of_char c :: nat) \<le> 57"

definition digits_value :: "string \<Rightarrow> nat" where
  "digits_value s = foldl (\<lambda>n c. 10 * n + (of_char c - 48)) 0 s"

definition parse_u16 :: "string \<Rightarrow> 16 word option" where
  "parse_u16 s =
     (let ds = (case s of c # cs \<Rightarrow> if c = CHR ''+'' then cs else s | [] \<Rightarrow> [])
      in if ds \<noteq> [] \<and> list_all is_digit ds \<and> digits_value ds \<le> 65535
         then Some (of_nat (digits_value ds)) else None)"

fun decimal :: "nat \<Rightarrow> string" where
  "decimal n = (if n < 10 then [char_of (48 + n)] else decimal (n div 10) @ [char_of (48 + n mod 10)])"

declare decimal.simps [simp del]

lemma digits_value_snoc [simp]: "digits_value (s @ [c]) = 10 * digits_value s + (of_char c - 48)"
  by (simp add: digits_value_def)

lemma decimal_digits: "decimal n \<noteq> [] \<and> list_all is_digit (decimal n) \<and> digits_value (decimal n) = n"
proof (induction n rule: decimal.induct)
  case (1 n)
  show ?case
  proof (cases "n < 10")
    case True
    then show ?thesis by (simp add: is_digit_def digits_value_def decimal.simps)
  next
    case False
    with 1 have "digits_value (decimal (n div 10)) = n div 10" "list_all is_digit (decimal (n div 10))"
      by auto
    moreover have "decimal n = decimal (n div 10) @ [char_of (48 + n mod 10)]"
      using False by (simp add: decimal.simps)
    moreover have "is_digit (char_of (48 + n mod 10))"
      using mod_less_divisor[of 10 n] by (simp add: is_digit_def)
    moreover have "of_char (char_of (48 + n mod 10) :: char) - 48 = n mod 10" by simp
    ultimately show ?thesis by simp
  qed
qed

text \<open>A number written in decimal is read back.\<close>

lemma parse_u16_decimal: "n \<le> 65535 \<Longrightarrow> parse_u16 (decimal n) = Some (of_nat n)"
proof -
  assume n: "n \<le> 65535"
  note d = decimal_digits[of n]
  then obtain c cs where c: "decimal n = c # cs" by (cases "decimal n") auto
  with d have "is_digit c" by simp
  then have "c \<noteq> CHR ''+''" by (auto simp: is_digit_def)
  with c d n show ?thesis by (simp add: parse_u16_def Let_def)
qed

lemma parse_u16_range: "parse_u16 s = Some w \<Longrightarrow> \<exists>n\<le>65535. w = of_nat n"
  by (auto simp: parse_u16_def Let_def split: if_splits)

section \<open>Reading from a file or from the console\<close>

text \<open>\<open>read_from_file_or_stdin\<close> of \<open>coordinator/input.rs\<close> and \<open>participant/input.rs\<close>.\<close>

definition read_from_file_or_stdin ::
    "text_env \<Rightarrow> string \<Rightarrow> string \<Rightarrow> (console, error, string) io" where
  "read_from_file_or_stdin te object_name file_path c =
     (let (from_file, c) =
        (if file_path = ''-'' then (False, c)
         else if file_path |\<in>| fmdom (co_files c)
         then (True, snd (writeln (''Reading '' @ object_name @ '' from '' @ file_path) c))
         else (False, snd (writeln (''File not found: '' @ file_path @ [CHR 0x0A] @ ''Will read from stdin'') c)))
      in if from_file then read_to_string te file_path c
         else try_io (writeln (''Paste the '' @ object_name @ '': '')) (\<lambda>_. read_line) c)"

text \<open>Does the user say yes? (\<open>confirm_message\<close> and the prompt of \<open>zcash-sign\<close>)\<close>

definition user_confirms :: "(console, error, bool) io" where
  "user_confirms = try_io read_line (\<lambda>l. ret_io (trim l = ''y''))"

text \<open>A hex string from the console (\<open>hex::decode(line.trim())?\<close>).\<close>

definition read_hex :: "text_env \<Rightarrow> (console, error, bytes) io" where
  "read_hex te = try_io read_line (\<lambda>l. lift_io (ok_or (hex_decode te (trim l)) Hex_Error))"

end
