(* ===== verification/Http_Comms.thy ===== *)
theory Http_Comms
  imports Client Console Cipher
begin

text \<open>
  What the three HTTP implementations of the traits \<open>Comms\<close> share: logging in with a signed
  challenge, sending encrypted messages, and the round of a polling loop. Their states extend
  \<open>http_base\<close>: the world the transport reaches, the client, the session id and the cipher.
  While a client sleeps the world goes on (\<open>he_sleep\<close>).
\<close>

section \<open>Environment and state\<close>

record ('w, 'h, 't, 'rng) http_env =
  he_client :: "'w client_env"
  he_snow :: "('h, 't) snow_ops"
  he_xsign :: "bytes \<Rightarrow> bytes \<Rightarrow> 'rng \<Rightarrow> bytes"
  he_draw :: "'w \<Rightarrow> 'rng \<times> 'w"
  he_sleep :: "'w \<Rightarrow> 'w"
  he_uuid_bytes :: "uuid \<Rightarrow> bytes"
  he_parse_uuid :: "string \<Rightarrow> uuid option"
  he_order :: "public_key set \<Rightarrow> public_key list"

record ('w, 'h, 't) http_base =
  hb_world :: 'w
  hb_client :: client
  hb_session_id :: "uuid option"
  hb_cipher :: "('h, 't) cipher option"

record ('w, 'h, 't, 'st, 'id) http_session = "('w, 'h, 't) http_base" +
  hs_state :: 'st
  hs_pubkeys :: "(public_key, 'id) fmap"

definition keys_of :: "('w, 'h, 't, 'rng) http_env \<Rightarrow> (public_key, 'v) fmap \<Rightarrow> public_key list" where
  "keys_of he m = he_order he (fset (fmdom m))"

lemma keys_of_set [simp]: "enumerates (he_order he) \<Longrightarrow> set (keys_of he m) = fset (fmdom m)"
  by (simp add: keys_of_def)

lemma keys_of_distinct [simp]: "enumerates (he_order he) \<Longrightarrow> distinct (keys_of he m)"
  by (simp add: keys_of_def)

section \<open>Acting on a part of the state\<close>

definition first_io :: "('a, 'e, 'x) io \<Rightarrow> ('a \<times> 'b, 'e, 'x) io" where
  "first_io m s = (case s of (a, b) \<Rightarrow> (case m a of (r, a') \<Rightarrow> (r, (a', b))))"

definition second_io :: "('b, 'e, 'x) io \<Rightarrow> ('a \<times> 'b, 'e, 'x) io" where
  "second_io m s = (case s of (a, b) \<Rightarrow> (case m b of (r, b') \<Rightarrow> (r, (a, b'))))"

definition client_op ::
    "('w \<times> client, error, 'a) io \<Rightarrow> (('w, 'h, 't, 'z) http_base_scheme, error, 'a) io" where
  "client_op m s = (case m (hb_world s, hb_client s) of
     (r, (w, c)) \<Rightarrow> (r, s\<lparr>hb_world := w, hb_client := c\<rparr>))"

definition on_state ::
    "('st, error, 'a) io \<Rightarrow> (('w, 'h, 't, 'st, 'id, 'z) http_session_scheme, error, 'a) io" where
  "on_state m s = (case m (hs_state s) of (r, st) \<Rightarrow> (r, s\<lparr>hs_state := st\<rparr>))"

definition session_id :: "(('w, 'h, 't, 'z) http_base_scheme, error, uuid) io" where
  "session_id s = (ok_or (hb_session_id s) (Panic ''no session id''), s)"

definition with_cipher ::
    "(('w, 'h, 't, 'z) http_base_scheme \<times> ('h, 't) cipher, error, 'a) iop \<Rightarrow>
     (('w, 'h, 't, 'z) http_base_scheme, error, 'a) iop" where
  "with_cipher m s =
     (case hb_cipher s of
        None \<Rightarrow> Some (Inl (Panic ''cipher must have been set before''), s)
      | Some c \<Rightarrow> (case m (s, c) of
          None \<Rightarrow> None | Some (r, (s', c')) \<Rightarrow> Some (r, s'\<lparr>hb_cipher := Some c'\<rparr>)))"

section \<open>Logging in\<close>

definition sign_challenge ::
    "('w, 'h, 't, 'rng) http_env \<Rightarrow> private_key \<Rightarrow> uuid \<Rightarrow> (('w, 'h, 't, 'z) http_base_scheme, error, bytes) io" where
  "sign_challenge he key ch s =
     (case he_draw he (hb_world s) of (rng, w) \<Rightarrow>
      (case private_key_sign (he_xsign he) key (he_uuid_bytes he ch) rng of
         Inl e \<Rightarrow> (Inl e, s)
       | Inr signature \<Rightarrow> (Inr signature, s\<lparr>hb_world := w\<rparr>)))"

definition http_login ::
    "('w, 'h, 't, 'rng) http_env \<Rightarrow> private_key option \<Rightarrow> public_key option \<Rightarrow>
     (('w, 'h, 't, 'z) http_base_scheme, error, login_output) io" where
  "http_login he comm_privkey comm_pubkey =
     try_io (client_op (client_challenge (he_client he))) (\<lambda>ch.
     try_io (lift_io (ok_or comm_privkey (Eyre ''comm_privkey must be specified''))) (\<lambda>privkey.
     try_io (sign_challenge he privkey (co_challenge ch)) (\<lambda>signature.
     try_io (lift_io (ok_or comm_pubkey (Eyre ''comm_pubkey must be specified''))) (\<lambda>pubkey.
     client_op (client_login (he_client he)
       \<lparr>la_challenge = co_challenge ch, la_pubkey = pubkey, la_signature = signature\<rparr>)))))"

section \<open>Messages\<close>

definition send_encrypted ::
    "('w, 'h, 't, 'rng) http_env \<Rightarrow> public_key option \<Rightarrow> public_key list \<Rightarrow> bytes \<Rightarrow>
     (('w, 'h, 't, 'z) http_base_scheme \<times> ('h, 't) cipher, error, unit) io" where
  "send_encrypted he recipient recipients payload =
     try_io (second_io (encrypt (he_snow he) recipient payload)) (\<lambda>m.
     try_io (first_io session_id) (\<lambda>sid.
     first_io (client_op (client_send (he_client he)
       \<lparr>sa_session_id = sid, sa_recipients = recipients, sa_msg = m\<rparr>))))"

definition receive_messages ::
    "('w, 'h, 't, 'rng) http_env \<Rightarrow> bool \<Rightarrow>
     (('w, 'h, 't, 'z) http_base_scheme \<times> ('h, 't) cipher, error, api_msg list) io" where
  "receive_messages he as_coordinator =
     try_io (first_io session_id) (\<lambda>sid.
     try_io (first_io (client_op (client_receive (he_client he)
       \<lparr>ra_session_id = sid, ra_as_coordinator = as_coordinator\<rparr>))) (\<lambda>r.
     ret_io (ro_msgs r)))"

definition http_sleep ::
    "('w, 'h, 't, 'rng) http_env \<Rightarrow>
     (('w, 'h, 't, 'z) http_base_scheme \<times> ('h, 't) cipher, error, unit) io" where
  "http_sleep he = first_io (\<lambda>s. (Inr (), s\<lparr>hb_world := he_sleep he (hb_world s)\<rparr>))"

text \<open>One round: receive the waiting messages, decrypt and handle each, sleep for two seconds.\<close>

definition receive_round ::
    "('w, 'h, 't, 'rng) http_env \<Rightarrow> (api_msg \<Rightarrow> ('st, error, unit) io) \<Rightarrow> bool \<Rightarrow>
     (('w, 'h, 't, 'st, 'id, 'z) http_session_scheme \<times> ('h, 't) cipher, error, unit) io" where
  "receive_round he recv as_coordinator =
     try_io (receive_messages he as_coordinator) (\<lambda>msgs.
     try_io (for_io msgs (\<lambda>m.
       try_io (second_io (decrypt (he_snow he) m)) (\<lambda>m.
       first_io (on_state (recv m))))) (\<lambda>_.
     http_sleep he))"

definition http_close_session ::
    "('w, 'h, 't, 'rng) http_env \<Rightarrow> (('w, 'h, 't, 'z) http_base_scheme, error, unit) io" where
  "http_close_session he =
     try_io session_id (\<lambda>sid. client_op (client_close_session (he_client he) \<lparr>cl_session_id = sid\<rparr>))"

definition http_logout ::
    "('w, 'h, 't, 'rng) http_env \<Rightarrow> (('w, 'h, 't, 'z) http_base_scheme, error, unit) io" where
  "http_logout he = client_op (client_logout (he_client he))"

text \<open>\<open>cleanup_on_error\<close>: close the session when there is one.\<close>

definition http_cleanup ::
    "('w, 'h, 't, 'rng) http_env \<Rightarrow> (('w, 'h, 't, 'z) http_base_scheme, error, unit) io" where
  "http_cleanup he s =
     (case hb_session_id s of
        None \<Rightarrow> (Inr (), s)
      | Some sid \<Rightarrow> client_op (client_close_session (he_client he) \<lparr>cl_session_id = sid\<rparr>) s)"

section \<open>What the parts leave alone\<close>

text \<open>
  \<open>frames f m\<close>: the computation does not change the part \<open>f\<close> of the state.
\<close>

definition frames :: "('w \<Rightarrow> 'p) \<Rightarrow> ('w, 'e, 'a) io \<Rightarrow> bool" where
  "frames f m \<longleftrightarrow> (\<forall>w. f (snd (m w)) = f w)"

named_theorems frame_intros \<open>parts of the state that a computation leaves alone\<close>

lemma framesD: "frames f m \<Longrightarrow> m w = (r, w') \<Longrightarrow> f w' = f w"
  by (metis frames_def snd_conv)

lemma frames_keeps: "frames f m \<Longrightarrow> keeps (\<lambda>w. P (f w)) m"
  by (auto simp: frames_def)

lemma frames_basic [frame_intros]: "frames f (ret_io x)" "frames f (fail_io e)" "frames f (lift_io r)"
  by (auto simp: frames_def)

lemma frames_try_io [frame_intros]: "frames f m \<Longrightarrow> (\<And>x. frames f (g x)) \<Longrightarrow> frames f (try_io m g)"
  by (simp add: frames_def try_io_def split: prod.splits sum.splits) (metis snd_conv)

lemma frames_for_io [frame_intros]: "(\<And>x. frames f (g x)) \<Longrightarrow> frames f (for_io xs g)"
  by (induction xs) (auto intro: frame_intros)

lemma frames_first [frame_intros]:
  "frames f m \<Longrightarrow> frames (\<lambda>s. f (fst s)) (first_io m)"
  "frames (\<lambda>s. f (fst s)) (second_io m')"
  by (auto simp: frames_def first_io_def second_io_def split: prod.splits) (metis snd_conv)

lemma frames_client_op [frame_intros]:
  "frames hb_session_id (client_op m)" "frames hb_cipher (client_op m)"
  "frames hs_state (client_op m)" "frames hs_pubkeys (client_op m)"
  by (auto simp: frames_def client_op_def split: prod.splits)

lemma frames_session_id [frame_intros]: "frames f session_id"
  by (simp add: frames_def session_id_def)

lemma frames_sign [frame_intros]:
  "frames hb_session_id (sign_challenge he k ch)" "frames hb_cipher (sign_challenge he k ch)"
  "frames hs_state (sign_challenge he k ch)" "frames hs_pubkeys (sign_challenge he k ch)"
  by (auto simp: frames_def sign_challenge_def split: prod.splits sum.splits)

lemma frames_login [frame_intros]:
  "frames hb_session_id (http_login he k p)" "frames hb_cipher (http_login he k p)"
  "frames hs_state (http_login he k p)" "frames hs_pubkeys (http_login he k p)"
  by (auto simp: http_login_def intro!: frame_intros)

lemma frames_send [frame_intros]:
  "frames (\<lambda>s. hb_session_id (fst s)) (send_encrypted he r rs p)"
  "frames (\<lambda>s. hs_state (fst s)) (send_encrypted he r rs p)"
  "frames (\<lambda>s. hs_pubkeys (fst s)) (send_encrypted he r rs p)"
  by (auto simp: send_encrypted_def intro!: frame_intros)

lemma frames_receive [frame_intros]:
  "frames (\<lambda>s. hb_session_id (fst s)) (receive_messages he c)"
  "frames (\<lambda>s. hs_state (fst s)) (receive_messages he c)"
  "frames (\<lambda>s. hs_pubkeys (fst s)) (receive_messages he c)"
  by (auto simp: receive_messages_def intro!: frame_intros)

lemma frames_sleep [frame_intros]:
  "frames (\<lambda>s. hb_session_id (fst s)) (http_sleep he)"
  "frames (\<lambda>s. hs_state (fst s)) (http_sleep he)"
  "frames (\<lambda>s. hs_pubkeys (fst s)) (http_sleep he)"
  by (auto simp: frames_def http_sleep_def first_io_def split: prod.splits)

lemma frames_on_state [frame_intros]:
  "frames hb_session_id (on_state m)" "frames hb_cipher (on_state m)" "frames hs_pubkeys (on_state m)"
  by (auto simp: frames_def on_state_def split: prod.splits)

lemma frames_close [frame_intros]:
  "frames hb_session_id (http_close_session he)" "frames hb_cipher (http_close_session he)"
  "frames hs_state (http_close_session he)" "frames hs_pubkeys (http_close_session he)"
  by (auto simp: http_close_session_def intro!: frame_intros)

lemma frames_logout [frame_intros]:
  "frames hb_session_id (http_logout he)" "frames hb_cipher (http_logout he)"
  "frames hs_state (http_logout he)" "frames hs_pubkeys (http_logout he)"
  by (auto simp: http_logout_def intro!: frame_intros)

lemma frames_round [frame_intros]:
  "frames (\<lambda>s. hb_session_id (fst s)) (receive_round he recv c)"
  "frames (\<lambda>s. hs_pubkeys (fst s)) (receive_round he recv c)"
  by (auto simp: receive_round_def intro!: frame_intros)

text \<open>What every message handler keeps of the session state, a round keeps.\<close>

lemma keeps_round:
  assumes "\<And>m. keeps P (recv m)"
  shows "keeps (\<lambda>s. P (hs_state (fst s))) (receive_round he recv c)"
proof -
  have s: "keeps (\<lambda>s. P (hs_state (fst s))) (first_io (on_state (recv m)))" for m
    using assms[of m] by (fastforce simp: keeps_def first_io_def on_state_def split: prod.splits)
  have f: "keeps (\<lambda>s. P (hs_state (fst s))) m" if "frames (\<lambda>s. hs_state (fst s)) m" for m
    using frames_keeps[OF that] .
  show ?thesis
    unfolding receive_round_def
    by (intro inv_intros s f frame_intros)
qed

lemma poll_until_keeps:
  assumes "keeps P body" and "poll_until body ready w = Some (r, w')" and "P w"
  shows "P w'" and "r = Inr () \<Longrightarrow> ready w'"
  using poll_until_result[OF assms(2), of P] assms(1,3) by (auto dest: keepsD)

end
