(* ===== verification/Coordinator.thy ===== *)
theory Coordinator
  imports Console
begin

text \<open>
  The coordinator's protocol run (\<open>coordinator/cli.rs\<close>) over the trait \<open>Comms\<close>
  (\<open>coordinator/comms.rs\<close>), which is a record of operations on the state of the transport. What
  the run relies on is the locale \<open>coordinator_transport\<close>. The calls into \<open>frost-core\<close> and
  \<open>frost-rerandomized\<close> are the fields of \<open>aggregation\<close>.
\<close>

section \<open>Parameters\<close>

record ('id, 'c, 's, 'sp, 'r, 'rp, 'pkp, 'sig) aggregation =
  new_signing_package :: "('id, 'c) fmap \<Rightarrow> bytes \<Rightarrow> 'sp"
  package_commitments :: "'sp \<Rightarrow> ('id, 'c) fmap"
  params_from_randomizer :: "'pkp \<Rightarrow> 'r \<Rightarrow> 'rp"
  frost_aggregate :: "'sp \<Rightarrow> ('id, 's) fmap \<Rightarrow> 'pkp \<Rightarrow> string + 'sig"
  rerandomized_aggregate :: "'sp \<Rightarrow> ('id, 's) fmap \<Rightarrow> 'pkp \<Rightarrow> 'rp \<Rightarrow> string + 'sig"

record ('r, 'pkp) processed_args =
  pa_num_signers :: "16 word"
  pa_public_key_package :: 'pkp
  pa_messages :: "bytes list"
  pa_randomizers :: "'r list"
  pa_aux_msg :: "bytes option"

section \<open>The trait Comms\<close>

record ('w, 'id, 'c, 's, 'sp, 'r, 'pkp, 'sig) coordinator_comms =
  get_signing_commitments :: "'pkp \<Rightarrow> 16 word \<Rightarrow> nat \<Rightarrow> ('w, error, ('id, 'c) fmap list) iop"
  send_signing_package_and_get_signature_shares ::
    "'sp list \<Rightarrow> 'r list option \<Rightarrow> bytes option \<Rightarrow> ('w, error, ('id, 's) fmap list) iop"
  process_signature :: "'sig list \<Rightarrow> ('w, error, unit) iop"
  cleanup_on_error :: "('w, error, unit) iop"

section \<open>The run\<close>

text \<open>\<open>&pargs.messages[i]\<close> panics when there are more commitment maps than messages.\<close>

definition signing_packages_for ::
    "('id, 'c, 's, 'sp, 'r, 'rp, 'pkp, 'sig) aggregation \<Rightarrow> bytes list \<Rightarrow> ('id, 'c) fmap list \<Rightarrow>
     error + 'sp list" where
  "signing_packages_for ag messages commitments =
     collect_results (map (\<lambda>(i, commitment).
         if i < length messages then Inr (new_signing_package ag commitment (messages ! i))
         else Inl (Panic ''index out of bounds''))
       (enumerate 0 commitments))"

definition aggregate_all ::
    "('id, 'c, 's, 'sp, 'r, 'rp, 'pkp, 'sig) aggregation \<Rightarrow> 'pkp \<Rightarrow> 'r list option \<Rightarrow> 'sp list \<Rightarrow>
     ('id, 's) fmap list \<Rightarrow> error + 'sig list" where
  "aggregate_all ag pkp randomizers signing_packages signature_shares =
     (case randomizers of
        Some rs \<Rightarrow>
          let randomizer_params = map (params_from_randomizer ag pkp) rs
          in collect_results (map (\<lambda>(randomizer_param, signing_package, signature_share).
               map_err Frost_Error (rerandomized_aggregate ag signing_package signature_share pkp randomizer_param))
             (zip randomizer_params (zip signing_packages signature_shares)))
      | None \<Rightarrow>
          collect_results (map (\<lambda>(signing_package, signature_share).
               map_err Frost_Error (frost_aggregate ag signing_package signature_share pkp))
             (zip signing_packages signature_shares)))"

definition coordinator_doit ::
    "('id, 'c, 's, 'sp, 'r, 'rp, 'pkp, 'sig) aggregation \<Rightarrow>
     ('w, 'id, 'c, 's, 'sp, 'r, 'pkp, 'sig) coordinator_comms \<Rightarrow> ('r, 'pkp) processed_args \<Rightarrow>
     ('w, error, 'sig list) iop" where
  "coordinator_doit ag comms pargs =
     try_iop (get_signing_commitments comms (pa_public_key_package pargs) (pa_num_signers pargs)
         (length (pa_messages pargs))) (\<lambda>commitments.
     try_iop (run_io (lift_io (signing_packages_for ag (pa_messages pargs) commitments))) (\<lambda>signing_packages.
     let randomizers = (if pa_randomizers pargs = [] then None else Some (pa_randomizers pargs)) in
     try_iop (send_signing_package_and_get_signature_shares comms signing_packages randomizers
         (pa_aux_msg pargs)) (\<lambda>signature_shares.
     try_iop (run_io (lift_io (aggregate_all ag (pa_public_key_package pargs) randomizers
         signing_packages signature_shares))) (\<lambda>signatures.
     try_iop (process_signature comms signatures) (\<lambda>_.
     run_io (ret_io signatures))))))"

text \<open>A panic unwinds past the cleanup.\<close>

fun is_panic :: "error \<Rightarrow> bool" where
  "is_panic (Panic _) = True"
| "is_panic _ = False"

definition coordinator ::
    "('id, 'c, 's, 'sp, 'r, 'rp, 'pkp, 'sig) aggregation \<Rightarrow>
     ('w, 'id, 'c, 's, 'sp, 'r, 'pkp, 'sig) coordinator_comms \<Rightarrow> ('r, 'pkp) processed_args \<Rightarrow>
     ('w, error, 'sig list) iop" where
  "coordinator ag comms pargs w =
     (if pa_randomizers pargs \<noteq> [] \<and> length (pa_randomizers pargs) \<noteq> length (pa_messages pargs)
      then Some (Inl (Eyre ''Number of randomizers must match number of messages''), w)
      else case coordinator_doit ag comms pargs w of
        None \<Rightarrow> None
      | Some (Inr signatures, w') \<Rightarrow> Some (Inr signatures, w')
      | Some (Inl e, w') \<Rightarrow>
          if is_panic e then Some (Inl e, w')
          else (case cleanup_on_error comms w' of
             None \<Rightarrow> None | Some (_, w'') \<Rightarrow> Some (Inl e, w'')))"

section \<open>What the run relies on\<close>

text \<open>
  \<open>start k\<close>: the transport is ready for a run with \<open>k\<close> messages; \<open>mid cs\<close>: it has collected the
  commitments \<open>cs\<close>, which are \<open>good\<close> for the public key package and the number of signers. The
  shares it then collects for packages with these commitments \<open>cover\<close> them one by one.
\<close>

locale coordinator_transport =
  fixes comms :: "('w, 'id, 'c, 's, 'sp, 'r, 'pkp, 'sig) coordinator_comms"
    and ag :: "('id, 'c, 's, 'sp, 'r, 'rp, 'pkp, 'sig) aggregation"
    and start :: "nat \<Rightarrow> 'w \<Rightarrow> bool" and mid :: "('id, 'c) fmap list \<Rightarrow> 'w \<Rightarrow> bool"
    and good :: "'pkp \<Rightarrow> 16 word \<Rightarrow> ('id, 'c) fmap \<Rightarrow> bool"
    and cover :: "('id, 'c) fmap \<Rightarrow> ('id, 's) fmap \<Rightarrow> bool"
  assumes commitments_good: "start k w \<Longrightarrow> get_signing_commitments comms pkp n k w = Some (Inr cs, w') \<Longrightarrow>
      length cs = k \<and> (\<forall>c\<in>set cs. good pkp n c) \<and> mid cs w'"
    and shares_cover: "mid cs w \<Longrightarrow> map (package_commitments ag) sps = cs \<Longrightarrow>
      send_signing_package_and_get_signature_shares comms sps rs aux w = Some (Inr shares, w') \<Longrightarrow>
      list_all2 cover cs shares"

text \<open>What \<open>SigningPackage::new\<close> documents: the package holds the commitments it is made of.\<close>

definition package_law :: "('id, 'c, 's, 'sp, 'r, 'rp, 'pkp, 'sig) aggregation \<Rightarrow> bool" where
  "package_law ag \<longleftrightarrow> (\<forall>c m. package_commitments ag (new_signing_package ag c m) = c)"

text \<open>The signature of the \<open>i\<close>-th message is made of the \<open>i\<close>-th package, shares and randomizer.\<close>

definition signature_matches ::
    "('id, 'c, 's, 'sp, 'r, 'rp, 'pkp, 'sig) aggregation \<Rightarrow> ('r, 'pkp) processed_args \<Rightarrow>
     ('id, 'c) fmap \<Rightarrow> ('id, 's) fmap \<Rightarrow> nat \<Rightarrow> 'sig \<Rightarrow> bool" where
  "signature_matches ag pargs c s i sig \<longleftrightarrow>
     (let sp = new_signing_package ag c (pa_messages pargs ! i)
      in if pa_randomizers pargs = [] then frost_aggregate ag sp s (pa_public_key_package pargs) = Inr sig
         else rerandomized_aggregate ag sp s (pa_public_key_package pargs)
           (params_from_randomizer ag (pa_public_key_package pargs) (pa_randomizers pargs ! i)) = Inr sig)"

text \<open>A run's signatures come from commitments and shares with the stated properties.\<close>

definition signed_with ::
    "('id, 'c, 's, 'sp, 'r, 'rp, 'pkp, 'sig) aggregation \<Rightarrow> ('r, 'pkp) processed_args \<Rightarrow>
     (('id, 'c) fmap \<Rightarrow> bool) \<Rightarrow> (('id, 'c) fmap \<Rightarrow> ('id, 's) fmap \<Rightarrow> bool) \<Rightarrow> 'sig list \<Rightarrow> bool" where
  "signed_with ag pargs good cover sigs \<longleftrightarrow>
     length sigs = length (pa_messages pargs) \<and>
     (\<exists>cs shares. length cs = length sigs \<and> length shares = length sigs \<and>
        (\<forall>i < length sigs. good (cs ! i) \<and> cover (cs ! i) (shares ! i) \<and>
           signature_matches ag pargs (cs ! i) (shares ! i) i (sigs ! i)))"

lemma signing_packages_for_Inr:
  assumes "signing_packages_for ag messages cs = Inr sps"
  shows "length cs \<le> length messages" and "sps = map2 (new_signing_package ag) cs (take (length cs) messages)"
proof -
  from assms have m: "map (\<lambda>(i, c). if i < length messages then Inr (new_signing_package ag c (messages ! i))
      else Inl (Panic ''index out of bounds'')) (enumerate 0 cs) = map Inr sps"
    by (simp add: signing_packages_for_def collect_results_eq_Inr)
  have l: "length sps = length cs" using arg_cong[OF m, of length] by simp
  have at: "i < length messages \<and> sps ! i = new_signing_package ag (cs ! i) (messages ! i)" if "i < length cs" for i
  proof -
    from m have "(map (\<lambda>(i, c). if i < length messages then Inr (new_signing_package ag c (messages ! i))
      else Inl (Panic ''index out of bounds'')) (enumerate 0 cs)) ! i = map Inr sps ! i" by simp
    with that l show ?thesis by (simp add: nth_enumerate_eq split: if_splits)
  qed
  show le: "length cs \<le> length messages"
  proof (cases "length cs")
    case (Suc n)
    with at[of n] show ?thesis by simp
  qed simp
  show "sps = map2 (new_signing_package ag) cs (take (length cs) messages)"
  proof (rule nth_equalityI)
    show "length sps = length (map2 (new_signing_package ag) cs (take (length cs) messages))"
      using l le by simp
    fix i assume "i < length sps"
    then have i: "i < length cs" using l by simp
    from at[OF i] show "sps ! i = map2 (new_signing_package ag) cs (take (length cs) messages) ! i"
      using i le by (simp add: min_absorb1)
  qed
qed

lemma aggregate_all_Inr:
  assumes "aggregate_all ag pkp randomizers sps shares = Inr sigs"
    and "length shares = length sps" and "case randomizers of None \<Rightarrow> True | Some rs \<Rightarrow> length rs = length sps"
  shows "length sigs = length sps"
    and "i < length sps \<Longrightarrow> (case randomizers of
        None \<Rightarrow> frost_aggregate ag (sps ! i) (shares ! i) pkp
      | Some rs \<Rightarrow> rerandomized_aggregate ag (sps ! i) (shares ! i) pkp (params_from_randomizer ag pkp (rs ! i)))
      = Inr (sigs ! i)"
proof -
  show l: "length sigs = length sps"
    using assms by (auto simp: aggregate_all_def dest: collect_results_length split: option.splits)
  assume i: "i < length sps"
  show "(case randomizers of
        None \<Rightarrow> frost_aggregate ag (sps ! i) (shares ! i) pkp
      | Some rs \<Rightarrow> rerandomized_aggregate ag (sps ! i) (shares ! i) pkp (params_from_randomizer ag pkp (rs ! i)))
      = Inr (sigs ! i)"
  proof (cases randomizers)
    case None
    with assms(1) have "collect_results (map (\<lambda>(sp, sh). map_err Frost_Error (frost_aggregate ag sp sh pkp))
      (zip sps shares)) = Inr sigs" by (simp add: aggregate_all_def)
    from collect_results_nth[OF this, of i] i None assms(2) show ?thesis by simp
  next
    case (Some rs)
    with assms(1) have "collect_results (map (\<lambda>(rp, sp, sh). map_err Frost_Error (rerandomized_aggregate ag sp sh pkp rp))
      (zip (map (params_from_randomizer ag pkp) rs) (zip sps shares))) = Inr sigs"
      by (simp add: aggregate_all_def)
    from collect_results_nth[OF this, of i] i Some assms(2,3) show ?thesis by simp
  qed
qed

lemma coordinator_Inr:
  assumes "coordinator ag comms pargs w = Some (Inr sigs, w')"
  shows "pa_randomizers pargs = [] \<or> length (pa_randomizers pargs) = length (pa_messages pargs)"
    and "coordinator_doit ag comms pargs w = Some (Inr sigs, w')"
    and "\<exists>cs w1. get_signing_commitments comms (pa_public_key_package pargs) (pa_num_signers pargs)
      (length (pa_messages pargs)) w = Some (Inr cs, w1)"
proof -
  show "pa_randomizers pargs = [] \<or> length (pa_randomizers pargs) = length (pa_messages pargs)"
    using assms by (auto simp: coordinator_def split: if_splits)
  show d: "coordinator_doit ag comms pargs w = Some (Inr sigs, w')"
    using assms by (auto simp: coordinator_def split: if_splits option.splits prod.splits sum.splits)
  then show "\<exists>cs w1. get_signing_commitments comms (pa_public_key_package pargs) (pa_num_signers pargs)
      (length (pa_messages pargs)) w = Some (Inr cs, w1)"
    unfolding coordinator_doit_def by (subst (asm) try_iop_Some_Inr) blast
qed

context coordinator_transport
begin

lemma coordinator_signs:
  assumes "start (length (pa_messages pargs)) w" and "package_law ag"
    and "coordinator ag comms pargs w = Some (Inr sigs, w')"
  shows "signed_with ag pargs (good (pa_public_key_package pargs) (pa_num_signers pargs)) cover sigs"
proof -
  let ?rs = "if pa_randomizers pargs = [] then None else Some (pa_randomizers pargs)"
  note rs = coordinator_Inr(1)[OF assms(3)]
  from coordinator_Inr(2)[OF assms(3)] obtain cs w1 sps shares w2 where
    c: "get_signing_commitments comms (pa_public_key_package pargs) (pa_num_signers pargs)
      (length (pa_messages pargs)) w = Some (Inr cs, w1)" and
    p: "signing_packages_for ag (pa_messages pargs) cs = Inr sps" and
    s: "send_signing_package_and_get_signature_shares comms sps ?rs (pa_aux_msg pargs) w1 = Some (Inr shares, w2)" and
    a: "aggregate_all ag (pa_public_key_package pargs) ?rs sps shares = Inr sigs"
    unfolding coordinator_doit_def Let_def
    by (auto simp: try_iop_Some_Inr simp del: try_iop_simps)
  from commitments_good[OF assms(1) c] have lc: "length cs = length (pa_messages pargs)" and
    g: "\<forall>c\<in>set cs. good (pa_public_key_package pargs) (pa_num_signers pargs) c" and m: "mid cs w1" by auto
  have sps: "sps = map2 (new_signing_package ag) cs (pa_messages pargs)"
    using signing_packages_for_Inr(2)[OF p] lc by simp
  then have lp: "length sps = length (pa_messages pargs)" using lc by simp
  have "map (package_commitments ag) sps = cs"
    using assms(2) lc by (intro nth_equalityI) (simp_all add: sps package_law_def)
  from shares_cover[OF m this s] have cv: "list_all2 cover cs shares" .
  then have ls: "length shares = length sps" using lp lc by (simp add: list_all2_lengthD)
  have r: "case ?rs of None \<Rightarrow> True | Some rs \<Rightarrow> length rs = length sps" using rs lp by auto
  note ag = aggregate_all_Inr[OF a ls r]
  have "signature_matches ag pargs (cs ! i) (shares ! i) i (sigs ! i)" if "i < length (pa_messages pargs)" for i
    using ag(2)[of i] that lp lc sps by (auto simp: signature_matches_def Let_def split: if_splits)
  then show ?thesis
    unfolding signed_with_def using lc ls lp ag(1) g list_all2_nthD[OF cv]
    by (intro conjI exI[of _ cs] exI[of _ shares] allI impI) auto
qed

end

end
