(* ===== verification/Coordinator_Http.thy ===== *)
theory Coordinator_Http
  imports Http_Comms Coordinator Coordinator_Session_Props
begin

text \<open>
  The HTTP transport of the coordinator (\<open>coordinator/comms/http.rs\<close>), on the state machine of
  \<open>Coordinator_Session\<close>, the cipher and the client. The arguments of the transport do not change
  and are a parameter of its operations.
\<close>

section \<open>State\<close>

record 'id coordinator_http_args =
  ca_signers :: "(public_key, 'id) fmap"
  ca_ip :: string
  ca_port :: "16 word"
  ca_comm_privkey :: "private_key option"
  ca_comm_pubkey :: "public_key option"

type_synonym ('w, 'h, 't, 'id, 'c, 's) coordinator_http =
  "('w, 'h, 't, ('id, 'c, 's) coordinator_session_state, 'id) http_session"

text \<open>The JSON formats of the messages between coordinator and participants.\<close>

record ('c, 's, 'sp, 'r) signing_codec =
  commitments_of_bytes :: "bytes \<Rightarrow> 'c list option"
  shares_of_bytes :: "bytes \<Rightarrow> 's list option"
  signing_package_bytes :: "('sp, 'r) send_signing_package_args \<Rightarrow> bytes"

definition http_url :: "string \<Rightarrow> 16 word \<Rightarrow> string" where
  "http_url ip port = ''https://'' @ ip @ '':'' @ decimal (unat port)"

definition coordinator_http_new ::
    "('r, 'pkp) processed_args \<Rightarrow> 'id coordinator_http_args \<Rightarrow> 'w \<Rightarrow>
     ('w, 'h, 't, 'id, 'c, 's) coordinator_http" where
  "coordinator_http_new pargs args w = \<lparr>
     hb_world = w, hb_client = client_new (http_url (ca_ip args) (ca_port args)),
     hb_session_id = None, hb_cipher = None,
     hs_state = coordinator_new (length (pa_messages pargs)) (unat (pa_num_signers pargs)) (ca_signers args),
     hs_pubkeys = fmempty\<rparr>"

section \<open>Operations\<close>

definition coordinator_http_start ::
    "('w, 'h, 't, 'rng) http_env \<Rightarrow> 'id coordinator_http_args \<Rightarrow> nat \<Rightarrow>
     (('w, 'h, 't, 'id, 'c, 's) coordinator_http, error, ('h, 't) cipher) io" where
  "coordinator_http_start he args n_messages =
     try_io (http_login he (ca_comm_privkey args) (ca_comm_pubkey args)) (\<lambda>_.
     try_io (lift_io (if n_messages \<le> 255 then Inr (of_nat n_messages)
         else Inl (Eyre ''too many messages''))) (\<lambda>message_count.
     try_io (client_op (client_create_new_session (he_client he)
         \<lparr>cn_pubkeys = keys_of he (ca_signers args), cn_message_count = message_count\<rparr>)) (\<lambda>r.
     try_io (\<lambda>s. (Inr (), s\<lparr>hb_session_id := Some (cn_session_id r)\<rparr>)) (\<lambda>_.
     try_io (lift_io (ok_or (ca_comm_privkey args) (Eyre ''comm_privkey must be specified''))) (\<lambda>comm_privkey.
     lift_io (cipher_new (he_snow he) comm_privkey (keys_of he (ca_signers args))))))))"

definition coordinator_http_get_commitments ::
    "('w, 'h, 't, 'rng) http_env \<Rightarrow> 'id coordinator_http_args \<Rightarrow> ('c, 's, 'sp, 'r) signing_codec \<Rightarrow> nat \<Rightarrow>
     (('w, 'h, 't, 'id, 'c, 's) coordinator_http, error, ('id, 'c) fmap list) iop" where
  "coordinator_http_get_commitments he args sc n_messages =
     try_iop (run_io (coordinator_http_start he args n_messages)) (\<lambda>cipher s.
       case poll_until
           (receive_round he (coordinator_recv (commitments_of_bytes sc) (shares_of_bytes sc)) True)
           (\<lambda>(s, _). has_commitments (hs_state s)) (s, cipher) of
         None \<Rightarrow> None
       | Some (Inl e, (s, _)) \<Rightarrow> Some (Inl e, s)
       | Some (Inr _, (s, cipher)) \<Rightarrow>
           let s = s\<lparr>hb_cipher := Some cipher\<rparr>
           in (case commitments (hs_state s) of
                Inl e \<Rightarrow> Some (Inl e, s)
              | Inr (cs, pubkeys) \<Rightarrow> Some (Inr cs, s\<lparr>hs_pubkeys := pubkeys\<rparr>)))"

definition coordinator_http_send_packages ::
    "('w, 'h, 't, 'rng) http_env \<Rightarrow> ('c, 's, 'sp, 'r) signing_codec \<Rightarrow> 'sp list \<Rightarrow> 'r list option \<Rightarrow> bytes option \<Rightarrow>
     public_key list \<Rightarrow>
     (('w, 'h, 't, 'id, 'c, 's) coordinator_http \<times> ('h, 't) cipher, error, unit) io" where
  "coordinator_http_send_packages he sc signing_packages randomizers aux_msg pubkeys =
     (let send_signing_package_args = \<lparr>sp_signing_package = signing_packages,
            sp_aux_msg = (case aux_msg of None \<Rightarrow> [] | Some m \<Rightarrow> m),
            sp_randomizer = (case randomizers of None \<Rightarrow> [] | Some r \<Rightarrow> r)\<rparr>
      in for_io pubkeys (\<lambda>recipient.
           send_encrypted he (Some recipient) [recipient] (signing_package_bytes sc send_signing_package_args)))"

definition coordinator_http_get_shares ::
    "('w, 'h, 't, 'rng) http_env \<Rightarrow> ('c, 's, 'sp, 'r) signing_codec \<Rightarrow> 'sp list \<Rightarrow> 'r list option \<Rightarrow> bytes option \<Rightarrow>
     (('w, 'h, 't, 'id, 'c, 's) coordinator_http, error, ('id, 's) fmap list) iop" where
  "coordinator_http_get_shares he sc signing_packages randomizers aux_msg =
     try_iop (with_cipher (try_iop
         (run_io (\<lambda>s. coordinator_http_send_packages he sc signing_packages randomizers aux_msg
            (keys_of he (hs_pubkeys (fst s))) s)) (\<lambda>_.
         poll_until
           (receive_round he (coordinator_recv (commitments_of_bytes sc) (shares_of_bytes sc)) True)
           (\<lambda>(s, _). has_signature_shares (hs_state s))))) (\<lambda>_.
     try_iop (run_io (http_close_session he)) (\<lambda>_.
     try_iop (run_io (http_logout he)) (\<lambda>_ s.
     Some (signature_shares (hs_state s), s))))"

definition coordinator_http_comms ::
    "('w, 'h, 't, 'rng) http_env \<Rightarrow> 'id coordinator_http_args \<Rightarrow> ('c, 's, 'sp, 'r) signing_codec \<Rightarrow>
     (('w, 'h, 't, 'id, 'c, 's) coordinator_http, 'id, 'c, 's, 'sp, 'r, 'pkp, 'sig) coordinator_comms" where
  "coordinator_http_comms he args sc = \<lparr>
     get_signing_commitments = (\<lambda>_ _ n_messages. coordinator_http_get_commitments he args sc n_messages),
     send_signing_package_and_get_signature_shares =
       (\<lambda>sps rs aux. coordinator_http_get_shares he sc sps rs aux),
     process_signature = (\<lambda>_. run_io (ret_io ())),
     cleanup_on_error = run_io (http_cleanup he)\<rparr>"

section \<open>The session state along the run\<close>

fun session_args :: "('id, 'c, 's) coordinator_session_state \<Rightarrow> coordinator_session_state_args" where
  "session_args (WaitingForCommitments args _ _) = args"
| "session_args (WaitingForSignatureShares args _ _ _) = args"
| "session_args (SignatureSharesReady args _) = args"

text \<open>The state belongs to a session with these arguments and, before its end, these public keys.\<close>

definition session_for ::
    "nat \<Rightarrow> nat \<Rightarrow> (public_key, 'id) fmap \<Rightarrow> ('id, 'c, 's) coordinator_session_state \<Rightarrow> bool" where
  "session_for k n pubkeys st \<longleftrightarrow>
     coordinator_inv st \<and> session_args st = \<lparr>num_messages = k, num_signers = n\<rparr> \<and>
     (case st of WaitingForCommitments _ _ ps \<Rightarrow> ps = pubkeys
      | WaitingForSignatureShares _ _ ps _ \<Rightarrow> ps = pubkeys | SignatureSharesReady _ _ \<Rightarrow> True)"

lemma recv_session_for:
  assumes "session_for k n pks st" and "coordinator_recv de_c de_s m st = (r, st')"
  shows "session_for k n pks st'"
proof -
  from assms(1) have i: "coordinator_inv st" by (simp add: session_for_def)
  have "coordinator_inv st'" using coordinator_recv_inv[OF i assms(2)] .
  moreover from assms have "session_args st' = \<lparr>num_messages = k, num_signers = n\<rparr> \<and>
     (case st' of WaitingForCommitments _ _ ps \<Rightarrow> ps = pks
      | WaitingForSignatureShares _ _ ps _ \<Rightarrow> ps = pks | SignatureSharesReady _ _ \<Rightarrow> True)"
    by (cases st) (auto simp: session_for_def coordinator_recv_def Let_def split: option.splits if_splits)
  ultimately show ?thesis by (simp add: session_for_def)
qed

lemma keeps_session_for: "keeps (session_for k n pks) (coordinator_recv de_c de_s m)"
  by (rule keepsI) (metis prod.collapse recv_session_for)

lemma session_for_commitments:
  assumes "session_for k n pks st" and "commitments st = Inr (cs, ps)"
  shows "length cs = k" and "ps = pks"
    and "\<forall>c\<in>set cs. fmsize c = n \<and> fset (fmdom c) \<subseteq> fmvals pks"
  using assms
  by (cases st; auto simp: session_for_def columns_ok fmsize_def)+

text \<open>The second phase: the shares are collected for the identifiers in \<open>D\<close>.\<close>

definition shares_for :: "nat \<Rightarrow> 'id fset \<Rightarrow> ('id, 'c, 's) coordinator_session_state \<Rightarrow> bool" where
  "shares_for k D st \<longleftrightarrow> coordinator_inv st \<and> num_messages (session_args st) = k \<and>
     (case st of WaitingForCommitments _ _ _ \<Rightarrow> False
      | WaitingForSignatureShares _ cm _ _ \<Rightarrow> fmdom cm = D | SignatureSharesReady _ sm \<Rightarrow> fmdom sm = D)"

lemma keeps_shares_for: "keeps (shares_for k D) (coordinator_recv de_c de_s m)"
proof
  fix st :: "('a, 'b, 'c) coordinator_session_state"
  assume a: "shares_for k D st"
  then have "coordinator_inv (snd (coordinator_recv de_c de_s m st))"
    by (intro coordinator_recv_inv_snd) (simp add: shares_for_def)
  with a show "shares_for k D (snd (coordinator_recv de_c de_s m st))"
    by (cases st) (auto simp: shares_for_def coordinator_recv_def Let_def split: option.splits)
qed

lemma session_for_after:
  assumes "session_for k n pks st" and "commitments st = Inr (cs, ps)"
  shows "\<exists>D. shares_for (length cs) D st \<and> (\<forall>c\<in>set cs. fmdom c = D)"
  using assms by (cases st) (auto simp: session_for_def shares_for_def columns_ok)

lemma shares_for_shares:
  assumes "shares_for k D st" and "signature_shares st = Inr shs"
  shows "length shs = k" and "\<forall>c\<in>set shs. fmdom c = D"
  using assms by (cases st; auto simp: shares_for_def columns_ok)+

definition http_state_for ::
    "nat \<Rightarrow> nat \<Rightarrow> (public_key, 'id) fmap \<Rightarrow> ('w, 'h, 't, 'id, 'c, 's) coordinator_http \<Rightarrow> bool" where
  "http_state_for k n pks s \<longleftrightarrow> session_for k n pks (hs_state s)"

lemma start_keeps_state:
  assumes "coordinator_http_start he args m s = (r, s')"
  shows "hs_state s' = hs_state s"
proof -
  have "frames hs_state (coordinator_http_start he args m)"
    unfolding coordinator_http_start_def
    by (intro frame_intros) (simp add: frames_def)
  then show ?thesis using assms by (rule framesD)
qed

lemma http_commitments:
  assumes "http_state_for k n pks s"
    and "coordinator_http_get_commitments he args sc m s = Some (Inr cs, s')"
  shows "length cs = k \<and> (\<forall>c\<in>set cs. fmsize c = n \<and> fset (fmdom c) \<subseteq> fmvals pks) \<and>
    (\<exists>D. shares_for (length cs) D (hs_state s') \<and> (\<forall>c\<in>set cs. fmdom c = D)) \<and> hs_pubkeys s' = pks"
proof -
  let ?body = "receive_round he (coordinator_recv (commitments_of_bytes sc) (shares_of_bytes sc)) True"
  from assms(2) obtain c1 s1 s2 c2 where
    st: "coordinator_http_start he args m s = (Inr c1, s1)" and
    p: "poll_until ?body (\<lambda>(s, _). has_commitments (hs_state s)) (s1, c1) = Some (Inr (), (s2, c2))" and
    c: "commitments (hs_state s2) = Inr (cs, hs_pubkeys s')" and s': "hs_state s' = hs_state s2"
    unfolding coordinator_http_get_commitments_def try_iop_Some_Inr run_io_simps
    by (auto simp: Let_def split: option.splits prod.splits sum.splits)
  from start_keeps_state[OF st] assms(1) have "session_for k n pks (hs_state (fst (s1, c1)))"
    by (simp add: http_state_for_def)
  from poll_until_keeps(1)[OF keeps_round[OF keeps_session_for] p this]
  have i: "session_for k n pks (hs_state s2)" by simp
  from session_for_commitments[OF i c] session_for_after[OF i c] s' show ?thesis by simp
qed

text \<open>Collecting succeeds only with a complete map of commitments.\<close>

lemma http_commitments_map:
  assumes "http_state_for k n pks s"
    and "coordinator_http_get_commitments he args sc m s = Some (Inr cs, s')"
  shows "\<exists>D. card D = n \<and> 0 < n \<and> D \<subseteq> fmvals pks"
proof -
  let ?body = "receive_round he (coordinator_recv (commitments_of_bytes sc) (shares_of_bytes sc)) True"
  from assms(2) obtain c1 s1 s2 c2 where
    st: "coordinator_http_start he args m s = (Inr c1, s1)" and
    p: "poll_until ?body (\<lambda>(s, _). has_commitments (hs_state s)) (s1, c1) = Some (Inr (), (s2, c2))"
    unfolding coordinator_http_get_commitments_def try_iop_Some_Inr run_io_simps
    by (auto simp: Let_def split: option.splits prod.splits sum.splits)
  from start_keeps_state[OF st] assms(1) have "session_for k n pks (hs_state (fst (s1, c1)))"
    by (simp add: http_state_for_def)
  from poll_until_keeps[OF keeps_round[OF keeps_session_for] p this]
  have "session_for k n pks (hs_state s2)" "has_commitments (hs_state s2)" by simp_all
  then show ?thesis
    by (cases "hs_state s2") (auto simp: session_for_def fmsize_card intro!: exI[of _ "fset (fmdom _)"])
qed

lemma http_shares:
  assumes "shares_for k D (hs_state s)"
    and "coordinator_http_get_shares he sc sps rs aux s = Some (Inr shs, s')"
  shows "length shs = k \<and> (\<forall>c\<in>set shs. fmdom c = D)"
proof -
  let ?body = "receive_round he (coordinator_recv (commitments_of_bytes sc) (shares_of_bytes sc)) True"
  let ?send = "\<lambda>s. coordinator_http_send_packages he sc sps rs aux (keys_of he (hs_pubkeys (fst s))) s"
  from assms(2) obtain c s1 c1 s2 c2 s3 s4 where
    sd: "?send (s, c) = (Inr (), (s1, c1))" and
    p: "poll_until ?body (\<lambda>(s, _). has_signature_shares (hs_state s)) (s1, c1) = Some (Inr (), (s2, c2))" and
    cl: "http_close_session he (s2\<lparr>hb_cipher := Some c2\<rparr>) = (Inr (), s3)" and
    lo: "http_logout he s3 = (Inr (), s4)" and
    sh: "signature_shares (hs_state s4) = Inr shs"
    unfolding coordinator_http_get_shares_def try_iop_Some_Inr run_io_simps with_cipher_def
    by (fastforce simp: try_iop_Some_Inr split: option.splits prod.splits sum.splits)
  have "frames (\<lambda>s. hs_state (fst s)) (coordinator_http_send_packages he sc sps rs aux ks)" for ks
    by (auto simp: coordinator_http_send_packages_def Let_def intro!: frame_intros)
  from framesD[OF this sd] assms(1) have "shares_for k D (hs_state (fst (s1, c1)))" by simp
  from poll_until_keeps(1)[OF keeps_round[OF keeps_shares_for] p this]
  have "shares_for k D (hs_state s2)" by simp
  moreover have "hs_state s4 = hs_state s2"
    using framesD[OF frames_close(3) cl] framesD[OF frames_logout(3) lo] by simp
  ultimately show ?thesis using shares_for_shares sh by metis
qed

lemma http_shares_cover:
  assumes "shares_for (length cs) D (hs_state s)" and "\<forall>c\<in>set cs. fmdom c = D"
    and "coordinator_http_get_shares he sc sps rs aux s = Some (Inr shs, s')"
  shows "list_all2 (\<lambda>cm sm. fmdom sm = fmdom cm) cs shs"
  using http_shares[OF assms(1,3)] assms(2) by (auto simp: list_all2_conv_all_nth)

interpretation coordinator_http:
  coordinator_transport "coordinator_http_comms he args sc" ag "\<lambda>k. http_state_for k n pks"
    "\<lambda>cs s. \<exists>D. shares_for (length cs) D (hs_state s) \<and> (\<forall>c\<in>set cs. fmdom c = D)"
    "\<lambda>_ _ cm. fmsize cm = n \<and> fset (fmdom cm) \<subseteq> fmvals pks" "\<lambda>cm sm. fmdom sm = fmdom cm"
proof
  fix k s pkp n' cs s'
  assume "http_state_for k n pks s"
    and "get_signing_commitments (coordinator_http_comms he args sc) pkp n' k s = Some (Inr cs, s')"
  then show "length cs = k \<and> (\<forall>c\<in>set cs. fmsize c = n \<and> fset (fmdom c) \<subseteq> fmvals pks) \<and>
      (\<exists>D. shares_for (length cs) D (hs_state s') \<and> (\<forall>c\<in>set cs. fmdom c = D))"
    using http_commitments by (fastforce simp: coordinator_http_comms_def)
qed (auto simp: coordinator_http_comms_def intro: http_shares_cover)

lemma coordinator_http_new_state:
  "http_state_for (length (pa_messages pargs)) (unat (pa_num_signers pargs)) (ca_signers args)
     (coordinator_http_new pargs args w)"
  by (simp add: http_state_for_def coordinator_http_new_def session_for_def coordinator_inv_new)
    (simp add: coordinator_new_def)

end
