(* ===== verification/Coordinator_Socket.thy ===== *)
theory Coordinator_Socket
  imports Coordinator
begin

text \<open>
  The socket transport of the coordinator (\<open>coordinator/comms/socket.rs\<close>). The channel that the
  network thread fills is the list of the messages that arrive, in order; waiting on an empty
  channel that stays open never ends. What the coordinator sends is logged. The messages of the
  socket protocol (\<open>coordinator/comms.rs\<close>) are a datatype, their JSON form a codec.
\<close>

section \<open>State\<close>

datatype ('id, 'c, 's, 'sp, 'r) socket_message =
    IdentifiedCommitments 'id 'c
  | SigningPackageAndRandomizer 'sp "'r option"
  | SignatureShare 's

type_synonym ('id, 'c, 's, 'sp, 'r) socket_codec =
  "(('id, 'c, 's, 'sp, 'r) socket_message \<Rightarrow> bytes) \<times> (bytes \<Rightarrow> ('id, 'c, 's, 'sp, 'r) socket_message option)"

record ('id, 'ep) socket_comms =
  so_input_rx :: "('ep \<times> bytes) list"
  so_closed :: bool
  so_endpoints :: "('id, 'ep) fmap"
  so_sent :: "('ep \<times> bytes) list"

definition socket_recv :: "error \<Rightarrow> (('id, 'ep) socket_comms, error, 'ep \<times> bytes) iop" where
  "socket_recv e s =
     (case so_input_rx s of
        m # ms \<Rightarrow> Some (Inr m, s\<lparr>so_input_rx := ms\<rparr>)
      | [] \<Rightarrow> if so_closed s then Some (Inl e, s) else None)"

definition socket_send :: "'ep \<Rightarrow> bytes \<Rightarrow> (('id, 'ep) socket_comms, error, unit) io" where
  "socket_send ep data s = (Inr (), s\<lparr>so_sent := so_sent s @ [(ep, data)]\<rparr>)"

section \<open>Operations\<close>

fun socket_collect_commitments ::
    "('id, 'c, 's, 'sp, 'r) socket_codec \<Rightarrow> nat \<Rightarrow> ('id, 'c) fmap \<Rightarrow>
     (('id, 'ep) socket_comms, error, ('id, 'c) fmap) iop" where
  "socket_collect_commitments cd 0 signing_commitments = run_io (ret_io signing_commitments)"
| "socket_collect_commitments cd (Suc n) signing_commitments =
     try_iop (socket_recv (Eyre ''Did not receive all commitments'')) (\<lambda>(endpoint, data).
     try_iop (run_io (lift_io (ok_or (snd cd data) Json_Error))) (\<lambda>message.
       case message of
         IdentifiedCommitments identifier commitments \<Rightarrow>
           (\<lambda>s. socket_collect_commitments cd n (fmupd identifier commitments signing_commitments)
              (s\<lparr>so_endpoints := fmupd identifier endpoint (so_endpoints s)\<rparr>))
       | _ \<Rightarrow> run_io (fail_io (Eyre ''Expected IdentifiedCommitments message''))))"

definition socket_get_signing_commitments ::
    "('id, 'c, 's, 'sp, 'r) socket_codec \<Rightarrow> 16 word \<Rightarrow> nat \<Rightarrow>
     (('id, 'ep) socket_comms, error, ('id, 'c) fmap list) iop" where
  "socket_get_signing_commitments cd num_participants num_messages s =
     (if num_messages \<noteq> 1
      then Some (Inl (Eyre ''SocketComms only supports one message at a time''), s)
      else try_iop (socket_collect_commitments cd (unat num_participants) fmempty)
        (\<lambda>signing_commitments. run_io (ret_io [signing_commitments])) (s\<lparr>so_endpoints := fmempty\<rparr>))"

definition socket_send_to_all ::
    "bytes \<Rightarrow> 'id list \<Rightarrow> (('id, 'ep) socket_comms, error, unit) io" where
  "socket_send_to_all data identifiers =
     for_io identifiers (\<lambda>identifier.
       try_io (\<lambda>s. (ok_or (fmlookup (so_endpoints s) identifier) (Eyre ''unknown identifier''), s)) (\<lambda>endpoint.
       socket_send endpoint data))"

text \<open>\<open>endpoints.iter().find_map(...)\<close>: the first identifier, in order, with this endpoint.\<close>

definition identifier_of :: "('id::linorder, 'ep) fmap \<Rightarrow> 'ep \<Rightarrow> 'id option" where
  "identifier_of endpoints endpoint =
     List.find (\<lambda>i. fmlookup endpoints i = Some endpoint) (sorted_list_of_fset (fmdom endpoints))"

fun socket_collect_shares ::
    "('id::linorder, 'c, 's, 'sp, 'r) socket_codec \<Rightarrow> nat \<Rightarrow> ('id, 's) fmap \<Rightarrow>
     (('id, 'ep) socket_comms, error, ('id, 's) fmap) iop" where
  "socket_collect_shares cd 0 shares = run_io (ret_io shares)"
| "socket_collect_shares cd (Suc n) shares =
     try_iop (socket_recv (Eyre ''Did not receive all commitments'')) (\<lambda>(endpoint, data).
     try_iop (run_io (lift_io (ok_or (snd cd data) Json_Error))) (\<lambda>message.
       case message of
         SignatureShare signature_share \<Rightarrow>
           try_iop (run_io (\<lambda>s. (ok_or (identifier_of (so_endpoints s) endpoint) (Eyre ''Unknown participant''), s)))
             (\<lambda>identifier. socket_collect_shares cd n (fmupd identifier signature_share shares))
       | _ \<Rightarrow> run_io (fail_io (Eyre ''Expected IdentifiedCommitments message''))))"

definition socket_send_signing_package ::
    "('id::linorder, 'c, 's, 'sp, 'r) socket_codec \<Rightarrow>
     ('id, 'c, 's, 'sp, 'r, 'rp, 'pkp, 'sig) aggregation \<Rightarrow> 'sp list \<Rightarrow> 'r list option \<Rightarrow> bytes option \<Rightarrow>
     (('id, 'ep) socket_comms, error, ('id, 's) fmap list) iop" where
  "socket_send_signing_package cd ag signing_packages randomizers aux_msg =
     (case signing_packages of
        [signing_package] \<Rightarrow>
          try_iop (run_io (lift_io (case randomizers of
             None \<Rightarrow> Inr None | Some [randomizer] \<Rightarrow> Inr (Some randomizer)
           | Some _ \<Rightarrow> Inl (Eyre ''number of randomizers must match number of messages'')))) (\<lambda>randomizer.
          if aux_msg \<noteq> None then run_io (fail_io (Eyre ''SocketComms does not support auxiliary messages''))
          else
            let identifiers = sorted_list_of_fset (fmdom (package_commitments ag signing_package))
            in try_iop (run_io (socket_send_to_all
                 (fst cd (SigningPackageAndRandomizer signing_package randomizer)) identifiers)) (\<lambda>_.
               try_iop (socket_collect_shares cd (length identifiers) fmempty) (\<lambda>signature_shares.
               run_io (ret_io [signature_shares]))))
      | _ \<Rightarrow> run_io (fail_io (Eyre ''SocketComms only supports one message at a time'')))"

definition coordinator_socket_comms ::
    "('id::linorder, 'c, 's, 'sp, 'r) socket_codec \<Rightarrow>
     ('id, 'c, 's, 'sp, 'r, 'rp, 'pkp, 'sig) aggregation \<Rightarrow>
     (('id, 'ep) socket_comms, 'id, 'c, 's, 'sp, 'r, 'pkp, 'sig) coordinator_comms" where
  "coordinator_socket_comms cd ag = \<lparr>
     get_signing_commitments = (\<lambda>_ n k. socket_get_signing_commitments cd n k),
     send_signing_package_and_get_signature_shares =
       (\<lambda>sps rs aux. socket_send_signing_package cd ag sps rs aux),
     process_signature = (\<lambda>_. run_io (ret_io ())),
     cleanup_on_error = run_io (ret_io ())\<rparr>"

section \<open>What the operations return\<close>

lemma socket_message_case:
  "(case m of IdentifiedCommitments i c \<Rightarrow> f i c | SigningPackageAndRandomizer sp r \<Rightarrow> g sp r
     | SignatureShare s \<Rightarrow> h s) w = r' \<longleftrightarrow>
   (\<exists>i c. m = IdentifiedCommitments i c \<and> f i c w = r') \<or>
   (\<exists>sp r. m = SigningPackageAndRandomizer sp r \<and> g sp r w = r') \<or>
   (\<exists>s. m = SignatureShare s \<and> h s w = r')"
  by (cases m) simp_all

lemma socket_collect_commitments_ok:
  assumes "socket_collect_commitments cd n cm s = Some (Inr cm', s')" and "fmdom (so_endpoints s) = fmdom cm"
  shows "fmdom (so_endpoints s') = fmdom cm'" and "fmsize cm' \<le> fmsize cm + n"
proof -
  from assms have "fmdom (so_endpoints s') = fmdom cm' \<and> fmsize cm' \<le> fmsize cm + n"
  proof (induction n arbitrary: cm s)
    case 0
    then show ?case by simp
  next
    case (Suc n)
    from Suc.prems(1) obtain ep data s1 i c where
      r: "socket_recv (Eyre ''Did not receive all commitments'') s = Some (Inr (ep, data), s1)" and
      n: "socket_collect_commitments cd n (fmupd i c cm)
        (s1\<lparr>so_endpoints := fmupd i ep (so_endpoints s1)\<rparr>) = Some (Inr cm', s')"
      by (auto simp: try_iop_Some_Inr socket_message_case simp del: try_iop_simps)

    from r have "so_endpoints s1 = so_endpoints s"
      by (auto simp: socket_recv_def split: list.splits if_splits)
    with Suc.IH[OF n] Suc.prems(2) show ?case by (auto split: if_splits)
  qed
  then show "fmdom (so_endpoints s') = fmdom cm'" "fmsize cm' \<le> fmsize cm + n" by auto
qed

lemma identifier_of_dom: "identifier_of eps ep = Some i \<Longrightarrow> i |\<in>| fmdom eps"
  by (auto simp: identifier_of_def find_Some_iff fmdom_fmlookup)

lemma socket_recv_endpoints: "socket_recv e s = Some (r, s') \<Longrightarrow> so_endpoints s' = so_endpoints s"
  by (auto simp: socket_recv_def split: list.splits if_splits)

lemma socket_collect_shares_ok:
  "socket_collect_shares cd n sm s = Some (Inr sm', s') \<Longrightarrow>
     fset (fmdom sm') \<subseteq> fset (fmdom sm) \<union> fset (fmdom (so_endpoints s))"
proof (induction n arbitrary: sm s)
  case 0
  then show ?case by simp
next
  case (Suc n)
  from Suc.prems obtain ep data s1 i sh where
    r: "socket_recv (Eyre ''Did not receive all commitments'') s = Some (Inr (ep, data), s1)" and
    i: "identifier_of (so_endpoints s1) ep = Some i" and
    n: "socket_collect_shares cd n (fmupd i sh sm) s1 = Some (Inr sm', s')"
    by (auto simp: try_iop_Some_Inr socket_message_case simp del: try_iop_simps)

  from Suc.IH[OF n] identifier_of_dom[OF i] socket_recv_endpoints[OF r] show ?case by auto
qed

lemma socket_send_endpoints: "socket_send_to_all data ids s = (r, s') \<Longrightarrow> so_endpoints s' = so_endpoints s"
proof (induction ids arbitrary: s)
  case Nil
  then show ?case by (simp add: socket_send_to_all_def)
next
  case (Cons i ids)
  then show ?case
    by (cases "fmlookup (so_endpoints s) i")
      (auto simp: socket_send_to_all_def socket_send_def try_io_def split: prod.splits sum.splits)
qed

interpretation socket: coordinator_transport "coordinator_socket_comms cd ag" ag "\<lambda>k s. True"
    "\<lambda>cs s. \<exists>c. cs = [c] \<and> fmdom (so_endpoints s) = fmdom c"
    "\<lambda>_ n cm. fmsize cm \<le> unat n" "\<lambda>cm sm. fset (fmdom sm) \<subseteq> fset (fmdom cm)"
proof
  fix k s pkp n cs s'
  assume "get_signing_commitments (coordinator_socket_comms cd ag) pkp n k s = Some (Inr cs, s')"
  then obtain c where k: "k = 1" and cs: "cs = [c]" and
    c: "socket_collect_commitments cd (unat n) fmempty (s\<lparr>so_endpoints := fmempty\<rparr>) = Some (Inr c, s')"
    by (auto simp: coordinator_socket_comms_def socket_get_signing_commitments_def try_iop_Some_Inr
        split: if_splits)
  from socket_collect_commitments_ok[OF c] k cs
  show "length cs = k \<and> (\<forall>c\<in>set cs. fmsize c \<le> unat n) \<and> (\<exists>c. cs = [c] \<and> fmdom (so_endpoints s') = fmdom c)"
    by simp
next
  fix cs s sps rs aux shares s'
  assume m: "\<exists>c. cs = [c] \<and> fmdom (so_endpoints s) = fmdom c" and p: "map (package_commitments ag) sps = cs"
    and "send_signing_package_and_get_signature_shares (coordinator_socket_comms cd ag) sps rs aux s =
      Some (Inr shares, s')"
  moreover from m p obtain sp where sp: "sps = [sp]" "fmdom (so_endpoints s) = fmdom (package_commitments ag sp)"
    by (auto simp: map_eq_Cons_conv)
  ultimately obtain data ids s1 sm where
    snd: "socket_send_to_all data ids s = (Inr (), s1)" and
    cl: "socket_collect_shares cd (length ids) fmempty s1 = Some (Inr sm, s')" and sh: "shares = [sm]"
    by (auto simp: coordinator_socket_comms_def socket_send_signing_package_def Let_def try_iop_Some_Inr
        simp del: try_iop_simps split: if_split_asm)
  from socket_collect_shares_ok[OF cl] socket_send_endpoints[OF snd] sp p sh
  show "list_all2 (\<lambda>cm sm. fset (fmdom sm) \<subseteq> fset (fmdom cm)) cs shares" by auto
qed

end
