(* ===== verification/Coordinator_Cli.thy ===== *)
theory Coordinator_Cli
  imports Coordinator
begin

text \<open>
  The command line transport of the coordinator (\<open>coordinator/comms/cli.rs\<close>): commitments and
  signature shares are pasted into the console. Parsing of FROST values is the record
  \<open>cli_codec\<close>; a \<open>BTreeMap\<close> is iterated in the order of its keys.
\<close>

section \<open>Operations\<close>

record ('id, 'c, 's, 'sp, 'pkp, 'sig) cli_codec =
  id_deserialize :: "bytes \<Rightarrow> string + 'id"
  id_serialize :: "'id \<Rightarrow> bytes"
  id_json :: "'id \<Rightarrow> string"
  commitments_of_json :: "string \<Rightarrow> 'c option"
  share_of_json :: "string \<Rightarrow> 's option"
  package_to_json :: "'sp \<Rightarrow> string"
  signature_serialize :: "'sig \<Rightarrow> string + bytes"
  verifying_shares :: "'pkp \<Rightarrow> 'id fset"

definition read_identifier ::
    "text_env \<Rightarrow> ('id, 'c, 's, 'sp, 'pkp, 'sig) cli_codec \<Rightarrow> (console, error, 'id) io" where
  "read_identifier te cc =
     try_io (read_hex te) (\<lambda>b. lift_io (map_err Frost_Error (id_deserialize cc b)))"

definition validate ::
    "('id, 'c, 's, 'sp, 'pkp, 'sig) cli_codec \<Rightarrow> 'id \<Rightarrow> 'pkp \<Rightarrow> 'id list \<Rightarrow> error + unit" where
  "validate cc i key_package id_list =
     (if i |\<notin>| verifying_shares cc key_package then Inl (Frost_Error ''MalformedIdentifier'')
      else if i \<in> set id_list then Inl (Frost_Error ''DuplicatedIdentifier'')
      else Inr ())"

fun cli_read_commitments ::
    "text_env \<Rightarrow> ('id, 'c, 's, 'sp, 'pkp, 'sig) cli_codec \<Rightarrow> 'pkp \<Rightarrow> nat list \<Rightarrow> 'id list \<Rightarrow>
     ('id, 'c) fmap \<Rightarrow> (console, error, ('id, 'c) fmap) io" where
  "cli_read_commitments te cc pkp [] participants_list commitments_list = ret_io commitments_list"
| "cli_read_commitments te cc pkp (i # ns) participants_list commitments_list =
     try_io (writeln (''Identifier for participant '' @ decimal i @ '' (hex encoded): '')) (\<lambda>_.
     try_io (read_identifier te cc) (\<lambda>id_value.
     try_io (lift_io (validate cc id_value pkp participants_list)) (\<lambda>_.
     try_io (writeln (''Please enter JSON encoded commitments for participant '' @
         hex_encode te (id_serialize cc id_value) @ '':'')) (\<lambda>_.
     try_io read_line (\<lambda>commitments_input.
     try_io (lift_io (ok_or (commitments_of_json cc commitments_input) Json_Error)) (\<lambda>commitments.
     cli_read_commitments te cc pkp ns (participants_list @ [id_value])
       (fmupd id_value commitments commitments_list)))))))"

definition print_participants ::
    "('id::linorder, 'c, 's, 'sp, 'pkp, 'sig) cli_codec \<Rightarrow> ('id, 'c) fmap \<Rightarrow> (console, error, unit) io" where
  "print_participants cc participants =
     try_io (writeln ''Selected participants: '') (\<lambda>_.
     for_io (sorted_list_of_fset (fmdom participants)) (\<lambda>p. writeln (id_json cc p)))"

definition cli_get_signing_commitments ::
    "text_env \<Rightarrow> ('id::linorder, 'c, 's, 'sp, 'pkp, 'sig) cli_codec \<Rightarrow> 'pkp \<Rightarrow> 16 word \<Rightarrow> nat \<Rightarrow>
     (console, error, ('id, 'c) fmap list) io" where
  "cli_get_signing_commitments te cc pkp num_participants num_messages =
     map_io (\<lambda>_. try_io (cli_read_commitments te cc pkp [1..<Suc (unat num_participants)] [] fmempty)
         (\<lambda>commitments_list. try_io (print_participants cc commitments_list) (\<lambda>_. ret_io commitments_list)))
       [0..<num_messages]"

definition print_signing_package ::
    "('id, 'c, 's, 'sp, 'pkp, 'sig) cli_codec \<Rightarrow> 'sp \<Rightarrow> (console, error, unit) io" where
  "print_signing_package cc signing_package =
     writeln (''Signing Package:'' @ [CHR 0x0A] @ package_to_json cc signing_package)"

fun cli_read_shares ::
    "text_env \<Rightarrow> ('id, 'c, 's, 'sp, 'pkp, 'sig) cli_codec \<Rightarrow> 'id list \<Rightarrow> ('id, 's) fmap \<Rightarrow>
     (console, error, ('id, 's) fmap) io" where
  "cli_read_shares te cc [] signatures_list = ret_io signatures_list"
| "cli_read_shares te cc (p # ps) signatures_list =
     try_io (writeln (''Please enter JSON encoded signature shares for participant '' @
         hex_encode te (id_serialize cc p) @ '':'')) (\<lambda>_.
     try_io read_line (\<lambda>signature_input.
     try_io (lift_io (ok_or (share_of_json cc signature_input) Json_Error)) (\<lambda>signatures.
     cli_read_shares te cc ps (fmupd p signatures signatures_list))))"

definition cli_send_signing_package ::
    "text_env \<Rightarrow> ('id::linorder, 'c, 's, 'sp, 'pkp, 'sig) cli_codec \<Rightarrow>
     ('id, 'c, 's, 'sp, 'r, 'rp, 'pkp, 'sig) aggregation \<Rightarrow> 'sp list \<Rightarrow> 'r list option \<Rightarrow> bytes option \<Rightarrow>
     (console, error, ('id, 's) fmap list) io" where
  "cli_send_signing_package te cc ag signing_packages randomizers aux_msg =
     (if randomizers \<noteq> None then fail_io (Eyre ''CLIComms does not support rerandomized signing'')
      else if aux_msg \<noteq> None then fail_io (Eyre ''CLIComms does not support auxiliary messages'')
      else map_io (\<lambda>signing_package.
          try_io (print_signing_package cc signing_package) (\<lambda>_.
          cli_read_shares te cc (sorted_list_of_fset (fmdom (package_commitments ag signing_package))) fmempty))
        signing_packages)"

definition print_signature ::
    "text_env \<Rightarrow> ('id, 'c, 's, 'sp, 'pkp, 'sig) cli_codec \<Rightarrow> 'sig \<Rightarrow> (console, error, unit) io" where
  "print_signature te cc group_signature =
     try_io (lift_io (map_err Frost_Error (signature_serialize cc group_signature))) (\<lambda>b.
     writeln (''Signature:'' @ [CHR 0x0A] @ hex_encode te b))"

definition cli_comms ::
    "text_env \<Rightarrow> ('id::linorder, 'c, 's, 'sp, 'pkp, 'sig) cli_codec \<Rightarrow>
     ('id, 'c, 's, 'sp, 'r, 'rp, 'pkp, 'sig) aggregation \<Rightarrow>
     (console, 'id, 'c, 's, 'sp, 'r, 'pkp, 'sig) coordinator_comms" where
  "cli_comms te cc ag = \<lparr>
     get_signing_commitments = (\<lambda>pkp n k. run_io (cli_get_signing_commitments te cc pkp n k)),
     send_signing_package_and_get_signature_shares =
       (\<lambda>sps rs aux. run_io (cli_send_signing_package te cc ag sps rs aux)),
     process_signature = (\<lambda>sigs. run_io (for_io sigs (print_signature te cc))),
     cleanup_on_error = run_io (ret_io ())\<rparr>"

section \<open>What the operations return\<close>

lemma map_io_length: "map_io f xs w = (Inr ys, w') \<Longrightarrow> length ys = length xs"
  by (induction xs arbitrary: ys w) (auto simp: try_io_eq_Inr)

lemma map_io_all:
  "map_io f xs w = (Inr ys, w') \<Longrightarrow> (\<And>x w y w'. x \<in> set xs \<Longrightarrow> f x w = (Inr y, w') \<Longrightarrow> P y) \<Longrightarrow>
     y \<in> set ys \<Longrightarrow> P y"
proof (induction xs arbitrary: ys w)
  case Nil
  then show ?case by simp
next
  case (Cons x xs)
  from Cons.prems(1) obtain y0 w1 ys0 where "f x w = (Inr y0, w1)" "map_io f xs w1 = (Inr ys0, w')" "ys = y0 # ys0"
    by (auto simp: try_io_eq_Inr)
  with Cons.prems Cons.IH[of w1 ys0] show ?case by auto
qed

lemma cli_read_commitments_ok:
  assumes "cli_read_commitments te cc pkp ns ids cl c = (Inr cl', c')" and "set ids = fset (fmdom cl)"
    and "fset (fmdom cl) \<subseteq> fset (verifying_shares cc pkp)"
  shows "fmsize cl' = fmsize cl + length ns" and "fset (fmdom cl') \<subseteq> fset (verifying_shares cc pkp)"
proof -
  from assms have "fmsize cl' = fmsize cl + length ns \<and> fset (fmdom cl') \<subseteq> fset (verifying_shares cc pkp)"
  proof (induction ns arbitrary: ids cl c)
    case Nil
    then show ?case by simp
  next
    case (Cons i ns)
    from Cons.prems(1) obtain i' cm c1 where v: "validate cc i' pkp ids = Inr ()" and
      r: "cli_read_commitments te cc pkp ns (ids @ [i']) (fmupd i' cm cl) c1 = (Inr cl', c')"
      by (auto simp: try_io_eq_Inr simp del: try_io_lift)
    from v have i: "i' |\<in>| verifying_shares cc pkp" "i' \<notin> set ids" by (auto simp: validate_def split: if_splits)
    from Cons.IH[OF r] Cons.prems(2,3) i show ?case by auto
  qed
  then show "fmsize cl' = fmsize cl + length ns" "fset (fmdom cl') \<subseteq> fset (verifying_shares cc pkp)" by auto
qed

lemma cli_commitments_good:
  assumes "cli_get_signing_commitments te cc pkp n k c = (Inr cs, c')"
  shows "length cs = k" and "\<forall>cm\<in>set cs. fmsize cm = unat n \<and> fset (fmdom cm) \<subseteq> fset (verifying_shares cc pkp)"
proof -
  show "length cs = k"
    using map_io_length[OF assms[unfolded cli_get_signing_commitments_def]] by simp
  have "fmsize cm = unat n \<and> fset (fmdom cm) \<subseteq> fset (verifying_shares cc pkp)" if "cm \<in> set cs" for cm
    by (rule map_io_all[OF assms[unfolded cli_get_signing_commitments_def] _ that])
      (fastforce simp: try_io_eq_Inr dest: cli_read_commitments_ok)
  then show "\<forall>cm\<in>set cs. fmsize cm = unat n \<and> fset (fmdom cm) \<subseteq> fset (verifying_shares cc pkp)" by blast
qed

lemma cli_read_shares_dom:
  "cli_read_shares te cc ps sm c = (Inr sm', c') \<Longrightarrow> fset (fmdom sm') = fset (fmdom sm) \<union> set ps"
  by (induction ps arbitrary: sm c) (auto simp: try_io_eq_Inr simp del: try_io_lift)

lemma cli_read_shares_dom':
  "cli_read_shares te cc (sorted_list_of_fset D) fmempty c = (Inr sm, c') \<Longrightarrow> fmdom sm = D"
  using cli_read_shares_dom[of te cc "sorted_list_of_fset D" fmempty c sm c'] by (simp add: fset_inject)

lemma map_io_list_all2:
  assumes "map_io f xs w = (Inr ys, w')" and "\<And>x w y w'. f x w = (Inr y, w') \<Longrightarrow> P x y"
  shows "list_all2 P xs ys"
  using assms(1) by (induction xs arbitrary: ys w) (auto simp: try_io_eq_Inr dest: assms(2))

lemma cli_shares_cover:
  assumes "cli_send_signing_package te cc ag sps rs aux c = (Inr shares, c')"
  shows "list_all2 (\<lambda>cm sm. fmdom sm = fmdom cm) (map (package_commitments ag) sps) shares"
proof -
  from assms have "map_io (\<lambda>sp. try_io (print_signing_package cc sp) (\<lambda>_.
          cli_read_shares te cc (sorted_list_of_fset (fmdom (package_commitments ag sp))) fmempty)) sps c = (Inr shares, c')"
    by (auto simp: cli_send_signing_package_def split: if_splits)
  then have "list_all2 (\<lambda>sp sm. fmdom sm = fmdom (package_commitments ag sp)) sps shares"
    by (rule map_io_list_all2) (auto simp: try_io_eq_Inr dest: cli_read_shares_dom')
  then show ?thesis by (simp add: list_all2_map1)
qed

interpretation cli: coordinator_transport "cli_comms te cc ag" ag "\<lambda>k c. True" "\<lambda>cs c. True"
    "\<lambda>pkp n cm. fmsize cm = unat n \<and> fset (fmdom cm) \<subseteq> fset (verifying_shares cc pkp)"
    "\<lambda>cm sm. fmdom sm = fmdom cm"
  by unfold_locales
    (auto simp: cli_comms_def dest: cli_commitments_good cli_shares_cover)

end
