(* ===== verification/Coordinator_Args.thy ===== *)
theory Coordinator_Args
  imports Coordinator_Cli
begin

text \<open>
  The arguments of the coordinator (\<open>coordinator/args.rs\<close>) and its command line run
  (\<open>cli\<close> in \<open>coordinator/cli.rs\<close>). What is printed to standard error is not modelled.
\<close>

section \<open>Arguments\<close>

record coordinator_args =
  ar_ciphersuite :: string
  ar_cli :: bool
  ar_signers :: "string list"
  ar_num_signers :: "16 word"
  ar_public_key_package :: string
  ar_message :: "string list"
  ar_randomizer :: "string list"
  ar_signature :: string
  ar_ip :: string
  ar_port :: "16 word"

text \<open>The parsers of \<open>serde_json\<close> and \<open>frost-rerandomized\<close> that the arguments go through.\<close>

record ('r, 'pkp) args_codec =
  public_key_package_of_json :: "string \<Rightarrow> 'pkp option"
  randomizer_deserialize :: "bytes \<Rightarrow> string + 'r"

definition read_password ::
    "(console, error, string) io \<Rightarrow> (string \<Rightarrow> string option) \<Rightarrow> string \<Rightarrow> (console, error, string) io" where
  "read_password prompt_password env_var password_env_name =
     (if password_env_name = []
      then (\<lambda>c. case prompt_password c of (r, c') \<Rightarrow> (map_err (\<lambda>_. Eyre ''Error reading password'') r, c'))
      else lift_io (ok_or (env_var password_env_name) (Eyre ''The password argument must specify the name of a environment variable containing the password'')))"

definition read_message :: "text_env \<Rightarrow> string \<Rightarrow> (console, error, bytes) io" where
  "read_message te filename =
     (if filename = ''-'' \<or> filename = []
      then try_io (writeln ''The message to be signed (hex encoded)'') (\<lambda>_. read_hex te)
      else read_file filename)"

definition read_messages :: "text_env \<Rightarrow> string list \<Rightarrow> (console, error, bytes list) io" where
  "read_messages te message_paths =
     (if message_paths = []
      then try_io (writeln ''The message to be signed (hex encoded)'') (\<lambda>_.
           try_io (read_hex te) (\<lambda>msg. ret_io [msg]))
      else map_io (read_message te) message_paths)"

definition read_aux_message :: "text_env \<Rightarrow> string \<Rightarrow> (console, error, bytes) io" where
  "read_aux_message te filename =
     (if filename = ''-'' \<or> filename = []
      then try_io (writeln ''The aux message to be sent (hex encoded)'') (\<lambda>_. read_hex te)
      else read_file filename)"

definition read_randomizers ::
    "text_env \<Rightarrow> ('r, 'pkp) args_codec \<Rightarrow> string list \<Rightarrow> (console, error, 'r list) io" where
  "read_randomizers te ac randomizer_paths =
     map_io (\<lambda>filename.
       try_io (if filename = ''-'' \<or> filename = []
               then try_io (writeln ''Enter the randomizer (hex string):'') (\<lambda>_. read_hex te)
               else read_file filename) (\<lambda>bytes.
       lift_io (map_err Frost_Error (randomizer_deserialize ac bytes)))) randomizer_paths"

text \<open>
  A list of strings as \<open>{:?}\<close> shows it. The characters \<open>escape_debug\<close> leaves alone are the printable
  ASCII ones here.
\<close>

definition hex_digit :: "nat \<Rightarrow> char" where
  "hex_digit n = (if n < 10 then char_of (48 + n) else char_of (87 + n))"

definition escape_debug :: "char \<Rightarrow> string" where
  "escape_debug c =
     (let n = of_char c :: nat; backslash = CHR 0x5C in
      if c = CHR 0x22 \<or> c = backslash then [backslash, c]
      else if n = 0 then [backslash, CHR ''0'']
      else if n = 9 then [backslash, CHR ''t'']
      else if n = 10 then [backslash, CHR ''n'']
      else if n = 13 then [backslash, CHR ''r'']
      else if n < 32 \<or> 126 < n
      then [backslash, CHR ''u'', CHR 0x7B] @ (if n < 16 then [hex_digit n] else [hex_digit (n div 16), hex_digit (n mod 16)]) @
        [CHR 0x7D]
      else [c])"

fun debug_items :: "string list \<Rightarrow> string" where
  "debug_items [] = []"
| "debug_items [s] = [CHR 0x22] @ concat (map escape_debug s) @ [CHR 0x22]"
| "debug_items (s # ss) = [CHR 0x22] @ concat (map escape_debug s) @ [CHR 0x22] @ '', '' @ debug_items ss"

definition debug_strings :: "string list \<Rightarrow> string" where
  "debug_strings ss = [CHR 0x5B] @ debug_items ss @ [CHR 0x5D]"

text \<open>\<open>args.signers.len() as u16\<close> truncates.\<close>

definition processed_args_new ::
    "text_env \<Rightarrow> ('r, 'pkp) args_codec \<Rightarrow> coordinator_args \<Rightarrow> (console, error, ('r, 'pkp) processed_args) io" where
  "processed_args_new te ac args =
     try_io (if ar_signers args \<noteq> [] then ret_io (of_nat (length (ar_signers args)))
             else if ar_num_signers args = 0
             then try_io (writeln ''The number of participants: '') (\<lambda>_.
                  try_io read_line (\<lambda>participants.
                  lift_io (ok_or (parse_u16 (trim participants)) (Parse_Error ''u16''))))
             else ret_io (ar_num_signers args)) (\<lambda>num_signers.
     try_io (read_from_file_or_stdin te ''public key package'' (ar_public_key_package args)) (\<lambda>out.
     try_io (lift_io (ok_or (public_key_package_of_json ac out) Json_Error)) (\<lambda>public_key_package.
     try_io (read_messages te (ar_message args)) (\<lambda>messages.
     try_io (writeln (''Processing randomizer '' @ debug_strings (ar_randomizer args))) (\<lambda>_.
     try_io (read_randomizers te ac (ar_randomizer args)) (\<lambda>randomizers.
     ret_io \<lparr>pa_num_signers = num_signers, pa_public_key_package = public_key_package,
       pa_messages = messages, pa_randomizers = randomizers, pa_aux_msg = None\<rparr>))))))"

text \<open>The command line run.\<close>

definition coordinator_cli ::
    "text_env \<Rightarrow> ('r, 'pkp) args_codec \<Rightarrow> ('id::linorder, 'c, 's, 'sp, 'pkp, 'sig) cli_codec \<Rightarrow>
     ('id, 'c, 's, 'sp, 'r, 'rp, 'pkp, 'sig) aggregation \<Rightarrow> coordinator_args \<Rightarrow> (console, error, 'sig list) iop" where
  "coordinator_cli te ac cc ag args =
     try_iop (run_io (processed_args_new te ac args)) (\<lambda>pargs. coordinator ag (cli_comms te cc ag) pargs)"

section \<open>What the arguments become\<close>

lemma read_messages_count:
  "read_messages te paths c = (Inr ms, c') \<Longrightarrow> length ms = (if paths = [] then 1 else length paths)"
  by (auto simp: read_messages_def try_io_eq_Inr dest: map_io_length split: if_splits)

lemma processed_args_counts:
  assumes "processed_args_new te ac args c = (Inr pargs, c')"
  shows "length (pa_messages pargs) = (if ar_message args = [] then 1 else length (ar_message args))"
    and "length (pa_randomizers pargs) = length (ar_randomizer args)"
    and "ar_signers args \<noteq> [] \<Longrightarrow> unat (pa_num_signers pargs) = length (ar_signers args) mod 65536"
    and "pa_aux_msg pargs = None"
  using assms
  by (auto simp: processed_args_new_def try_io_eq_Inr read_randomizers_def take_bit_eq_mod unsigned_of_nat
      dest: read_messages_count map_io_length simp del: try_io_lift)

end
