(* ===== verification/Http_Examples.thy ===== *)
theory Http_Examples
  imports Http_Comms
begin

text \<open>
  A small concrete environment in which the HTTP clients run: the world is the list of the replies
  to come, after which all replies are empty; ciphertexts are the plain messages; a received body
  names its sender in its first byte, or starts with 0 and has two one-byte messages.
\<close>

definition ex_api :: api_codecs where
  "ex_api = \<lparr>
     c_unit = (\<lambda>_. [], \<lambda>_. Some ()),
     c_challenge_output = (\<lambda>_. [], \<lambda>_. Some \<lparr>co_challenge = 7\<rparr>),
     c_login_args = (\<lambda>_. [], \<lambda>_. None),
     c_login_output = (\<lambda>_. [], \<lambda>_. Some \<lparr>lo_access_token = 6\<rparr>),
     c_create_args = (\<lambda>_. [], \<lambda>_. None),
     c_create_output = (\<lambda>_. [], \<lambda>_. Some \<lparr>cn_session_id = 5\<rparr>),
     c_list_output = (\<lambda>_. [], \<lambda>b. Some \<lparr>ls_session_ids = map ucast b\<rparr>),
     c_info_args = (\<lambda>_. [], \<lambda>_. None),
     c_info_output = (\<lambda>_. [], \<lambda>b. Some \<lparr>gi_message_count = 1, gi_pubkeys = map (\<lambda>x. PublicKey [x]) b,
       gi_coordinator_pubkey = PublicKey [9]\<rparr>),
     c_send_args = (\<lambda>_. [], \<lambda>_. None),
     c_receive_args = (\<lambda>_. [], \<lambda>_. None),
     c_receive_output = (\<lambda>_. [], \<lambda>b. Some \<lparr>ro_msgs =
       (if b = json_null then []
        else if hd b = 0 then [\<lparr>sender = PublicKey [b ! 1], msg = [b ! 2]\<rparr>, \<lparr>sender = PublicKey [b ! 3], msg = [b ! 4]\<rparr>]
        else [\<lparr>sender = PublicKey [hd b], msg = tl b\<rparr>])\<rparr>),
     c_close_args = (\<lambda>_. [], \<lambda>_. None),
     c_low_error = (\<lambda>_. [], \<lambda>_. Some (low_error_of SessionNotFound))\<rparr>"

definition ex_snow :: "(unit, unit) snow_ops" where
  "ex_snow = \<lparr>build_initiator = (\<lambda>_ _. Some ()), build_responder = (\<lambda>_ _. Some ()),
     hs_write = (\<lambda>p _ h. (Some p, h)), hs_read = (\<lambda>c _ h. (Some c, h)), hs_finished = (\<lambda>_. False),
     into_transport_mode = (\<lambda>_. None), ts_write = (\<lambda>p _ t. (Some p, t)), ts_read = (\<lambda>c _ t. (Some c, t))\<rparr>"

definition ex_ok :: "bytes \<Rightarrow> http_reply" where
  "ex_ok b = \<lparr>rp_status = 200, rp_body = b\<rparr>"

definition ex_post ::
    "string \<Rightarrow> bytes \<Rightarrow> string option \<Rightarrow> http_reply list \<Rightarrow> http_reply option \<times> http_reply list" where
  "ex_post url body auth w = (case w of [] \<Rightarrow> (Some (ex_ok []), []) | r # rs \<Rightarrow> (Some r, rs))"

text \<open>The iteration order puts the keys in the order of their first bytes.\<close>

definition ex_order :: "public_key set \<Rightarrow> public_key list" where
  "ex_order A = (if A \<subseteq> range (\<lambda>x. PublicKey [x])
     then map (\<lambda>x. PublicKey [x]) (sorted_list_of_set ((\<lambda>x. PublicKey [x]) -` A))
     else map from_nat (sorted_list_of_set (to_nat ` A)))"

definition ex_http :: "(http_reply list, unit, unit, unit) http_env" where
  "ex_http = \<lparr>
     he_client = \<lparr>post = ex_post, uuid_to_string = (\<lambda>_. []), codecs = ex_api\<rparr>,
     he_snow = ex_snow, he_xsign = (\<lambda>_ _ _. []), he_draw = (\<lambda>w. ((), w)), he_sleep = (\<lambda>w. w),
     he_uuid_bytes = (\<lambda>u. [ucast u]), he_parse_uuid = (\<lambda>s. None), he_order = ex_order\<rparr>"

definition ex_key32 :: private_key where
  "ex_key32 = PrivateKey (replicate 32 1)"

lemma ex_order_simps [simp]:
  "ex_order {} = []"
  "ex_order {PublicKey [x]} = [PublicKey [x]]"
  "x < y \<Longrightarrow> ex_order {PublicKey [x], PublicKey [y]} = [PublicKey [x], PublicKey [y]]"
proof -
  have v: "(\<lambda>x. PublicKey [x]) -` {PublicKey [a], PublicKey [b]} = {a, b}" for a b by auto
  have v1: "(\<lambda>x. PublicKey [x]) -` {PublicKey [a]} = {a}" for a by auto
  show "ex_order {} = []" by (simp add: ex_order_def)
  show "ex_order {PublicKey [x]} = [PublicKey [x]]" using v1[of x] by (simp add: ex_order_def)
  show "x < y \<Longrightarrow> ex_order {PublicKey [x], PublicKey [y]} = [PublicKey [x], PublicKey [y]]"
    by (auto simp: ex_order_def v)
qed

lemma keys_of_ex [simp]: "keys_of ex_http m = ex_order (fset (fmdom m))"
  by (simp add: keys_of_def ex_http_def)

lemma ex_order_from_nat:
  assumes "finite A"
  shows "distinct (map from_nat (sorted_list_of_set (to_nat ` A)) :: public_key list)"
    and "set (map from_nat (sorted_list_of_set (to_nat ` A))) = (A :: public_key set)"
proof -
  have i: "inj_on (from_nat :: nat \<Rightarrow> public_key) (to_nat ` A)" by (auto simp: inj_on_def)
  show "distinct (map from_nat (sorted_list_of_set (to_nat ` A)) :: public_key list)"
    using i assms by (simp only: distinct_map set_sorted_list_of_set finite_imageI) simp
  show "set (map from_nat (sorted_list_of_set (to_nat ` A))) = A"
    using assms by (simp add: image_image)
qed

lemma ex_order_singletons:
  assumes "finite A" and "A \<subseteq> range (\<lambda>x. PublicKey [x])"
  shows "distinct (map (\<lambda>x. PublicKey [x]) (sorted_list_of_set ((\<lambda>x. PublicKey [x]) -` A)))"
    and "set (map (\<lambda>x. PublicKey [x]) (sorted_list_of_set ((\<lambda>x. PublicKey [x]) -` A))) = A"
proof -
  have f: "finite ((\<lambda>x. PublicKey [x]) -` A)"
    by (rule finite_vimageI[OF assms(1)]) (simp add: inj_on_def)
  show "distinct (map (\<lambda>x. PublicKey [x]) (sorted_list_of_set ((\<lambda>x. PublicKey [x]) -` A)))"
    by (simp add: distinct_map inj_on_def)
  show "set (map (\<lambda>x. PublicKey [x]) (sorted_list_of_set ((\<lambda>x. PublicKey [x]) -` A))) = A"
    unfolding set_map set_sorted_list_of_set[OF f] using assms(2) by (simp add: image_vimage_eq inf_absorb1)
qed

lemma ex_enumerates: "enumerates ex_order"
  unfolding enumerates_def
proof (intro allI impI)
  fix A :: "public_key set" assume f: "finite A"
  show "distinct (ex_order A) \<and> set (ex_order A) = A"
    unfolding ex_order_def
    by (rule if_split[THEN iffD2]) (intro conjI impI ex_order_from_nat ex_order_singletons f; assumption)
qed

text \<open>One call of the client on the scripted world.\<close>

lemma ex_call:
  "call (he_client ex_http) name args out (ex_ok b # w, c) =
     (case snd out (if b = [] then json_null else b) of
        None \<Rightarrow> (Inl Json_Error, (w, c)) | Some x \<Rightarrow> (Inr x, (w, c)))"
  by (simp add: call_def ex_http_def ex_post_def ex_ok_def is_success_def Let_def)

lemma ex_call_end:
  "call (he_client ex_http) name args out ([], c) =
     (case snd out json_null of None \<Rightarrow> (Inl Json_Error, ([], c)) | Some x \<Rightarrow> (Inr x, ([], c)))"
  by (simp add: call_def ex_http_def ex_post_def ex_ok_def is_success_def Let_def)

lemmas ex_client_defs = client_challenge_def client_login_def client_logout_def client_create_new_session_def
  client_list_sessions_def client_get_session_info_def client_send_def client_receive_def
  client_close_session_def

lemma ex_client:
  "client_challenge (he_client ex_http) (ex_ok b # w, c) = (Inr \<lparr>co_challenge = 7\<rparr>, (w, c))"
  "client_login (he_client ex_http) la (ex_ok b # w, c) =
     (Inr \<lparr>lo_access_token = 6\<rparr>, (w, c\<lparr>cl_access_token := Some 6\<rparr>))"
  "client_logout (he_client ex_http) (ex_ok b # w, c) = (Inr (), (w, c\<lparr>cl_access_token := None\<rparr>))"
  "client_create_new_session (he_client ex_http) cn (ex_ok b # w, c) = (Inr \<lparr>cn_session_id = 5\<rparr>, (w, c))"
  "client_get_session_info (he_client ex_http) gi (ex_ok (x # b) # w, c) = (Inr \<lparr>gi_message_count = 1,
     gi_pubkeys = map (\<lambda>x. PublicKey [x]) (x # b), gi_coordinator_pubkey = PublicKey [9]\<rparr>, (w, c))"
  "client_list_sessions (he_client ex_http) (ex_ok (x # b) # w, c) =
     (Inr \<lparr>ls_session_ids = map ucast (x # b)\<rparr>, (w, c))"
  "client_send (he_client ex_http) sa (ex_ok b # w, c) = (Inr (), (w, c))"
  "client_receive (he_client ex_http) ra (ex_ok [] # w, c) = (Inr \<lparr>ro_msgs = []\<rparr>, (w, c))"
  "client_receive (he_client ex_http) ra ([], c) = (Inr \<lparr>ro_msgs = []\<rparr>, ([], c))"
  "client_receive (he_client ex_http) ra (ex_ok [0, x1, y1, x2, y2] # w, c) =
     (Inr \<lparr>ro_msgs = [\<lparr>sender = PublicKey [x1], msg = [y1]\<rparr>, \<lparr>sender = PublicKey [x2], msg = [y2]\<rparr>]\<rparr>, (w, c))"
  "x \<noteq> 0x6E \<Longrightarrow> x \<noteq> 0 \<Longrightarrow> client_receive (he_client ex_http) ra (ex_ok (x # b) # w, c) =
     (Inr \<lparr>ro_msgs = [\<lparr>sender = PublicKey [x], msg = b\<rparr>]\<rparr>, (w, c))"
  "client_close_session (he_client ex_http) ca (ex_ok b # w, c) = (Inr (), (w, c))"
  unfolding ex_client_defs
  by (simp_all add: ex_call ex_call_end try_io_def)
    (simp_all add: ex_http_def ex_api_def json_null_def)

lemma ex_http_simps [simp]:
  "he_snow ex_http = ex_snow" "he_xsign ex_http k m r = []" "he_draw ex_http w = ((), w)"
  "he_sleep ex_http w = w" "he_uuid_bytes ex_http u = [ucast u]" "he_parse_uuid ex_http s = None"
  "he_order ex_http = ex_order"
  by (simp_all add: ex_http_def)

lemma ex_sign [simp]: "sign_challenge ex_http ex_key32 ch s = (Inr [], s)"
  by (simp add: sign_challenge_def private_key_sign_def ex_key32_def)

text \<open>The bundle that evaluates a run on the scripted world.\<close>

lemmas ex_http_eval = ex_client http_login_def client_op_def on_state_def session_id_def
  with_cipher_def first_io_def second_io_def send_encrypted_def receive_messages_def receive_round_def
  http_sleep_def http_close_session_def http_logout_def http_cleanup_def try_io_def try_iop_def
  ex_snow_def cipher_new_def noise_new_def encrypt_def decrypt_def noise_write_message_def
  noise_read_message_def snow_result_def Let_def

end
