(* ===== verification/Coordinator_Props.thy ===== *)
theory Coordinator_Props
  imports Coordinator_Http Coordinator_Socket Coordinator_Args Http_Examples
begin

text \<open>
  What a run of the coordinator gives over each of the three transports, from the interpretations
  of \<open>coordinator_transport\<close>, and when the HTTP coordinator cannot finish.
\<close>

section \<open>The HTTP coordinator\<close>

text \<open>
  C10: The HTTP coordinator. When a run returns signatures there is one per message, in order: the
  i-th is the aggregate, under the i-th randomizer if there are any, of the i-th message with
  commitments of exactly \<open>num_signers\<close> configured signers and shares of exactly those signers.
\<close>

theorem coordinator_http_signs:
  assumes "package_law ag"
    and "coordinator ag (coordinator_http_comms he args sc) pargs (coordinator_http_new pargs args w) =
      Some (Inr sigs, s')"
  shows "signed_with ag pargs
    (\<lambda>cm. fmsize cm = unat (pa_num_signers pargs) \<and> fset (fmdom cm) \<subseteq> fmvals (ca_signers args))
    (\<lambda>cm sm. fmdom sm = fmdom cm) sigs"
  by (rule coordinator_http.coordinator_signs[OF coordinator_http_new_state assms])

definition ex_ag :: "(nat, nat, nat, (nat, nat) fmap \<times> bytes, bytes, bytes, unit, bytes \<times> nat) aggregation" where
  "ex_ag = \<lparr>new_signing_package = Pair, package_commitments = fst, params_from_randomizer = (\<lambda>_ r. r),
     frost_aggregate = (\<lambda>sp sm _. Inr (snd sp, fmsize sm)),
     rerandomized_aggregate = (\<lambda>sp sm _ _. Inr (snd sp, fmsize sm))\<rparr>"

lemma ex_package_law: "package_law ex_ag"
  by (simp add: package_law_def ex_ag_def)

definition ex_signing_codec :: "(nat, nat, (nat, nat) fmap \<times> bytes, bytes) signing_codec" where
  "ex_signing_codec = \<lparr>commitments_of_bytes = (\<lambda>b. Some (map unat b)),
     shares_of_bytes = (\<lambda>b. Some (map unat b)), signing_package_bytes = (\<lambda>_. [])\<rparr>"

definition ex_coordinator_args :: "nat coordinator_http_args" where
  "ex_coordinator_args = \<lparr>ca_signers = fmupd (PublicKey [1]) 11 fmempty, ca_ip = ''::1'', ca_port = 443,
     ca_comm_privkey = Some ex_key32, ca_comm_pubkey = Some (PublicKey [9])\<rparr>"

definition ex_pargs :: "(bytes, unit) processed_args" where
  "ex_pargs = \<lparr>pa_num_signers = 1, pa_public_key_package = (), pa_messages = [[0x42]],
     pa_randomizers = [], pa_aux_msg = None\<rparr>"

text \<open>
  The replies of a run: challenge, login, session; an empty round, the commitments; the sent
  package, the share; closing and logging out.
\<close>

definition ex_coordinator_world :: "http_reply list" where
  "ex_coordinator_world = [ex_ok [], ex_ok [], ex_ok [], ex_ok [], ex_ok [1, 0xC], ex_ok [], ex_ok [1, 0x5],
     ex_ok [], ex_ok []]"

definition ex_coordinator_run where
  "ex_coordinator_run = coordinator ex_ag (coordinator_http_comms ex_http ex_coordinator_args ex_signing_codec)
     ex_pargs (coordinator_http_new ex_pargs ex_coordinator_args ex_coordinator_world)"

lemma ex_coordinator_run: "\<exists>s'. ex_coordinator_run = Some (Inr [([0x42], 1)], s')"
  by (simp add: ex_coordinator_run_def coordinator_def coordinator_doit_def coordinator_http_comms_def
      coordinator_http_get_commitments_def coordinator_http_start_def coordinator_http_new_def
      coordinator_http_get_shares_def coordinator_http_send_packages_def client_new_def
      ex_pargs_def ex_coordinator_args_def ex_coordinator_world_def ex_signing_codec_def ex_ag_def
      signing_packages_for_def aggregate_all_def coordinator_new_def coordinator_recv_def column_def
      fmpred_fmupd_iff poll_until.simps ex_http_eval)

theorem coordinator_http_signs_witness:
  "signed_with ex_ag ex_pargs (\<lambda>cm. fmsize cm = 1 \<and> fset (fmdom cm) \<subseteq> {11})
     (\<lambda>cm sm. fmdom sm = fmdom cm) [([0x42], 1)]"
proof -
  obtain s' where "ex_coordinator_run = Some (Inr [([0x42], 1)], s')" using ex_coordinator_run by blast
  from coordinator_http_signs[OF ex_package_law this[unfolded ex_coordinator_run_def]]
  have "signed_with ex_ag ex_pargs (\<lambda>cm. fmsize cm = unat (pa_num_signers ex_pargs) \<and>
      fset (fmdom cm) \<subseteq> fmvals (ca_signers ex_coordinator_args)) (\<lambda>cm sm. fmdom sm = fmdom cm) [([0x42], 1)]" .
  moreover have "fmvals (ca_signers ex_coordinator_args) = {11}"
    by (auto simp: ex_coordinator_args_def fmvals_iff split: if_splits)
  ultimately show ?thesis by (simp add: ex_pargs_def)
qed

text \<open>
  C12: The HTTP coordinator needs as many configured signers as \<open>num_signers\<close>. With fewer distinct
  signer identifiers (in particular with none, where the session id is printed for sharing by
  hand) no run returns signatures.
\<close>

theorem coordinator_http_needs_signers:
  assumes "unat (pa_num_signers pargs) = 0 \<or> card (fmvals (ca_signers args)) < unat (pa_num_signers pargs)"
  shows "coordinator ag (coordinator_http_comms he args sc) pargs (coordinator_http_new pargs args w) \<noteq>
    Some (Inr sigs, s')"
proof
  assume r: "coordinator ag (coordinator_http_comms he args sc) pargs (coordinator_http_new pargs args w) =
    Some (Inr sigs, s')"
  from coordinator_Inr(3)[OF this] obtain cs s1 where
    c: "coordinator_http_get_commitments he args sc (length (pa_messages pargs))
      (coordinator_http_new pargs args w) = Some (Inr cs, s1)"
    by (auto simp: coordinator_http_comms_def)
  from http_commitments_map[OF coordinator_http_new_state c] obtain D where
    D: "card D = unat (pa_num_signers pargs)" "0 < unat (pa_num_signers pargs)" "D \<subseteq> fmvals (ca_signers args)"
    by blast
  from card_mono[OF finite_fmvals D(3)] D(1,2) assms show False by simp
qed

theorem coordinator_http_needs_signers_witness:
  "coordinator ex_ag (coordinator_http_comms ex_http (ex_coordinator_args\<lparr>ca_signers := fmempty\<rparr>) ex_signing_codec)
     ex_pargs (coordinator_http_new ex_pargs (ex_coordinator_args\<lparr>ca_signers := fmempty\<rparr>) ex_coordinator_world)
   \<noteq> Some (Inr [([0x42], 1)], coordinator_http_new ex_pargs (ex_coordinator_args\<lparr>ca_signers := fmempty\<rparr>) [])"
proof -
  have "fmvals (fmempty :: (public_key, nat) fmap) = {}" by (simp add: fmvals_def)
  then show ?thesis by (intro coordinator_http_needs_signers) (simp add: ex_pargs_def)
qed

section \<open>The command line coordinator\<close>

text \<open>
  C11: The command line coordinator. When it returns signatures there is one per message argument
  (one if none is given): the i-th aggregates the i-th message with commitments of exactly
  \<open>num_signers\<close> distinct identifiers of the public key package and shares of exactly those.
\<close>

theorem coordinator_cli_signs:
  assumes "package_law ag"
    and "coordinator_cli te ac cc ag args c = Some (Inr sigs, c')"
  shows "\<exists>pargs c1. processed_args_new te ac args c = (Inr pargs, c1) \<and>
    length (pa_messages pargs) = (if ar_message args = [] then 1 else length (ar_message args)) \<and>
    signed_with ag pargs
      (\<lambda>cm. fmsize cm = unat (pa_num_signers pargs) \<and>
         fset (fmdom cm) \<subseteq> fset (verifying_shares cc (pa_public_key_package pargs)))
      (\<lambda>cm sm. fmdom sm = fmdom cm) sigs"
proof -
  from assms(2) obtain pargs c1 where p: "processed_args_new te ac args c = (Inr pargs, c1)" and
    r: "coordinator ag (cli_comms te cc ag) pargs c1 = Some (Inr sigs, c')"
    by (auto simp: coordinator_cli_def try_iop_Some_Inr simp del: try_iop_simps)
  from cli.coordinator_signs[OF TrueI assms(1) r] processed_args_counts(1)[OF p] p show ?thesis by blast
qed

definition ex_te :: text_env where
  "ex_te = \<lparr>hex_decode = (\<lambda>s. Some (map (\<lambda>c. of_nat (of_char c)) s)), hex_encode = map (\<lambda>b. char_of (unat b)),
     utf8 = (\<lambda>b. Some (map (\<lambda>b. char_of (unat b)) b))\<rparr>"

definition ex_args_codec :: "(bytes, unit) args_codec" where
  "ex_args_codec = \<lparr>public_key_package_of_json = (\<lambda>_. Some ()), randomizer_deserialize = Inr\<rparr>"

definition ex_cli_codec :: "(nat, nat, nat, (nat, nat) fmap \<times> bytes, unit, bytes \<times> nat) cli_codec" where
  "ex_cli_codec = \<lparr>id_deserialize = (\<lambda>b. Inr (length b)), id_serialize = (\<lambda>i. []), id_json = (\<lambda>i. []),
     commitments_of_json = (\<lambda>s. Some (length s)), share_of_json = (\<lambda>s. Some (length s)),
     package_to_json = (\<lambda>_. []), signature_serialize = (\<lambda>s. Inr (fst s)),
     verifying_shares = (\<lambda>_. {|1, 2|})\<rparr>"

definition ex_cli_args :: coordinator_args where
  "ex_cli_args = \<lparr>ar_ciphersuite = ''ed25519'', ar_cli = True, ar_signers = [], ar_num_signers = 1,
     ar_public_key_package = ''-'', ar_message = [], ar_randomizer = [], ar_signature = [], ar_ip = [], ar_port = 443\<rparr>"

definition ex_console :: console where
  "ex_console = \<lparr>co_input = [''{}'', ''m'', ''i'', ''c'', ''s''], co_output = [], co_files = fmempty\<rparr>"

lemma sorted_list_of_fset_single [simp]: "sorted_list_of_fset {|x|} = [x]"
  by (simp add: sorted_list_of_fset.rep_eq)

lemma ex_coordinator_cli:
  "\<exists>c'. coordinator_cli ex_te ex_args_codec ex_cli_codec ex_ag ex_cli_args ex_console = Some (Inr [([0x6D], 1)], c')"
  by (simp add: coordinator_cli_def processed_args_new_def ex_cli_args_def ex_console_def ex_cli_codec_def
      ex_args_codec_def ex_te_def ex_ag_def read_from_file_or_stdin_def writeln_def read_line_def read_messages_def
      read_hex_def read_randomizers_def trim_def is_space_def coordinator_def coordinator_doit_def cli_comms_def
      cli_get_signing_commitments_def cli_send_signing_package_def read_identifier_def validate_def
      print_participants_def print_signing_package_def print_signature_def signing_packages_for_def
      aggregate_all_def try_io_def try_iop_def decimal.simps)

theorem coordinator_cli_signs_witness:
  "\<exists>pargs c1. processed_args_new ex_te ex_args_codec ex_cli_args ex_console = (Inr pargs, c1) \<and>
     length (pa_messages pargs) = 1 \<and>
     signed_with ex_ag pargs (\<lambda>cm. fmsize cm = unat (pa_num_signers pargs) \<and> fset (fmdom cm) \<subseteq> {1, 2})
      (\<lambda>cm sm. fmdom sm = fmdom cm) [([0x6D], 1)]"
proof -
  obtain c' where "coordinator_cli ex_te ex_args_codec ex_cli_codec ex_ag ex_cli_args ex_console =
      Some (Inr [([0x6D], 1)], c')" using ex_coordinator_cli by blast
  from coordinator_cli_signs[OF ex_package_law this] show ?thesis
    by (simp add: ex_cli_args_def ex_cli_codec_def)
qed

section \<open>The socket coordinator\<close>

text \<open>
  The socket coordinator. When it returns signatures there is exactly one message and one
  signature: the aggregate of the message with commitments of at most \<open>num_signers\<close> identifiers
  and shares of some of those.
\<close>

theorem coordinator_socket_signs:
  assumes "package_law ag"
    and "coordinator ag (coordinator_socket_comms cd ag) pargs s = Some (Inr sigs, s')"
  shows "length sigs = 1 \<and> signed_with ag pargs (\<lambda>cm. fmsize cm \<le> unat (pa_num_signers pargs))
    (\<lambda>cm sm. fset (fmdom sm) \<subseteq> fset (fmdom cm)) sigs"
proof -
  note sw = socket.coordinator_signs[OF TrueI assms]
  from coordinator_Inr(3)[OF assms(2)] have "length (pa_messages pargs) = 1"
    by (auto simp: coordinator_socket_comms_def socket_get_signing_commitments_def split: if_splits)
  moreover from sw have "length sigs = length (pa_messages pargs)" unfolding signed_with_def by blast
  ultimately show ?thesis using sw by simp
qed

definition ex_socket_codec :: "(nat, nat, nat, (nat, nat) fmap \<times> bytes, bytes) socket_codec" where
  "ex_socket_codec = (\<lambda>_. [], \<lambda>b. if b = [0] then Some (SignatureShare 5) else Some (IdentifiedCommitments 11 12))"

definition ex_socket :: "(nat, nat) socket_comms" where
  "ex_socket = \<lparr>so_input_rx = [(1, [1]), (1, [0])], so_closed = False, so_endpoints = fmempty, so_sent = []\<rparr>"

lemma ex_socket_run:
  "coordinator ex_ag (coordinator_socket_comms ex_socket_codec ex_ag) ex_pargs ex_socket =
     Some (Inr [([0x42], 1)],
       \<lparr>so_input_rx = [], so_closed = False, so_endpoints = fmupd 11 1 fmempty, so_sent = [(1, [])]\<rparr>)"
  by (simp add: coordinator_def coordinator_doit_def coordinator_socket_comms_def ex_socket_def
      socket_get_signing_commitments_def socket_send_signing_package_def socket_recv_def socket_send_def
      socket_send_to_all_def identifier_of_def ex_socket_codec_def ex_pargs_def ex_ag_def
      signing_packages_for_def aggregate_all_def socket_recv_def try_io_def try_iop_def)

theorem coordinator_socket_signs_witness:
  "signed_with ex_ag ex_pargs (\<lambda>cm. fmsize cm \<le> 1) (\<lambda>cm sm. fset (fmdom sm) \<subseteq> fset (fmdom cm)) [([0x42], 1)]"
  using coordinator_socket_signs[OF ex_package_law ex_socket_run] by (simp add: ex_pargs_def)

end
