(* ===== verification/Participant.thy ===== *)
theory Participant
  imports Coordinator
begin

text \<open>
  The participant's side of a signing session (\<open>participant/cli.rs\<close>) over its trait \<open>Comms\<close>
  (\<open>participant/comms.rs\<close>). The calls into \<open>frost-core\<close> and \<open>frost-rerandomized\<close> are the fields of
  \<open>signing_ops\<close>; the random numbers of \<open>thread_rng\<close> are an argument of the run.
\<close>

section \<open>Parameters\<close>

record ('id, 'kp, 'rng, 'n, 'c, 'sp, 'r, 's) signing_ops =
  key_identifier :: "'kp \<Rightarrow> 'id"
  round1_commit :: "'kp \<Rightarrow> 'rng \<Rightarrow> ('n \<times> 'c) \<times> 'rng"
  package_message :: "'sp \<Rightarrow> bytes"
  round2_sign :: "'sp \<Rightarrow> 'n \<Rightarrow> 'kp \<Rightarrow> string + 's"
  rerandomized_sign :: "'sp \<Rightarrow> 'n \<Rightarrow> 'kp \<Rightarrow> 'r \<Rightarrow> string + 's"
  is_ed25519 :: bool
  is_redpallas :: bool

section \<open>The trait Comms\<close>

record ('w, 'id, 'c, 's, 'sp, 'r) participant_comms =
  get_message_count :: "('w, error, 8 word) iop"
  get_signing_package :: "'c list \<Rightarrow> 'id \<Rightarrow> bool \<Rightarrow> ('w, error, ('sp, 'r) send_signing_package_args) iop"
  confirm_message :: "('sp, 'r) send_signing_package_args \<Rightarrow> ('w, error, unit) iop"
  send_signature_share :: "'id \<Rightarrow> 's list \<Rightarrow> ('w, error, unit) iop"

section \<open>The run\<close>

definition generate_signature ::
    "('id, 'kp, 'rng, 'n, 'c, 'sp, 'r, 's) signing_ops \<Rightarrow> ('sp, 'r) send_signing_package_args \<Rightarrow> 'kp \<Rightarrow>
     'n list \<Rightarrow> error + 's list" where
  "generate_signature ops config key_package signing_nonces =
     (if length signing_nonces \<noteq> length (sp_signing_package config)
      then Inl (Eyre ''Number of nonces must match number of signing packages'')
      else if sp_randomizer config \<noteq> [] \<and> length (sp_randomizer config) \<noteq> length (sp_signing_package config)
      then Inl (Eyre ''Number of randomizers must match number of signing packages'')
      else if sp_randomizer config = []
      then collect_results (map (\<lambda>(signing_package, signing_nonces).
             map_err Frost_Error (round2_sign ops signing_package signing_nonces key_package))
           (zip (sp_signing_package config) signing_nonces))
      else collect_results (map (\<lambda>(signing_package, signing_nonces, randomizer).
             map_err Frost_Error (rerandomized_sign ops signing_package signing_nonces key_package randomizer))
           (zip (sp_signing_package config) (zip signing_nonces (sp_randomizer config)))))"

fun commit_all ::
    "('id, 'kp, 'rng, 'n, 'c, 'sp, 'r, 's) signing_ops \<Rightarrow> 'kp \<Rightarrow> nat \<Rightarrow> 'rng \<Rightarrow> 'n list \<times> 'c list" where
  "commit_all ops key_package 0 rng = ([], [])"
| "commit_all ops key_package (Suc k) rng =
     (case round1_commit ops key_package rng of ((n, c), rng) \<Rightarrow>
      (case commit_all ops key_package k rng of (ns, cs) \<Rightarrow> (n # ns, c # cs)))"

definition is_rerandomized :: "('id, 'kp, 'rng, 'n, 'c, 'sp, 'r, 's) signing_ops \<Rightarrow> error + bool" where
  "is_rerandomized ops =
     (if is_ed25519 ops then Inr False
      else if is_redpallas ops then Inr True
      else Inl (Panic ''invalid ciphersuite''))"

definition participant ::
    "('id, 'kp, 'rng, 'n, 'c, 'sp, 'r, 's) signing_ops \<Rightarrow> ('w, 'id, 'c, 's, 'sp, 'r) participant_comms \<Rightarrow>
     'kp \<Rightarrow> 'rng \<Rightarrow> ('w, error, unit) iop" where
  "participant ops comms key_package rng =
     try_iop (get_message_count comms) (\<lambda>message_count.
     let (nonces, commitments) = commit_all ops key_package (unat message_count) rng in
     try_iop (run_io (lift_io (is_rerandomized ops))) (\<lambda>rerandomized.
     try_iop (get_signing_package comms commitments (key_identifier ops key_package) rerandomized) (\<lambda>round_2_config.
     try_iop (confirm_message comms round_2_config) (\<lambda>_.
     try_iop (run_io (lift_io (generate_signature ops round_2_config key_package nonces))) (\<lambda>signatures.
     send_signature_share comms (key_identifier ops key_package) signatures)))))"

section \<open>Shares\<close>

lemma commit_all_length:
  "commit_all ops kp k rng = (ns, cs) \<Longrightarrow> length ns = k \<and> length cs = k"
  by (induction k arbitrary: rng ns cs) (auto split: prod.splits)

text \<open>The share of one package, signed with one nonce and, if there are any, one randomizer.\<close>

definition share_of ::
    "('id, 'kp, 'rng, 'n, 'c, 'sp, 'r, 's) signing_ops \<Rightarrow> ('sp, 'r) send_signing_package_args \<Rightarrow> 'kp \<Rightarrow>
     'n list \<Rightarrow> nat \<Rightarrow> string + 's" where
  "share_of ops config kp nonces i =
     (if sp_randomizer config = [] then round2_sign ops (sp_signing_package config ! i) (nonces ! i) kp
      else rerandomized_sign ops (sp_signing_package config ! i) (nonces ! i) kp (sp_randomizer config ! i))"

lemma collect_results_map_eq:
  "collect_results (map f xs) = Inr ys \<longleftrightarrow> length ys = length xs \<and> (\<forall>i<length xs. f (xs ! i) = Inr (ys ! i))"
  by (auto simp: collect_results_eq_Inr list_eq_iff_nth_eq)

lemma generate_signature_Inr:
  "generate_signature ops config kp nonces = Inr sigs \<longleftrightarrow>
     length nonces = length (sp_signing_package config) \<and>
     (sp_randomizer config = [] \<or> length (sp_randomizer config) = length (sp_signing_package config)) \<and>
     length sigs = length (sp_signing_package config) \<and>
     (\<forall>i<length sigs. share_of ops config kp nonces i = Inr (sigs ! i))"
  by (auto simp: generate_signature_def collect_results_map_eq share_of_def)

text \<open>
  What a successful run did: it signed the packages of a request, with the nonces of its own
  commitments and after the user's consent, and sent the shares.
\<close>

definition participant_signed ::
    "('id, 'kp, 'rng, 'n, 'c, 'sp, 'r, 's) signing_ops \<Rightarrow> ('w, 'id, 'c, 's, 'sp, 'r) participant_comms \<Rightarrow>
     'kp \<Rightarrow> 'rng \<Rightarrow> ('sp list \<Rightarrow> 'w \<Rightarrow> 'w \<Rightarrow> bool) \<Rightarrow> 'w \<Rightarrow> 'w \<Rightarrow> bool" where
  "participant_signed ops comms kp rng consent w w' \<longleftrightarrow>
     (\<exists>k w1 nonces cs r config w2 w3 sigs.
        get_message_count comms w = Some (Inr k, w1) \<and>
        commit_all ops kp (unat k) rng = (nonces, cs) \<and>
        get_signing_package comms cs (key_identifier ops kp) r w1 = Some (Inr config, w2) \<and>
        length (sp_signing_package config) = unat k \<and>
        consent (sp_signing_package config) w2 w3 \<and>
        length sigs = unat k \<and> (\<forall>i<unat k. share_of ops config kp nonces i = Inr (sigs ! i)) \<and>
        send_signature_share comms (key_identifier ops kp) sigs w3 = Some (Inr (), w'))"

text \<open>What happened before a run may send shares: the same, up to the sending.\<close>

definition participant_agreed ::
    "('id, 'kp, 'rng, 'n, 'c, 'sp, 'r, 's) signing_ops \<Rightarrow> ('w, 'id, 'c, 's, 'sp, 'r) participant_comms \<Rightarrow>
     'kp \<Rightarrow> 'rng \<Rightarrow> ('sp list \<Rightarrow> 'w \<Rightarrow> 'w \<Rightarrow> bool) \<Rightarrow> 'w \<Rightarrow> 's list \<Rightarrow> 'w \<Rightarrow> bool" where
  "participant_agreed ops comms kp rng consent w sigs w3 \<longleftrightarrow>
     (\<exists>k w1 nonces cs r config w2.
        get_message_count comms w = Some (Inr k, w1) \<and>
        commit_all ops kp (unat k) rng = (nonces, cs) \<and>
        get_signing_package comms cs (key_identifier ops kp) r w1 = Some (Inr config, w2) \<and>
        length (sp_signing_package config) = unat k \<and>
        consent (sp_signing_package config) w2 w3 \<and>
        length sigs = unat k \<and> (\<forall>i<unat k. share_of ops config kp nonces i = Inr (sigs ! i)))"

text \<open>How far a run came.\<close>

lemma participant_cases:
  assumes "participant ops comms kp rng s = Some (r, s')"
  obtains (no_join) e where "get_message_count comms s = Some (Inl e, s')"
    | (no_suite) k where "get_message_count comms s = Some (Inr k, s')"
    | (package) k s1 nonces cs rr r2 s2 where "get_message_count comms s = Some (Inr k, s1)"
        "commit_all ops kp (unat k) rng = (nonces, cs)"
        "get_signing_package comms cs (key_identifier ops kp) rr s1 = Some (r2, s2)"
        "case r2 of Inl e \<Rightarrow> s' = s2
         | Inr config \<Rightarrow> (\<exists>r3 s3. confirm_message comms config s2 = Some (r3, s3) \<and>
             (s' = s3 \<or> (\<exists>sigs. r3 = Inr () \<and> generate_signature ops config kp nonces = Inr sigs \<and>
                send_signature_share comms (key_identifier ops kp) sigs s3 = Some (r, s'))))"
proof -
  define nonces cs where d: "nonces k = fst (commit_all ops kp k rng)" "cs k = snd (commit_all ops kp k rng)" for k
  have nc: "commit_all ops kp k rng = (nonces k, cs k)" for k by (simp add: d)
  from assms consider e where "get_message_count comms s = Some (Inl e, s')"
    | k s1 where "get_message_count comms s = Some (Inr k, s1)"
      "try_iop (run_io (lift_io (is_rerandomized ops))) (\<lambda>rerandomized.
       try_iop (get_signing_package comms (cs (unat k)) (key_identifier ops kp) rerandomized) (\<lambda>config.
       try_iop (confirm_message comms config) (\<lambda>_.
       try_iop (run_io (lift_io (generate_signature ops config kp (nonces (unat k))))) (\<lambda>signatures.
       send_signature_share comms (key_identifier ops kp) signatures)))) s1 = Some (r, s')"
    unfolding participant_def
    by (subst (asm) (1) try_iop_Some) (auto simp: nc Let_def simp del: try_iop_simps)
  then show thesis
  proof cases
    case 1
    then show thesis by (rule no_join)
  next
    case (2 k s1)
    show thesis
    proof (cases "is_rerandomized ops")
      case (Inl e)
      with 2 show thesis by (intro no_suite[of k]) auto
    next
      case (Inr rr)
      with 2(2) have r: "try_iop (get_signing_package comms (cs (unat k)) (key_identifier ops kp) rr) (\<lambda>config.
       try_iop (confirm_message comms config) (\<lambda>_.
       try_iop (run_io (lift_io (generate_signature ops config kp (nonces (unat k))))) (\<lambda>signatures.
       send_signature_share comms (key_identifier ops kp) signatures))) s1 = Some (r, s')" by simp
      then obtain r2 s2 where g: "get_signing_package comms (cs (unat k)) (key_identifier ops kp) rr s1 = Some (r2, s2)"
        by (auto simp: try_iop_def split: option.splits)
      show thesis
      proof (rule package[OF 2(1) nc g])
        show "case r2 of Inl e \<Rightarrow> s' = s2
         | Inr config \<Rightarrow> (\<exists>r3 s3. confirm_message comms config s2 = Some (r3, s3) \<and>
             (s' = s3 \<or> (\<exists>sigs. r3 = Inr () \<and> generate_signature ops config kp (nonces (unat k)) = Inr sigs \<and>
                send_signature_share comms (key_identifier ops kp) sigs s3 = Some (r, s'))))"
        proof (cases r2)
          case (Inl e)
          with r g show ?thesis by (simp add: try_iop_Inl)
        next
          case (Inr config)
          with r g show ?thesis
            by (cases "generate_signature ops config kp (nonces (unat k))")
              (auto simp: try_iop_Inr try_iop_Some simp del: try_iop_simps)
        qed
      qed
    qed
  qed
qed

section \<open>What the run relies on\<close>

locale participant_transport =
  fixes comms :: "('w, 'id, 'c, 's, 'sp, 'r) participant_comms"
    and consent :: "'sp list \<Rightarrow> 'w \<Rightarrow> 'w \<Rightarrow> bool"
  assumes confirm_consent:
    "confirm_message comms config w = Some (Inr (), w') \<Longrightarrow> consent (sp_signing_package config) w w'"
begin

lemma agreed:
  assumes "get_message_count comms w = Some (Inr k, w1)" and "commit_all ops kp (unat k) rng = (nonces, cs)"
    and "get_signing_package comms cs (key_identifier ops kp) r w1 = Some (Inr config, w2)"
    and "confirm_message comms config w2 = Some (Inr (), w3)"
    and "generate_signature ops config kp nonces = Inr sigs"
  shows "participant_agreed ops comms kp rng consent w sigs w3"
  using assms(5)[unfolded generate_signature_Inr] commit_all_length[OF assms(2)] confirm_consent[OF assms(4)] assms(1-3)
  unfolding participant_agreed_def by metis

lemma participant_signs:
  assumes "participant ops comms kp rng w = Some (Inr (), w')"
  shows "participant_signed ops comms kp rng consent w w'"
proof -
  from assms obtain k w1 where k: "get_message_count comms w = Some (Inr k, w1)" and
    r1: "(let (nonces, commitments) = commit_all ops kp (unat k) rng in
     try_iop (run_io (lift_io (is_rerandomized ops))) (\<lambda>rerandomized.
     try_iop (get_signing_package comms commitments (key_identifier ops kp) rerandomized) (\<lambda>config.
     try_iop (confirm_message comms config) (\<lambda>_.
     try_iop (run_io (lift_io (generate_signature ops config kp nonces))) (\<lambda>signatures.
     send_signature_share comms (key_identifier ops kp) signatures))))) w1 = Some (Inr (), w')"
    unfolding participant_def try_iop_Some_Inr by blast
  obtain nonces cs where nc: "commit_all ops kp (unat k) rng = (nonces, cs)" by fastforce
  with r1 obtain r config w2 w3 sigs where
    p: "get_signing_package comms cs (key_identifier ops kp) r w1 = Some (Inr config, w2)" and
    c: "confirm_message comms config w2 = Some (Inr (), w3)" and
    g: "generate_signature ops config kp nonces = Inr sigs" and
    s: "send_signature_share comms (key_identifier ops kp) sigs w3 = Some (Inr (), w')"
    by (auto simp: try_iop_Some_Inr simp del: try_iop_simps)
  from commit_all_length[OF nc] g[unfolded generate_signature_Inr] show ?thesis
    unfolding participant_signed_def using k nc p confirm_consent[OF c] s by metis
qed

end

section \<open>Consent on the console\<close>

text \<open>
  The confirmation dialogue of all three transports: every message is shown, in hex, and every
  answer is a line that reads \<open>y\<close>.
\<close>

definition confirm_prompt ::
    "text_env \<Rightarrow> ('id, 'kp, 'rng, 'n, 'c, 'sp, 'r, 's) signing_ops \<Rightarrow> 'sp \<Rightarrow> string" where
  "confirm_prompt te ops signing_package =
     ''Message to be signed (hex-encoded):'' @ [CHR 0x0A] @ hex_encode te (package_message ops signing_package) @
     [CHR 0x0A] @ ''Do you want to sign it? (y/n)''"

definition console_confirm ::
    "text_env \<Rightarrow> ('id, 'kp, 'rng, 'n, 'c, 'sp, 'r, 's) signing_ops \<Rightarrow> 'sp list \<Rightarrow> (console, error, unit) io" where
  "console_confirm te ops signing_packages =
     for_io signing_packages (\<lambda>signing_package.
       try_io (writeln (confirm_prompt te ops signing_package)) (\<lambda>_.
       try_io user_confirms (\<lambda>yes.
       if yes then ret_io () else fail_io (Eyre ''signing cancelled''))))"

definition console_consent ::
    "text_env \<Rightarrow> ('id, 'kp, 'rng, 'n, 'c, 'sp, 'r, 's) signing_ops \<Rightarrow> 'sp list \<Rightarrow> console \<Rightarrow> console \<Rightarrow> bool" where
  "console_consent te ops sps c c' \<longleftrightarrow>
     co_output c' = co_output c @ map (confirm_prompt te ops) sps \<and>
     (\<exists>answers. co_input c = answers @ co_input c' \<and> length answers = length sps \<and>
        (\<forall>a\<in>set answers. trim a = ''y''))"

lemma user_confirms_yes:
  "user_confirms c = (Inr True, c') \<Longrightarrow> \<exists>a. co_input c = a # co_input c' \<and> trim a = ''y'' \<and> co_output c' = co_output c"
  by (auto simp: user_confirms_def read_line_def try_io_eq_Inr trim_def split: list.splits)

lemma console_confirm_consent:
  "console_confirm te ops sps c = (Inr (), c') \<Longrightarrow> console_consent te ops sps c c'"
proof (induction sps arbitrary: c)
  case Nil
  then show ?case by (simp add: console_confirm_def console_consent_def)
next
  case (Cons sp sps)
  let ?c = "c\<lparr>co_output := co_output c @ [confirm_prompt te ops sp]\<rparr>"
  from Cons.prems obtain c1 where u: "user_confirms ?c = (Inr True, c1)" and
    r: "console_confirm te ops sps c1 = (Inr (), c')"
    by (auto simp: console_confirm_def try_io_eq_Inr writeln_def split: if_splits)
  from user_confirms_yes[OF u] obtain a where a: "co_input c = a # co_input c1" "trim a = ''y''"
    "co_output c1 = co_output c @ [confirm_prompt te ops sp]" by auto
  from Cons.IH[OF r] obtain as where "co_input c1 = as @ co_input c'" "length as = length sps"
    "\<forall>a\<in>set as. trim a = ''y''" "co_output c' = co_output c1 @ map (confirm_prompt te ops) sps"
    by (auto simp: console_consent_def)
  with a show ?case by (auto simp: console_consent_def intro!: exI[of _ "a # as"])
qed

end
