(* ===== verification/Participant_Cli.thy ===== *)
theory Participant_Cli
  imports Participant Coordinator_Args Coordinator_Socket
begin

text \<open>
  The command line and socket transports of the participant (\<open>participant/comms/cli.rs\<close>,
  \<open>participant/comms/socket.rs\<close>), its arguments (\<open>participant/args.rs\<close>) and its command line run
  (\<open>cli\<close> in \<open>participant/cli.rs\<close>).
\<close>

section \<open>The command line transport\<close>

record ('kp, 'ss, 'c, 's, 'sp, 'r) participant_codec =
  commitments_to_json :: "'c \<Rightarrow> string"
  package_of_json :: "string \<Rightarrow> 'sp option"
  share_to_json :: "'s \<Rightarrow> string"
  pc_randomizer_deserialize :: "bytes \<Rightarrow> string + 'r"
  key_package_of_json :: "string \<Rightarrow> 'kp option"
  secret_share_of_json :: "string \<Rightarrow> 'ss option"
  key_package_of_secret_share :: "'ss \<Rightarrow> string + 'kp"

definition print_values ::
    "('kp, 'ss, 'c, 's, 'sp, 'r) participant_codec \<Rightarrow> 'c \<Rightarrow> (console, error, unit) io" where
  "print_values pc commitments =
     try_io (writeln ''=== Round 1 ==='') (\<lambda>_.
     try_io (writeln ''SigningNonces were generated and stored in memory'') (\<lambda>_.
     try_io (writeln (''SigningCommitments:'' @ [CHR 0x0A] @ commitments_to_json pc commitments)) (\<lambda>_.
     try_io (writeln ''=== Round 1 Completed ==='') (\<lambda>_.
     writeln ''Please send your SigningCommitments to the coordinator''))))"

definition print_values_round_2 ::
    "('kp, 'ss, 'c, 's, 'sp, 'r) participant_codec \<Rightarrow> 's \<Rightarrow> (console, error, unit) io" where
  "print_values_round_2 pc signature =
     try_io (writeln ''Please send the following to the Coordinator'') (\<lambda>_.
     writeln (''SignatureShare:'' @ [CHR 0x0A] @ share_to_json pc signature))"

definition participant_cli_get_signing_package ::
    "text_env \<Rightarrow> ('kp, 'ss, 'c, 's, 'sp, 'r) participant_codec \<Rightarrow> 'c list \<Rightarrow> bool \<Rightarrow>
     (console, error, ('sp, 'r) send_signing_package_args) io" where
  "participant_cli_get_signing_package te pc commitments rerandomized =
     (case commitments of
        [commitment] \<Rightarrow>
          try_io (print_values pc commitment) (\<lambda>_.
          try_io (writeln ''Enter the JSON-encoded SigningPackage:'') (\<lambda>_.
          try_io read_line (\<lambda>signing_package_json.
          try_io (lift_io (ok_or (package_of_json pc (trim signing_package_json)) Json_Error)) (\<lambda>signing_package.
          if rerandomized
          then try_io (writeln ''Enter the randomizer (hex string):'') (\<lambda>_.
               try_io (read_hex te) (\<lambda>bytes.
               try_io (lift_io (map_err Frost_Error (pc_randomizer_deserialize pc bytes))) (\<lambda>randomizer.
               ret_io \<lparr>sp_signing_package = [signing_package], sp_aux_msg = [], sp_randomizer = [randomizer]\<rparr>)))
          else ret_io \<lparr>sp_signing_package = [signing_package], sp_aux_msg = [], sp_randomizer = []\<rparr>))))
      | _ \<Rightarrow> fail_io (Eyre ''CLIComms only supports a single message''))"

definition participant_cli_comms ::
    "text_env \<Rightarrow> ('kp, 'ss, 'c, 's, 'sp, 'r) participant_codec \<Rightarrow>
     ('id, 'kp, 'rng, 'n, 'c, 'sp, 'r, 's) signing_ops \<Rightarrow> (console, 'id, 'c, 's, 'sp, 'r) participant_comms" where
  "participant_cli_comms te pc ops = \<lparr>
     get_message_count = run_io (ret_io 1),
     get_signing_package = (\<lambda>cs _ r. run_io (participant_cli_get_signing_package te pc cs r)),
     confirm_message = (\<lambda>config. run_io (console_confirm te ops (sp_signing_package config))),
     send_signature_share = (\<lambda>_ shares. run_io (for_io shares (print_values_round_2 pc)))\<rparr>"

interpretation participant_cli: participant_transport "participant_cli_comms te pc ops" "console_consent te ops"
  by unfold_locales (simp add: participant_cli_comms_def console_confirm_consent)

section \<open>Arguments and run\<close>

record participant_args =
  pr_ciphersuite :: string
  pr_cli :: bool
  pr_key_package :: string

text \<open>A key package can be given as a secret share of the trusted dealer, which is tried first.\<close>

definition participant_processed_args_new ::
    "text_env \<Rightarrow> ('kp, 'ss, 'c, 's, 'sp, 'r) participant_codec \<Rightarrow> participant_args \<Rightarrow> (console, error, 'kp) io" where
  "participant_processed_args_new te pc args =
     try_io (read_from_file_or_stdin te ''key package'' (pr_key_package args)) (\<lambda>bytes.
     lift_io (case secret_share_of_json pc bytes of
        Some secret_share \<Rightarrow> map_err Frost_Error (key_package_of_secret_share pc secret_share)
      | None \<Rightarrow> ok_or (key_package_of_json pc bytes) Json_Error))"

definition participant_cli ::
    "text_env \<Rightarrow> ('kp, 'ss, 'c, 's, 'sp, 'r) participant_codec \<Rightarrow>
     ('id, 'kp, 'rng, 'n, 'c, 'sp, 'r, 's) signing_ops \<Rightarrow> participant_args \<Rightarrow> 'rng \<Rightarrow> (console, error, unit) iop" where
  "participant_cli te pc ops args rng =
     try_iop (run_io (participant_processed_args_new te pc args)) (\<lambda>key_package.
     try_iop (participant ops (participant_cli_comms te pc ops) key_package rng) (\<lambda>_.
     run_io (writeln ''Done'')))"

section \<open>The socket transport\<close>

text \<open>
  The participant is connected to one endpoint. What the socket delivers and what is sent is kept
  beside the console that the confirmations use.
\<close>

record participant_socket =
  ps_input_rx :: "bytes list"
  ps_closed :: bool
  ps_sent :: "bytes list"
  ps_console :: console

definition participant_socket_recv :: "(participant_socket, error, bytes) iop" where
  "participant_socket_recv s =
     (case ps_input_rx s of
        m # ms \<Rightarrow> Some (Inr m, s\<lparr>ps_input_rx := ms\<rparr>)
      | [] \<Rightarrow> if ps_closed s then Some (Inl (Eyre ''Did not receive signing package!''), s) else None)"

definition participant_socket_send :: "bytes \<Rightarrow> (participant_socket, error, unit) io" where
  "participant_socket_send data s = (Inr (), s\<lparr>ps_sent := ps_sent s @ [data]\<rparr>)"

definition participant_socket_get_signing_package ::
    "((('id, 'c, 's, 'sp, 'r) socket_message \<Rightarrow> bytes) \<times> (bytes \<Rightarrow> ('id, 'c, 's, 'sp, 'r) socket_message option)) \<Rightarrow>
     'c list \<Rightarrow> 'id \<Rightarrow> (participant_socket, error, ('sp, 'r) send_signing_package_args) iop" where
  "participant_socket_get_signing_package cd commitments identifier =
     (case commitments of
        [commitment] \<Rightarrow>
          try_iop (run_io (participant_socket_send (fst cd (IdentifiedCommitments identifier commitment)))) (\<lambda>_.
          try_iop participant_socket_recv (\<lambda>data.
          run_io (lift_io (case snd cd data of
             None \<Rightarrow> Inl Json_Error
           | Some (SigningPackageAndRandomizer signing_package randomizer) \<Rightarrow>
               Inr \<lparr>sp_signing_package = [signing_package], sp_aux_msg = [],
                 sp_randomizer = (case randomizer of None \<Rightarrow> [] | Some r \<Rightarrow> [r])\<rparr>
           | Some _ \<Rightarrow> Inl (Eyre ''Expected SigningPackage message'')))))
      | _ \<Rightarrow> run_io (fail_io (Eyre ''SocketComms only supports one message at a time'')))"

definition participant_socket_send_share ::
    "((('id, 'c, 's, 'sp, 'r) socket_message \<Rightarrow> bytes) \<times> (bytes \<Rightarrow> ('id, 'c, 's, 'sp, 'r) socket_message option)) \<Rightarrow>
     's list \<Rightarrow> (participant_socket, error, unit) io" where
  "participant_socket_send_share cd signature_shares =
     (case signature_shares of
        [signature_share] \<Rightarrow> participant_socket_send (fst cd (SignatureShare signature_share))
      | _ \<Rightarrow> fail_io (Eyre ''SocketComms only supports one message at a time''))"

definition participant_socket_confirm ::
    "text_env \<Rightarrow> ('id, 'kp, 'rng, 'n, 'c, 'sp, 'r, 's) signing_ops \<Rightarrow> 'sp list \<Rightarrow> (participant_socket, error, unit) io" where
  "participant_socket_confirm te ops sps s =
     (case console_confirm te ops sps (ps_console s) of (r, c) \<Rightarrow> (r, s\<lparr>ps_console := c\<rparr>))"

definition participant_socket_comms ::
    "text_env \<Rightarrow>
     ((('id, 'c, 's, 'sp, 'r) socket_message \<Rightarrow> bytes) \<times> (bytes \<Rightarrow> ('id, 'c, 's, 'sp, 'r) socket_message option)) \<Rightarrow>
     ('id, 'kp, 'rng, 'n, 'c, 'sp, 'r, 's) signing_ops \<Rightarrow>
     (participant_socket, 'id, 'c, 's, 'sp, 'r) participant_comms" where
  "participant_socket_comms te cd ops = \<lparr>
     get_message_count = run_io (ret_io 1),
     get_signing_package = (\<lambda>cs i _. participant_socket_get_signing_package cd cs i),
     confirm_message = (\<lambda>config. run_io (participant_socket_confirm te ops (sp_signing_package config))),
     send_signature_share = (\<lambda>_ shares. run_io (participant_socket_send_share cd shares))\<rparr>"

interpretation participant_socket: participant_transport "participant_socket_comms te cd ops"
    "\<lambda>sps s s'. console_consent te ops sps (ps_console s) (ps_console s')"
  by unfold_locales
    (auto simp: participant_socket_comms_def participant_socket_confirm_def console_confirm_consent
      split: prod.splits)

end
