(* ===== verification/Participant_Http.thy ===== *)
theory Participant_Http
  imports Participant Http_Comms
begin

text \<open>
  The HTTP transport of the participant (\<open>participant/comms/http.rs\<close>). The module's copy of the
  Noise wrapper of \<open>cipher.rs\<close> is not used by the code and not modelled again. The progress
  messages on standard error are not modelled, the confirmation dialogue is.
\<close>

section \<open>State\<close>

record participant_http_args =
  ha_ip :: string
  ha_port :: "16 word"
  ha_session_id :: string
  ha_comm_privkey :: "private_key option"
  ha_comm_pubkey :: "public_key option"
  ha_coordinator_pubkey_getter :: "(public_key \<Rightarrow> public_key option) option"

record ('w, 'h, 't) participant_http = "('w, 'h, 't) http_base" +
  ph_access_token :: "uuid option"
  ph_console :: console

record ('c, 's, 'sp, 'r) participant_http_codec =
  commitments_bytes :: "'c list \<Rightarrow> bytes"
  shares_bytes :: "'s list \<Rightarrow> bytes"
  signing_package_of_bytes :: "bytes \<Rightarrow> ('sp, 'r) send_signing_package_args option"

definition participant_http_new ::
    "('w, 'h, 't, 'rng) http_env \<Rightarrow> participant_http_args \<Rightarrow> 'w \<Rightarrow> console \<Rightarrow> ('w, 'h, 't) participant_http" where
  "participant_http_new he args w c = \<lparr>
     hb_world = w,
     hb_client = client_new (''https://'' @ ha_ip args @ '':'' @ decimal (unat (ha_port args))),
     hb_session_id = he_parse_uuid he (ha_session_id args), hb_cipher = None,
     ph_access_token = None, ph_console = c\<rparr>"

section \<open>Operations\<close>

definition NO_SESSION :: string where
  "NO_SESSION = ''User has no current sessions active. The Coordinator should either specify your username, or manually share the session ID which you can specify with --session_id''"

definition NOT_REGISTERED :: string where
  "NOT_REGISTERED = ''The coordinator for the specified FROST session is not registered in the user's address book''"

definition MANY_SESSIONS :: string where
  "MANY_SESSIONS = ''user has more than one FROST session active; use `frost-client sessions` to list them and specify the session ID with `-S`''"

text \<open>The session to join: the one given, or else the only one the server lists.\<close>

definition choose_session ::
    "('w, 'h, 't, 'rng) http_env \<Rightarrow> string \<Rightarrow> (('w, 'h, 't, 'z) http_base_scheme, error, uuid) io" where
  "choose_session he none_active s =
     (case hb_session_id s of
        Some sid \<Rightarrow> (Inr sid, s)
      | None \<Rightarrow>
          try_io (client_op (client_list_sessions (he_client he))) (\<lambda>r.
          if length (ls_session_ids r) > 1
          then fail_io (Eyre MANY_SESSIONS)
          else (case ls_session_ids r of [] \<Rightarrow> fail_io (Eyre none_active) | sid # _ \<Rightarrow> ret_io sid)) s)"

definition participant_http_get_message_count ::
    "('w, 'h, 't, 'rng) http_env \<Rightarrow> participant_http_args \<Rightarrow> (('w, 'h, 't) participant_http, error, 8 word) io" where
  "participant_http_get_message_count he args =
     try_io (http_login he (ha_comm_privkey args) (ha_comm_pubkey args)) (\<lambda>login_output.
     try_io (\<lambda>s. (Inr (), s\<lparr>ph_access_token := Some (lo_access_token login_output)\<rparr>)) (\<lambda>_.
     try_io (choose_session he NO_SESSION) (\<lambda>sid.
     try_io (\<lambda>s. (Inr (), s\<lparr>hb_session_id := Some sid\<rparr>)) (\<lambda>_.
     try_io (lift_io (case (ha_comm_privkey args, ha_coordinator_pubkey_getter args) of
          (Some privkey, Some getter) \<Rightarrow> Inr (privkey, getter)
        | _ \<Rightarrow> Inl (Eyre ''comm_privkey and comm_coordinator_pubkey_getter must be specified''))) (\<lambda>(comm_privkey, getter).
     try_io (client_op (client_get_session_info (he_client he) \<lparr>gi_session_id = sid\<rparr>)) (\<lambda>session_info.
     try_io (lift_io (ok_or (getter (gi_coordinator_pubkey session_info)) (Eyre NOT_REGISTERED))) (\<lambda>comm_coordinator_pubkey.
     try_io (lift_io (cipher_new (he_snow he) comm_privkey [comm_coordinator_pubkey])) (\<lambda>cipher.
     try_io (\<lambda>s. (Inr (), s\<lparr>hb_cipher := Some cipher\<rparr>)) (\<lambda>_.
     ret_io (gi_message_count session_info))))))))))"

text \<open>
  One round of waiting for the signing package: only the first message of the batch is decrypted;
  with an empty batch the participant sleeps.
\<close>

definition receive_first ::
    "('w, 'h, 't, 'rng) http_env \<Rightarrow>
     ((('w, 'h, 't, 'z) http_base_scheme \<times> ('h, 't) cipher) \<times> api_msg option, error, unit) io" where
  "receive_first he =
     try_io (first_io (receive_messages he False)) (\<lambda>msgs.
       case msgs of
         [] \<Rightarrow> first_io (http_sleep he)
       | m # _ \<Rightarrow> try_io (first_io (second_io (decrypt (he_snow he) m))) (\<lambda>m (s, _). (Inr (), (s, Some m))))"

definition participant_http_get_signing_package ::
    "('w, 'h, 't, 'rng) http_env \<Rightarrow> ('c, 's, 'sp, 'r) participant_http_codec \<Rightarrow> 'c list \<Rightarrow>
     (('w, 'h, 't) participant_http, error, ('sp, 'r) send_signing_package_args) iop" where
  "participant_http_get_signing_package he hc commitments =
     with_cipher (try_iop (run_io (first_io session_id)) (\<lambda>_.
       try_iop (run_io (send_encrypted he None [] (commitments_bytes hc commitments))) (\<lambda>_ s.
       case poll_until (receive_first he) (\<lambda>(_, m). m \<noteq> None) (s, None) of
         None \<Rightarrow> None
       | Some (Inl e, (s, _)) \<Rightarrow> Some (Inl e, s)
       | Some (Inr _, (s, m)) \<Rightarrow>
           Some (tryr (ok_or m (Panic ''no message'')) (\<lambda>m. ok_or (signing_package_of_bytes hc (msg m)) Json_Error), s))))"

definition participant_http_send_share ::
    "('w, 'h, 't, 'rng) http_env \<Rightarrow> ('c, 's, 'sp, 'r) participant_http_codec \<Rightarrow> 's list \<Rightarrow>
     (('w, 'h, 't) participant_http, error, unit) iop" where
  "participant_http_send_share he hc signature_shares =
     try_iop (with_cipher (run_io (send_encrypted he None [] (shares_bytes hc signature_shares)))) (\<lambda>_.
     run_io (http_logout he))"

definition participant_http_confirm ::
    "text_env \<Rightarrow> ('id, 'kp, 'rng, 'n, 'c, 'sp, 'r, 's) signing_ops \<Rightarrow> 'sp list \<Rightarrow>
     (('w, 'h, 't) participant_http, error, unit) io" where
  "participant_http_confirm te ops sps s =
     (case console_confirm te ops sps (ph_console s) of (r, c) \<Rightarrow> (r, s\<lparr>ph_console := c\<rparr>))"

definition participant_http_comms ::
    "('w, 'h, 't, 'rng) http_env \<Rightarrow> participant_http_args \<Rightarrow> ('c, 's, 'sp, 'r) participant_http_codec \<Rightarrow> text_env \<Rightarrow>
     ('id, 'kp, 'rng2, 'n, 'c, 'sp, 'r, 's) signing_ops \<Rightarrow>
     (('w, 'h, 't) participant_http, 'id, 'c, 's, 'sp, 'r) participant_comms" where
  "participant_http_comms he args hc te ops = \<lparr>
     get_message_count = run_io (participant_http_get_message_count he args),
     get_signing_package = (\<lambda>cs _ _. participant_http_get_signing_package he hc cs),
     confirm_message = (\<lambda>config. run_io (participant_http_confirm te ops (sp_signing_package config))),
     send_signature_share = (\<lambda>_ shares. participant_http_send_share he hc shares)\<rparr>"

interpretation participant_http: participant_transport "participant_http_comms he args hc te ops"
    "\<lambda>sps s s'. console_consent te ops sps (ph_console s) (ph_console s')"
  by unfold_locales
    (auto simp: participant_http_comms_def participant_http_confirm_def console_confirm_consent
      split: prod.splits)

section \<open>Whom the participant talks to\<close>

lemma cipher_new_single:
  assumes "cipher_new ops sk [pk] = Inr c"
  shows "fmdom (ci_send_noise_map c) = {|pk|}" and "fmdom (ci_recv_noise_map c) = {|pk|}"
  using assms by (auto simp: cipher_new_def split: option.splits)

lemma participant_http_peer_aux:
  assumes "participant_http_get_message_count he args s = (Inr n, s')"
  shows "\<exists>getter (info :: get_session_info_output) pk c. ha_coordinator_pubkey_getter args = Some getter \<and>
    getter (gi_coordinator_pubkey info) = Some pk \<and> n = gi_message_count info \<and>
    hb_session_id s' \<noteq> None \<and> (hb_session_id s \<noteq> None \<longrightarrow> hb_session_id s' = hb_session_id s) \<and>
    hb_cipher s' = Some c \<and> fmdom (ci_send_noise_map c) = {|pk|} \<and> fmdom (ci_recv_noise_map c) = {|pk|}"
proof -
  from assms obtain lo s1 sid s3 sk getter info s4 pk c where
    l: "http_login he (ha_comm_privkey args) (ha_comm_pubkey args) s = (Inr lo, s1)" and
    ch: "choose_session he NO_SESSION (s1\<lparr>ph_access_token := Some (lo_access_token lo)\<rparr>) = (Inr sid, s3)" and
    k: "ha_comm_privkey args = Some sk" "ha_coordinator_pubkey_getter args = Some getter" and
    i: "client_op (client_get_session_info (he_client he) \<lparr>gi_session_id = sid\<rparr>)
      (s3\<lparr>hb_session_id := Some sid\<rparr>) = (Inr info, s4)" and
    g: "getter (gi_coordinator_pubkey info) = Some pk" and c: "cipher_new (he_snow he) sk [pk] = Inr c" and
    s': "n = gi_message_count info" "s' = s4\<lparr>hb_cipher := Some c\<rparr>"
    unfolding participant_http_get_message_count_def
    by (auto simp: try_io_eq_Inr simp del: try_io_lift split: option.splits)
  have "hb_session_id s4 = Some sid" using framesD[OF frames_client_op(1) i] by simp
  moreover have "hb_session_id s \<noteq> None \<longrightarrow> hb_session_id s = Some sid"
    using framesD[OF frames_login(1) l] ch by (auto simp: choose_session_def)
  ultimately show ?thesis using k g s' cipher_new_single[OF c]
    by (intro exI[of _ getter] exI[of _ info] exI[of _ pk] exI[of _ c]) simp
qed

text \<open>Sending without naming a recipient needs a single peer and encrypts for it alone.\<close>

lemma single_key_single: "fmdom m = {|pk|} \<Longrightarrow> single_key m = Some pk"
  by (simp add: single_key_def fmsize_card)

lemma encrypt_single:
  assumes "fmdom (ci_send_noise_map c) = {|pk|}"
  shows "encrypt ops None p c = encrypt ops (Some pk) p c"
  using single_key_single[OF assms] by (simp add: encrypt_def)

lemma encrypt_peers:
  assumes "encrypt ops r p c = (x, c')"
  shows "fmdom (ci_send_noise_map c') = fmdom (ci_send_noise_map c)"
  using assms by (auto simp: encrypt_def Let_def fmdom_fmlookup split: option.splits prod.splits)

end
