(* ===== verification/Http_Trace.thy ===== *)
theory Http_Trace
  imports Http_Comms
begin

text \<open>
  Runs over a transport that keeps a record: the world is paired with the list of exchanges so far
  (URL, body and reply), which no operation of the client can see. What a client sent, and what the
  server answered, is then a fact about that list; properties of the HTTP clients are stated over
  such runs. The theory also says what an agent may have opened of the messages it received.
\<close>

section \<open>The record\<close>

record exchange =
  xc_url :: string
  xc_body :: bytes
  xc_reply :: "http_reply option"

type_synonym 'w recorded = "'w \<times> exchange list"

definition recorded :: "'w client_env \<Rightarrow> 'w recorded client_env" where
  "recorded ce = \<lparr>
     post = (\<lambda>url body auth (w, T). case post ce url body auth w of
        (r, w') \<Rightarrow> (r, (w', T @ [\<lparr>xc_url = url, xc_body = body, xc_reply = r\<rparr>]))),
     uuid_to_string = uuid_to_string ce, codecs = codecs ce\<rparr>"

definition recorded_http :: "('w, 'h, 't, 'rng) http_env \<Rightarrow> ('w recorded, 'h, 't, 'rng) http_env" where
  "recorded_http he = \<lparr>
     he_client = recorded (he_client he), he_snow = he_snow he, he_xsign = he_xsign he,
     he_draw = (\<lambda>(w, T). case he_draw he w of (rng, w') \<Rightarrow> (rng, (w', T))),
     he_sleep = (\<lambda>(w, T). (he_sleep he w, T)),
     he_uuid_bytes = he_uuid_bytes he, he_parse_uuid = he_parse_uuid he, he_order = he_order he\<rparr>"

definition trace :: "('w recorded, 'h, 't, 'z) http_base_scheme \<Rightarrow> exchange list" where
  "trace s = snd (hb_world s)"

definition base_url :: "('w, 'h, 't, 'z) http_base_scheme \<Rightarrow> string" where
  "base_url s = cl_host_port (hb_client s)"

text \<open>The exchanges with one endpoint, and the bodies posted to it.\<close>

definition talks :: "string \<Rightarrow> ('w recorded, 'h, 't, 'z) http_base_scheme \<Rightarrow> string \<times> exchange list" where
  "talks name s = (base_url s, filter (\<lambda>x. xc_url x = base_url s @ ''/'' @ name) (trace s))"

definition posted :: "string \<Rightarrow> ('w recorded, 'h, 't, 'z) http_base_scheme \<Rightarrow> bytes list" where
  "posted name s = map xc_body (snd (talks name s))"

text \<open>The value a successful reply carries, and the messages that were received.\<close>

definition answer :: "'o codec \<Rightarrow> exchange \<Rightarrow> 'o option" where
  "answer out x =
     (case xc_reply x of
        None \<Rightarrow> None
      | Some r \<Rightarrow> if is_success (rp_status r) then snd out (if rp_body r = [] then json_null else rp_body r) else None)"

definition messages_of :: "'w client_env \<Rightarrow> exchange list \<Rightarrow> api_msg list" where
  "messages_of ce T = concat (map (\<lambda>x. case answer (c_receive_output (codecs ce)) x of
     None \<Rightarrow> [] | Some out \<Rightarrow> ro_msgs out) T)"

definition received :: "'w client_env \<Rightarrow> ('w recorded, 'h, 't, 'z) http_base_scheme \<Rightarrow> api_msg list" where
  "received ce s = messages_of ce (snd (talks ''receive'' s))"

lemma recorded_simps [simp]:
  "he_client (recorded_http he) = recorded (he_client he)" "codecs (recorded ce) = codecs ce"
  "he_snow (recorded_http he) = he_snow he" "he_xsign (recorded_http he) = he_xsign he"
  "he_draw (recorded_http he) (w, T) = (case he_draw he w of (rng, w') \<Rightarrow> (rng, (w', T)))"
  "he_sleep (recorded_http he) (w, T) = (he_sleep he w, T)"
  "he_uuid_bytes (recorded_http he) = he_uuid_bytes he" "he_parse_uuid (recorded_http he) = he_parse_uuid he"
  "he_order (recorded_http he) = he_order he" "uuid_to_string (recorded ce) = uuid_to_string ce"
  "keys_of (recorded_http he) m = keys_of he m"
  by (simp_all add: recorded_http_def recorded_def keys_of_def)

lemma messages_of_simps [simp]:
  "messages_of ce [] = []" "messages_of ce (T @ T') = messages_of ce T @ messages_of ce T'"
  "messages_of ce [x] = (case answer (c_receive_output (codecs ce)) x of None \<Rightarrow> [] | Some out \<Rightarrow> ro_msgs out)"
  by (simp_all add: messages_of_def)

lemma received_cong: "talks ''receive'' s' = talks ''receive'' s \<Longrightarrow> received ce s' = received ce s"
  by (simp add: received_def)

lemma posted_cong: "talks name s' = talks name s \<Longrightarrow> posted name s' = posted name s"
  by (simp add: posted_def)

section \<open>One exchange per call\<close>

definition one_exchange ::
    "string \<Rightarrow> bytes \<Rightarrow> 'o codec \<Rightarrow> error + 'o \<Rightarrow> ('w recorded, 'h, 't, 'z) http_base_scheme \<Rightarrow>
     ('w recorded, 'h, 't, 'z) http_base_scheme \<Rightarrow> bool" where
  "one_exchange name args out r s s' \<longleftrightarrow> base_url s' = base_url s \<and>
     (\<exists>x. trace s' = trace s @ [x] \<and> xc_url x = base_url s @ ''/'' @ name \<and> xc_body x = args \<and>
        (\<forall>v. r = Inr v \<longrightarrow> answer out x = Some v))"

lemma recorded_call:
  assumes "call (recorded ce) name args out ((w, T), c) = (r, ((w', T'), c'))"
  shows "c' = c \<and> (\<exists>rep. T' = T @ [\<lparr>xc_url = cl_host_port c @ ''/'' @ name, xc_body = args, xc_reply = rep\<rparr>] \<and>
    (\<forall>v. r = Inr v \<longrightarrow>
      answer out \<lparr>xc_url = cl_host_port c @ ''/'' @ name, xc_body = args, xc_reply = rep\<rparr> = Some v))"
proof -
  obtain rep w1 where p: "post ce (cl_host_port c @ ''/'' @ name) args
      (map_option (uuid_to_string ce) (cl_access_token c)) w = (rep, w1)" by fastforce
  let ?x = "\<lparr>xc_url = cl_host_port c @ ''/'' @ name, xc_body = args, xc_reply = rep\<rparr>"
  have rp: "post (recorded ce) (cl_host_port c @ ''/'' @ name) args
      (map_option (uuid_to_string ce) (cl_access_token c)) (w, T) = (rep, (w1, T @ [?x]))"
    using p by (simp add: recorded_def)
  have "c' = c \<and> T' = T @ [?x] \<and> (\<forall>v. r = Inr v \<longrightarrow> answer out ?x = Some v)"
    using assms rp
    by (cases rep) (auto simp: call_def answer_def Let_def split: if_splits option.splits)
  then show ?thesis by blast
qed

lemma call_exchange:
  assumes "client_op (call (recorded ce) name args out) s = (r, s')"
  shows "one_exchange name args out r s s'"
proof -
  obtain w T where w: "hb_world s = (w, T)" by fastforce
  obtain r1 w' T' c' where k: "call (recorded ce) name args out ((w, T), hb_client s) = (r1, ((w', T'), c'))"
    by (metis prod.exhaust)
  with assms w have s': "r1 = r" "s' = s\<lparr>hb_world := (w', T'), hb_client := c'\<rparr>"
    by (auto simp: client_op_def)
  from recorded_call[OF k] w show ?thesis
    unfolding one_exchange_def s' by (auto simp: trace_def base_url_def)
qed

lemma client_op_try:
  "client_op (try_io m (\<lambda>v (w, c). (Inr (f v), (w, g v c)))) s =
     (case client_op m s of (Inl e, s1) \<Rightarrow> (Inl e, s1)
      | (Inr v, s1) \<Rightarrow> (Inr (f v), s1\<lparr>hb_client := g v (hb_client s1)\<rparr>))"
  by (auto simp: client_op_def try_io_def split: prod.splits sum.splits)

lemma one_exchange_client:
  assumes "client_op (try_io (call (recorded ce) name args out) (\<lambda>v (w, c). (Inr (f v), (w, g v c)))) s = (r, s')"
    and "\<And>v c. cl_host_port (g v c) = cl_host_port c" and "\<And>v. f v = v"
  shows "one_exchange name args out r s s'"
proof -
  obtain r1 s1 where k: "client_op (call (recorded ce) name args out) s = (r1, s1)" by fastforce
  have "r = r1 \<and> trace s' = trace s1 \<and> base_url s' = base_url s1"
    using assms k unfolding client_op_try
    by (auto simp: trace_def base_url_def split: sum.splits)
  with call_exchange[OF k] show ?thesis by (simp add: one_exchange_def)
qed

text \<open>Every method of the client makes one exchange, with its endpoint.\<close>

lemma client_exchanges:
  "client_op (client_challenge (recorded ce)) s = (r, s') \<Longrightarrow>
     one_exchange ''challenge'' (fst (c_unit (codecs ce)) ()) (c_challenge_output (codecs ce)) r s s'"
  "client_op (client_create_new_session (recorded ce) cn) s = (r3, s') \<Longrightarrow>
     one_exchange ''create_new_session'' (fst (c_create_args (codecs ce)) cn) (c_create_output (codecs ce)) r3 s s'"
  "client_op (client_list_sessions (recorded ce)) s = (r4, s') \<Longrightarrow>
     one_exchange ''list_sessions'' (fst (c_unit (codecs ce)) ()) (c_list_output (codecs ce)) r4 s s'"
  "client_op (client_get_session_info (recorded ce) gi) s = (r5, s') \<Longrightarrow>
     one_exchange ''get_session_info'' (fst (c_info_args (codecs ce)) gi) (c_info_output (codecs ce)) r5 s s'"
  "client_op (client_send (recorded ce) sa) s = (ru, s') \<Longrightarrow>
     one_exchange ''send'' (fst (c_send_args (codecs ce)) sa) (c_unit (codecs ce)) ru s s'"
  "client_op (client_receive (recorded ce) ra) s = (r6, s') \<Longrightarrow>
     one_exchange ''receive'' (fst (c_receive_args (codecs ce)) ra) (c_receive_output (codecs ce)) r6 s s'"
  "client_op (client_close_session (recorded ce) cl) s = (ru, s') \<Longrightarrow>
     one_exchange ''close_session'' (fst (c_close_args (codecs ce)) cl) (c_unit (codecs ce)) ru s s'"
  unfolding client_challenge_def client_create_new_session_def client_list_sessions_def
    client_get_session_info_def client_send_def client_receive_def client_close_session_def recorded_simps
  by (erule call_exchange)+

lemma login_exchange:
  assumes "client_op (client_login (recorded ce) la) s = (r, s')"
  shows "one_exchange ''login'' (fst (c_login_args (codecs ce)) la) (c_login_output (codecs ce)) r s s'"
  by (rule one_exchange_client[where f = "\<lambda>v. v" and g = "\<lambda>v c. c\<lparr>cl_access_token := Some (lo_access_token v)\<rparr>",
        OF assms[unfolded client_login_def recorded_simps]]) simp_all

lemma logout_exchange:
  assumes "client_op (client_logout (recorded ce)) s = (r, s')"
  shows "one_exchange ''logout'' (fst (c_unit (codecs ce)) ()) (c_unit (codecs ce)) r s s'"
  by (rule one_exchange_client[where f = "\<lambda>v. ()" and g = "\<lambda>v c. c\<lparr>cl_access_token := None\<rparr>",
        OF assms[unfolded client_logout_def recorded_simps]]) simp_all

section \<open>What leaves the exchanges with an endpoint alone\<close>

lemma one_exchange_talks:
  assumes "one_exchange name args out r s s'"
  shows "name' \<noteq> name \<Longrightarrow> talks name' s' = talks name' s"
    and "\<exists>x. talks name s' = (base_url s, snd (talks name s) @ [x]) \<and> xc_body x = args \<and>
      (\<forall>v. r = Inr v \<longrightarrow> answer out x = Some v)"
    and "posted name s' = posted name s @ [args]"
  using assms by (auto simp: one_exchange_def talks_def posted_def)

lemma frames_exchange:
  assumes "\<And>s r s'. m s = (r, s') \<Longrightarrow> \<exists>args (out :: 'o codec) r1. one_exchange name' args out r1 s s'" and "name \<noteq> name'"
  shows "frames (talks name) m"
  unfolding frames_def using assms one_exchange_talks(1) by (metis prod.collapse)

lemma frames_talks [frame_intros]:
  "name \<noteq> ''challenge'' \<Longrightarrow> frames (talks name) (client_op (client_challenge (recorded ce)))"
  "name \<noteq> ''login'' \<Longrightarrow> frames (talks name) (client_op (client_login (recorded ce) la))"
  "name \<noteq> ''logout'' \<Longrightarrow> frames (talks name) (client_op (client_logout (recorded ce)))"
  "name \<noteq> ''create_new_session'' \<Longrightarrow> frames (talks name) (client_op (client_create_new_session (recorded ce) cn))"
  "name \<noteq> ''list_sessions'' \<Longrightarrow> frames (talks name) (client_op (client_list_sessions (recorded ce)))"
  "name \<noteq> ''get_session_info'' \<Longrightarrow> frames (talks name) (client_op (client_get_session_info (recorded ce) gi))"
  "name \<noteq> ''send'' \<Longrightarrow> frames (talks name) (client_op (client_send (recorded ce) sa))"
  "name \<noteq> ''receive'' \<Longrightarrow> frames (talks name) (client_op (client_receive (recorded ce) ra))"
  "name \<noteq> ''close_session'' \<Longrightarrow> frames (talks name) (client_op (client_close_session (recorded ce) cl))"
  by (rule frames_exchange; (drule client_exchanges login_exchange logout_exchange, blast | assumption))+

lemma frames_talks_sign [frame_intros]: "frames (talks name) (sign_challenge (recorded_http he) k ch)"
  by (auto simp: frames_def sign_challenge_def talks_def trace_def base_url_def recorded_http_def
      split: prod.splits sum.splits)

lemma frames_talks_login [frame_intros]:
  "name \<noteq> ''challenge'' \<Longrightarrow> name \<noteq> ''login'' \<Longrightarrow> frames (talks name) (http_login (recorded_http he) k p)"
  by (auto simp: http_login_def intro!: frame_intros)

lemma frames_talks_messages [frame_intros]:
  "name \<noteq> ''receive'' \<Longrightarrow> frames (\<lambda>s. talks name (fst s)) (receive_messages (recorded_http he) c)"
  "name \<noteq> ''send'' \<Longrightarrow> frames (\<lambda>s. talks name (fst s)) (send_encrypted (recorded_http he) r rs p)"
  by (auto simp: receive_messages_def send_encrypted_def intro!: frame_intros)

lemma frames_talks_sleep [frame_intros]: "frames (\<lambda>s. talks name (fst s)) (http_sleep (recorded_http he))"
  by (auto simp: frames_def http_sleep_def first_io_def talks_def trace_def base_url_def recorded_http_def
      split: prod.splits)

lemma frames_talks_state [frame_intros]: "frames (talks name) (on_state m)"
  by (auto simp: frames_def on_state_def talks_def trace_def base_url_def split: prod.splits)

lemma frames_talks_round [frame_intros]:
  "name \<noteq> ''receive'' \<Longrightarrow> frames (\<lambda>s. talks name (fst s)) (receive_round (recorded_http he) recv c)"
  by (auto simp: receive_round_def intro!: frame_intros)

lemma frames_talks_end [frame_intros]:
  "name \<noteq> ''logout'' \<Longrightarrow> frames (talks name) (http_logout (recorded_http he))"
  "name \<noteq> ''close_session'' \<Longrightarrow> frames (talks name) (http_close_session (recorded_http he))"
  by (auto simp: http_logout_def http_close_session_def intro!: frame_intros)

end
