(* ===== verification/Participant_Trace.thy ===== *)
theory Participant_Trace
  imports Participant_Http Http_Trace
begin

text \<open>
  What the HTTP participant sends, and which session it joins, read off the record of its exchanges,
  for runs with any result.
\<close>

section \<open>The session\<close>

text \<open>An exchange with an endpoint, for a request and its answer.\<close>

definition exchange_of :: "string \<Rightarrow> string \<Rightarrow> bytes \<Rightarrow> 'o codec \<Rightarrow> 'o \<Rightarrow> exchange \<Rightarrow> bool" where
  "exchange_of base name args out v x \<longleftrightarrow>
     xc_url x = base @ ''/'' @ name \<and> xc_body x = args \<and> answer out x = Some v"

definition asked_info ::
    "('w, 'h, 't, 'rng) http_env \<Rightarrow> string \<Rightarrow> uuid \<Rightarrow> get_session_info_output \<Rightarrow> exchange \<Rightarrow> bool" where
  "asked_info he base sid info = exchange_of base ''get_session_info''
     (fst (c_info_args (codecs (he_client he))) \<lparr>gi_session_id = sid\<rparr>) (c_info_output (codecs (he_client he))) info"

definition asked_list :: "('w, 'h, 't, 'rng) http_env \<Rightarrow> string \<Rightarrow> uuid list \<Rightarrow> exchange \<Rightarrow> bool" where
  "asked_list he base sids = exchange_of base ''list_sessions''
     (fst (c_unit (codecs (he_client he))) ()) (c_list_output (codecs (he_client he))) \<lparr>ls_session_ids = sids\<rparr>"

lemma one_exchange_Inr:
  "one_exchange name args out (Inr v) s s' \<Longrightarrow>
     base_url s' = base_url s \<and> (\<exists>x. trace s' = trace s @ [x] \<and> exchange_of (base_url s) name args out v x)"
  by (auto simp: one_exchange_def exchange_of_def)

lemma base_update [simp]:
  "base_url (hb_session_id_update f s) = base_url s" "trace (hb_session_id_update f s) = trace s"
  "base_url (hb_cipher_update g s) = base_url s" "trace (hb_cipher_update g s) = trace s"
  "base_url (ph_access_token_update h p) = base_url p" "trace (ph_access_token_update h q) = trace q"
  "hb_session_id (ph_access_token_update h p) = hb_session_id p"
  "posted name (hb_cipher_update g s) = posted name s"
  by (simp_all add: base_url_def trace_def posted_def talks_def)

lemma talks_base: "talks name s' = talks name s \<Longrightarrow> base_url s' = base_url s"
  by (simp add: talks_def)

text \<open>Choosing the session: the one given, or else the answer to the one request for the list.\<close>

lemma choose_session_trace:
  assumes "choose_session (recorded_http he) e s = (Inr sid, s')"
  shows "base_url s' = base_url s \<and>
    (hb_session_id s = Some sid \<and> trace s' = trace s \<or>
     hb_session_id s = None \<and> (\<exists>x. trace s' = trace s @ [x] \<and> asked_list he (base_url s) [sid] x))"
proof (cases "hb_session_id s")
  case (Some sid')
  with assms show ?thesis by (simp add: choose_session_def)
next
  case None
  with assms obtain r where
    l: "client_op (client_list_sessions (recorded (he_client he))) s = (Inr r, s')" and r: "ls_session_ids r = [sid]"
    by (auto simp: choose_session_def try_io_eq_Inr split: if_splits list.splits)
  from one_exchange_Inr[OF client_exchanges(3)[OF l]] None r show ?thesis
    by (auto simp: asked_list_def exchange_of_def)
qed

lemma frames_ask:
  "name \<noteq> ''list_sessions'' \<Longrightarrow>
   frames (talks name) (try_io (client_op (client_list_sessions (recorded ce))) (\<lambda>r.
      if length (ls_session_ids r) > 1 then fail_io (Eyre MANY_SESSIONS)
      else (case ls_session_ids r of [] \<Rightarrow> fail_io (Eyre e) | sid # _ \<Rightarrow> ret_io sid)))"
  by (rule frames_try_io[OF frames_talks(5)]) (auto intro: frames_basic split: list.split)

lemma frames_choose_talks [frame_intros]:
  "name \<noteq> ''list_sessions'' \<Longrightarrow> frames (talks name) (choose_session (recorded_http he) e)"
  using frames_ask[of name "he_client he" e]
  by (auto simp: frames_def choose_session_def split: option.split)

lemma participant_join_trace:
  assumes "participant_http_get_message_count (recorded_http he) args s = (Inr n, s')"
  shows "\<exists>T x sid info getter sk pk c. trace s' = T @ [x] \<and> asked_info he (base_url s) sid info x \<and>
    hb_session_id s' = Some sid \<and>
    (hb_session_id s = Some sid \<or>
     hb_session_id s = None \<and> (\<exists>T' y. T = T' @ [y] \<and> asked_list he (base_url s) [sid] y)) \<and>
    ha_coordinator_pubkey_getter args = Some getter \<and> getter (gi_coordinator_pubkey info) = Some pk \<and>
    n = gi_message_count info \<and> ha_comm_privkey args = Some sk \<and> cipher_new (he_snow he) sk [pk] = Inr c \<and>
    hb_cipher s' = Some c"
proof -
  from assms obtain lo s1 sid s3 sk getter info s4 pk c where
    l: "http_login (recorded_http he) (ha_comm_privkey args) (ha_comm_pubkey args) s = (Inr lo, s1)" and
    ch: "choose_session (recorded_http he) NO_SESSION (s1\<lparr>ph_access_token := Some (lo_access_token lo)\<rparr>) = (Inr sid, s3)" and
    k: "ha_comm_privkey args = Some sk" "ha_coordinator_pubkey_getter args = Some getter" and
    i: "client_op (client_get_session_info (recorded (he_client he)) \<lparr>gi_session_id = sid\<rparr>)
      (s3\<lparr>hb_session_id := Some sid\<rparr>) = (Inr info, s4)" and
    g: "getter (gi_coordinator_pubkey info) = Some pk" and c: "cipher_new (he_snow he) sk [pk] = Inr c" and
    s': "n = gi_message_count info" "s' = s4\<lparr>hb_cipher := Some c\<rparr>"
    unfolding participant_http_get_message_count_def
    by (auto simp: try_io_eq_Inr simp del: try_io_lift split: option.splits)
  have b1: "base_url s1 = base_url s"
    using framesD[OF frames_talks_login[where name = "''x''"] l] by (auto dest: talks_base)
  have h1: "hb_session_id s1 = hb_session_id s" using framesD[OF frames_login(1) l] .
  note cs = choose_session_trace[OF ch, simplified b1 h1 base_update]
  from one_exchange_Inr[OF client_exchanges(4)[OF i]] cs obtain x where
    x: "trace s4 = trace s3 @ [x]" "asked_info he (base_url s) sid info x" by (auto simp: asked_info_def)
  have "hb_session_id s4 = Some sid" using framesD[OF frames_client_op(1) i] by simp
  with cs x k g c s' show ?thesis
    by (intro exI[of _ "trace s3"] exI[of _ x] exI[of _ sid] exI[of _ info] exI[of _ getter] exI[of _ sk]
        exI[of _ pk] exI[of _ c]) auto
qed

section \<open>What is sent\<close>

text \<open>The body of a message to the coordinator: the payload, encrypted with the cipher of the state.\<close>

definition sealed_send ::
    "('w, 'h, 't, 'rng) http_env \<Rightarrow> ('w recorded, 'h, 't, 'z) http_base_scheme \<Rightarrow> bytes \<Rightarrow> bytes \<Rightarrow> bool" where
  "sealed_send he s payload b \<longleftrightarrow>
     (\<exists>c c' sid m. hb_cipher s = Some c \<and> hb_session_id s = Some sid \<and>
        encrypt (he_snow he) None payload c = (Inr m, c') \<and>
        b = fst (c_send_args (codecs (he_client he))) \<lparr>sa_session_id = sid, sa_recipients = [], sa_msg = m\<rparr>)"

definition participant_sends ::
    "('w, 'h, 't, 'rng) http_env \<Rightarrow> ('c, 's, 'sp, 'r) participant_http_codec \<Rightarrow>
     ('id, 'kp, 'rng2, 'n, 'c, 'sp, 'r, 's) signing_ops \<Rightarrow>
     (('w recorded, 'h, 't) participant_http, 'id, 'c, 's, 'sp, 'r) participant_comms \<Rightarrow> 'kp \<Rightarrow> 'rng2 \<Rightarrow>
     ('sp list \<Rightarrow> ('w recorded, 'h, 't) participant_http \<Rightarrow> ('w recorded, 'h, 't) participant_http \<Rightarrow> bool) \<Rightarrow>
     ('w recorded, 'h, 't) participant_http \<Rightarrow> bytes list \<Rightarrow> bool" where
  "participant_sends he hc ops comms kp rng consent s bodies \<longleftrightarrow>
     bodies = [] \<or>
     (\<exists>k s1 nonces cs b1.
        get_message_count comms s = Some (Inr k, s1) \<and> commit_all ops kp (unat k) rng = (nonces, cs) \<and>
        sealed_send he s1 (commitments_bytes hc cs) b1 \<and>
        (bodies = [b1] \<or>
         (\<exists>sigs s3 b2. participant_agreed ops comms kp rng consent s sigs s3 \<and>
            sealed_send he s3 (shares_bytes hc sigs) b2 \<and> bodies = [b1, b2])))"

lemma first_session: "first_io session_id (s, c) = (r, x) \<Longrightarrow> x = (s, c) \<and> r = ok_or (hb_session_id s) (Panic ''no session id'')"
  by (auto simp: first_io_def session_id_def)

lemma send_encrypted_posts:
  assumes "send_encrypted (recorded_http he) rcp rs p (s, c) = (r, (s', c'))"
  shows "posted ''send'' s' = posted ''send'' s \<and> r \<noteq> Inr () \<or>
    (\<exists>m sid. encrypt (he_snow he) rcp p c = (Inr m, c') \<and> hb_session_id s = Some sid \<and>
       posted ''send'' s' = posted ''send'' s @
         [fst (c_send_args (codecs (he_client he))) \<lparr>sa_session_id = sid, sa_recipients = rs, sa_msg = m\<rparr>])"
proof -
  obtain r1 c1 where e: "encrypt (he_snow he) rcp p c = (r1, c1)" by fastforce
  show ?thesis
  proof (cases r1)
    case (Inl err)
    with assms e show ?thesis by (auto simp: send_encrypted_def try_io_def second_io_def)
  next
    case m: (Inr m)
    show ?thesis
    proof (cases "hb_session_id s")
      case None
      with assms e m show ?thesis
        by (auto simp: send_encrypted_def try_io_def second_io_def first_io_def session_id_def)
    next
      case (Some sid)
      let ?sa = "\<lparr>sa_session_id = sid, sa_recipients = rs, sa_msg = m\<rparr>"
      obtain r2 s2 where k: "client_op (client_send (recorded (he_client he)) ?sa) s = (r2, s2)" by fastforce
      from assms e m Some k have "s' = s2" "c' = c1"
        by (auto simp: send_encrypted_def try_io_def second_io_def first_io_def session_id_def)
      with one_exchange_talks(3)[OF client_exchanges(5)[OF k]] e m Some show ?thesis by auto
    qed
  qed
qed

lemma frames_receive_first: "frames (\<lambda>x. talks ''send'' (fst (fst x))) (receive_first (recorded_http he))"
proof -
  have f: "frames (\<lambda>x. talks ''send'' (fst (fst x))) (first_io m)" if "frames (\<lambda>x. talks ''send'' (fst x)) m" for m
    using frames_first(1)[OF that] .
  show ?thesis
    unfolding receive_first_def
    by (intro frames_try_io f frame_intros)
      (auto intro!: frames_try_io f frame_intros simp: frames_def[of _ "\<lambda>(s, _). _ s"] split: list.split)
qed

lemma poll_frames: "frames f body \<Longrightarrow> poll_until body ready w = Some (r, w') \<Longrightarrow> f w' = f w"
  using poll_until_keeps(1)[of "\<lambda>x. f x = f w" body ready w r w'] by (simp add: frames_def keeps_def)

lemma signing_package_posts:
  assumes "participant_http_get_signing_package (recorded_http he) hc cs s = Some (r, s')"
  shows "posted ''send'' s' = posted ''send'' s \<and> (\<forall>x. r \<noteq> Inr x) \<or>
    (\<exists>b. sealed_send he s (commitments_bytes hc cs) b \<and> posted ''send'' s' = posted ''send'' s @ [b])"
proof (cases "hb_cipher s")
  case None
  with assms show ?thesis by (auto simp: participant_http_get_signing_package_def with_cipher_def)
next
  case c: (Some c)
  show ?thesis
  proof (cases "hb_session_id s")
    case None
    with assms c show ?thesis
      by (auto simp: participant_http_get_signing_package_def with_cipher_def first_io_def session_id_def
          try_iop_def)
  next
    case sid: (Some sid)
    obtain r1 s1 c1 where sd: "send_encrypted (recorded_http he) None [] (commitments_bytes hc cs) (s, c) = (r1, (s1, c1))"
      by (metis prod.exhaust)
    note ps = send_encrypted_posts[OF sd]
    show ?thesis
    proof (cases r1)
      case (Inl e)
      with assms c sid sd have "posted ''send'' s' = posted ''send'' s1" "\<forall>x. r \<noteq> Inr x"
        by (auto simp: participant_http_get_signing_package_def with_cipher_def first_io_def session_id_def
            try_iop_def)
      with ps c sid show ?thesis by (auto simp: sealed_send_def)
    next
      case (Inr u)
      with ps c sid obtain b where b: "sealed_send he s (commitments_bytes hc cs) b"
        "posted ''send'' s1 = posted ''send'' s @ [b]" by (auto simp: sealed_send_def)
      from assms c sid sd Inr obtain r2 x s2 c2 m where
        p: "poll_until (receive_first (recorded_http he)) (\<lambda>(_, m). m \<noteq> None) ((s1, c1), None) = Some (r2, ((s2, c2), m))"
        and "s' = s2\<lparr>hb_cipher := Some c2\<rparr>"
        by (auto simp: participant_http_get_signing_package_def with_cipher_def first_io_def session_id_def
            try_iop_def split: option.splits sum.splits prod.splits)
      moreover from poll_frames[OF frames_receive_first p] have "posted ''send'' s2 = posted ''send'' s1"
        by (simp add: posted_def)
      ultimately show ?thesis using b by auto
    qed
  qed
qed

lemma send_share_posts:
  assumes "participant_http_send_share (recorded_http he) hc sigs s = Some (r, s')"
  shows "posted ''send'' s' = posted ''send'' s \<and> r \<noteq> Inr () \<or>
    (\<exists>b. sealed_send he s (shares_bytes hc sigs) b \<and> posted ''send'' s' = posted ''send'' s @ [b])"
proof (cases "hb_cipher s")
  case None
  with assms show ?thesis by (auto simp: participant_http_send_share_def with_cipher_def try_iop_def)
next
  case c: (Some c)
  obtain r1 s1 c1 where sd: "send_encrypted (recorded_http he) None [] (shares_bytes hc sigs) (s, c) = (r1, (s1, c1))"
    by (metis prod.exhaust)
  obtain r2 s2 where lo: "http_logout (recorded_http he) (s1\<lparr>hb_cipher := Some c1\<rparr>) = (r2, s2)" by fastforce
  have "talks ''send'' s2 = talks ''send'' (s1\<lparr>hb_cipher := Some c1\<rparr>)"
    by (rule framesD[OF frames_talks_end(1) lo]) simp
  from posted_cong[OF this] have p2: "posted ''send'' s2 = posted ''send'' s1" by simp
  from assms c sd lo have "r = r1 \<and> r1 \<noteq> Inr () \<and> posted ''send'' s' = posted ''send'' s1 \<or> r1 = Inr () \<and> s' = s2"
    by (cases r1) (auto simp: participant_http_send_share_def with_cipher_def try_iop_def)
  with send_encrypted_posts[OF sd] p2 c show ?thesis by (auto simp: sealed_send_def)
qed

lemma frames_confirm: "frames (talks name) (participant_http_confirm te ops sps)"
  by (auto simp: frames_def participant_http_confirm_def talks_def base_url_def trace_def split: prod.splits)

lemma frames_join: "frames (talks ''send'') (participant_http_get_message_count (recorded_http he) args)"
proof -
  have u: "frames (talks ''send'') (\<lambda>s. (Inr (), s\<lparr>ph_access_token := x\<rparr>))"
    "frames (talks ''send'') (\<lambda>s. (Inr (), s\<lparr>hb_session_id := y\<rparr>))"
    "frames (talks ''send'') (\<lambda>s. (Inr (), s\<lparr>hb_cipher := z\<rparr>))" for x y z
    by (auto simp: frames_def talks_def base_url_def trace_def)
  show ?thesis
    unfolding participant_http_get_message_count_def case_prod_beta
    by (intro frame_intros u) (simp_all add: recorded_simps frames_talks)
qed

text \<open>The bodies a run posts, whatever its result.\<close>

lemma participant_posts:
  assumes run: "participant ops (participant_http_comms (recorded_http he) args hc te ops) kp rng s = Some (r, s')"
  shows "\<exists>bodies. posted ''send'' s' = posted ''send'' s @ bodies \<and>
    participant_sends he hc ops (participant_http_comms (recorded_http he) args hc te ops) kp rng
      (\<lambda>sps s s'. console_consent te ops sps (ph_console s) (ph_console s')) s bodies"
proof -
  let ?comms = "participant_http_comms (recorded_http he) args hc te ops"
  let ?consent = "\<lambda>sps s s'. console_consent te ops sps (ph_console s) (ph_console s')"
  let ?sends = "participant_sends he hc ops ?comms kp rng ?consent s"
  have joined: "posted ''send'' s1 = posted ''send'' s" if "get_message_count ?comms s = Some (x, s1)" for x s1
    using that posted_cong[OF framesD[OF frames_join]] by (auto simp: participant_http_comms_def)
  from run show ?thesis
  proof (cases rule: participant_cases)
    case (no_join e)
    from joined[OF this] show ?thesis by (intro exI[of _ "[]"]) (simp add: participant_sends_def)
  next
    case (no_suite k)
    from joined[OF this] show ?thesis by (intro exI[of _ "[]"]) (simp add: participant_sends_def)
  next
    case (package k s1 nonces cs rr r2 s2)
    from package(3) have "participant_http_get_signing_package (recorded_http he) hc cs s1 = Some (r2, s2)"
      by (simp add: participant_http_comms_def)
    note sp = signing_package_posts[OF this, unfolded joined[OF package(1)]]
    have one: "?sends [b]" if "sealed_send he s1 (commitments_bytes hc cs) b" for b
      using that package(1,2) by (auto simp: participant_sends_def)
    show ?thesis
    proof (cases r2)
      case (Inl e)
      with sp package(4) one show ?thesis by (auto simp: participant_sends_def)
    next
      case (Inr config)
      with sp obtain b1 where b1: "sealed_send he s1 (commitments_bytes hc cs) b1"
        "posted ''send'' s2 = posted ''send'' s @ [b1]" by auto
      from package(4) Inr obtain r3 s3 where c: "confirm_message ?comms config s2 = Some (r3, s3)"
        and rest: "s' = s3 \<or> (\<exists>sigs. r3 = Inr () \<and> generate_signature ops config kp nonces = Inr sigs \<and>
          send_signature_share ?comms (key_identifier ops kp) sigs s3 = Some (r, s'))" by auto
      from c have "participant_http_confirm te ops (sp_signing_package config) s2 = (r3, s3)"
        by (simp add: participant_http_comms_def)
      from posted_cong[OF framesD[OF frames_confirm this]] b1(2)
      have p3: "posted ''send'' s3 = posted ''send'' s @ [b1]" by simp
      have stopped: ?thesis if "posted ''send'' s' = posted ''send'' s @ [b1]"
        using that one[OF b1(1)] by blast
      from rest show ?thesis
      proof (elim disjE exE conjE)
        fix sigs assume r3: "r3 = Inr ()" and g: "generate_signature ops config kp nonces = Inr sigs"
          and "send_signature_share ?comms (key_identifier ops kp) sigs s3 = Some (r, s')"
        then have "participant_http_send_share (recorded_http he) hc sigs s3 = Some (r, s')"
          by (simp add: participant_http_comms_def)
        note ss = send_share_posts[OF this, unfolded p3]
        have a: "participant_agreed ops ?comms kp rng ?consent s sigs s3"
          by (rule participant_http.agreed[OF package(1,2) package(3)[unfolded Inr] c[unfolded r3] g])
        have "?sends [b1, b2]" if "sealed_send he s3 (shares_bytes hc sigs) b2" for b2
          using that a b1(1) package(1,2) unfolding participant_sends_def by blast
        with ss stopped show ?thesis by auto
      qed (use stopped p3 in simp)
    qed
  qed
qed

end
