(* ===== verification/Trace_Examples.thy ===== *)
theory Trace_Examples
  imports Http_Examples Http_Trace
begin

text \<open>
  The scripted world of \<open>Http_Examples\<close> with the record of its exchanges. \<open>ex_logged\<close> is the record
  after one more exchange.
\<close>

definition ex_logged :: "string \<Rightarrow> string \<Rightarrow> bytes \<Rightarrow> http_reply \<Rightarrow> exchange list \<Rightarrow> exchange list" where
  "ex_logged base name args r T = T @ [\<lparr>xc_url = base @ ''/'' @ name, xc_body = args, xc_reply = Some r\<rparr>]"

lemma ex_recorded_call:
  "call (recorded (he_client ex_http)) name args out ((ex_ok b # w, T), c) =
     (case snd out (if b = [] then json_null else b) of
        None \<Rightarrow> (Inl Json_Error, ((w, ex_logged (cl_host_port c) name args (ex_ok b) T), c))
      | Some x \<Rightarrow> (Inr x, ((w, ex_logged (cl_host_port c) name args (ex_ok b) T), c)))"
proof -
  have "call (recorded (he_client ex_http)) name args out ((\<lparr>rp_status = 200, rp_body = b\<rparr> # w, T), c) =
     (case snd out (if b = [] then json_null else b) of
        None \<Rightarrow> (Inl Json_Error, ((w, T @ [\<lparr>xc_url = cl_host_port c @ ''/'' @ name, xc_body = args,
          xc_reply = Some \<lparr>rp_status = 200, rp_body = b\<rparr>\<rparr>]), c))
      | Some x \<Rightarrow> (Inr x, ((w, T @ [\<lparr>xc_url = cl_host_port c @ ''/'' @ name, xc_body = args,
          xc_reply = Some \<lparr>rp_status = 200, rp_body = b\<rparr>\<rparr>]), c)))"
    by (simp add: call_def recorded_def ex_http_def ex_post_def is_success_def Let_def split: option.split)
  then show ?thesis unfolding ex_ok_def ex_logged_def .
qed

lemma ex_recorded_client:
  "client_challenge (recorded (he_client ex_http)) ((ex_ok b # w, T), c) =
     (Inr \<lparr>co_challenge = 7\<rparr>, ((w, ex_logged (cl_host_port c) ''challenge'' [] (ex_ok b) T), c))"
  "client_login (recorded (he_client ex_http)) la ((ex_ok b # w, T), c) =
     (Inr \<lparr>lo_access_token = 6\<rparr>, ((w, ex_logged (cl_host_port c) ''login'' [] (ex_ok b) T), c\<lparr>cl_access_token := Some 6\<rparr>))"
  "client_logout (recorded (he_client ex_http)) ((ex_ok b # w, T), c) =
     (Inr (), ((w, ex_logged (cl_host_port c) ''logout'' [] (ex_ok b) T), c\<lparr>cl_access_token := None\<rparr>))"
  "client_create_new_session (recorded (he_client ex_http)) cn ((ex_ok b # w, T), c) =
     (Inr \<lparr>cn_session_id = 5\<rparr>, ((w, ex_logged (cl_host_port c) ''create_new_session'' [] (ex_ok b) T), c))"
  "client_get_session_info (recorded (he_client ex_http)) gi ((ex_ok (x # b) # w, T), c) = (Inr \<lparr>gi_message_count = 1,
     gi_pubkeys = map (\<lambda>x. PublicKey [x]) (x # b), gi_coordinator_pubkey = PublicKey [9]\<rparr>,
     ((w, ex_logged (cl_host_port c) ''get_session_info'' [] (ex_ok (x # b)) T), c))"
  "client_list_sessions (recorded (he_client ex_http)) ((ex_ok (x # b) # w, T), c) =
     (Inr \<lparr>ls_session_ids = map ucast (x # b)\<rparr>,
     ((w, ex_logged (cl_host_port c) ''list_sessions'' [] (ex_ok (x # b)) T), c))"
  "client_send (recorded (he_client ex_http)) sa ((ex_ok b # w, T), c) =
     (Inr (), ((w, ex_logged (cl_host_port c) ''send'' [] (ex_ok b) T), c))"
  "client_receive (recorded (he_client ex_http)) ra ((ex_ok [] # w, T), c) =
     (Inr \<lparr>ro_msgs = []\<rparr>, ((w, ex_logged (cl_host_port c) ''receive'' [] (ex_ok []) T), c))"
  "x \<noteq> 0x6E \<Longrightarrow> x \<noteq> 0 \<Longrightarrow> client_receive (recorded (he_client ex_http)) ra ((ex_ok (x # b) # w, T), c) =
     (Inr \<lparr>ro_msgs = [\<lparr>sender = PublicKey [x], msg = b\<rparr>]\<rparr>,
     ((w, ex_logged (cl_host_port c) ''receive'' [] (ex_ok (x # b)) T), c))"
  "client_close_session (recorded (he_client ex_http)) ca ((ex_ok b # w, T), c) =
     (Inr (), ((w, ex_logged (cl_host_port c) ''close_session'' [] (ex_ok b) T), c))"
  unfolding ex_client_defs
  by (simp_all add: ex_recorded_call try_io_def)
    (simp_all add: ex_http_def ex_api_def json_null_def)

lemma ex_recorded_sign [simp]: "sign_challenge (recorded_http ex_http) ex_key32 ch s = (Inr [], s)"
  by (cases "hb_world s")
    (simp add: sign_challenge_def private_key_sign_def ex_key32_def recorded_http_def)

lemma ex_recorded_sleep [simp]: "he_sleep (recorded_http ex_http) w = w"
  by (cases w) simp

lemmas ex_recorded_eval = ex_recorded_client ex_http_eval

end
