(* ===== verification/Participant_Props.thy ===== *)
theory Participant_Props
  imports Participant_Cli Participant_Trace Trace_Examples Coordinator_Props
begin

text \<open>
  What a participant signs and for whom, from the interpretations of \<open>participant_transport\<close>.
\<close>

section \<open>Signature shares\<close>

text \<open>
  C14: Signature shares. \<open>generate_signature\<close> succeeds exactly when there are as many nonces as
  signing packages, no randomizers or one per package, and every package signs; the i-th share is
  the i-th package signed with the i-th nonces and the i-th randomizer.
\<close>

theorem generate_signature_correct:
  "generate_signature ops config kp nonces = Inr sigs \<longleftrightarrow>
     length nonces = length (sp_signing_package config) \<and>
     length (sp_randomizer config) \<in> {0, length (sp_signing_package config)} \<and>
     length sigs = length (sp_signing_package config) \<and>
     (\<forall>i<length sigs. share_of ops config kp nonces i = Inr (sigs ! i))"
  by (auto simp: generate_signature_Inr)

definition ex_ops :: "(nat, unit, nat, nat, nat, bytes, bytes, nat \<times> bytes) signing_ops" where
  "ex_ops = \<lparr>key_identifier = (\<lambda>_. 11), round1_commit = (\<lambda>_ r. ((r, r + 100), Suc r)), package_message = (\<lambda>sp. sp),
     round2_sign = (\<lambda>sp n _. if sp = [] then Inl ''InvalidSigningPackage'' else Inr (n, sp)),
     rerandomized_sign = (\<lambda>sp n _ r. Inr (n, sp @ r)), is_ed25519 = True, is_redpallas = False\<rparr>"

theorem generate_signature_correct_witness:
  "generate_signature ex_ops \<lparr>sp_signing_package = [[1], [2]], sp_aux_msg = [], sp_randomizer = [[3], [4]]\<rparr> () [7, 8]
     = Inr [(7, [1, 3]), (8, [2, 4])] \<and>
   generate_signature ex_ops \<lparr>sp_signing_package = [[1], [2]], sp_aux_msg = [], sp_randomizer = [[3]]\<rparr> () [7, 8]
     \<noteq> Inr [(7, [1, 3])]"
  unfolding generate_signature_correct by (auto simp: share_of_def ex_ops_def less_Suc_eq)

section \<open>Consent\<close>

text \<open>
  The command line participant signs only with consent. A run that succeeds got a request with
  as many packages as commitments, showed every message on the console and read \<open>y\<close> for each,
  signed the packages with its own nonces and sent exactly these shares.
\<close>

theorem participant_cli_consent:
  assumes "participant ops (participant_cli_comms te pc ops) kp rng c = Some (Inr (), c')"
  shows "participant_signed ops (participant_cli_comms te pc ops) kp rng (console_consent te ops) c c'"
  by (rule participant_cli.participant_signs[OF assms])

definition ex_participant_codec :: "(unit, unit, nat, nat \<times> bytes, bytes, bytes) participant_codec" where
  "ex_participant_codec = \<lparr>commitments_to_json = (\<lambda>c. []), package_of_json = (\<lambda>s. Some (map (\<lambda>c. of_nat (of_char c)) s)),
     share_to_json = (\<lambda>s. []), pc_randomizer_deserialize = Inr, key_package_of_json = (\<lambda>_. Some ()),
     secret_share_of_json = (\<lambda>_. None), key_package_of_secret_share = Inr\<rparr>"

lemma ex_participant_cli:
  "\<exists>c'. participant ex_ops (participant_cli_comms ex_te ex_participant_codec ex_ops) () 5
     \<lparr>co_input = [''m'', '' y''], co_output = [], co_files = fmempty\<rparr> = Some (Inr (), c')"
  by (simp add: participant_def participant_cli_comms_def participant_cli_get_signing_package_def print_values_def
      print_values_round_2_def ex_participant_codec_def ex_ops_def ex_te_def console_confirm_def user_confirms_def
      is_rerandomized_def generate_signature_def writeln_def read_line_def trim_def is_space_def try_io_def try_iop_def)

theorem participant_cli_consent_witness:
  "\<exists>c'. participant_signed ex_ops (participant_cli_comms ex_te ex_participant_codec ex_ops) () 5
     (console_consent ex_te ex_ops) \<lparr>co_input = [''m'', '' y''], co_output = [], co_files = fmempty\<rparr> c'"
proof -
  obtain c' where "participant ex_ops (participant_cli_comms ex_te ex_participant_codec ex_ops) () 5
     \<lparr>co_input = [''m'', '' y''], co_output = [], co_files = fmempty\<rparr> = Some (Inr (), c')"
    using ex_participant_cli by (rule exE)
  from participant_cli_consent[OF this] show ?thesis by (rule exI)
qed

text \<open>
  C13: The HTTP participant signs only with consent. Whatever the result of a run, it posts at most
  two messages to the server's endpoint \<open>send\<close>: first its own commitments, then the shares of the
  requested packages, and the shares only after it showed every message of the request on the
  console and read \<open>y\<close> for each. Both are encrypted with the cipher set up for the coordinator.
  A run that is refused, or fails before, sends no share; a run that succeeds sent exactly the
  shares of the packages under its own nonces.
\<close>

theorem participant_http_consent:
  assumes "participant ops (participant_http_comms (recorded_http he) args hc te ops) kp rng s = Some (r, s')"
  shows "(\<exists>bodies. posted ''send'' s' = posted ''send'' s @ bodies \<and>
      participant_sends he hc ops (participant_http_comms (recorded_http he) args hc te ops) kp rng
        (\<lambda>sps s s'. console_consent te ops sps (ph_console s) (ph_console s')) s bodies) \<and>
    (r = Inr () \<longrightarrow>
      participant_signed ops (participant_http_comms (recorded_http he) args hc te ops) kp rng
        (\<lambda>sps s s'. console_consent te ops sps (ph_console s) (ph_console s')) s s')"
proof (intro conjI impI)
  show "participant_signed ops (participant_http_comms (recorded_http he) args hc te ops) kp rng
      (\<lambda>sps s s'. console_consent te ops sps (ph_console s) (ph_console s')) s s'" if "r = Inr ()"
    using assms unfolding that by (rule participant_http.participant_signs)
qed (rule participant_posts[OF assms])

definition ex_participant_http_codec :: "(nat, nat \<times> bytes, bytes, bytes) participant_http_codec" where
  "ex_participant_http_codec = \<lparr>commitments_bytes = map of_nat, shares_bytes = (\<lambda>_. []),
     signing_package_of_bytes = (\<lambda>b. Some \<lparr>sp_signing_package = [b], sp_aux_msg = [], sp_randomizer = []\<rparr>)\<rparr>"

definition ex_participant_args :: participant_http_args where
  "ex_participant_args = \<lparr>ha_ip = ''::1'', ha_port = 443, ha_session_id = [], ha_comm_privkey = Some ex_key32,
     ha_comm_pubkey = Some (PublicKey [1]),
     ha_coordinator_pubkey_getter = Some (\<lambda>pk. if pk = PublicKey [9] then Some pk else None)\<rparr>"

text \<open>
  The replies of a run: challenge, login, the list of sessions and the session; the commitments
  sent, an empty round, the signing package; the shares sent and the logout.
\<close>

definition ex_participant_world :: "http_reply list" where
  "ex_participant_world = [ex_ok [], ex_ok [], ex_ok [5], ex_ok [1], ex_ok [], ex_ok [], ex_ok [9, 0x42], ex_ok [],
     ex_ok []]"

definition ex_participant_http where
  "ex_participant_http line = participant_http_new (recorded_http ex_http) ex_participant_args (ex_participant_world, [])
     \<lparr>co_input = [line], co_output = [], co_files = fmempty\<rparr>"

definition ex_participant_comms where
  "ex_participant_comms =
     participant_http_comms (recorded_http ex_http) ex_participant_args ex_participant_http_codec ex_te ex_ops"

lemma ex_participant_count:
  "\<exists>s'. participant_http_get_message_count (recorded_http ex_http) ex_participant_args (ex_participant_http a) = (Inr 1, s')"
  by (simp add: ex_participant_http_def participant_http_new_def ex_participant_args_def ex_participant_world_def
      participant_http_get_message_count_def choose_session_def client_new_def ex_recorded_eval)

lemmas ex_participant_eval = ex_participant_http_def participant_http_new_def ex_participant_args_def
  ex_participant_world_def participant_http_get_message_count_def choose_session_def client_new_def
  participant_http_comms_def participant_def is_rerandomized_def ex_ops_def
  participant_http_get_signing_package_def receive_first_def ex_participant_http_codec_def
  participant_http_send_share_def participant_http_confirm_def console_confirm_def user_confirms_def writeln_def
  read_line_def trim_def is_space_def generate_signature_def single_key_single ex_te_def poll_until.simps
  ex_recorded_eval

lemma ex_participant_run:
  "\<exists>s'. participant ex_ops ex_participant_comms () 5 (ex_participant_http ''y'') = Some (Inr (), s')"
  unfolding ex_participant_comms_def by (simp add: ex_participant_eval)

text \<open>The same request, refused.\<close>

lemma ex_participant_refused:
  "\<exists>s' e. participant ex_ops ex_participant_comms () 5 (ex_participant_http ''n'') = Some (Inl e, s') \<and>
     length (posted ''send'' s') = 1"
  unfolding ex_participant_comms_def
  by (simp add: ex_participant_eval) (simp add: posted_def talks_def trace_def base_url_def ex_logged_def)

theorem participant_http_consent_witness:
  "(\<exists>s'. participant_signed ex_ops ex_participant_comms () 5
     (\<lambda>sps s s'. console_consent ex_te ex_ops sps (ph_console s) (ph_console s')) (ex_participant_http ''y'') s') \<and>
   (\<exists>b. participant_sends ex_http ex_participant_http_codec ex_ops ex_participant_comms () 5
     (\<lambda>sps s s'. console_consent ex_te ex_ops sps (ph_console s) (ph_console s')) (ex_participant_http ''n'') [b])"
proof -
  obtain s1 where s1: "participant ex_ops ex_participant_comms () 5 (ex_participant_http ''y'') = Some (Inr (), s1)"
    using ex_participant_run by (rule exE)
  obtain s2 e where s2: "participant ex_ops ex_participant_comms () 5 (ex_participant_http ''n'') = Some (Inl e, s2)"
    "length (posted ''send'' s2) = 1" using ex_participant_refused by (elim exE conjE)
  have p: "posted ''send'' (ex_participant_http a) = []" for a
    by (simp add: ex_participant_http_def participant_http_new_def posted_def talks_def trace_def)
  from conjunct2[OF participant_http_consent[OF s1[unfolded ex_participant_comms_def]]]
  have "participant_signed ex_ops ex_participant_comms () 5
     (\<lambda>sps s s'. console_consent ex_te ex_ops sps (ph_console s) (ph_console s')) (ex_participant_http ''y'') s1"
    unfolding ex_participant_comms_def by (rule mp) (rule refl)
  moreover from conjunct1[OF participant_http_consent[OF s2(1)[unfolded ex_participant_comms_def]]] s2(2)
  obtain b where "participant_sends ex_http ex_participant_http_codec ex_ops ex_participant_comms () 5
     (\<lambda>sps s s'. console_consent ex_te ex_ops sps (ph_console s) (ph_console s')) (ex_participant_http ''n'') [b]"
    unfolding ex_participant_comms_def p by (auto simp: length_Suc_conv)
  ultimately show ?thesis by blast
qed

text \<open>
  C16: The HTTP participant talks only to an approved coordinator. When joining succeeds, the last
  exchange is the request for the information of the session it joined; the session is the one
  given, or else the only one the server listed in the exchange before. The coordinator that this
  information names is in the user's address book, which gave the key of the cipher; the cipher
  knows that key alone for sending and for receiving.
\<close>

theorem participant_http_peer:
  assumes "participant_http_get_message_count (recorded_http he) args s = (Inr n, s')"
  shows "\<exists>T x sid info getter sk pk c. trace s' = T @ [x] \<and> asked_info he (base_url s) sid info x \<and>
    hb_session_id s' = Some sid \<and>
    (hb_session_id s = Some sid \<or>
     hb_session_id s = None \<and> (\<exists>T' y. T = T' @ [y] \<and> asked_list he (base_url s) [sid] y)) \<and>
    ha_coordinator_pubkey_getter args = Some getter \<and> getter (gi_coordinator_pubkey info) = Some pk \<and>
    n = gi_message_count info \<and> ha_comm_privkey args = Some sk \<and> cipher_new (he_snow he) sk [pk] = Inr c \<and>
    hb_cipher s' = Some c \<and> fmdom (ci_send_noise_map c) = {|pk|} \<and> fmdom (ci_recv_noise_map c) = {|pk|} \<and>
    (\<forall>p m c'. encrypt (he_snow he) None p c = (Inr m, c') \<longrightarrow> encrypt (he_snow he) (Some pk) p c = (Inr m, c'))"
proof -
  from participant_join_trace[OF assms] obtain T x sid info getter sk pk c where
    j: "trace s' = T @ [x]" "asked_info he (base_url s) sid info x" "hb_session_id s' = Some sid"
    "hb_session_id s = Some sid \<or>
     hb_session_id s = None \<and> (\<exists>T' y. T = T' @ [y] \<and> asked_list he (base_url s) [sid] y)"
    "ha_coordinator_pubkey_getter args = Some getter" "getter (gi_coordinator_pubkey info) = Some pk"
    "n = gi_message_count info" "ha_comm_privkey args = Some sk" and c: "cipher_new (he_snow he) sk [pk] = Inr c"
    "hb_cipher s' = Some c" by (elim exE conjE) (rule that)
  note k = cipher_new_single[OF c(1)]
  have "\<forall>p m c'. encrypt (he_snow he) None p c = (Inr m, c') \<longrightarrow> encrypt (he_snow he) (Some pk) p c = (Inr m, c')"
    using encrypt_single[OF k(1)] by metis
  with j c k show ?thesis by (intro exI conjI)
qed

theorem participant_http_peer_witness:
  "\<exists>s' c. participant_http_get_message_count (recorded_http ex_http) ex_participant_args (ex_participant_http ''y'') = (Inr 1, s') \<and>
     hb_cipher s' = Some c \<and> fmdom (ci_send_noise_map c) = {|PublicKey [9]|}"
proof -
  obtain s' where s': "participant_http_get_message_count (recorded_http ex_http) ex_participant_args
      (ex_participant_http ''y'') = (Inr 1, s')"
    using ex_participant_count by blast
  from participant_http_peer[OF this] obtain getter pk c and info :: get_session_info_output where
    "ha_coordinator_pubkey_getter ex_participant_args = Some getter" "getter (gi_coordinator_pubkey info) = Some pk"
    "hb_cipher s' = Some c" "fmdom (ci_send_noise_map c) = {|pk|}"
    by (elim exE conjE) (rule that, assumption+)
  with s' show ?thesis by (auto simp: ex_participant_args_def split: if_splits)
qed

end
