(* ===== verification/Dkg_Client.thy ===== *)
theory Dkg_Client
  imports Console Cipher
begin

text \<open>
  A participant's run of the distributed key generation (\<open>dkg/cli.rs\<close>) over the trait \<open>Comms\<close>
  (\<open>dkg/comms.rs\<close>), and the inputs of its command line mode (\<open>dkg/inputs.rs\<close>, \<open>dkg/args.rs\<close>). The
  three parts of the protocol in \<open>frost-core\<close> and the conversion to even Y coordinates in
  \<open>reddsa\<close> are the fields of \<open>dkg_ops\<close>.
\<close>

section \<open>Parameters\<close>

record ('id, 'rng, 's1, 's2, 'p1, 'p2, 'kp, 'pkp) dkg_ops =
  part1 :: "'id \<Rightarrow> 16 word \<Rightarrow> 16 word \<Rightarrow> 'rng \<Rightarrow> string + 's1 \<times> 'p1"
  part2 :: "'s1 \<Rightarrow> ('id, 'p1) fmap \<Rightarrow> string + 's2 \<times> ('id, 'p2) fmap"
  part3 :: "'s2 \<Rightarrow> ('id, 'p1) fmap \<Rightarrow> ('id, 'p2) fmap \<Rightarrow> string + 'kp \<times> 'pkp"
  suite_is_redpallas :: bool
  has_even_y :: "'pkp \<Rightarrow> bool"
  kp_into_even_y :: "'kp \<Rightarrow> bool option \<Rightarrow> 'kp"
  pkp_into_even_y :: "'pkp \<Rightarrow> bool option \<Rightarrow> 'pkp"

text \<open>\<open>MaybeIntoEvenY::into_even_y\<close>: only redpallas converts.\<close>

definition maybe_into_even_y ::
    "('id, 'rng, 's1, 's2, 'p1, 'p2, 'kp, 'pkp) dkg_ops \<Rightarrow> 'kp \<times> 'pkp \<Rightarrow> 'kp \<times> 'pkp" where
  "maybe_into_even_y ops key_packages =
     (if suite_is_redpallas ops
      then (case key_packages of (key_package, public_key_package) \<Rightarrow>
        let is_even = has_even_y ops public_key_package
        in (kp_into_even_y ops key_package (Some is_even), pkp_into_even_y ops public_key_package (Some is_even)))
      else key_packages)"

section \<open>The trait Comms\<close>

record ('w, 'id, 'p1, 'p2) dkg_comms =
  get_identifier_and_max_signers :: "('w, error, 'id \<times> 16 word) iop"
  get_round1_packages :: "'p1 \<Rightarrow> ('w, error, ('id, 'p1) fmap) iop"
  get_round2_packages :: "('id, 'p2) fmap \<Rightarrow> ('w, error, ('id, 'p2) fmap) iop"
  get_pubkey_identifier_map :: "'w \<Rightarrow> error + (public_key, 'id) fmap"
  dkg_cleanup_on_error :: "('w, error, unit) iop"

section \<open>The run\<close>

definition dkg_doit ::
    "('id, 'rng, 's1, 's2, 'p1, 'p2, 'kp, 'pkp) dkg_ops \<Rightarrow> ('w, 'id, 'p1, 'p2) dkg_comms \<Rightarrow> 16 word \<Rightarrow> 'rng \<Rightarrow>
     ('w, error, 'kp \<times> 'pkp \<times> (public_key, 'id) fmap) iop" where
  "dkg_doit ops comms min_signers rng =
     try_iop (get_identifier_and_max_signers comms) (\<lambda>(identifier, max_signers).
     try_iop (run_io (lift_io (map_err Frost_Error (part1 ops identifier max_signers min_signers rng))))
       (\<lambda>(round1_secret_package, round1_package).
     try_iop (get_round1_packages comms round1_package) (\<lambda>received_round1_packages.
     try_iop (run_io (lift_io (map_err Frost_Error (part2 ops round1_secret_package received_round1_packages))))
       (\<lambda>(round2_secret_package, round2_packages).
     try_iop (get_round2_packages comms round2_packages) (\<lambda>received_round2_packages.
     try_iop (run_io (lift_io (map_err Frost_Error
         (part3 ops round2_secret_package received_round1_packages received_round2_packages)))) (\<lambda>keys.
     let (key_package, public_key_package) = maybe_into_even_y ops keys in
     try_iop (run_io (\<lambda>w. (get_pubkey_identifier_map comms w, w))) (\<lambda>pubkey_map.
     run_io (ret_io (key_package, public_key_package, pubkey_map)))))))))"

definition dkg_run_comms ::
    "('id, 'rng, 's1, 's2, 'p1, 'p2, 'kp, 'pkp) dkg_ops \<Rightarrow> ('w, 'id, 'p1, 'p2) dkg_comms \<Rightarrow> 16 word \<Rightarrow> 'rng \<Rightarrow>
     ('w, error, 'kp \<times> 'pkp \<times> (public_key, 'id) fmap) iop" where
  "dkg_run_comms ops comms min_signers rng w =
     (case dkg_doit ops comms min_signers rng w of
        None \<Rightarrow> None
      | Some (Inr r, w') \<Rightarrow> Some (Inr r, w')
      | Some (Inl (Panic e), w') \<Rightarrow> Some (Inl (Panic e), w')
      | Some (Inl e, w') \<Rightarrow> (case dkg_cleanup_on_error comms w' of
          None \<Rightarrow> None | Some (_, w'') \<Rightarrow> Some (Inl e, w'')))"

section \<open>What the run relies on\<close>

text \<open>
  \<open>joined i n\<close>: the participant has the identifier \<open>i\<close> in a group of \<open>n\<close>; the packages of round 1
  it then gets are \<open>good\<close>, and those of round 2 come from the same participants.
\<close>

locale dkg_transport =
  fixes comms :: "('w, 'id, 'p1, 'p2) dkg_comms"
    and start :: "'w \<Rightarrow> bool" and joined :: "'id \<Rightarrow> 16 word \<Rightarrow> 'w \<Rightarrow> bool"
    and round2 :: "'id \<Rightarrow> 16 word \<Rightarrow> ('id, 'p1) fmap \<Rightarrow> 'w \<Rightarrow> bool"
    and good :: "'id \<Rightarrow> 16 word \<Rightarrow> ('id, 'p1) fmap \<Rightarrow> bool"
    and cover :: "('id, 'p1) fmap \<Rightarrow> ('id, 'p2) fmap \<Rightarrow> bool"
  assumes joins: "start w \<Longrightarrow> get_identifier_and_max_signers comms w = Some (Inr (i, n), w') \<Longrightarrow> joined i n w'"
    and round1_good: "joined i n w \<Longrightarrow> get_round1_packages comms p w = Some (Inr r1, w') \<Longrightarrow>
      good i n r1 \<and> round2 i n r1 w'"
    and round2_cover: "round2 i n r1 w \<Longrightarrow> get_round2_packages comms ps w = Some (Inr r2, w') \<Longrightarrow> cover r1 r2"

text \<open>
  The keys of a run: the three parts of the protocol were applied to the participant's own secrets
  and to the packages received, and the result was converted.
\<close>

definition dkg_keys ::
    "('id, 'rng, 's1, 's2, 'p1, 'p2, 'kp, 'pkp) dkg_ops \<Rightarrow> 16 word \<Rightarrow> 'rng \<Rightarrow>
     ('id \<Rightarrow> 16 word \<Rightarrow> ('id, 'p1) fmap \<Rightarrow> bool) \<Rightarrow> (('id, 'p1) fmap \<Rightarrow> ('id, 'p2) fmap \<Rightarrow> bool) \<Rightarrow>
     'kp \<Rightarrow> 'pkp \<Rightarrow> bool" where
  "dkg_keys ops min_signers rng good cover kp pkp \<longleftrightarrow>
     (\<exists>i n s1 p1 r1 s2 p2 r2 keys.
        part1 ops i n min_signers rng = Inr (s1, p1) \<and> part2 ops s1 r1 = Inr (s2, p2) \<and>
        part3 ops s2 r1 r2 = Inr keys \<and> (kp, pkp) = maybe_into_even_y ops keys \<and>
        good i n r1 \<and> cover r1 r2)"

lemma dkg_run_comms_Inr:
  "dkg_run_comms ops comms m rng w = Some (Inr x, w') \<Longrightarrow> dkg_doit ops comms m rng w = Some (Inr x, w')"
  by (auto simp: dkg_run_comms_def split: option.splits prod.splits sum.splits error.splits)

context dkg_transport
begin

lemma dkg_gives_keys:
  assumes "start w" and "dkg_run_comms ops comms min_signers rng w = Some (Inr (kp, pkp, m), w')"
  shows "dkg_keys ops min_signers rng good cover kp pkp"
    and "get_pubkey_identifier_map comms w' = Inr m"
proof -
  from dkg_run_comms_Inr[OF assms(2)] obtain i n w1 s1 p1 r1 w2 s2 p2 r2 keys where
    j: "get_identifier_and_max_signers comms w = Some (Inr (i, n), w1)" and
    p: "part1 ops i n min_signers rng = Inr (s1, p1)" and
    r1: "get_round1_packages comms p1 w1 = Some (Inr r1, w2)" and
    q: "part2 ops s1 r1 = Inr (s2, p2)" and
    r2: "get_round2_packages comms p2 w2 = Some (Inr r2, w')" and
    k: "part3 ops s2 r1 r2 = Inr keys" "(kp, pkp) = maybe_into_even_y ops keys" and
    m: "get_pubkey_identifier_map comms w' = Inr m"
    unfolding dkg_doit_def Let_def
    by (auto simp: try_iop_Some_Inr case_prod_beta simp del: try_iop_simps)
  from joins[OF assms(1) j] have "joined i n w1" .
  from round1_good[OF this r1] have "good i n r1" "round2 i n r1 w2" by auto
  with round2_cover[OF this(2) r2] p q k show "dkg_keys ops min_signers rng good cover kp pkp"
    unfolding dkg_keys_def by blast
  show "get_pubkey_identifier_map comms w' = Inr m" by (rule m)
qed

end

section \<open>The inputs of the command line mode\<close>

record 'id dkg_config =
  dc_min_signers :: "16 word"
  dc_max_signers :: "16 word"
  dc_identifier :: 'id

definition validate_inputs :: "'id dkg_config \<Rightarrow> string + unit" where
  "validate_inputs config =
     (if dc_min_signers config < 2 then Inl ''InvalidMinSigners''
      else if dc_max_signers config < 2 then Inl ''InvalidMaxSigners''
      else if dc_min_signers config > dc_max_signers config then Inl ''InvalidMinSigners''
      else Inr ())"

text \<open>The parsers of \<open>frost-core\<close> values.\<close>

record ('id, 'p1, 'p2, 'kp, 'pkp) dkg_codec =
  id_of_u16 :: "16 word \<Rightarrow> string + 'id"
  dkg_id_deserialize :: "bytes \<Rightarrow> string + 'id"
  dkg_id_json :: "'id \<Rightarrow> string"
  round1_of_json :: "string \<Rightarrow> 'p1 option"
  round2_of_json :: "string \<Rightarrow> 'p2 option"
  round1_json :: "'p1 \<Rightarrow> string"
  round2_json :: "'p2 \<Rightarrow> string"
  key_package_json :: "'kp \<Rightarrow> string"
  public_key_package_json :: "'pkp \<Rightarrow> string"

definition read_u16 :: "string \<Rightarrow> (console, error, 16 word) io" where
  "read_u16 e = try_io read_line (\<lambda>l. lift_io (ok_or (parse_u16 (trim l)) (Frost_Error e)))"

definition request_inputs ::
    "('id, 'p1, 'p2, 'kp, 'pkp) dkg_codec \<Rightarrow> (console, error, 'id dkg_config) io" where
  "request_inputs dc =
     try_io (writeln ''The minimum number of signers: (2 or more)'') (\<lambda>_.
     try_io (read_u16 ''InvalidMinSigners'') (\<lambda>min_signers.
     try_io (writeln ''The maximum number of signers:'') (\<lambda>_.
     try_io (read_u16 ''InvalidMaxSigners'') (\<lambda>max_signers.
     try_io (writeln ''Your identifier (this should be an integer between 1 and 65535):'') (\<lambda>_.
     try_io (read_u16 ''MalformedIdentifier'') (\<lambda>u16_identifier.
     try_io (lift_io (map_err Frost_Error (id_of_u16 dc u16_identifier))) (\<lambda>identifier.
     let config = \<lparr>dc_min_signers = min_signers, dc_max_signers = max_signers, dc_identifier = identifier\<rparr> in
     try_io (lift_io (map_err Frost_Error (validate_inputs config))) (\<lambda>_.
     ret_io config))))))))"

definition dkg_read_identifier ::
    "text_env \<Rightarrow> ('id, 'p1, 'p2, 'kp, 'pkp) dkg_codec \<Rightarrow> (console, error, 'id) io" where
  "dkg_read_identifier te dc =
     try_io (read_hex te) (\<lambda>b. lift_io (map_err Frost_Error (dkg_id_deserialize dc b)))"

definition read_round1_package ::
    "text_env \<Rightarrow> ('id, 'p1, 'p2, 'kp, 'pkp) dkg_codec \<Rightarrow> (console, error, 'id \<times> 'p1) io" where
  "read_round1_package te dc =
     try_io (writeln ''The sender's identifier (hex string):'') (\<lambda>_.
     try_io (dkg_read_identifier te dc) (\<lambda>identifier.
     try_io (writeln ''Their JSON-encoded Round 1 Package:'') (\<lambda>_.
     try_io read_line (\<lambda>package_input.
     try_io (lift_io (ok_or (round1_of_json dc package_input) Json_Error)) (\<lambda>round1_package.
     ret_io (identifier, round1_package))))))"

definition read_round2_package ::
    "text_env \<Rightarrow> ('id, 'p1, 'p2, 'kp, 'pkp) dkg_codec \<Rightarrow> (console, error, 'id \<times> 'p2) io" where
  "read_round2_package te dc =
     try_io (writeln ''The sender's identifier (hex string):'') (\<lambda>_.
     try_io (dkg_read_identifier te dc) (\<lambda>identifier.
     try_io (writeln ''Their JSON-encoded Round 2 Package:'') (\<lambda>_.
     try_io read_line (\<lambda>package_input.
     try_io (lift_io (ok_or (round2_of_json dc package_input) Json_Error)) (\<lambda>round2_package.
     ret_io (identifier, round2_package))))))"

lemma request_inputs_valid:
  assumes "request_inputs dc c = (Inr config, c')"
  shows "2 \<le> dc_min_signers config" and "dc_min_signers config \<le> dc_max_signers config"
proof -
  from assms have "validate_inputs config = Inr ()"
    unfolding request_inputs_def Let_def by (auto simp: try_io_eq_Inr simp del: try_io_lift)
  then show "2 \<le> dc_min_signers config" "dc_min_signers config \<le> dc_max_signers config"
    by (auto simp: validate_inputs_def split: if_splits)
qed

section \<open>Processed arguments\<close>

record 'id dkg_processed_args =
  dp_cli :: bool
  dp_http :: bool
  dp_ip :: string
  dp_port :: "16 word"
  dp_comm_privkey :: "private_key option"
  dp_comm_pubkey :: "public_key option"
  dp_participant_pubkey_getter :: "(public_key \<Rightarrow> public_key option) option"
  dp_min_signers :: "16 word"
  dp_max_signers :: "16 word option"
  dp_participants :: "public_key list"
  dp_identifier :: "'id option"

definition dkg_processed_args_new :: "'id dkg_config \<Rightarrow> 'id dkg_processed_args" where
  "dkg_processed_args_new config = \<lparr>dp_cli = True, dp_http = False, dp_ip = [], dp_port = 0,
     dp_comm_privkey = None, dp_comm_pubkey = None, dp_participant_pubkey_getter = None,
     dp_min_signers = dc_min_signers config, dp_max_signers = Some (dc_max_signers config),
     dp_participants = [], dp_identifier = Some (dc_identifier config)\<rparr>"

end
