(* ===== verification/Dkg_Client_Http.thy ===== *)
theory Dkg_Client_Http
  imports Dkg_Client Http_Comms Dkg_Session Participant_Http
begin

text \<open>
  The HTTP transport of the distributed key generation (\<open>dkg/comms/http.rs\<close>), on the state machine
  of \<open>Dkg_Session\<close>, the cipher and the client. Identifiers are derived from the session id and the
  communication keys by \<open>Identifier::derive\<close>, a parameter of \<open>dkg_http_codec\<close>.
\<close>

section \<open>State\<close>

record ('w, 'h, 't, 'st, 'id) dkg_http = "('w, 'h, 't, 'st, 'id) http_session" +
  dh_identifier :: "'id option"

type_synonym ('w, 'h, 't, 'id, 'p1, 'p2) dkg_http_comms =
  "('w, 'h, 't, ('id, 'p1, 'p2) dkg_session_state, 'id) dkg_http"

record ('id, 'p1, 'p2) dkg_http_codec =
  id_derive :: "bytes \<Rightarrow> string + 'id"
  dkg_de1 :: "bytes \<Rightarrow> 'p1 option"
  dkg_deb :: "bytes \<Rightarrow> ('id \<times> 'p1) option"
  dkg_de2 :: "bytes \<Rightarrow> 'p2 option"
  dkg_ser1 :: "'p1 \<Rightarrow> bytes"
  dkg_serb :: "'id \<times> 'p1 \<Rightarrow> bytes"
  dkg_ser2 :: "'p2 \<Rightarrow> bytes"

definition dkg_http_new :: "'id dkg_processed_args \<Rightarrow> 'w \<Rightarrow> ('w, 'h, 't, 'id, 'p1, 'p2) dkg_http_comms" where
  "dkg_http_new args w = \<lparr>
     hb_world = w, hb_client = client_new (''https://'' @ dp_ip args @ '':'' @ decimal (unat (dp_port args))),
     hb_session_id = None, hb_cipher = None, hs_state = dkg_default, hs_pubkeys = fmempty, dh_identifier = None\<rparr>"

section \<open>Joining\<close>

definition derive_identifier ::
    "('w, 'h, 't, 'rng) http_env \<Rightarrow> ('id, 'p1, 'p2) dkg_http_codec \<Rightarrow> uuid \<Rightarrow> public_key \<Rightarrow> error + 'id" where
  "derive_identifier he dc sid pk = map_err Frost_Error (id_derive dc (he_uuid_bytes he sid @ pk_bytes pk))"

text \<open>Collecting pairs into a hash map: a later pair with the same key replaces an earlier one.\<close>

definition derive_all ::
    "('w, 'h, 't, 'rng) http_env \<Rightarrow> ('id, 'p1, 'p2) dkg_http_codec \<Rightarrow> uuid \<Rightarrow> public_key list \<Rightarrow>
     error + (public_key, 'id) fmap" where
  "derive_all he dc sid pubkeys =
     tryr (collect_results (map (\<lambda>p. tryr (derive_identifier he dc sid p) (\<lambda>i. Inr (p, i))) pubkeys))
       (\<lambda>pairs. Inr (fold (\<lambda>(p, i). fmupd p i) pairs fmempty))"

text \<open>Copying the public keys into the state, which must be in its first phase.\<close>

fun copy_pubkeys ::
    "(public_key, 'id) fmap \<Rightarrow> (('id, 'p1, 'p2) dkg_session_state, error, unit) io" where
  "copy_pubkeys pubkeys (WaitingForRound1Packages _ r1) = (Inr (), WaitingForRound1Packages pubkeys r1)"
| "copy_pubkeys pubkeys st = (Inl (Panic ''wrong state''), st)"

definition dkg_open_session ::
    "('w, 'h, 't, 'rng) http_env \<Rightarrow> 'id dkg_processed_args \<Rightarrow>
     (('w, 'h, 't, 'id, 'p1, 'p2) dkg_http_comms, error, uuid) io" where
  "dkg_open_session he args =
     (if dp_participants args \<noteq> []
      then try_io (client_op (client_create_new_session (he_client he)
               \<lparr>cn_pubkeys = dp_participants args, cn_message_count = 1\<rparr>)) (\<lambda>r.
           ret_io (cn_session_id r))
      else choose_session he ''User has no current sessions active'')"

definition dkg_http_join ::
    "('w, 'h, 't, 'rng) http_env \<Rightarrow> 'id dkg_processed_args \<Rightarrow> ('id, 'p1, 'p2) dkg_http_codec \<Rightarrow>
     (('w, 'h, 't, 'id, 'p1, 'p2) dkg_http_comms, error, 'id \<times> 16 word) io" where
  "dkg_http_join he args dc =
     try_io (http_login he (dp_comm_privkey args) (dp_comm_pubkey args)) (\<lambda>_.
     try_io (lift_io (ok_or (dp_comm_pubkey args) (Eyre ''comm_pubkey must be specified''))) (\<lambda>comm_pubkey.
     try_io (dkg_open_session he args) (\<lambda>sid.
     try_io (\<lambda>s. (Inr (), s\<lparr>hb_session_id := Some sid\<rparr>)) (\<lambda>_.
     try_io (client_op (client_get_session_info (he_client he) \<lparr>gi_session_id = sid\<rparr>)) (\<lambda>session_info.
     try_io (lift_io (derive_all he dc sid (gi_pubkeys session_info))) (\<lambda>pubkeys.
     try_io (\<lambda>s. (Inr (), s\<lparr>hs_pubkeys := pubkeys\<rparr>)) (\<lambda>_.
     if fmsize pubkeys < 2 then fail_io (Eyre ''DKG session must have at least 2 participants'')
     else
     try_io (on_state (copy_pubkeys pubkeys)) (\<lambda>_.
     try_io (lift_io (derive_identifier he dc sid comm_pubkey)) (\<lambda>identifier.
     try_io (\<lambda>s. (Inr (), s\<lparr>dh_identifier := Some identifier\<rparr>)) (\<lambda>_.
     ret_io (identifier, of_nat (fmsize pubkeys))))))))))))"

section \<open>The rounds\<close>

definition dkg_http_round ::
    "('w, 'h, 't, 'rng) http_env \<Rightarrow> ('id, 'p1, 'p2) dkg_http_codec \<Rightarrow>
     (('w, 'h, 't, 'id, 'p1, 'p2) dkg_http_comms \<times> ('h, 't) cipher, error, unit) io" where
  "dkg_http_round he dc s =
     receive_round he (case dh_identifier (fst s) of
         None \<Rightarrow> (\<lambda>m st. (Inl (Panic ''must have been set''), st))
       | Some i \<Rightarrow> dkg_recv (dkg_de1 dc) (dkg_deb dc) (dkg_de2 dc) i) False s"

text \<open>To every public key but one's own.\<close>

definition for_others ::
    "('w, 'h, 't, 'rng) http_env \<Rightarrow> 'id dkg_processed_args \<Rightarrow>
     (public_key \<Rightarrow> 'id \<Rightarrow> (('w, 'h, 't, 'id, 'p1, 'p2) dkg_http_comms \<times> ('h, 't) cipher, error, unit) io) \<Rightarrow>
     (('w, 'h, 't, 'id, 'p1, 'p2) dkg_http_comms \<times> ('h, 't) cipher, error, unit) io" where
  "for_others he args f s =
     for_io (keys_of he (hs_pubkeys (fst s))) (\<lambda>pubkey.
       if Some pubkey = dp_comm_pubkey args then ret_io ()
       else (case fmlookup (hs_pubkeys (fst s)) pubkey of None \<Rightarrow> ret_io () | Some i \<Rightarrow> f pubkey i)) s"

definition dkg_http_cipher ::
    "('w, 'h, 't, 'rng) http_env \<Rightarrow> 'id dkg_processed_args \<Rightarrow>
     (('w, 'h, 't, 'id, 'p1, 'p2) dkg_http_comms, error, unit) io" where
  "dkg_http_cipher he args s =
     (case (dp_comm_privkey args, dp_participant_pubkey_getter args) of
        (Some comm_privkey, Some getter) \<Rightarrow>
          try_io (lift_io (collect_results (map (\<lambda>pubkey. ok_or (getter pubkey)
              (Eyre ''A participant in specified FROST session is not registered in the user's address book''))
            (keys_of he (hs_pubkeys s))))) (\<lambda>peers.
          try_io (lift_io (cipher_new (he_snow he) comm_privkey peers)) (\<lambda>cipher s.
          (Inr (), s\<lparr>hb_cipher := Some cipher\<rparr>))) s
      | _ \<Rightarrow> (Inl (Eyre ''comm_privkey and comm_participant_pubkey_getter must be specified''), s))"

text \<open>The echo broadcast: every package received is sent on to every participant but its sender.\<close>

definition dkg_http_echo ::
    "('w, 'h, 't, 'rng) http_env \<Rightarrow> 'id::linorder dkg_processed_args \<Rightarrow> ('id, 'p1, 'p2) dkg_http_codec \<Rightarrow>
     (('w, 'h, 't, 'id, 'p1, 'p2) dkg_http_comms \<times> ('h, 't) cipher, error, unit) io" where
  "dkg_http_echo he args dc =
     for_others he args (\<lambda>recipient_pubkey recipient_identifier.
       try_io (\<lambda>s. (round1_packages (hs_state (fst s)), s)) (\<lambda>packages.
       for_io (sorted_list_of_fset (fmdom packages)) (\<lambda>sender_identifier.
         if sender_identifier = recipient_identifier then ret_io ()
         else (case fmlookup packages sender_identifier of
            None \<Rightarrow> ret_io ()
          | Some package \<Rightarrow> send_encrypted he (Some recipient_pubkey) [recipient_pubkey]
              (dkg_serb dc (sender_identifier, package))))))"

definition dkg_http_get_round1_packages ::
    "('w, 'h, 't, 'rng) http_env \<Rightarrow> 'id::linorder dkg_processed_args \<Rightarrow> ('id, 'p1, 'p2) dkg_http_codec \<Rightarrow> 'p1 \<Rightarrow>
     (('w, 'h, 't, 'id, 'p1, 'p2) dkg_http_comms, error, ('id, 'p1) fmap) iop" where
  "dkg_http_get_round1_packages he args dc round1_package =
     try_iop (run_io (dkg_http_cipher he args)) (\<lambda>_.
     try_iop (with_cipher (
       try_iop (run_io (for_others he args (\<lambda>pubkey _.
         send_encrypted he (Some pubkey) [pubkey] (dkg_ser1 dc round1_package)))) (\<lambda>_.
       try_iop (poll_until (dkg_http_round he dc) (\<lambda>(s, _). has_round1_packages (hs_state s))) (\<lambda>_ s.
       if has_round1_broadcast_packages (hs_state (fst s)) then Some (Inr (), s)
       else try_iop (run_io (dkg_http_echo he args dc)) (\<lambda>_.
         poll_until (dkg_http_round he dc) (\<lambda>(s, _). has_round1_broadcast_packages (hs_state s))) s)))) (\<lambda>_ s.
     Some (round1_packages (hs_state s), s)))"

definition dkg_http_get_round2_packages ::
    "('w, 'h, 't, 'rng) http_env \<Rightarrow> 'id dkg_processed_args \<Rightarrow> ('id, 'p1, 'p2) dkg_http_codec \<Rightarrow> ('id, 'p2) fmap \<Rightarrow>
     (('w, 'h, 't, 'id, 'p1, 'p2) dkg_http_comms, error, ('id, 'p2) fmap) iop" where
  "dkg_http_get_round2_packages he args dc round2_packages_to_send =
     try_iop (with_cipher (
       try_iop (run_io (for_others he args (\<lambda>pubkey identifier.
         try_io (lift_io (ok_or (fmlookup round2_packages_to_send identifier)
             (Eyre ''must have Round 2 Package for the given identifier''))) (\<lambda>package.
         send_encrypted he (Some pubkey) [pubkey] (dkg_ser2 dc package))))) (\<lambda>_.
       poll_until (dkg_http_round he dc) (\<lambda>(s, _). has_round2_packages (hs_state s))))) (\<lambda>_.
     try_iop (run_io (if dp_participants args \<noteq> [] then http_close_session he else ret_io ())) (\<lambda>_.
     try_iop (run_io (http_logout he)) (\<lambda>_ s.
     Some (round2_packages (hs_state s), s))))"

fun pubkey_identifier_map :: "('id, 'p1, 'p2) dkg_session_state \<Rightarrow> error + (public_key, 'id) fmap" where
  "pubkey_identifier_map (Round2PackagesReady pubkeys _) = Inr pubkeys"
| "pubkey_identifier_map _ = Inl (Eyre ''wrong state'')"

definition dkg_http_comms ::
    "('w, 'h, 't, 'rng) http_env \<Rightarrow> 'id::linorder dkg_processed_args \<Rightarrow> ('id, 'p1, 'p2) dkg_http_codec \<Rightarrow>
     (('w, 'h, 't, 'id, 'p1, 'p2) dkg_http_comms, 'id, 'p1, 'p2) dkg_comms" where
  "dkg_http_comms he args dc = \<lparr>
     get_identifier_and_max_signers = run_io (dkg_http_join he args dc),
     get_round1_packages = dkg_http_get_round1_packages he args dc,
     get_round2_packages = dkg_http_get_round2_packages he args dc,
     get_pubkey_identifier_map = (\<lambda>s. pubkey_identifier_map (hs_state s)),
     dkg_cleanup_on_error = run_io (http_cleanup he)\<rparr>"

end
