(* ===== verification/Dkg_Client_Runs.thy ===== *)
theory Dkg_Client_Runs
  imports Dkg_Client_Http
begin

text \<open>
  What the operations of the HTTP key generation keep and return, and their interpretation as a
  \<open>dkg_transport\<close>.
\<close>

section \<open>Framing\<close>

lemma frames_for_others [frame_intros]:
  assumes "\<And>p i. frames f (g p i)"
  shows "frames f (for_others he args g)"
proof -
  have "frames f (for_io xs (\<lambda>p. if Some p = dp_comm_pubkey args then ret_io ()
      else case fmlookup m p of None \<Rightarrow> ret_io () | Some i \<Rightarrow> g p i))" for xs m
    by (rule frames_for_io) (auto intro: frame_intros assms split: option.split)
  then show ?thesis by (simp add: frames_def for_others_def)
qed

lemma frames_echo [frame_intros]: "frames (\<lambda>s. hs_state (fst s)) (dkg_http_echo he args dc)"
proof -
  have r: "frames (\<lambda>s. hs_state (fst s)) (\<lambda>s. (round1_packages (hs_state (fst s)), s))"
    by (simp add: frames_def)
  show ?thesis
    unfolding dkg_http_echo_def
    by (intro frame_intros r) (auto intro: frame_intros split: option.split)
qed

lemma keeps_dkg_round:
  assumes "\<And>i m. keeps P (dkg_recv (dkg_de1 dc) (dkg_deb dc) (dkg_de2 dc) i m)"
  shows "keeps (\<lambda>s. P (hs_state (fst s))) (dkg_http_round he dc)"
proof -
  have k: "keeps P ((case i of None \<Rightarrow> (\<lambda>m st. (Inl (Panic ''must have been set''), st))
      | Some i \<Rightarrow> dkg_recv (dkg_de1 dc) (dkg_deb dc) (dkg_de2 dc) i) m)" for i m
    using assms by (cases i) (auto simp: keeps_def)
  show ?thesis
    unfolding dkg_http_round_def keeps_def
    by (intro allI impI keeps_round[OF k, unfolded keeps_def, rule_format])
qed

section \<open>The state of the session\<close>

definition dkg_for :: "(public_key, 'id) fmap \<Rightarrow> ('id, 'p1, 'p2) dkg_session_state \<Rightarrow> bool" where
  "dkg_for pks st \<longleftrightarrow> dkg_inv st \<and> dkg_pubkeys st = pks"

definition round2_for :: "'id fset \<Rightarrow> ('id, 'p1, 'p2) dkg_session_state \<Rightarrow> bool" where
  "round2_for D st \<longleftrightarrow> dkg_inv st \<and>
     (case st of WaitingForRound2Packages _ r1 _ \<Rightarrow> fmdom r1 = D
      | Round2PackagesReady _ r2 \<Rightarrow> fmdom r2 = D | _ \<Rightarrow> False)"

lemma keeps_dkg_for: "keeps (dkg_for pks) (dkg_recv de1 deb de2 i m)"
  by (rule keepsI) (metis dkg_for_def dkg_recv_inv dkg_recv_pubkeys prod.collapse)

lemma keeps_round2_for: "keeps (round2_for D) (dkg_recv de1 deb de2 i m)"
proof
  fix st :: "('a, 'b, 'c) dkg_session_state"
  assume a: "round2_for D st"
  then have "dkg_inv (snd (dkg_recv de1 deb de2 i m st))"
    by (intro dkg_recv_inv_snd) (simp add: round2_for_def)
  with a show "round2_for D (snd (dkg_recv de1 deb de2 i m st))"
    by (cases st) (auto simp: round2_for_def dkg_recv_def Let_def split: option.splits)
qed

lemma poll_dkg:
  assumes "\<And>i m. keeps P (dkg_recv (dkg_de1 dc) (dkg_deb dc) (dkg_de2 dc) i m)"
    and "poll_until (dkg_http_round he dc) (\<lambda>(s, _). ready (hs_state s)) x = Some (Inr (), y)"
    and "P (hs_state (fst x))"
  shows "P (hs_state (fst y))" and "ready (hs_state (fst y))"
  using poll_until_keeps[OF keeps_dkg_round[OF assms(1)] assms(2,3)] by (auto simp: case_prod_beta)

section \<open>Round 1\<close>

lemma dkg_cipher_state:
  "dkg_http_cipher he args s = (r, s') \<Longrightarrow> hs_state s' = hs_state s"
  by (auto simp: dkg_http_cipher_def try_io_def lift_io_def split: option.splits sum.splits prod.splits)

lemma with_cipher_Inr:
  "with_cipher m s = Some (Inr x, s') \<longleftrightarrow>
     (\<exists>c c' s1. hb_cipher s = Some c \<and> m (s, c) = Some (Inr x, (s1, c')) \<and> s' = s1\<lparr>hb_cipher := Some c'\<rparr>)"
  by (auto simp: with_cipher_def split: option.splits prod.splits)

lemma dkg_round1:
  assumes "dkg_for pks (hs_state s)"
    and "dkg_http_get_round1_packages he args dc p s = Some (Inr r1, s')"
  shows "\<exists>r2. hs_state s' = WaitingForRound2Packages pks r1 r2 \<and> dkg_inv (hs_state s')"
proof -
  let ?send = "for_others he args (\<lambda>pubkey _. send_encrypted he (Some pubkey) [pubkey] (dkg_ser1 dc p))"
  let ?poll = "\<lambda>ready. poll_until (dkg_http_round he dc) (\<lambda>(s, _). ready (hs_state s))"
  let ?rest = "\<lambda>x. if has_round1_broadcast_packages (hs_state (fst x)) then Some (Inr (), x)
    else try_iop (run_io (dkg_http_echo he args dc)) (\<lambda>_. ?poll has_round1_broadcast_packages) x"
  from assms(2) obtain s1 c x1 x2 s3 c3 where
    k: "dkg_http_cipher he args s = (Inr (), s1)" and sd: "?send (s1, c) = (Inr (), x1)" and
    p1: "?poll has_round1_packages x1 = Some (Inr (), x2)" and re: "?rest x2 = Some (Inr (), (s3, c3))" and
    s': "hs_state s' = hs_state s3" "round1_packages (hs_state s') = Inr r1"
    unfolding dkg_http_get_round1_packages_def try_iop_Some_Inr with_cipher_Inr run_io_simps
    by (force simp: try_iop_Some_Inr simp del: try_iop_simps)
  have st: "frames (\<lambda>s. hs_state (fst s)) ?send" by (intro frame_intros)
  have "dkg_for pks (hs_state (fst x1))"
    using assms(1) dkg_cipher_state[OF k] framesD[OF st sd] by simp
  from poll_dkg(1)[OF keeps_dkg_for p1 this] have x2: "dkg_for pks (hs_state (fst x2))" .
  have "dkg_for pks (hs_state s3) \<and> has_round1_broadcast_packages (hs_state s3)"
  proof (cases "has_round1_broadcast_packages (hs_state (fst x2))")
    case True
    with re x2 show ?thesis by auto
  next
    case False
    with re obtain x3 where e: "dkg_http_echo he args dc x2 = (Inr (), x3)" and
      p2: "?poll has_round1_broadcast_packages x3 = Some (Inr (), (s3, c3))"
      by (auto simp: try_iop_Some_Inr simp del: try_iop_simps)
    have "dkg_for pks (hs_state (fst x3))" using x2 framesD[OF frames_echo e] by simp
    from poll_dkg[OF keeps_dkg_for p2 this] show ?thesis by simp
  qed
  with s' show ?thesis by (cases "hs_state s3") (auto simp: dkg_for_def)
qed

section \<open>Round 2\<close>

lemma dkg_round2:
  assumes "round2_for D (hs_state s)"
    and "dkg_http_get_round2_packages he args dc ps s = Some (Inr r2, s')"
  shows "fmdom r2 = D" and "\<exists>pks. hs_state s' = Round2PackagesReady pks r2 \<and> dkg_inv (hs_state s')"
proof -
  let ?send = "for_others he args (\<lambda>pubkey identifier.
    try_io (lift_io (ok_or (fmlookup ps identifier) (Eyre ''must have Round 2 Package for the given identifier'')))
      (\<lambda>package. send_encrypted he (Some pubkey) [pubkey] (dkg_ser2 dc package)))"
  let ?poll = "poll_until (dkg_http_round he dc) (\<lambda>(s, _). has_round2_packages (hs_state s))"
  from assms(2) obtain c x1 s2 c2 s3 s4 where
    sd: "?send (s, c) = (Inr (), x1)" and p: "?poll x1 = Some (Inr (), (s2, c2))" and
    cl: "(if dp_participants args \<noteq> [] then http_close_session he else ret_io ()) (s2\<lparr>hb_cipher := Some c2\<rparr>)
      = (Inr (), s3)" and lo: "http_logout he s3 = (Inr (), s4)" and
    s': "s' = s4" "round2_packages (hs_state s4) = Inr r2"
    unfolding dkg_http_get_round2_packages_def try_iop_Some_Inr with_cipher_Inr run_io_simps
    by (force simp: try_iop_Some_Inr simp del: try_iop_simps)
  have "frames (\<lambda>s. hs_state (fst s)) ?send" by (intro frame_intros)
  from framesD[OF this sd] assms(1) have "round2_for D (hs_state (fst x1))" by simp
  from poll_dkg(1)[OF keeps_round2_for p this] have r: "round2_for D (hs_state s2)" by simp
  have "frames hs_state (if dp_participants args \<noteq> [] then http_close_session he else ret_io ())"
    by (auto intro: frame_intros)
  from framesD[OF this cl] framesD[OF frames_logout(3) lo] have "hs_state s4 = hs_state s2" by simp
  with r s' show "fmdom r2 = D" "\<exists>pks. hs_state s' = Round2PackagesReady pks r2 \<and> dkg_inv (hs_state s')"
    by (cases "hs_state s2"; auto simp: round2_for_def)+
qed

section \<open>Joining\<close>

lemma fold_fmupd_lookup:
  assumes "\<forall>(p, i)\<in>set pairs. f p = Inr i" and "\<forall>p i. fmlookup m p = Some i \<longrightarrow> f p = Inr i"
  shows "fmdom (fold (\<lambda>(p, i). fmupd p i) pairs m) = fset_of_list (map fst pairs) |\<union>| fmdom m"
    and "fmlookup (fold (\<lambda>(p, i). fmupd p i) pairs m) p = Some i \<Longrightarrow> f p = Inr i"
  using assms
proof (induction pairs arbitrary: m)
  case Nil
  { case 1 show ?case by simp }
  { case 2 then show ?case by simp }
next
  case (Cons x pairs)
  obtain p0 i0 where x: "x = (p0, i0)" by fastforce
  { case 1
    then have "\<forall>p i. fmlookup (fmupd p0 i0 m) p = Some i \<longrightarrow> f p = Inr i" using x by auto
    with Cons.IH(1)[of "fmupd p0 i0 m"] 1 x show ?case by auto }
  { case 2
    then have "\<forall>p i. fmlookup (fmupd p0 i0 m) p = Some i \<longrightarrow> f p = Inr i" using x by auto
    with Cons.IH(2)[of "fmupd p0 i0 m"] 2 x show ?case by auto }
qed

lemma derive_all_Inr:
  assumes "derive_all he dc sid pubkeys = Inr m"
  shows "fmdom m = fset_of_list pubkeys"
    and "fmlookup m p = Some i \<Longrightarrow> derive_identifier he dc sid p = Inr i"
proof -
  from assms obtain pairs where p: "map (\<lambda>p. tryr (derive_identifier he dc sid p) (\<lambda>i. Inr (p, i))) pubkeys = map Inr pairs"
    and m: "m = fold (\<lambda>(p, i). fmupd p i) pairs fmempty"
    by (auto simp: derive_all_def collect_results_eq_Inr)
  have l: "length pairs = length pubkeys" using arg_cong[OF p, of length] by simp
  have at: "fst (pairs ! k) = pubkeys ! k \<and> derive_identifier he dc sid (pubkeys ! k) = Inr (snd (pairs ! k))"
    if "k < length pairs" for k
  proof -
    from p have "map (\<lambda>p. tryr (derive_identifier he dc sid p) (\<lambda>i. Inr (p, i))) pubkeys ! k = map Inr pairs ! k"
      by simp
    with that l have "Inr (pairs ! k) = tryr (derive_identifier he dc sid (pubkeys ! k)) (\<lambda>i. Inr (pubkeys ! k, i))"
      by (simp del: tryr_eq_Inr)
    then show ?thesis by (cases "derive_identifier he dc sid (pubkeys ! k)") auto
  qed
  have f: "map fst pairs = pubkeys" using at l by (intro nth_equalityI) auto
  have "\<forall>(p, i)\<in>set pairs. derive_identifier he dc sid p = Inr i"
    using at l by (fastforce simp: in_set_conv_nth)
  then have "\<forall>(p, i)\<in>set pairs. derive_identifier he dc sid p = Inr i"
    and e: "\<forall>p i. fmlookup fmempty p = Some i \<longrightarrow> derive_identifier he dc sid p = Inr i" by simp_all
  note fl = fold_fmupd_lookup[OF this]
  show "fmdom m = fset_of_list pubkeys" using fl(1) by (simp add: m f)
  show "fmlookup m p = Some i \<Longrightarrow> derive_identifier he dc sid p = Inr i" unfolding m by (rule fl(2))
qed

lemma choose_state: "hs_state (snd (choose_session he e s)) = hs_state s"
proof -
  let ?ask = "try_io (client_op (client_list_sessions (he_client he))) (\<lambda>r.
      if length (ls_session_ids r) > 1 then fail_io (Eyre MANY_SESSIONS)
      else (case ls_session_ids r of [] \<Rightarrow> fail_io (Eyre e) | sid # _ \<Rightarrow> ret_io sid))"
  have "frames hs_state ?ask"
    by (rule frames_try_io[OF frames_client_op(3)]) (auto intro: frames_basic split: list.split)
  then have a: "hs_state (snd (?ask s)) = hs_state s" unfolding frames_def by blast
  show ?thesis
    unfolding choose_session_def by (cases "hb_session_id s") (simp only: option.case a, simp)
qed

lemma frames_choose [frame_intros]: "frames hs_state (choose_session he e)"
  by (simp add: frames_def choose_state)

lemma frames_open [frame_intros]: "frames hs_state (dkg_open_session he args)"
  unfolding dkg_open_session_def by (auto intro!: frame_intros)

lemma copy_pubkeys_Inr: "copy_pubkeys pks st = (Inr (), st') \<Longrightarrow>
  \<exists>ps r1. st = WaitingForRound1Packages ps r1 \<and> st' = WaitingForRound1Packages pks r1"
  by (cases st) auto

lemma dkg_http_join_Inr:
  assumes "dkg_http_join he args dc s = (Inr (i, n), s')" and "hs_state s = dkg_default"
  shows "\<exists>sid (info :: get_session_info_output) pk. hb_session_id s' = Some sid \<and> dp_comm_pubkey args = Some pk \<and>
      derive_identifier he dc sid pk = Inr i \<and> derive_all he dc sid (gi_pubkeys info) = Inr (hs_pubkeys s')"
    and "n = of_nat (fmsize (hs_pubkeys s'))" and "2 \<le> fmsize (hs_pubkeys s')"
    and "hs_state s' = WaitingForRound1Packages (hs_pubkeys s') fmempty" and "dh_identifier s' = Some i"
proof -
  from assms(1) obtain lo s1 pk sid s2 info s3 pks s4 where
    l: "http_login he (dp_comm_privkey args) (dp_comm_pubkey args) s = (Inr lo, s1)" and
    pk: "dp_comm_pubkey args = Some pk" and o: "dkg_open_session he args s1 = (Inr sid, s2)" and
    gi: "client_op (client_get_session_info (he_client he) \<lparr>gi_session_id = sid\<rparr>) (s2\<lparr>hb_session_id := Some sid\<rparr>)
      = (Inr info, s3)" and
    d: "derive_all he dc sid (gi_pubkeys info) = Inr pks" and n: "2 \<le> fmsize pks" and
    c: "on_state (copy_pubkeys pks) (s3\<lparr>hs_pubkeys := pks\<rparr>) = (Inr (), s4)" and
    di: "derive_identifier he dc sid pk = Inr i" and
    s': "s' = s4\<lparr>dh_identifier := Some i\<rparr>" "n = of_nat (fmsize pks)"
    unfolding dkg_http_join_def
    by (auto simp: try_io_eq_Inr simp del: try_io_lift split: if_split_asm)
  have "hs_state s3 = hs_state s"
    using framesD[OF frames_login(3) l] framesD[OF frames_open o] framesD[OF frames_client_op(3) gi] by simp
  with c assms(2) have s4: "hs_state s4 = WaitingForRound1Packages pks fmempty" "hs_pubkeys s4 = pks"
    "hb_session_id s4 = hb_session_id s3"
    by (auto simp: on_state_def dkg_default_def)
  moreover have "hb_session_id s3 = Some sid" using framesD[OF frames_client_op(1) gi] by simp
  ultimately show "\<exists>sid (info :: get_session_info_output) pk. hb_session_id s' = Some sid \<and>
      dp_comm_pubkey args = Some pk \<and> derive_identifier he dc sid pk = Inr i \<and>
      derive_all he dc sid (gi_pubkeys info) = Inr (hs_pubkeys s')"
    using pk di d s' by auto
  show "n = of_nat (fmsize (hs_pubkeys s'))" "2 \<le> fmsize (hs_pubkeys s')"
    "hs_state s' = WaitingForRound1Packages (hs_pubkeys s') fmempty" "dh_identifier s' = Some i"
    using s4 s' n by auto
qed

section \<open>The interpretation\<close>

interpretation dkg_http: dkg_transport "dkg_http_comms he args dc" "\<lambda>s. hs_state s = dkg_default"
    "\<lambda>i n s. \<exists>pks. dkg_for pks (hs_state s) \<and> n = of_nat (fmsize pks)"
    "\<lambda>i n r1 s. \<exists>pks r2. hs_state s = WaitingForRound2Packages pks r1 r2 \<and> dkg_inv (hs_state s)"
    "\<lambda>i n r1. of_nat (fmsize r1 + 1) = n" "\<lambda>r1 r2. fmdom r2 = fmdom r1"
proof
  fix s s' i n
  assume "hs_state s = dkg_default"
    and "get_identifier_and_max_signers (dkg_http_comms he args dc) s = Some (Inr (i, n), s')"
  then have "dkg_http_join he args dc s = (Inr (i, n), s')" "hs_state s = dkg_default"
    by (simp_all add: dkg_http_comms_def)
  from dkg_http_join_Inr(2-4)[OF this] show "\<exists>pks. dkg_for pks (hs_state s') \<and> n = of_nat (fmsize pks)"
    by (auto simp: dkg_for_def)
next
  fix i n s p r1 s'
  assume "\<exists>pks. dkg_for pks (hs_state s) \<and> n = of_nat (fmsize pks)"
    and "get_round1_packages (dkg_http_comms he args dc) p s = Some (Inr r1, s')"
  then obtain pks where "dkg_for pks (hs_state s)" and n: "n = of_nat (fmsize pks)"
    and "dkg_http_get_round1_packages he args dc p s = Some (Inr r1, s')"
    by (auto simp: dkg_http_comms_def)
  from dkg_round1[OF this(1,3)] obtain r2 where
    "hs_state s' = WaitingForRound2Packages pks r1 r2" "dkg_inv (hs_state s')" by blast
  moreover from this have "fmsize r1 + 1 = fmsize pks" by simp
  ultimately show "of_nat (fmsize r1 + 1) = n \<and>
      (\<exists>pks r2. hs_state s' = WaitingForRound2Packages pks r1 r2 \<and> dkg_inv (hs_state s'))"
    using n by (metis (mono_tags))
next
  fix i n r1 s ps r2 s'
  assume "\<exists>pks r2. hs_state s = WaitingForRound2Packages pks r1 r2 \<and> dkg_inv (hs_state s)"
    and r: "get_round2_packages (dkg_http_comms he args dc) ps s = Some (Inr r2, s')"
  then have "round2_for (fmdom r1) (hs_state s)" by (auto simp: round2_for_def)
  from dkg_round2(1)[OF this] r show "fmdom r2 = fmdom r1" by (simp add: dkg_http_comms_def)
qed

end
