(* ===== verification/Dkg_Client_Cli.thy ===== *)
theory Dkg_Client_Cli
  imports Dkg_Client_Http
begin

text \<open>
  The command line transport of the distributed key generation (\<open>dkg/comms/cli.rs\<close>), the choice of
  the transport and the command line program (\<open>cli_for_processed_args\<close> and \<open>cli\<close> of \<open>dkg/cli.rs\<close>).
\<close>

section \<open>Operations\<close>

definition NL :: string where
  "NL = [CHR 0x0A]"

definition dkg_cli_identifier :: "'id dkg_processed_args \<Rightarrow> error + 'id \<times> 16 word" where
  "dkg_cli_identifier args =
     tryr (ok_or (dp_identifier args) (Eyre ''identifier must be specified'')) (\<lambda>identifier.
     tryr (ok_or (dp_max_signers args) (Eyre ''max_signers must be specified'')) (\<lambda>max_signers.
     Inr (identifier, max_signers)))"

text \<open>\<open>max_signers - 1\<close> on \<open>u16\<close>, with overflow checks.\<close>

definition others_count :: "'id dkg_processed_args \<Rightarrow> error + nat" where
  "others_count args =
     tryr (ok_or (dp_max_signers args) (Eyre ''max_signers must be specified'')) (\<lambda>max_signers.
     if max_signers = 0 then Inl (Panic ''attempt to subtract with overflow'') else Inr (unat max_signers - 1))"

fun read_packages ::
    "(console, error, 'id \<times> 'p) io \<Rightarrow> nat \<Rightarrow> ('id, 'p) fmap \<Rightarrow> (console, error, ('id, 'p) fmap) io" where
  "read_packages read 0 pkgs = ret_io pkgs"
| "read_packages read (Suc k) pkgs =
     try_io read (\<lambda>(identifier, package).
     try_io (writeln []) (\<lambda>_.
     read_packages read k (fmupd identifier package pkgs)))"

definition dkg_cli_get_round1_packages ::
    "text_env \<Rightarrow> 'id dkg_processed_args \<Rightarrow> ('id, 'p1, 'p2, 'kp, 'pkp) dkg_codec \<Rightarrow> 'p1 \<Rightarrow>
     (console, error, ('id, 'p1) fmap) io" where
  "dkg_cli_get_round1_packages te args dc round1_package =
     try_io (lift_io (ok_or (dp_max_signers args) (Eyre ''max_signers must be specified''))) (\<lambda>_.
     try_io (writeln (NL @ ''=== ROUND 1: SEND PACKAGES ==='' @ NL)) (\<lambda>_.
     try_io (lift_io (ok_or (dp_identifier args) (Eyre ''identifier must be specified''))) (\<lambda>identifier.
     try_io (writeln (''Round 1 Package to send to all other participants (your identifier: '' @
         dkg_id_json dc identifier @ ''):'' @ NL @ NL @ round1_json dc round1_package @ NL)) (\<lambda>_.
     try_io (writeln (''=== ROUND 1: RECEIVE PACKAGES ==='' @ NL)) (\<lambda>_.
     try_io (lift_io (others_count args)) (\<lambda>others.
     try_io (writeln (''Input Round 1 Packages from the other '' @ decimal others @ '' participants.'' @ NL)) (\<lambda>_.
     read_packages (read_round1_package te dc) others fmempty)))))))"

definition dkg_cli_get_round2_packages ::
    "text_env \<Rightarrow> 'id::linorder dkg_processed_args \<Rightarrow> ('id, 'p1, 'p2, 'kp, 'pkp) dkg_codec \<Rightarrow> ('id, 'p2) fmap \<Rightarrow>
     (console, error, ('id, 'p2) fmap) io" where
  "dkg_cli_get_round2_packages te args dc round2_packages_to_send =
     try_io (lift_io (ok_or (dp_max_signers args) (Eyre ''max_signers must be specified''))) (\<lambda>_.
     try_io (writeln (''=== ROUND 2: SEND PACKAGES ==='' @ NL)) (\<lambda>_.
     try_io (for_io (sorted_list_of_fset (fmdom round2_packages_to_send)) (\<lambda>identifier.
       case fmlookup round2_packages_to_send identifier of None \<Rightarrow> ret_io () | Some package \<Rightarrow>
       try_io (lift_io (ok_or (dp_identifier args) (Eyre ''identifier must be specified''))) (\<lambda>self.
       writeln (''Round 2 Package to send to participant '' @ dkg_id_json dc identifier @ '' (your identifier: '' @
         dkg_id_json dc self @ ''):'' @ NL @ NL @ round2_json dc package @ NL)))) (\<lambda>_.
     try_io (writeln (''=== ROUND 2: RECEIVE PACKAGES ==='' @ NL)) (\<lambda>_.
     try_io (lift_io (others_count args)) (\<lambda>others.
     try_io (writeln (''Input Round 2 Packages from the other '' @ decimal others @ '' participants.'' @ NL)) (\<lambda>_.
     try_io (read_packages (read_round2_package te dc) others fmempty) (\<lambda>pkgs.
     try_io (writeln ''=== DKG FINISHED ==='') (\<lambda>_.
     ret_io pkgs))))))))"

definition dkg_cli_comms ::
    "text_env \<Rightarrow> 'id::linorder dkg_processed_args \<Rightarrow> ('id, 'p1, 'p2, 'kp, 'pkp) dkg_codec \<Rightarrow>
     (console, 'id, 'p1, 'p2) dkg_comms" where
  "dkg_cli_comms te args dc = \<lparr>
     get_identifier_and_max_signers = run_io (lift_io (dkg_cli_identifier args)),
     get_round1_packages = (\<lambda>p. run_io (dkg_cli_get_round1_packages te args dc p)),
     get_round2_packages = (\<lambda>ps. run_io (dkg_cli_get_round2_packages te args dc ps)),
     get_pubkey_identifier_map = (\<lambda>_. Inr fmempty),
     dkg_cleanup_on_error = run_io (ret_io ())\<rparr>"

section \<open>The programs\<close>

text \<open>\<open>cli_for_processed_args\<close> on the console and the world beyond the network.\<close>

definition cli_for_processed_args ::
    "text_env \<Rightarrow> ('w, 'h, 't, 'rng) http_env \<Rightarrow> ('id::linorder, 'rng2, 's1, 's2, 'p1, 'p2, 'kp, 'pkp) dkg_ops \<Rightarrow>
     ('id, 'p1, 'p2, 'kp, 'pkp) dkg_codec \<Rightarrow> ('id, 'p1, 'p2) dkg_http_codec \<Rightarrow> 'id dkg_processed_args \<Rightarrow> 'rng2 \<Rightarrow>
     (console \<times> 'w, error, 'kp \<times> 'pkp \<times> (public_key, 'id) fmap) iop" where
  "cli_for_processed_args te he ops dc hc pargs rng s =
     (case s of (c, w) \<Rightarrow>
        if dp_cli pargs
        then (case dkg_run_comms ops (dkg_cli_comms te pargs dc) (dp_min_signers pargs) rng c of
            None \<Rightarrow> None | Some (r, c') \<Rightarrow> Some (r, (c', w)))
        else if dp_http pargs
        then (case dkg_run_comms ops (dkg_http_comms he pargs hc) (dp_min_signers pargs) rng (dkg_http_new pargs w) of
            None \<Rightarrow> None | Some (r, s') \<Rightarrow> Some (r, (c, hb_world s')))
        else Some (Inl (Eyre ''either --cli or --http must be specified''), s))"

definition dkg_cli ::
    "text_env \<Rightarrow> ('w, 'h, 't, 'rng) http_env \<Rightarrow> ('id::linorder, 'rng2, 's1, 's2, 'p1, 'p2, 'kp, 'pkp) dkg_ops \<Rightarrow>
     ('id, 'p1, 'p2, 'kp, 'pkp) dkg_codec \<Rightarrow> ('id, 'p1, 'p2) dkg_http_codec \<Rightarrow> 'rng2 \<Rightarrow>
     (console \<times> 'w, error, unit) iop" where
  "dkg_cli te he ops dc hc rng =
     try_iop (run_io (first_io (request_inputs dc))) (\<lambda>config.
     try_iop (cli_for_processed_args te he ops dc hc (dkg_processed_args_new config) rng)
       (\<lambda>(key_package, public_key_package, _).
     run_io (first_io (
       try_io (writeln (''Participant key package:'' @ NL @ NL @ key_package_json dc key_package @ NL)) (\<lambda>_.
       writeln (''Participant public key package:'' @ NL @ NL @ public_key_package_json dc public_key_package @ NL))))))"

section \<open>What the operations return\<close>

lemma read_packages_size:
  "read_packages read k r c = (Inr r', c') \<Longrightarrow> fmsize r' \<le> fmsize r + k \<and> fmdom r |\<subseteq>| fmdom r'"
proof (induction k arbitrary: r c)
  case 0
  then show ?case by simp
next
  case (Suc k)
  then obtain i p c1 where "read_packages read k (fmupd i p r) c1 = (Inr r', c')"
    by (auto simp: try_io_eq_Inr)
  from Suc.IH[OF this] show ?case by (auto split: if_splits)
qed

lemma dkg_cli_round1:
  assumes "dkg_cli_get_round1_packages te args dc p c = (Inr r1, c')"
  shows "\<exists>n. dp_max_signers args = Some n \<and> n \<noteq> 0 \<and> fmsize r1 < unat n"
proof -
  from assms obtain n k c1 where "dp_max_signers args = Some n" "others_count args = Inr k"
    "read_packages (read_round1_package te dc) k fmempty c1 = (Inr r1, c')"
    unfolding dkg_cli_get_round1_packages_def by (auto simp: try_io_eq_Inr simp del: try_io_lift)
  note o = this
  from read_packages_size[OF o(3)] have "fmsize r1 \<le> k" by simp
  moreover from o(1,2) have "n \<noteq> 0" "k = unat n - 1" by (simp_all add: others_count_def split: if_split_asm)
  moreover from this have "0 < unat n" by (simp add: unat_gt_0)
  ultimately show ?thesis using o(1) by simp
qed

interpretation dkg_cli: dkg_transport "dkg_cli_comms te args dc" "\<lambda>c. True"
    "\<lambda>i n c. dp_identifier args = Some i \<and> dp_max_signers args = Some n" "\<lambda>i n r1 c. True"
    "\<lambda>i n r1. dp_identifier args = Some i \<and> dp_max_signers args = Some n \<and> fmsize r1 < unat n" "\<lambda>r1 r2. True"
  by unfold_locales (auto simp: dkg_cli_comms_def dkg_cli_identifier_def dest: dkg_cli_round1)

end
