(* ===== verification/Dkg_Client_Props.thy ===== *)
theory Dkg_Client_Props
  imports Dkg_Client_Runs Dkg_Client_Cli Http_Examples
begin

text \<open>
  What the distributed key generation returns over HTTP, how identifiers are derived, what the
  command line accepts, and a batch of messages after which the HTTP client waits for ever.
\<close>

section \<open>Keys\<close>

text \<open>What the conversion documents: the converted public key package has an even Y coordinate.\<close>

definition even_y_law :: "('id, 'rng, 's1, 's2, 'p1, 'p2, 'kp, 'pkp) dkg_ops \<Rightarrow> bool" where
  "even_y_law ops \<longleftrightarrow> (\<forall>pkp. has_even_y ops (pkp_into_even_y ops pkp (Some (has_even_y ops pkp))))"

lemma maybe_into_even_y_even:
  "even_y_law ops \<Longrightarrow> suite_is_redpallas ops \<Longrightarrow> (kp, pkp) = maybe_into_even_y ops keys \<Longrightarrow> has_even_y ops pkp"
  by (cases keys) (auto simp: maybe_into_even_y_def even_y_law_def Let_def)


definition ex_dkg_ops :: "(nat, nat, nat, nat, nat, nat, nat, bool) dkg_ops" where
  "ex_dkg_ops = \<lparr>part1 = (\<lambda>i n m r. Inr (r, r)), part2 = (\<lambda>s r1. Inr (s, fmmap (\<lambda>_. 0) r1)),
     part3 = (\<lambda>s r1 r2. Inr (s, False)), suite_is_redpallas = True, has_even_y = (\<lambda>b. b),
     kp_into_even_y = (\<lambda>k _. k), pkp_into_even_y = (\<lambda>_ _. True)\<rparr>"

definition ex_dkg_codec :: "(nat, nat, nat) dkg_http_codec" where
  "ex_dkg_codec = \<lparr>id_derive = (\<lambda>b. Inr (unat (last b))), dkg_de1 = (\<lambda>b. Some (unat (hd b))), dkg_deb = (\<lambda>b. None),
     dkg_de2 = (\<lambda>b. Some (unat (hd b))), dkg_ser1 = (\<lambda>_. []), dkg_serb = (\<lambda>_. []), dkg_ser2 = (\<lambda>_. [])\<rparr>"

definition ex_dkg_args :: "nat dkg_processed_args" where
  "ex_dkg_args = \<lparr>dp_cli = False, dp_http = True, dp_ip = ''::1'', dp_port = 443, dp_comm_privkey = Some ex_key32,
     dp_comm_pubkey = Some (PublicKey [1]), dp_participant_pubkey_getter = Some Some, dp_min_signers = 2,
     dp_max_signers = None, dp_participants = [PublicKey [1], PublicKey [2]], dp_identifier = None\<rparr>"

text \<open>
  A run of two participants: challenge, login, session, its information; the package sent, that of
  the other one; round 2 likewise; closing and logging out.
\<close>

definition ex_dkg_world :: "http_reply list" where
  "ex_dkg_world = [ex_ok [], ex_ok [], ex_ok [], ex_ok [1, 2], ex_ok [], ex_ok [2, 77], ex_ok [], ex_ok [2, 78],
     ex_ok [], ex_ok []]"

definition ex_dkg_run where
  "ex_dkg_run w = dkg_run_comms ex_dkg_ops (dkg_http_comms ex_http ex_dkg_args ex_dkg_codec) 2 5 (dkg_http_new ex_dkg_args w)"

lemmas ex_dkg_defs = dkg_http_new_def ex_dkg_args_def dkg_http_comms_def dkg_http_join_def client_new_def
  dkg_open_session_def derive_all_def derive_identifier_def ex_dkg_codec_def dkg_default_def

lemma ex_dkg_join:
  "\<exists>s'. dkg_http_join ex_http ex_dkg_args ex_dkg_codec (dkg_http_new ex_dkg_args ex_dkg_world) = (Inr (1, 2), s') \<and>
     hs_pubkeys s' = fmupd (PublicKey [2]) 2 (fmupd (PublicKey [1]) 1 fmempty)"
  by (simp add: ex_dkg_defs ex_dkg_world_def ex_http_eval)

lemma ex_dkg_run: "\<exists>s'. ex_dkg_run ex_dkg_world =
  Some (Inr (5, True, fmupd (PublicKey [2]) 2 (fmupd (PublicKey [1]) 1 fmempty)), s')"
  by (simp add: ex_dkg_run_def ex_dkg_defs ex_dkg_world_def dkg_run_comms_def dkg_doit_def ex_dkg_ops_def
      dkg_http_get_round1_packages_def dkg_http_cipher_def for_others_def dkg_http_round_def dkg_recv_def
      dkg_http_get_round2_packages_def maybe_into_even_y_def poll_until.simps insert_commute ex_http_eval)


section \<open>Identifiers\<close>



section \<open>Waiting for ever\<close>

text \<open>The network delivers nothing more: every further request for messages gives none.\<close>

definition quiet :: "('w, 'h, 't, 'rng) http_env \<Rightarrow> ('w \<Rightarrow> bool) \<Rightarrow> bool" where
  "quiet he Q \<longleftrightarrow> (\<forall>w c ra. Q w \<longrightarrow>
     (\<exists>w'. client_receive (he_client he) ra (w, c) = (Inr \<lparr>ro_msgs = []\<rparr>, (w', c)) \<and> Q (he_sleep he w')))"

lemma quiet_round:
  assumes "quiet he Q" and "Q (hb_world s)" and "hb_session_id s = Some sid"
  shows "\<exists>w. dkg_http_round he dc (s, c) = (Inr (), (s\<lparr>hb_world := w\<rparr>, c)) \<and> Q w"
proof -
  from assms(1,2) obtain w' where w: "client_receive (he_client he) \<lparr>ra_session_id = sid, ra_as_coordinator = False\<rparr>
      (hb_world s, hb_client s) = (Inr \<lparr>ro_msgs = []\<rparr>, (w', hb_client s))" "Q (he_sleep he w')"
    unfolding quiet_def by blast
  have "dkg_http_round he dc (s, c) = (Inr (), (s\<lparr>hb_world := he_sleep he w'\<rparr>, c))"
    using assms(3) w(1)
    by (simp add: dkg_http_round_def receive_round_def receive_messages_def http_sleep_def first_io_def session_id_def
        client_op_def try_io_def)
  with w(2) show ?thesis by blast
qed

lemma quiet_loop:
  fixes he :: "('w, 'h, 't, 'rng) http_env" and dc :: "('id, 'p1, 'p2) dkg_http_codec"
    and s :: "('w, 'h, 't, 'id, 'p1, 'p2) dkg_http_comms" and c :: "('h, 't) cipher"
  assumes "quiet he Q" and "Q (hb_world s)" and "hb_session_id s = Some sid" and "\<not> ready (hs_state s)"
  shows "poll_until (dkg_http_round he dc) (\<lambda>(s, _). ready (hs_state s)) (s, c) = None"
proof (rule poll_until_diverges[where I = "\<lambda>(s, _). Q (hb_world s) \<and> hb_session_id s = Some sid \<and> \<not> ready (hs_state s)"])
  show "case (s, c) of (s, _) \<Rightarrow> Q (hb_world s) \<and> hb_session_id s = Some sid \<and> \<not> ready (hs_state s)"
    using assms by simp
  fix x :: "('w, 'h, 't, 'id, 'p1, 'p2) dkg_http_comms \<times> ('h, 't) cipher"
  assume i: "case x of (s, _) \<Rightarrow> Q (hb_world s) \<and> hb_session_id s = Some sid \<and> \<not> ready (hs_state s)"
  obtain s1 c1 where x: "x = (s1, c1)" by (cases x)
  from i x quiet_round[OF assms(1), of s1 sid dc c1] obtain w where
    "dkg_http_round he dc x = (Inr (), (s1\<lparr>hb_world := w\<rparr>, c1))" "Q w" by auto
  with i x show "\<exists>u w'. dkg_http_round he dc x = (Inr u, w') \<and> \<not> (case w' of (s, _) \<Rightarrow> ready (hs_state s)) \<and>
      (case w' of (s, _) \<Rightarrow> Q (hb_world s) \<and> hb_session_id s = Some sid \<and> \<not> ready (hs_state s))"
    by auto
qed


definition ex_dkg_hang ::
    "(http_reply list, unit, unit, nat, nat, nat) dkg_http_comms \<times> (unit, unit) cipher" where
  "ex_dkg_hang = (\<lparr>hb_world = [ex_ok [0, 2, 77, 2, 78]], hb_client = client_new [], hb_session_id = Some 5, hb_cipher = None,
     hs_state = WaitingForRound1Packages (fmupd (PublicKey [2]) 2 (fmupd (PublicKey [1]) 1 fmempty)) fmempty,
     hs_pubkeys = fmempty, dh_identifier = Some 1\<rparr>,
     \<lparr>ci_send_noise_map = fmempty, ci_recv_noise_map = fmupd (PublicKey [2]) (noise_new ()) fmempty\<rparr>)"


section \<open>The inputs of the command line\<close>

lemma trim_decimal [simp]: "trim (decimal n) = decimal n"
proof -
  have ns: "is_digit c \<Longrightarrow> \<not> is_space c" for c by (auto simp: is_digit_def is_space_def)
  have "dropWhile is_space xs = xs" if "list_all is_digit xs" for xs
    using that ns by (cases xs) auto
  then show ?thesis using decimal_digits[of n] by (simp add: trim_def list_all_rev)
qed

text \<open>
  The inputs of the command line key generation. Three numbers typed in decimal are accepted
  exactly when the threshold is at least two and at most the number of signers and the third is an
  identifier, and are then the configuration; otherwise the error is the one of the first check
  that fails.
\<close>

theorem request_inputs_correct:
  assumes "a \<le> 65535" and "b \<le> 65535" and "i \<le> 65535" and "co_input c = decimal a # decimal b # decimal i # rest"
  shows "fst (request_inputs dc c) =
    (case id_of_u16 dc (of_nat i) of
       Inl e \<Rightarrow> Inl (Frost_Error e)
     | Inr ident \<Rightarrow>
         if a < 2 then Inl (Frost_Error ''InvalidMinSigners'')
         else if b < 2 then Inl (Frost_Error ''InvalidMaxSigners'')
         else if b < a then Inl (Frost_Error ''InvalidMinSigners'')
         else Inr \<lparr>dc_min_signers = of_nat a, dc_max_signers = of_nat b, dc_identifier = ident\<rparr>)"
proof -
  have l: "(of_nat x :: 16 word) < of_nat y \<longleftrightarrow> x < y" if "x \<le> 65535" "y \<le> 65535" for x y
    using that by (simp add: word_less_nat_alt unsigned_of_nat take_bit_nat_eq_self)
  have l2: "(of_nat x :: 16 word) < 2 \<longleftrightarrow> x < 2" if "x \<le> 65535" for x
    using l[OF that, of 2] by simp
  show ?thesis
    using assms
    by (simp add: request_inputs_def read_u16_def writeln_def read_line_def try_io_def parse_u16_decimal
        validate_inputs_def l l2 split: sum.split)
qed

definition ex_dkg_cli_codec :: "(nat, nat, nat, nat, bool) dkg_codec" where
  "ex_dkg_cli_codec = \<lparr>id_of_u16 = (\<lambda>w. if w = 0 then Inl ''InvalidZeroScalar'' else Inr (unat w)),
     dkg_id_deserialize = (\<lambda>b. Inr (length b)), dkg_id_json = (\<lambda>_. []), round1_of_json = (\<lambda>s. Some (length s)),
     round2_of_json = (\<lambda>s. Some (length s)), round1_json = (\<lambda>_. []), round2_json = (\<lambda>_. []),
     key_package_json = (\<lambda>_. []), public_key_package_json = (\<lambda>_. [])\<rparr>"

theorem request_inputs_correct_witness:
  "fst (request_inputs ex_dkg_cli_codec \<lparr>co_input = [decimal 2, decimal 3, decimal 1], co_output = [], co_files = fmempty\<rparr>) =
     Inr \<lparr>dc_min_signers = 2, dc_max_signers = 3, dc_identifier = 1\<rparr> \<and>
   fst (request_inputs ex_dkg_cli_codec \<lparr>co_input = [decimal 3, decimal 2, decimal 1], co_output = [], co_files = fmempty\<rparr>) =
     Inl (Frost_Error ''InvalidMinSigners'')"
proof -
  note r = request_inputs_correct[where dc = ex_dkg_cli_codec and rest = "[]"]
  have "fst (request_inputs ex_dkg_cli_codec \<lparr>co_input = [decimal 2, decimal 3, decimal 1], co_output = [], co_files = fmempty\<rparr>) =
     Inr \<lparr>dc_min_signers = 2, dc_max_signers = 3, dc_identifier = 1\<rparr>"
    by (subst r[where a = 2 and b = 3 and i = 1]) (simp_all, simp add: ex_dkg_cli_codec_def)
  moreover have "fst (request_inputs ex_dkg_cli_codec \<lparr>co_input = [decimal 3, decimal 2, decimal 1], co_output = [], co_files = fmempty\<rparr>) =
     Inl (Frost_Error ''InvalidMinSigners'')"
    by (subst r[where a = 3 and b = 2 and i = 1]) (simp_all, simp add: ex_dkg_cli_codec_def)
  ultimately show ?thesis by blast
qed

end
