(* ===== verification/Files.thy ===== *)
theory Files
  imports Console
begin

text \<open>
  The machine the command line client runs on: console, directories and files, with the file
  operations of the Rust standard library the client uses, and the atomic writing of files
  (\<open>cli/write_atomic.rs\<close>). The files of the console are named by absolute paths; \<open>.\<close>, \<open>..\<close>,
  symbolic links and permissions are not modelled. \<open>mc_history\<close> is not part of the machine: it
  records the files after every system call, which is what a crash at that point leaves.
\<close>

section \<open>The machine\<close>

record 'w machine =
  mc_console :: console
  mc_stderr :: "string list"
  mc_dirs :: "string fset"
  mc_cwd :: string
  mc_space :: nat
  mc_world :: 'w
  mc_history :: "(string, bytes) fmap list"

abbreviation files :: "'w machine \<Rightarrow> (string, bytes) fmap" where
  "files m \<equiv> co_files (mc_console m)"

definition set_files :: "(string, bytes) fmap \<Rightarrow> 'w machine \<Rightarrow> 'w machine" where
  "set_files fs m = m\<lparr>mc_console := (mc_console m)\<lparr>co_files := fs\<rparr>, mc_history := mc_history m @ [fs]\<rparr>"

definition on_console :: "(console, error, 'a) io \<Rightarrow> ('w machine, error, 'a) io" where
  "on_console f m = (case f (mc_console m) of (r, c) \<Rightarrow> (r, m\<lparr>mc_console := c\<rparr>))"

definition eprint :: "string \<Rightarrow> ('w machine, error, unit) io" where
  "eprint s m = (Inr (), m\<lparr>mc_stderr := mc_stderr m @ [s]\<rparr>)"

definition eprintln :: "string \<Rightarrow> ('w machine, error, unit) io" where
  "eprintln s = eprint (s @ [CHR 0x0A])"

section \<open>Paths\<close>

definition is_slash :: "char \<Rightarrow> bool" where
  "is_slash c \<longleftrightarrow> c = CHR ''/''"

definition is_absolute :: "string \<Rightarrow> bool" where
  "is_absolute p \<longleftrightarrow> (case p of c # _ \<Rightarrow> is_slash c | [] \<Rightarrow> False)"

text \<open>\<open>PathBuf::push\<close> and \<open>Path::join\<close>.\<close>

definition path_join :: "string \<Rightarrow> string \<Rightarrow> string" where
  "path_join d p =
     (if is_absolute p then p
      else if d = [] \<or> is_slash (last d) then d @ p else d @ ''/'' @ p)"

text \<open>\<open>Path::parent\<close>: the path without its last component.\<close>

definition drop_component :: "string \<Rightarrow> string" where
  "drop_component r = dropWhile is_slash (dropWhile (\<lambda>c. \<not> is_slash c) r)"

definition path_parent :: "string \<Rightarrow> string option" where
  "path_parent p =
     (let r = dropWhile is_slash (rev p); q = drop_component r
      in if r = [] then None
         else if q \<noteq> [] then Some (rev q)
         else if is_absolute p then Some ''/'' else Some [])"

text \<open>The working directory (\<open>mc_cwd\<close> is kept without the leading slash), and how paths are resolved.\<close>

definition current_dir :: "'w machine \<Rightarrow> string" where
  "current_dir m = ''/'' @ mc_cwd m"

definition resolve :: "'w machine \<Rightarrow> string \<Rightarrow> string" where
  "resolve m p = path_join (current_dir m) p"

lemma is_absolute_append [simp]: "is_absolute p \<Longrightarrow> is_absolute (p @ q)"
  by (auto simp: is_absolute_def split: list.splits)

lemma resolve_absolute [simp]: "is_absolute p \<Longrightarrow> resolve m p = p"
  by (simp add: resolve_def path_join_def)

lemma drop_component_shorter: "\<not> is_slash c \<Longrightarrow> length (drop_component (c # r)) \<le> length r"
  unfolding drop_component_def
  by simp (rule le_trans[OF length_dropWhile_le length_dropWhile_le])

lemma path_parent_cases:
  assumes q: "path_parent p = Some q"
  obtains c r where "dropWhile is_slash (rev p) = c # r" "\<not> is_slash c"
    "q = rev (drop_component (c # r)) \<or> q = [] \<or> is_absolute p \<and> q = ''/''"
proof (cases "dropWhile is_slash (rev p)")
  case Nil
  with q show thesis by (simp add: path_parent_def)
next
  case (Cons c r)
  have "\<not> is_slash c" using hd_dropWhile[of is_slash "rev p"] by (simp add: Cons)
  moreover have "q = rev (drop_component (c # r)) \<or> q = [] \<or> is_absolute p \<and> q = ''/''"
    using q unfolding path_parent_def Let_def Cons by (simp split: if_splits)
  ultimately show thesis by (rule that[OF Cons])
qed

lemma is_absolute_resolve [simp]: "is_absolute (resolve m p)"
  by (auto simp: resolve_def path_join_def current_dir_def is_absolute_def is_slash_def)

lemma path_parent_shorter:
  assumes q: "path_parent p = Some q"
  shows "length q < length p"
proof -
  from q have p: "p \<noteq> ''/''" by (auto simp: path_parent_def is_slash_def)
  from q obtain c r where c: "dropWhile is_slash (rev p) = c # r" "\<not> is_slash c"
    and q': "q = rev (drop_component (c # r)) \<or> q = [] \<or> is_absolute p \<and> q = ''/''"
    by (rule path_parent_cases)
  have r: "length r < length p"
    using length_dropWhile_le[of is_slash "rev p"] c(1) by simp
  from q' show ?thesis
  proof (elim disjE conjE)
    assume "q = rev (drop_component (c # r))"
    with drop_component_shorter[OF c(2), of r] r show ?thesis by simp
  next
    assume "q = []"
    moreover have "0 < length p" using r by (rule le_less_trans[OF le0])
    ultimately show ?thesis by simp
  next
    assume a: "is_absolute p" "q = ''/''"
    then obtain d p' where d: "p = d # p'" "is_slash d"
      by (cases p) (simp_all add: is_absolute_def)
    with p have "p' \<noteq> []" by (auto simp: is_slash_def)
    with a d show ?thesis by simp
  qed
qed

section \<open>System calls\<close>

datatype mkdir_result = Mkdir_Ok | Mkdir_Not_Found | Mkdir_Error

definition is_dir :: "'w machine \<Rightarrow> string \<Rightarrow> bool" where
  "is_dir m p \<longleftrightarrow> resolve m p |\<in>| mc_dirs m"

definition path_exists :: "'w machine \<Rightarrow> string \<Rightarrow> bool" where
  "path_exists m p \<longleftrightarrow> is_dir m p \<or> resolve m p |\<in>| fmdom (files m)"

text \<open>\<open>mkdir\<close>: the parent must exist, and the name must not.\<close>

definition sys_mkdir :: "string \<Rightarrow> 'w machine \<Rightarrow> mkdir_result \<times> 'w machine" where
  "sys_mkdir p m =
     (if path_exists m p then (Mkdir_Error, m)
      else (case path_parent (resolve m p) of
          None \<Rightarrow> (Mkdir_Error, m)
        | Some q \<Rightarrow>
            if q |\<in>| mc_dirs m then (Mkdir_Ok, m\<lparr>mc_dirs := finsert (resolve m p) (mc_dirs m)\<rparr>)
            else if q |\<in>| fmdom (files m) then (Mkdir_Error, m)
            else (Mkdir_Not_Found, m)))"

text \<open>Opening a new file for writing, which fails when the name is in use.\<close>

definition sys_create_new :: "string \<Rightarrow> ('w machine, error, unit) io" where
  "sys_create_new p m =
     (case path_parent (resolve m p) of
        None \<Rightarrow> (Inl Io_Error, m)
      | Some q \<Rightarrow>
          if path_exists m p \<or> q |\<notin>| mc_dirs m then (Inl Io_Error, m)
          else (Inr (), set_files (fmupd (resolve m p) [] (files m)) m))"

text \<open>\<open>write_all\<close> to an open file: when the disk is full, a part may have been written.\<close>

definition sys_write_all :: "string \<Rightarrow> bytes \<Rightarrow> ('w machine, error, unit) io" where
  "sys_write_all p data m =
     (let old = (case fmlookup (files m) (resolve m p) of None \<Rightarrow> [] | Some b \<Rightarrow> b)
      in if length data \<le> mc_space m
         then (Inr (), set_files (fmupd (resolve m p) (old @ data) (files m)) m)
         else (Inl Io_Error, set_files (fmupd (resolve m p) (old @ take (mc_space m) data) (files m)) m))"

definition sys_unlink :: "string \<Rightarrow> 'w machine \<Rightarrow> 'w machine" where
  "sys_unlink p m = set_files (fmdrop (resolve m p) (files m)) m"

text \<open>\<open>rename\<close> replaces an existing file, but not a directory.\<close>

definition sys_rename :: "string \<Rightarrow> string \<Rightarrow> ('w machine, error, unit) io" where
  "sys_rename p q m =
     (case fmlookup (files m) (resolve m p) of
        None \<Rightarrow> (Inl Io_Error, m)
      | Some b \<Rightarrow>
          if is_dir m q then (Inl Io_Error, m)
          else (Inr (), set_files (fmupd (resolve m q) b (fmdrop (resolve m p) (files m))) m))"

text \<open>\<open>fs::read\<close> and \<open>fs::write\<close> of the standard library; the latter truncates the file first.\<close>

definition fs_read :: "string \<Rightarrow> ('w machine, error, bytes) io" where
  "fs_read p m = (ok_or (if is_dir m p then None else fmlookup (files m) (resolve m p)) Io_Error, m)"

definition fs_write :: "string \<Rightarrow> bytes \<Rightarrow> ('w machine, error, unit) io" where
  "fs_write p data m =
     (case path_parent (resolve m p) of
        None \<Rightarrow> (Inl Io_Error, m)
      | Some q \<Rightarrow>
          if is_dir m p \<or> q |\<notin>| mc_dirs m then (Inl Io_Error, m)
          else sys_write_all p data (set_files (fmupd (resolve m p) [] (files m)) m))"

text \<open>\<open>fs::create_dir_all\<close>: creates the missing directories of a path.\<close>

function create_dir_all :: "string \<Rightarrow> ('w machine, error, unit) io" where
  "create_dir_all p m =
     (if p = [] then (Inr (), m)
      else (case sys_mkdir p m of
          (Mkdir_Ok, m') \<Rightarrow> (Inr (), m')
        | (Mkdir_Error, m') \<Rightarrow> (if is_dir m' p then Inr () else Inl Io_Error, m')
        | (Mkdir_Not_Found, m') \<Rightarrow>
            (case path_parent p of
                None \<Rightarrow> (Inl Io_Error, m')
              | Some q \<Rightarrow>
                  (case create_dir_all q m' of
                     (Inl e, m'') \<Rightarrow> (Inl e, m'')
                   | (Inr _, m'') \<Rightarrow>
                       (case sys_mkdir p m'' of
                          (Mkdir_Ok, m3) \<Rightarrow> (Inr (), m3)
                        | (_, m3) \<Rightarrow> (if is_dir m3 p then Inr () else Inl Io_Error, m3))))))"
  by pat_completeness auto
termination
  by (relation "measure (length \<circ> fst)") (auto dest: path_parent_shorter)

declare create_dir_all.simps [simp del]

lemma set_files_simps [simp]:
  "files (set_files fs m) = fs" "mc_history (set_files fs m) = mc_history m @ [fs]"
  "mc_dirs (set_files fs m) = mc_dirs m" "mc_space (set_files fs m) = mc_space m"
  "resolve (set_files fs m) p = resolve m p" "is_dir (set_files fs m) p = is_dir m p"
  by (simp_all add: set_files_def is_dir_def resolve_def current_dir_def)

section \<open>Writing files atomically\<close>

text \<open>\<open>tmp\<close> is the name the crate \<open>tempfile\<close> picks in a directory.\<close>

definition check_path :: "string \<Rightarrow> ('w machine, error, string \<times> string) io" where
  "check_path src m =
     (if is_dir m src then (Inl Io_Error, m)
      else let src = path_join (current_dir m) src
        in (case path_parent src of
            None \<Rightarrow> (Inl Io_Error, m)
          | Some parent \<Rightarrow>
              try_io (create_dir_all parent) (\<lambda>_. ret_io (src, parent)) m))"

text \<open>
  A temporary file that is not persisted is removed when the function returns. Flushing a file
  has no effect of its own.
\<close>

definition write_file :: "(string \<Rightarrow> string) \<Rightarrow> string \<Rightarrow> bytes \<Rightarrow> ('w machine, error, unit) io" where
  "write_file tmp src data =
     try_io (check_path src) (\<lambda>(dst, parent).
     let file = tmp parent in
     try_io (sys_create_new file) (\<lambda>_. \<lambda>m.
     case try_io (sys_write_all file data) (\<lambda>_. sys_rename file dst) m of
       (Inl e, m') \<Rightarrow> (Inl e, sys_unlink file m')
     | (Inr u, m') \<Rightarrow> (Inr u, m')))"

section \<open>What the operations change\<close>

text \<open>Everything but the directories is the same.\<close>

definition same_files :: "'w machine \<Rightarrow> 'w machine \<Rightarrow> bool" where
  "same_files m m' \<longleftrightarrow> mc_console m' = mc_console m \<and> mc_stderr m' = mc_stderr m \<and> mc_cwd m' = mc_cwd m \<and>
     mc_space m' = mc_space m \<and> mc_world m' = mc_world m \<and> mc_history m' = mc_history m \<and>
     mc_dirs m |\<subseteq>| mc_dirs m'"

lemma same_files_refl [simp]: "same_files m m"
  by (simp add: same_files_def)

lemma same_files_trans: "same_files a b \<Longrightarrow> same_files b c \<Longrightarrow> same_files a c"
  by (auto simp: same_files_def)

lemma sys_mkdir_same: "sys_mkdir p m = (r, m') \<Longrightarrow> same_files m m'"
  by (auto simp: sys_mkdir_def same_files_def split: if_splits option.splits)

lemma create_dir_all_same: "create_dir_all p m = (r, m') \<Longrightarrow> same_files m m'"
proof (induction p m arbitrary: r m' rule: create_dir_all.induct)
  case (1 p m)
  show ?case
  proof (cases "p = []")
    case True
    with "1.prems" show ?thesis by (simp add: create_dir_all.simps)
  next
    case False
    obtain r1 m1 where r1: "sys_mkdir p m = (r1, m1)" by fastforce
    note s1 = sys_mkdir_same[OF this]
    show ?thesis
    proof (cases r1)
      case Mkdir_Not_Found
      show ?thesis
      proof (cases "path_parent p")
        case None
        with "1.prems" False r1 Mkdir_Not_Found s1 show ?thesis by (simp add: create_dir_all.simps[of p])
      next
        case (Some q)
        obtain r2 m2 where r2: "create_dir_all q m1 = (r2, m2)" by fastforce
        note s2 = "1.IH"[OF False r1[symmetric] Mkdir_Not_Found Some r2]
        obtain r3 m3 where r3: "sys_mkdir p m2 = (r3, m3)" by fastforce
        note s3 = sys_mkdir_same[OF this]
        from "1.prems" False r1 Mkdir_Not_Found Some r2 r3 have "m' = m2 \<or> m' = m3"
          by (auto simp: create_dir_all.simps[of p] split: sum.splits mkdir_result.splits)
        with s1 s2 s3 show ?thesis by (auto intro: same_files_trans)
      qed
    qed (use "1.prems" False r1 s1 in \<open>simp_all add: create_dir_all.simps[of p]\<close>)
  qed
qed

lemma check_path_Inr:
  assumes "check_path src m = (Inr (dst, parent), m')"
  shows "dst = resolve m src" "same_files m m'"
  using assms create_dir_all_same
  by (auto simp: check_path_def Let_def resolve_def try_io_eq_Inr split: if_splits option.splits)

lemma check_path_Inl: "check_path src m = (Inl e, m') \<Longrightarrow> same_files m m'"
  using create_dir_all_same
  by (auto simp: check_path_def Let_def try_io_def split: if_splits option.splits prod.splits sum.splits)

text \<open>The state but for directories, files and history.\<close>

definition same_rest :: "'w machine \<Rightarrow> 'w machine \<Rightarrow> bool" where
  "same_rest m m' \<longleftrightarrow> co_input (mc_console m') = co_input (mc_console m) \<and>
     co_output (mc_console m') = co_output (mc_console m) \<and> mc_stderr m' = mc_stderr m \<and>
     mc_cwd m' = mc_cwd m \<and> mc_space m' = mc_space m \<and> mc_world m' = mc_world m"

lemma same_restD: "same_rest m m' \<Longrightarrow> mc_world m' = mc_world m \<and> mc_cwd m' = mc_cwd m"
  by (simp add: same_rest_def)

lemma same_rest_resolve: "same_rest m m' \<Longrightarrow> resolve m' p = resolve m p"
  by (simp add: same_rest_def resolve_def current_dir_def)

text \<open>The files during and after a write: \<open>d\<close> differs from \<open>fs\<close> in the temporary file only.\<close>

definition differs_only :: "string \<Rightarrow> (string, bytes) fmap \<Rightarrow> (string, bytes) fmap \<Rightarrow> bool" where
  "differs_only p fs d \<longleftrightarrow> fmdrop p d = fmdrop p fs"

definition during_write ::
    "string \<Rightarrow> string \<Rightarrow> bytes \<Rightarrow> (string, bytes) fmap \<Rightarrow> (string, bytes) fmap \<Rightarrow> bool" where
  "during_write file dst data fs d \<longleftrightarrow> differs_only file fs d \<or> d = fmupd dst data fs"

lemma fmdrop_fmupd_fresh: "p |\<notin>| fmdom fs \<Longrightarrow> fmdrop p (fmupd p b fs) = fs"
  by (rule fmap_ext) (auto simp: fmdom_notD)

lemma fmdrop_idem_fresh: "p |\<notin>| fmdom fs \<Longrightarrow> fmdrop p fs = fs"
  by (rule fmap_ext) (auto simp: fmdom_notD)

lemma differs_only_upd [simp]: "differs_only p fs (fmupd p b fs)" "differs_only p fs fs"
  by (simp_all add: differs_only_def fmdrop_fmupd_same)

text \<open>The steps from the creation of the temporary file on.\<close>

lemma persist_spec:
  fixes m :: "'a machine"
  assumes fresh: "resolve m t |\<notin>| fmdom (files m)"
    and m2: "m2 = set_files (fmupd (resolve m t) [] (files m)) m"
    and w3: "try_io (sys_write_all t data) (\<lambda>_. sys_rename t dst) m2 = (r, m3)"
    and m': "m' = (case r of Inl e \<Rightarrow> sys_unlink t m3 | Inr _ \<Rightarrow> m3)"
  shows "same_rest m m' \<and>
    ((r = Inr () \<and> files m' = fmupd (resolve m dst) data (files m)) \<or> ((\<exists>e. r = Inl e) \<and> files m' = files m)) \<and>
    (\<exists>h. mc_history m' = mc_history m @ h \<and>
       (\<forall>d\<in>set h. during_write (resolve m t) (resolve m dst) data (files m) d))"
proof -
  have rest [simp]: "same_rest a (set_files fs n) \<longleftrightarrow> same_rest a n" "same_rest a a" for fs and a n :: "'a machine"
    by (simp_all add: same_rest_def set_files_def)
  note simps = sys_write_all_def sys_rename_def sys_unlink_def Let_def try_io_def
    fmdrop_fmupd_fresh[OF fresh] fmdrop_idem_fresh[OF fresh] during_write_def
  show ?thesis
  proof (cases "length data \<le> mc_space m")
    case False
    with w3 have "r = Inl Io_Error"
      "m' = sys_unlink t (set_files (fmupd (resolve m t) (take (mc_space m) data) (fmupd (resolve m t) [] (files m))) m2)"
      unfolding m' m2 by (auto simp: simps)
    then show ?thesis using m2
      by (auto simp: simps)
  next
    case True
    note T = True
    show ?thesis
    proof (cases "is_dir m dst")
      case True
      with T w3 have "r = Inl Io_Error"
        "m' = sys_unlink t (set_files (fmupd (resolve m t) data (fmupd (resolve m t) [] (files m))) m2)"
        unfolding m' m2 by (auto simp: simps)
      then show ?thesis using m2
        by (auto simp: simps)
    next
      case False
      with T w3 have "r = Inr ()"
        "m' = set_files (fmupd (resolve m dst) data (fmdrop (resolve m t) (fmupd (resolve m t) data (fmupd (resolve m t) [] (files m)))))
           (set_files (fmupd (resolve m t) data (fmupd (resolve m t) [] (files m))) m2)"
        unfolding m' m2 by (auto simp: simps)
      then show ?thesis using m2
        by (auto simp: simps)
    qed
  qed
qed

lemma differs_only_lookup:
  assumes "differs_only f fs d" "p \<noteq> f"
  shows "fmlookup d p = fmlookup fs p"
proof -
  have "fmlookup (fmdrop f d) p = fmlookup (fmdrop f fs) p" using assms(1) by (simp only: differs_only_def)
  with assms(2) show ?thesis by simp
qed

lemma write_file_spec:
  assumes w: "write_file tmp src data m = (r, m')"
  shows "same_rest m m'"
    and "(r = Inr () \<and> files m' = fmupd (resolve m src) data (files m)) \<or>
         ((\<exists>e. r = Inl e) \<and> files m' = files m)"
    and "\<exists>file h. (\<exists>parent. file = resolve m (tmp parent)) \<and> mc_history m' = mc_history m @ h \<and>
           (\<forall>d\<in>set h. during_write file (resolve m src) data (files m) d)"
proof -
  let ?P = "\<lambda>r m'. same_rest m m' \<and>
    ((r = Inr () \<and> files m' = fmupd (resolve m src) data (files m)) \<or> ((\<exists>e. r = Inl e) \<and> files m' = files m)) \<and>
    (\<exists>file h. (\<exists>parent. file = resolve m (tmp parent)) \<and> mc_history m' = mc_history m @ h \<and>
           (\<forall>d\<in>set h. during_write file (resolve m src) data (files m) d))"
  have unchanged: "?P (Inl e) m1" if "same_files m m1" for e m1
    using that by (auto simp: same_files_def same_rest_def)
  obtain r0 m1 where m1: "check_path src m = (r0, m1)" by fastforce
  have "?P r m'"
  proof (cases r0)
    case (Inl e)
    with w m1 have "r = Inl e" "m' = m1" by (simp_all add: write_file_def try_io_Inl)
    with unchanged[OF check_path_Inl] m1 Inl show ?thesis by simp
  next
    case (Inr dp)
    obtain dst parent where dp: "dp = (dst, parent)" by fastforce
    note cp = check_path_Inr[OF m1[unfolded Inr dp]]
    let ?f = "resolve m (tmp parent)"
    from cp(2) have res [simp]: "resolve m1 p = resolve m p" for p by (simp add: same_files_def resolve_def current_dir_def)
    from cp(2) have fs [simp]: "files m1 = files m" by (simp add: same_files_def)
    have dst: "resolve m dst = resolve m src"
      by (simp add: cp(1))
    show ?thesis
    proof (cases "sys_create_new (tmp parent) m1")
      case (Pair r2 m2)
      show ?thesis
      proof (cases r2)
        case (Inl e)
        with Pair have "m2 = m1" by (auto simp: sys_create_new_def split: option.splits if_splits)
        with w m1 Inr dp Pair Inl have "r = Inl e" "m' = m1"
          by (simp_all add: write_file_def try_io_def Let_def)
        with unchanged[OF cp(2)] show ?thesis by simp
      next
        case Inr2: (Inr u)
        from Pair Inr2 have fresh: "?f |\<notin>| fmdom (files m)"
          and m2: "m2 = set_files (fmupd ?f [] (files m)) m1"
          by (auto simp: sys_create_new_def path_exists_def split: option.splits if_splits)
        obtain r3 m3 where w3: "try_io (sys_write_all (tmp parent) data) (\<lambda>_. sys_rename (tmp parent) dst) m2 = (r3, m3)"
          by fastforce
        with w m1 Inr dp Pair Inr2 have r: "r = r3" "m' = (case r3 of Inl e \<Rightarrow> sys_unlink (tmp parent) m3 | Inr _ \<Rightarrow> m3)"
          by (auto simp: write_file_def try_io_def Let_def split: sum.splits)
        have "resolve m1 (tmp parent) |\<notin>| fmdom (files m1)" using fresh by simp
        note ps = persist_spec[OF this _ w3 r(2)[unfolded r(1)], unfolded res fs dst, OF m2]
        moreover have "same_rest m m'" using conjunct1[OF ps] cp(2) by (auto simp: same_files_def same_rest_def)
        moreover have "mc_history m1 = mc_history m" using cp(2) by (simp add: same_files_def)
        ultimately show ?thesis unfolding r(1) by metis
      qed
    qed
  qed
  then show "same_rest m m'"
    and "(r = Inr () \<and> files m' = fmupd (resolve m src) data (files m)) \<or>
         ((\<exists>e. r = Inl e) \<and> files m' = files m)"
    and "\<exists>file h. (\<exists>parent. file = resolve m (tmp parent)) \<and> mc_history m' = mc_history m @ h \<and>
           (\<forall>d\<in>set h. during_write file (resolve m src) data (files m) d)" by auto
qed

lemma fs_write_Inr:
  assumes "fs_write p data m = (Inr (), m')"
  shows "files m' = fmupd (resolve m p) data (files m)" "same_rest m m'"
  using assms
  by (auto simp: fs_write_def sys_write_all_def same_rest_def Let_def split: option.splits if_splits)
    (simp_all add: set_files_def)

lemma eprintln_same [simp]:
  "files (snd (eprintln s m)) = files m" "resolve (snd (eprintln s m)) p = resolve m p"
  by (simp_all add: eprintln_def eprint_def resolve_def current_dir_def)

text \<open>Writing to an existing directory with enough space succeeds.\<close>

lemma fs_write_ok:
  "\<not> is_dir m p \<Longrightarrow> path_parent (resolve m p) = Some q \<Longrightarrow> q |\<in>| mc_dirs m \<Longrightarrow> length data \<le> mc_space m \<Longrightarrow>
   fs_write p data m =
     (Inr (), set_files (fmupd (resolve m p) data (files m)) (set_files (fmupd (resolve m p) [] (files m)) m))"
  by (simp add: fs_write_def sys_write_all_def Let_def)

lemma eprintln_simps [simp]:
  "mc_dirs (snd (eprintln s m)) = mc_dirs m" "mc_space (snd (eprintln s m)) = mc_space m"
  "is_dir (snd (eprintln s m)) p = is_dir m p" "fst (eprintln s m) = Inr ()"
  "try_io (eprintln s) f m = f () (snd (eprintln s m))"
  by (simp_all add: eprintln_def eprint_def is_dir_def resolve_def current_dir_def try_io_def)

lemma stderr_simps [simp]:
  "resolve (mc_stderr_update f m) p = resolve m p" "is_dir (mc_stderr_update f m) p = is_dir m p"
  by (simp_all add: is_dir_def resolve_def current_dir_def)

lemmas path_eval = resolve_def current_dir_def path_join_def is_absolute_def is_slash_def path_parent_def drop_component_def

end
