(* ===== verification/Trusted_Dealer.thy ===== *)
theory Trusted_Dealer
  imports Files
begin

text \<open>
  The trusted dealer (\<open>trusted_dealer.rs\<close> and its modules): its inputs, the generation of the
  shares and their output. Key generation, the check of a share and the conversion to even Y
  coordinates are \<open>frost-core\<close>'s and \<open>reddsa\<close>'s, the fields of \<open>dealer_ops\<close>; the random numbers
  of \<open>thread_rng\<close> are an argument.
\<close>

section \<open>Parameters\<close>

record ('id, 'sk, 'ss, 'kp, 'pkp, 'rng) dealer_ops =
  generate_with_dealer :: "16 word \<Rightarrow> 16 word \<Rightarrow> 'rng \<Rightarrow> string + ('id, 'ss) fmap \<times> 'pkp"
  signing_key_deserialize :: "bytes \<Rightarrow> string + 'sk"
  split_key :: "'sk \<Rightarrow> 16 word \<Rightarrow> 16 word \<Rightarrow> 'rng \<Rightarrow> string + ('id, 'ss) fmap \<times> 'pkp"
  key_package_try_from :: "'ss \<Rightarrow> string + 'kp"
  dealer_is_redpallas :: bool
  dealer_has_even_y :: "'pkp \<Rightarrow> bool"
  dealer_pkp_into_even_y :: "'pkp \<Rightarrow> bool option \<Rightarrow> 'pkp"
  share_into_even_y :: "'ss \<Rightarrow> bool option \<Rightarrow> 'ss"
  dealer_id_serialize :: "'id \<Rightarrow> bytes"
  secret_share_json :: "'ss \<Rightarrow> string option"
  pubkeys_json :: "'pkp \<Rightarrow> string option"

text \<open>The bytes of a string.\<close>

definition as_bytes :: "string \<Rightarrow> bytes" where
  "as_bytes s = map of_char s"

section \<open>Inputs\<close>

record dealer_args =
  da_ciphersuite :: string
  da_cli :: bool
  da_public_key_package :: string
  da_key_package :: string
  da_threshold :: "16 word"
  da_num_signers :: "16 word"
  da_key :: "string option"

record dealer_config =
  tc_min_signers :: "16 word"
  tc_max_signers :: "16 word"
  tc_secret :: bytes

definition dealer_validate_inputs :: "dealer_config \<Rightarrow> string + unit" where
  "dealer_validate_inputs config =
     (if tc_min_signers config < 2 then Inl ''InvalidMinSigners''
      else if tc_max_signers config < 2 then Inl ''InvalidMaxSigners''
      else if tc_min_signers config > tc_max_signers config then Inl ''InvalidMinSigners''
      else Inr ())"

definition dealer_read_u16 :: "string \<Rightarrow> (console, error, 16 word) io" where
  "dealer_read_u16 e = try_io read_line (\<lambda>l. lift_io (ok_or (parse_u16 (trim l)) (Frost_Error e)))"

definition dealer_request_inputs :: "text_env \<Rightarrow> dealer_args \<Rightarrow> ('w machine, error, dealer_config) io" where
  "dealer_request_inputs te args =
     try_io
       (if da_cli args
        then on_console (
          try_io (writeln ''The minimum number of signers: (2 or more)'') (\<lambda>_.
          try_io (dealer_read_u16 ''InvalidMinSigners'') (\<lambda>min_signers.
          try_io (writeln ''The maximum number of signers: '') (\<lambda>_.
          try_io (dealer_read_u16 ''InvalidMaxSigners'') (\<lambda>max_signers.
          try_io (writeln ''Secret key (press enter to randomly generate a fresh one): '') (\<lambda>_.
          try_io read_line (\<lambda>secret_input.
          try_io (lift_io (ok_or (hex_decode te (trim secret_input)) (Frost_Error ''MalformedSigningKey''))) (\<lambda>secret.
          ret_io \<lparr>tc_min_signers = min_signers, tc_max_signers = max_signers, tc_secret = secret\<rparr>))))))))
        else
          try_io (lift_io (ok_or (hex_decode te (case da_key args of None \<Rightarrow> [] | Some key \<Rightarrow> key))
            (Frost_Error ''MalformedSigningKey''))) (\<lambda>secret.
          try_io (eprintln (''Generating '' @ decimal (unat (da_num_signers args)) @ '' shares with threshold '' @
            decimal (unat (da_threshold args)) @ ''...'')) (\<lambda>_.
          ret_io \<lparr>tc_min_signers = da_threshold args, tc_max_signers = da_num_signers args, tc_secret = secret\<rparr>)))
       (\<lambda>config.
     try_io (lift_io (map_err Frost_Error (dealer_validate_inputs config))) (\<lambda>_.
     ret_io config))"

section \<open>Generating the shares\<close>

text \<open>Every share must verify (\<open>KeyPackage::try_from\<close>), in the order of the identifiers.\<close>

definition check_shares ::
    "('id::linorder, 'sk, 'ss, 'kp, 'pkp, 'rng) dealer_ops \<Rightarrow> ('id, 'ss) fmap \<times> 'pkp \<Rightarrow>
     string + ('id, 'ss) fmap \<times> 'pkp" where
  "check_shares ops shares_and_package =
     tryr (collect_results (map (\<lambda>(_, v). key_package_try_from ops v) (btree_items (fst shares_and_package))))
       (\<lambda>_. Inr shares_and_package)"

definition trusted_dealer_keygen ::
    "('id::linorder, 'sk, 'ss, 'kp, 'pkp, 'rng) dealer_ops \<Rightarrow> dealer_config \<Rightarrow> 'rng \<Rightarrow>
     string + ('id, 'ss) fmap \<times> 'pkp" where
  "trusted_dealer_keygen ops config rng =
     tryr (generate_with_dealer ops (tc_max_signers config) (tc_min_signers config) rng) (check_shares ops)"

definition split_secret ::
    "('id::linorder, 'sk, 'ss, 'kp, 'pkp, 'rng) dealer_ops \<Rightarrow> dealer_config \<Rightarrow> 'rng \<Rightarrow>
     string + ('id, 'ss) fmap \<times> 'pkp" where
  "split_secret ops config rng =
     tryr (signing_key_deserialize ops (tc_secret config)) (\<lambda>secret_key.
     tryr (split_key ops secret_key (tc_max_signers config) (tc_min_signers config) rng) (check_shares ops))"

definition dealer_into_even_y ::
    "('id, 'sk, 'ss, 'kp, 'pkp, 'rng) dealer_ops \<Rightarrow> ('id, 'ss) fmap \<times> 'pkp \<Rightarrow> ('id, 'ss) fmap \<times> 'pkp" where
  "dealer_into_even_y ops shares_and_package =
     (if dealer_is_redpallas ops
      then (case shares_and_package of (secret_shares, public_key_package) \<Rightarrow>
        let is_even = dealer_has_even_y ops public_key_package
        in (fmmap (\<lambda>s. share_into_even_y ops s (Some is_even)) secret_shares,
            dealer_pkp_into_even_y ops public_key_package (Some is_even)))
      else shares_and_package)"

definition trusted_dealer ::
    "('id::linorder, 'sk, 'ss, 'kp, 'pkp, 'rng) dealer_ops \<Rightarrow> dealer_config \<Rightarrow> 'rng \<Rightarrow>
     error + ('id, 'ss) fmap \<times> 'pkp" where
  "trusted_dealer ops config rng =
     map_err Frost_Error
       (tryr (if tc_secret config = [] then trusted_dealer_keygen ops config rng else split_secret ops config rng)
         (\<lambda>shares_and_package. Inr (dealer_into_even_y ops shares_and_package)))"

section \<open>Output\<close>

text \<open>\<open>str::replace(template, "{}", s)\<close>.\<close>

fun replace_braces :: "string \<Rightarrow> string \<Rightarrow> string" where
  "replace_braces s (c # d # cs) =
     (if c = CHR ''{'' \<and> d = CHR ''}'' then s @ replace_braces s cs else c # replace_braces s (d # cs))"
| "replace_braces s cs = cs"

text \<open>The file of the participant at position \<open>i\<close>, counted from 0.\<close>

definition key_package_path :: "dealer_args \<Rightarrow> nat \<Rightarrow> string" where
  "key_package_path args i = replace_braces (decimal (i + 1)) (da_key_package args)"

definition dealer_print_values ::
    "text_env \<Rightarrow> ('id::linorder, 'sk, 'ss, 'kp, 'pkp, 'rng) dealer_ops \<Rightarrow> dealer_args \<Rightarrow> ('id, 'ss) fmap \<Rightarrow> 'pkp \<Rightarrow>
     ('w machine, error, unit) io" where
  "dealer_print_values te ops args keys pubkeys =
     try_io (lift_io (ok_or (pubkeys_json ops pubkeys) Json_Error)) (\<lambda>pubkeys_text.
         if da_cli args
         then on_console (
           try_io (writeln (''Public key package:'' @ [CHR 0x0A] @ pubkeys_text)) (\<lambda>_.
           for_io (btree_items keys) (\<lambda>(k, v).
             try_io (writeln (''Participant: '' @ hex_encode te (dealer_id_serialize ops k))) (\<lambda>_.
             try_io (lift_io (ok_or (secret_share_json ops v) (Panic ''called Result::unwrap() on an Err value''))) (\<lambda>t.
             writeln (''Secret share:'' @ [CHR 0x0A] @ t))))))
         else
           try_io (fs_write (da_public_key_package args) (as_bytes pubkeys_text)) (\<lambda>_.
           try_io (eprintln (''Public key package written to '' @ da_public_key_package args)) (\<lambda>_.
           for_io (enumerate 0 (btree_items keys)) (\<lambda>(i, (k, v)).
             let path = key_package_path args i in
             try_io (lift_io (ok_or (secret_share_json ops v) Json_Error)) (\<lambda>t.
             try_io (fs_write path (as_bytes t)) (\<lambda>_.
             eprintln (''Key package for participant '' @ hex_encode te (dealer_id_serialize ops k) @
               '' written to '' @ path)))))))"

definition dealer_cli ::
    "text_env \<Rightarrow> ('id::linorder, 'sk, 'ss, 'kp, 'pkp, 'rng) dealer_ops \<Rightarrow> dealer_args \<Rightarrow> 'rng \<Rightarrow>
     ('w machine, error, unit) io" where
  "dealer_cli te ops args rng =
     try_io (dealer_request_inputs te args) (\<lambda>config.
     try_io (lift_io (trusted_dealer ops config rng)) (\<lambda>(shares, pubkeys).
     dealer_print_values te ops args shares pubkeys))"

section \<open>What the operations return\<close>

lemma dealer_validate_inputs_iff:
  "dealer_validate_inputs config = Inr () \<longleftrightarrow>
     2 \<le> tc_min_signers config \<and> tc_min_signers config \<le> tc_max_signers config"
  by (auto simp: dealer_validate_inputs_def)

lemma dealer_request_inputs_valid:
  assumes "dealer_request_inputs te args m = (Inr config, m')"
  shows "2 \<le> tc_min_signers config" and "tc_min_signers config \<le> tc_max_signers config"
    and "\<not> da_cli args \<Longrightarrow> (\<exists>x. m' = m\<lparr>mc_stderr := x\<rparr>) \<and> tc_min_signers config = da_threshold args \<and>
      tc_max_signers config = da_num_signers args \<and>
      hex_decode te (case da_key args of None \<Rightarrow> [] | Some key \<Rightarrow> key) = Some (tc_secret config)"
proof -
  from assms have "dealer_validate_inputs config = Inr ()"
    unfolding dealer_request_inputs_def by (auto simp: try_io_eq_Inr simp del: try_io_lift)
  then show "2 \<le> tc_min_signers config" and "tc_min_signers config \<le> tc_max_signers config"
    by (simp_all add: dealer_validate_inputs_iff)
  assume "\<not> da_cli args"
  with assms show "(\<exists>x. m' = m\<lparr>mc_stderr := x\<rparr>) \<and> tc_min_signers config = da_threshold args \<and>
      tc_max_signers config = da_num_signers args \<and>
      hex_decode te (case da_key args of None \<Rightarrow> [] | Some key \<Rightarrow> key) = Some (tc_secret config)"
    unfolding dealer_request_inputs_def
    by (auto simp: try_io_eq_Inr eprintln_def eprint_def simp del: try_io_lift)
qed

lemma check_shares_Inr:
  "check_shares ops sp = Inr sp' \<longleftrightarrow>
     sp' = sp \<and> (\<forall>i v. fmlookup (fst sp) i = Some v \<longrightarrow> is_ok (key_package_try_from ops v))"
proof -
  have "(\<exists>ys. collect_results (map (\<lambda>(_, v). key_package_try_from ops v) (btree_items (fst sp))) = Inr ys)
      \<longleftrightarrow> (\<forall>i v. fmlookup (fst sp) i = Some v \<longrightarrow> is_ok (key_package_try_from ops v))"
    by (simp add: collect_results_map_ex ball_btree_items)
  then show ?thesis unfolding check_shares_def by auto
qed

section \<open>The names of the files\<close>

fun has_braces :: "string \<Rightarrow> bool" where
  "has_braces (c # d # cs) \<longleftrightarrow> c = CHR ''{'' \<and> d = CHR ''}'' \<or> has_braces (d # cs)"
| "has_braces _ \<longleftrightarrow> False"

fun count_braces :: "string \<Rightarrow> nat" where
  "count_braces (c # d # cs) =
     (if c = CHR ''{'' \<and> d = CHR ''}'' then Suc (count_braces cs) else count_braces (d # cs))"
| "count_braces _ = 0"

lemma count_braces_pos: "has_braces t \<Longrightarrow> 0 < count_braces t"
  by (induction t rule: has_braces.induct) auto

lemma count_braces_length: "2 * count_braces t \<le> length t"
  by (induction t rule: count_braces.induct) auto

lemma replace_braces_length:
  "length (replace_braces s t) + 2 * count_braces t = length t + count_braces t * length s"
  by (induction s t rule: replace_braces.induct) (auto simp: algebra_simps)

lemma replace_braces_same_length:
  "length s = length s' \<Longrightarrow> replace_braces s t = replace_braces s' t \<Longrightarrow> has_braces t \<Longrightarrow> s = s'"
proof (induction t rule: has_braces.induct)
  case (1 c d cs)
  show ?case
  proof (cases "c = CHR ''{'' \<and> d = CHR ''}''")
    case True
    then have "replace_braces s (c # d # cs) = s @ replace_braces s cs"
      "replace_braces s' (c # d # cs) = s' @ replace_braces s' cs" by simp_all
    with 1(2,3) show ?thesis by (metis append_eq_append_conv)
  next
    case False
    then have "replace_braces s (c # d # cs) = c # replace_braces s (d # cs)"
      "replace_braces s' (c # d # cs) = c # replace_braces s' (d # cs)" by auto
    with 1 False show ?thesis by (metis has_braces.simps(1) list.inject)
  qed
qed simp_all

text \<open>Different texts for \<open>{}\<close> give different names.\<close>

lemma replace_braces_inj:
  assumes "has_braces t" "replace_braces s t = replace_braces s' t"
  shows "s = s'"
proof -
  have "length (replace_braces s t) = length (replace_braces s' t)" by (rule arg_cong[OF assms(2)])
  then have "count_braces t * length s = count_braces t * length s'"
    using replace_braces_length[of s t] replace_braces_length[of s' t] by linarith
  with count_braces_pos[OF assms(1)] have "length s = length s'" by simp
  with assms show ?thesis by (blast intro: replace_braces_same_length)
qed

lemma decimal_inj: "decimal i = decimal j \<Longrightarrow> i = j"
  by (metis decimal_digits)

lemma is_absolute_replace:
  "take 2 t \<noteq> ''{}'' \<Longrightarrow> is_absolute (replace_braces s t) = is_absolute t"
proof (cases t rule: has_braces.cases)
  case (1 c d cs)
  assume "take 2 t \<noteq> ''{}''"
  with 1 have "\<not> (c = CHR ''{'' \<and> d = CHR ''}'')" by auto
  then show ?thesis by (auto simp: 1 is_absolute_def)
qed simp_all

lemma is_absolute_replace_braces:
  "take 2 t = ''{}'' \<Longrightarrow> s \<noteq> [] \<Longrightarrow> is_absolute (replace_braces s t) = is_absolute s"
proof (cases t rule: has_braces.cases)
  case (1 c d cs)
  assume "take 2 t = ''{}''" "s \<noteq> []"
  then show ?thesis by (cases s) (simp_all add: 1 is_absolute_def)
qed simp_all

lemma digit_not_absolute: "s \<noteq> [] \<Longrightarrow> list_all is_digit s \<Longrightarrow> \<not> is_absolute s"
  by (cases s) (auto simp: is_absolute_def is_slash_def is_digit_def)

lemma resolve_inj: "resolve m p = resolve m q \<Longrightarrow> is_absolute p = is_absolute q \<Longrightarrow> p = q"
  by (auto simp: resolve_def path_join_def split: if_splits)

lemma key_package_path_inj:
  assumes t: "has_braces (da_key_package args)"
    and eq: "resolve m (key_package_path args i) = resolve m (key_package_path args j)"
  shows "i = j"
proof -
  have "is_absolute (key_package_path args k) \<longleftrightarrow> (take 2 (da_key_package args) \<noteq> ''{}'' \<and> is_absolute (da_key_package args))" for k
    using decimal_digits[of "k + 1"] digit_not_absolute[of "decimal (k + 1)"]
    by (cases "take 2 (da_key_package args) = ''{}''")
      (simp_all add: key_package_path_def is_absolute_replace is_absolute_replace_braces)
  with resolve_inj[OF eq] have "key_package_path args i = key_package_path args j" by simp
  with replace_braces_inj[OF t] decimal_inj show ?thesis unfolding key_package_path_def by fastforce
qed

section \<open>The files written\<close>

definition dealer_item ::
    "text_env \<Rightarrow> ('id, 'sk, 'ss, 'kp, 'pkp, 'rng) dealer_ops \<Rightarrow> dealer_args \<Rightarrow> nat \<times> 'id \<times> 'ss \<Rightarrow>
     ('w machine, error, unit) io" where
  "dealer_item te ops args item =
     (case item of (i, (k, v)) \<Rightarrow>
        let path = key_package_path args i in
        try_io (lift_io (ok_or (secret_share_json ops v) Json_Error)) (\<lambda>t.
        try_io (fs_write path (as_bytes t)) (\<lambda>_.
        eprintln (''Key package for participant '' @ hex_encode te (dealer_id_serialize ops k) @
          '' written to '' @ path))))"

lemma dealer_item_Inr:
  assumes "dealer_item te ops args (i, k, v) m = (Inr (), m')"
  shows "\<exists>t. secret_share_json ops v = Some t \<and>
      files m' = fmupd (resolve m (key_package_path args i)) (as_bytes t) (files m)" (is ?files)
    and "resolve m' p = resolve m p"
proof -
  from assms obtain t m1 where t: "secret_share_json ops v = Some t"
    and m1: "fs_write (key_package_path args i) (as_bytes t) m = (Inr (), m1)"
    and m': "\<exists>x. m' = m1\<lparr>mc_stderr := x\<rparr>"
    unfolding dealer_item_def Let_def prod.case by (auto simp: try_io_eq_Inr eprintln_def eprint_def simp del: try_io_lift)
  note w = fs_write_Inr[OF m1]
  from w m' t show ?files by auto
  from same_rest_resolve[OF w(2)] m' show "resolve m' p = resolve m p" by auto
qed

lemma dealer_items_files:
  assumes "for_io (enumerate n items) (dealer_item te ops args) m = (Inr (), m')"
    and t: "has_braces (da_key_package args)"
  shows "(\<forall>p. (\<forall>i. n \<le> i \<longrightarrow> p \<noteq> resolve m (key_package_path args i)) \<longrightarrow> fmlookup (files m') p = fmlookup (files m) p) \<and>
    (\<forall>j<length items. \<exists>t. secret_share_json ops (snd (items ! j)) = Some t \<and>
       fmlookup (files m') (resolve m (key_package_path args (n + j))) = Some (as_bytes t))"
  using assms(1)
proof (induction items arbitrary: n m)
  case Nil
  then show ?case by simp
next
  case (Cons item items)
  obtain k v where item: "item = (k, v)" by fastforce
  from Cons.prems obtain m1 where m1: "dealer_item te ops args (n, k, v) m = (Inr (), m1)"
    and rest: "for_io (enumerate (Suc n) items) (dealer_item te ops args) m1 = (Inr (), m')"
    by (auto simp: item try_io_eq_Inr)
  note i = dealer_item_Inr[OF m1]
  note IH = Cons.IH[OF rest, unfolded i(2)]
  from i(1) obtain t where t: "secret_share_json ops v = Some t"
    "files m1 = fmupd (resolve m (key_package_path args n)) (as_bytes t) (files m)" by blast
  show ?case
  proof (intro conjI allI impI)
    fix p assume "\<forall>i. n \<le> i \<longrightarrow> p \<noteq> resolve m (key_package_path args i)"
    with IH t(2) show "fmlookup (files m') p = fmlookup (files m) p" by auto
  next
    fix j assume j: "j < length (item # items)"
    show "\<exists>t. secret_share_json ops (snd ((item # items) ! j)) = Some t \<and>
       fmlookup (files m') (resolve m (key_package_path args (n + j))) = Some (as_bytes t)"
    proof (cases j)
      case 0
      have "\<forall>i. Suc n \<le> i \<longrightarrow> resolve m (key_package_path args n) \<noteq> resolve m (key_package_path args i)"
        using key_package_path_inj[OF assms(2), of m n] by fastforce
      with IH t have "fmlookup (files m') (resolve m (key_package_path args n)) = Some (as_bytes t)" by simp
      with 0 t(1) show ?thesis by (simp add: item)
    next
      case (Suc j')
      with IH j show ?thesis by auto
    qed
  qed
qed

end
