(* ===== verification/Config.thy ===== *)
theory Config
  imports Trusted_Dealer Cipher "HOL-Library.List_Lexorder" "HOL-Library.Char_ord"
begin

text \<open>
  The configuration file of the command line client (\<open>cli/config.rs\<close>), its contacts
  (\<open>cli/contact.rs\<close>), and the commands of \<open>cli/args.rs\<close>. The crates for TOML, postcard, bech32 and
  the default directory are fields of \<open>cli_env\<close>.
\<close>

section \<open>Data\<close>

record contact =
  ct_version :: "byte option"
  ct_name :: string
  ct_pubkey :: public_key

record communication_key =
  ck_privkey :: private_key
  ck_pubkey :: public_key

record group_member =
  gm_identifier :: bytes
  gm_pubkey :: public_key

record group_config =
  gc_description :: string
  gc_ciphersuite :: string
  gc_public_key_package :: bytes
  gc_key_package :: bytes
  gc_server_url :: "string option"
  gc_participant :: "(string, group_member) fmap"

record config =
  cf_path :: "string option"
  cf_version :: byte
  cf_communication_key :: "communication_key option"
  cf_contact :: "(string, contact) fmap"
  cf_group :: "(string, group_config) fmap"

definition config_default :: config where
  "config_default = \<lparr>cf_path = None, cf_version = 0, cf_communication_key = None,
     cf_contact = fmempty, cf_group = fmempty\<rparr>"

record group_info =
  gi_hex_verifying_key :: string
  gi_threshold :: nat
  gi_num_participants :: nat

text \<open>
  \<open>ce_tmp\<close> is the name of a new temporary file in a directory. \<open>ce_key_package\<close> and
  \<open>ce_public_key_package\<close> parse the packages of a ciphersuite: the threshold of the former, and the
  serialized verifying key, if it can be serialized, and the number of shares of the latter.
\<close>

record 'w cli_env =
  ce_text :: text_env
  ce_config_dir :: "string option"
  ce_toml_print :: "config \<Rightarrow> string option"
  ce_toml_parse :: "string \<Rightarrow> config option"
  ce_tmp :: "string \<Rightarrow> string"
  ce_contact_bytes :: "contact \<Rightarrow> bytes option"
  ce_contact_of_bytes :: "bytes \<Rightarrow> contact option"
  ce_bech32_encode :: "string \<Rightarrow> bytes \<Rightarrow> string option"
  ce_bech32_decode :: "string \<Rightarrow> (string \<times> bytes) option"
  ce_keypair :: "'w \<Rightarrow> (bytes \<times> bytes) option \<times> 'w"
  ce_ed25519_id :: string
  ce_redpallas_id :: string
  ce_key_package :: "string \<Rightarrow> bytes \<Rightarrow> 16 word option"
  ce_public_key_package :: "string \<Rightarrow> bytes \<Rightarrow> (bytes option \<times> nat) option"

section \<open>Commands\<close>

record coordinator_command =
  cc_config :: "string option"
  cc_server_url :: "string option"
  cc_group :: string
  cc_signers :: "string list"
  cc_message :: "string list"
  cc_randomizer :: "string list"
  cc_aux_message :: "string option"
  cc_signature :: "string list"

record dealer_command =
  dl_config :: "string list"
  dl_description :: string
  dl_names :: "string list"
  dl_server_url :: "string option"
  dl_ciphersuite :: string
  dl_threshold :: "16 word"
  dl_num_signers :: "16 word"

record dkg_command =
  dk_config :: "string option"
  dk_description :: string
  dk_server_url :: string
  dk_ciphersuite :: string
  dk_threshold :: "16 word"
  dk_participants :: "string list"

record sessions_command =
  ss_config :: "string option"
  ss_server_url :: "string option"
  ss_group :: "string option"
  ss_close_all :: bool

record participant_command =
  pc_config :: "string option"
  pc_server_url :: "string option"
  pc_group :: string
  pc_session :: "string option"

datatype command =
    Init "string option"
  | Export string "string option"
  | Import string "string option"
  | Contacts "string option"
  | RemoveContact "string option" string
  | TrustedDealer dealer_command
  | Dkg dkg_command
  | Groups "string option"
  | RemoveGroup "string option" string
  | Sessions sessions_command
  | CoordinatorCmd coordinator_command
  | ParticipantCmd participant_command

definition invalid_command :: "('w machine, error, 'a) io" where
  "invalid_command = fail_io (Panic ''invalid Command'')"

section \<open>The configuration file\<close>

definition parse_path :: "'w cli_env \<Rightarrow> string option \<Rightarrow> error + string" where
  "parse_path env path =
     (case path of
        Some path \<Rightarrow> Inr path
      | None \<Rightarrow> (case ce_config_dir env of
          None \<Rightarrow> Inl (Panic ''called Option::unwrap() on a None value'')
        | Some d \<Rightarrow> Inr (path_join (path_join d ''frost'') ''credentials.toml'')))"

definition config_read :: "'w cli_env \<Rightarrow> string option \<Rightarrow> ('w machine, error, config) io" where
  "config_read env path =
     try_io (lift_io (parse_path env path)) (\<lambda>path. \<lambda>m.
     if \<not> path_exists m path then (Inr (config_default\<lparr>cf_path := Some path\<rparr>), m)
     else try_io (fs_read path) (\<lambda>bytes.
          try_io (lift_io (ok_or (utf8 (ce_text env) bytes) (Parse_Error ''utf8''))) (\<lambda>s.
          try_io (lift_io (ok_or (ce_toml_parse env s) (Parse_Error ''toml''))) (\<lambda>config.
          ret_io (config\<lparr>cf_path := Some path\<rparr>)))) m)"

definition config_write :: "'w cli_env \<Rightarrow> config \<Rightarrow> ('w machine, error, unit) io" where
  "config_write env config =
     try_io (lift_io (ok_or (ce_toml_print env config) (Parse_Error ''toml''))) (\<lambda>s.
     try_io (lift_io (ok_or (cf_path config) (Eyre ''path not specified''))) (\<lambda>path.
     write_file (ce_tmp env) path (as_bytes s)))"

definition contact_by_pubkey :: "config \<Rightarrow> public_key \<Rightarrow> error + contact" where
  "contact_by_pubkey config pubkey =
     (if Some pubkey = map_option ck_pubkey (cf_communication_key config)
      then Inr \<lparr>ct_version = Some 0, ct_name = [], ct_pubkey = pubkey\<rparr>
      else ok_or (List.find (\<lambda>c. ct_pubkey c = pubkey) (map snd (btree_items (cf_contact config))))
        (Eyre ''contact not found''))"

definition participant_by_pubkey :: "group_config \<Rightarrow> public_key \<Rightarrow> error + group_member" where
  "participant_by_pubkey grp pubkey =
     ok_or (List.find (\<lambda>p. gm_pubkey p = pubkey) (map snd (btree_items (gc_participant grp))))
       (Eyre ''Participant not found'')"

text \<open>The information of \<open>ciphersuite_helper.rs\<close> and the summary of a group.\<close>

definition ciphersuite_helper :: "'w cli_env \<Rightarrow> string \<Rightarrow> error + (bytes \<Rightarrow> bytes \<Rightarrow> error + group_info)" where
  "ciphersuite_helper env ciphersuite_id =
     (if ciphersuite_id = ce_ed25519_id env \<or> ciphersuite_id = ce_redpallas_id env
      then Inr (\<lambda>encoded_key_package encoded_public_key_package.
        tryr (ok_or (ce_key_package env ciphersuite_id encoded_key_package) (Parse_Error ''postcard'')) (\<lambda>min_signers.
        tryr (ok_or (ce_public_key_package env ciphersuite_id encoded_public_key_package) (Parse_Error ''postcard''))
          (\<lambda>(verifying_key, num_participants).
        tryr (ok_or verifying_key (Frost_Error ''Serialization'')) (\<lambda>key.
        Inr \<lparr>gi_hex_verifying_key = hex_encode (ce_text env) key, gi_threshold = unat min_signers,
          gi_num_participants = num_participants\<rparr>))))
      else Inl (Eyre ''invalid ciphersuite ID''))"

definition line :: "string \<Rightarrow> string" where
  "line s = s @ [CHR 0x0A]"

definition tab :: string where
  "tab = [CHR 0x09]"

definition group_summary :: "'w cli_env \<Rightarrow> config \<Rightarrow> group_config \<Rightarrow> error + string" where
  "group_summary env config grp =
     tryr (ciphersuite_helper env (gc_ciphersuite grp)) (\<lambda>helper.
     tryr (helper (gc_key_package grp) (gc_public_key_package grp)) (\<lambda>info.
     tryr (collect_results (map (\<lambda>(_, participant).
         tryr (contact_by_pubkey config (gm_pubkey participant)) (\<lambda>contact.
         Inr (line (tab @ ct_name contact @ tab @ ''('' @ hex_encode (ce_text env) (pk_bytes (ct_pubkey contact)) @ '')''))))
       (btree_items (gc_participant grp)))) (\<lambda>lines.
     Inr (line (''Group '' @ [CHR 0x22] @ gc_description grp @ [CHR 0x22]) @
          line (''Public key '' @ gi_hex_verifying_key info) @
          line (''Server URL: '' @ (case gc_server_url grp of None \<Rightarrow> [] | Some u \<Rightarrow> u)) @
          line (''Threshold: '' @ decimal (gi_threshold info)) @
          line (''Participants: '' @ decimal (gi_num_participants info)) @ concat lines))))"

section \<open>Contacts as text\<close>

definition contact_summary :: "'w cli_env \<Rightarrow> contact \<Rightarrow> string" where
  "contact_summary env c =
     line (''Name: '' @ ct_name c) @ line (''Public Key: '' @ hex_encode (ce_text env) (pk_bytes (ct_pubkey c)))"

definition as_text :: "'w cli_env \<Rightarrow> contact \<Rightarrow> error + string" where
  "as_text env c =
     tryr (ok_or (ce_contact_bytes env c) (Parse_Error ''postcard'')) (\<lambda>bytes.
     ok_or (ce_bech32_encode env ''zffrost'' bytes) (Parse_Error ''bech32''))"

definition from_text :: "'w cli_env \<Rightarrow> string \<Rightarrow> error + contact" where
  "from_text env s =
     tryr (ok_or (ce_bech32_decode env s) (Parse_Error ''bech32'')) (\<lambda>(hrp, bytes).
     if hrp \<noteq> ''zffrost'' then Inl (Eyre ''invalid contact format'')
     else tryr (ok_or (ce_contact_of_bytes env bytes) (Parse_Error ''postcard'')) (\<lambda>contact.
          if ct_version contact \<noteq> Some 0 then Inl (Eyre ''invalid contact version'')
          else Inr contact))"

section \<open>What is assumed of the formats\<close>

text \<open>
  TOML round-trips, but for the path, which is not serialized; postcard and bech32 round-trip.
\<close>

definition toml_ok :: "'w cli_env \<Rightarrow> bool" where
  "toml_ok env \<longleftrightarrow> (\<forall>c s. ce_toml_print env c = Some s \<longrightarrow>
     utf8 (ce_text env) (as_bytes s) = Some s \<and> ce_toml_parse env s = Some (c\<lparr>cf_path := None\<rparr>))"

definition contact_text_ok :: "'w cli_env \<Rightarrow> bool" where
  "contact_text_ok env \<longleftrightarrow>
     (\<forall>c b. ce_contact_bytes env c = Some b \<longrightarrow> ce_contact_of_bytes env b = Some c) \<and>
     (\<forall>h b s. ce_bech32_encode env h b = Some s \<longrightarrow> ce_bech32_decode env s = Some (h, b))"

lemma from_text_as_text:
  "contact_text_ok env \<Longrightarrow> as_text env c = Inr s \<Longrightarrow> ct_version c = Some 0 \<Longrightarrow> from_text env s = Inr c"
  by (auto simp: contact_text_ok_def as_text_def from_text_def)

section \<open>Reading and writing\<close>

text \<open>What reading the file at a path gives: no file is an empty configuration.\<close>

definition config_at :: "'w cli_env \<Rightarrow> (string, bytes) fmap \<Rightarrow> string \<Rightarrow> config option" where
  "config_at env fs p =
     (case fmlookup fs p of
        None \<Rightarrow> Some config_default
      | Some b \<Rightarrow> Option.bind (utf8 (ce_text env) b) (ce_toml_parse env))"

lemma config_read_Inr:
  assumes "config_read env path m = (Inr config, m')"
  shows "m' = m"
    and "\<exists>p c. parse_path env path = Inr p \<and> config_at env (files m) (resolve m p) = Some c \<and>
      config = c\<lparr>cf_path := Some p\<rparr>"
proof -
  from assms show "m' = m"
    by (auto simp: config_read_def fs_read_def try_io_eq_Inr split: if_splits simp del: try_io_lift)
  from assms obtain p where p: "parse_path env path = Inr p"
    by (auto simp: config_read_def try_io_eq_Inr simp del: try_io_lift)
  show "\<exists>p c. parse_path env path = Inr p \<and> config_at env (files m) (resolve m p) = Some c \<and>
      config = c\<lparr>cf_path := Some p\<rparr>"
  proof (cases "path_exists m p")
    case False
    with assms p have "config = config_default\<lparr>cf_path := Some p\<rparr>" by (simp add: config_read_def)
    moreover from False have "config_at env (files m) (resolve m p) = Some config_default"
      by (simp add: config_at_def path_exists_def fmdom_notD)
    ultimately show ?thesis using p by blast
  next
    case True
    with assms p obtain b s c where "fmlookup (files m) (resolve m p) = Some b" "utf8 (ce_text env) b = Some s"
      "ce_toml_parse env s = Some c" "config = c\<lparr>cf_path := Some p\<rparr>"
      by (auto simp: config_read_def fs_read_def try_io_eq_Inr split: if_splits simp del: try_io_lift)
    then show ?thesis using p by (auto simp: config_at_def)
  qed
qed

lemma config_read_Inl: "config_read env path m = (Inl e, m') \<Longrightarrow> m' = m"
  by (auto simp: config_read_def fs_read_def try_io_def lift_io_def split: if_splits sum.splits prod.splits)

lemma config_write_cases:
  assumes "config_write env config m = (r, m')" and "toml_ok env" and "cf_path config = Some p"
  shows "same_rest m m'"
    and "files m' = files m \<and> (\<exists>e. r = Inl e) \<or>
      (\<exists>b. files m' = fmupd (resolve m p) b (files m)) \<and>
       config_at env (files m') (resolve m p) = Some (config\<lparr>cf_path := None\<rparr>) \<and> r = Inr ()"
proof -
  have "same_rest m m' \<and> (files m' = files m \<and> (\<exists>e. r = Inl e) \<or>
      (\<exists>b. files m' = fmupd (resolve m p) b (files m)) \<and>
       config_at env (files m') (resolve m p) = Some (config\<lparr>cf_path := None\<rparr>) \<and> r = Inr ())"
  proof (cases "ce_toml_print env config")
    case None
    with assms(1) show ?thesis by (auto simp: config_write_def same_rest_def)
  next
    case (Some s)
    with assms(1,3) have w: "write_file (ce_tmp env) p (as_bytes s) m = (r, m')" by (simp add: config_write_def)
    from assms(2) Some have "utf8 (ce_text env) (as_bytes s) = Some s" "ce_toml_parse env s = Some (config\<lparr>cf_path := None\<rparr>)"
      by (simp_all add: toml_ok_def)
    then show ?thesis using write_file_spec(1,2)[OF w] by (auto simp: config_at_def)
  qed
  then show "same_rest m m'" "files m' = files m \<and> (\<exists>e. r = Inl e) \<or>
      (\<exists>b. files m' = fmupd (resolve m p) b (files m)) \<and>
       config_at env (files m') (resolve m p) = Some (config\<lparr>cf_path := None\<rparr>) \<and> r = Inr ()" by auto
qed

end
