(* ===== verification/Contacts.thy ===== *)
theory Contacts
  imports Config
begin

text \<open>
  The commands on the configuration file alone: \<open>init\<close>, \<open>export\<close>, \<open>import\<close>, \<open>contacts\<close>,
  \<open>remove-contact\<close>, \<open>groups\<close> and \<open>remove-group\<close> (\<open>cli/init.rs\<close>, \<open>cli/contact.rs\<close>,
  \<open>cli/group.rs\<close>), and the address book they implement.
\<close>

section \<open>Commands\<close>

text \<open>\<open>Cipher::generate_keypair\<close>.\<close>

definition generate_keypair :: "'w cli_env \<Rightarrow> ('w machine, error, private_key \<times> public_key) io" where
  "generate_keypair env m =
     (case ce_keypair env (mc_world m) of
        (None, w) \<Rightarrow> (Inl Snow_Error, m\<lparr>mc_world := w\<rparr>)
      | (Some (sk, pk), w) \<Rightarrow> (Inr (PrivateKey sk, PublicKey pk), m\<lparr>mc_world := w\<rparr>))"

definition KEEP_SAFE :: string where
  "KEEP_SAFE = ''Done.'' @ [CHR 0x0A] @
     ''WARNING: the config file will contain your private FROST shares in clear. '' @
     ''Keep it safe and never share it with anyone. Future versions of this tool might encrypt '' @
     ''the config file.''"

fun init_cmd :: "'w cli_env \<Rightarrow> command \<Rightarrow> ('w machine, error, unit) io" where
  "init_cmd env (Init path) =
     try_io (config_read env path) (\<lambda>config.
     try_io (case cf_communication_key config of
         Some _ \<Rightarrow> try_io (eprintln ''Skipping keypair generation; keypair already generated and stored'') (\<lambda>_.
                   ret_io config)
       | None \<Rightarrow> try_io (eprintln ''Generating keypair... '') (\<lambda>_.
                 try_io (generate_keypair env) (\<lambda>(privkey, pubkey).
                 ret_io (config\<lparr>cf_communication_key := Some \<lparr>ck_privkey = privkey, ck_pubkey = pubkey\<rparr>\<rparr>)))) (\<lambda>config.
     try_io (lift_io (ok_or (cf_path config) (Panic ''should not be None''))) (\<lambda>p.
     try_io (eprintln (''Writing to config file at '' @ p @ ''...'')) (\<lambda>_.
     try_io (config_write env config) (\<lambda>_.
     eprintln KEEP_SAFE)))))"
| "init_cmd env _ = invalid_command"

fun import_cmd :: "'w cli_env \<Rightarrow> command \<Rightarrow> ('w machine, error, unit) io" where
  "import_cmd env (Import text_contact path) =
     try_io (config_read env path) (\<lambda>config.
     try_io (lift_io (from_text env text_contact)) (\<lambda>contact.
     if ct_name contact |\<in>| fmdom (cf_contact config)
     then fail_io (Eyre (''contact with name '' @ ct_name contact @ '' already exists. Either remove the existing '' @
       ''one, or ask the sender to change their display name when exporting''))
     else if list_ex (\<lambda>(_, c). ct_pubkey c = ct_pubkey contact) (btree_items (cf_contact config))
     then fail_io (Eyre (''pubkey '' @ hex_encode (ce_text env) (pk_bytes (ct_pubkey contact)) @
       '' already registered for '' @ ct_name contact))
     else if map_option ck_pubkey (cf_communication_key config) = Some (ct_pubkey contact)
     then fail_io (Eyre (''pubkey '' @ hex_encode (ce_text env) (pk_bytes (ct_pubkey contact)) @
       '' already registered for yourself''))
     else
       let contact = contact\<lparr>ct_version := None\<rparr>;
           config = config\<lparr>cf_contact := fmupd (ct_name contact) contact (cf_contact config)\<rparr> in
       try_io (eprintln ''Imported this contact:'') (\<lambda>_.
       try_io (eprint (contact_summary env contact)) (\<lambda>_.
       config_write env config))))"
| "import_cmd env _ = invalid_command"

definition CHECK_EXPORT :: string where
  "CHECK_EXPORT = ''Check if contains the expected information. If it does, copy the following '' @
     ''contact string and send to other participants you want to use FROST with:''"

fun export_cmd :: "'w cli_env \<Rightarrow> command \<Rightarrow> ('w machine, error, unit) io" where
  "export_cmd env (Export nm path) =
     try_io (config_read env path) (\<lambda>config.
     try_io (lift_io (ok_or (cf_communication_key config) (Eyre ''pubkey not generated yet''))) (\<lambda>key.
     let contact = \<lparr>ct_version = Some 0, ct_name = nm, ct_pubkey = ck_pubkey key\<rparr> in
     try_io (eprintln ''Exporting this information:'') (\<lambda>_.
     try_io (eprint (contact_summary env contact)) (\<lambda>_.
     try_io (eprintln CHECK_EXPORT) (\<lambda>_.
     try_io (lift_io (as_text env contact)) (\<lambda>t.
     eprintln t))))))"
| "export_cmd env _ = invalid_command"

fun contacts_cmd :: "'w cli_env \<Rightarrow> command \<Rightarrow> ('w machine, error, unit) io" where
  "contacts_cmd env (Contacts path) =
     try_io (config_read env path) (\<lambda>config.
     for_io (btree_items (cf_contact config)) (\<lambda>(_, contact).
       try_io (eprint (contact_summary env contact)) (\<lambda>_.
       try_io (lift_io (as_text env contact)) (\<lambda>t.
       try_io (eprintln t) (\<lambda>_.
       eprintln [])))))"
| "contacts_cmd env _ = invalid_command"

fun remove_contact_cmd :: "'w cli_env \<Rightarrow> command \<Rightarrow> ('w machine, error, unit) io" where
  "remove_contact_cmd env (RemoveContact path pubkey) =
     try_io (config_read env path) (\<lambda>config.
     try_io (lift_io (ok_or
       (List.find (\<lambda>(_, c). hex_encode (ce_text env) (pk_bytes (ct_pubkey c)) = pubkey) (btree_items (cf_contact config)))
       (Eyre ''contact not found''))) (\<lambda>(nm, _).
     config_write env (config\<lparr>cf_contact := fmdrop nm (cf_contact config)\<rparr>)))"
| "remove_contact_cmd env _ = invalid_command"

fun groups_cmd :: "'w cli_env \<Rightarrow> command \<Rightarrow> ('w machine, error, unit) io" where
  "groups_cmd env (Groups path) =
     try_io (config_read env path) (\<lambda>config.
     for_io (btree_items (cf_group config)) (\<lambda>(_, grp).
       try_io (lift_io (group_summary env config grp)) (\<lambda>s.
       try_io (eprint s) (\<lambda>_.
       eprintln []))))"
| "groups_cmd env _ = invalid_command"

fun remove_group_cmd :: "'w cli_env \<Rightarrow> command \<Rightarrow> ('w machine, error, unit) io" where
  "remove_group_cmd env (RemoveGroup path grp) =
     try_io (config_read env path) (\<lambda>config.
     try_io (lift_io (ok_or (fmlookup (cf_group config) grp) (Eyre ''group not found''))) (\<lambda>_.
     config_write env (config\<lparr>cf_group := fmdrop grp (cf_group config)\<rparr>)))"
| "remove_group_cmd env _ = invalid_command"

text \<open>The part of the dispatch of \<open>main.rs\<close> that concerns the configuration file alone.\<close>

fun config_cmd :: "'w cli_env \<Rightarrow> command \<Rightarrow> ('w machine, error, unit) io option" where
  "config_cmd env (Init p) = Some (init_cmd env (Init p))"
| "config_cmd env (Export n p) = Some (export_cmd env (Export n p))"
| "config_cmd env (Import t p) = Some (import_cmd env (Import t p))"
| "config_cmd env (Contacts p) = Some (contacts_cmd env (Contacts p))"
| "config_cmd env (RemoveContact p k) = Some (remove_contact_cmd env (RemoveContact p k))"
| "config_cmd env (Groups p) = Some (groups_cmd env (Groups p))"
| "config_cmd env (RemoveGroup p g) = Some (remove_group_cmd env (RemoveGroup p g))"
| "config_cmd env _ = None"

section \<open>The address book\<close>

text \<open>
  What a configuration says, as an address book: the user's own key, the key of each contact and the
  groups. \<open>book_op\<close> is the effect each command promises on it, \<open>None\<close> when it must not succeed;
  \<open>new\<close> is the public key of the key pair that \<open>init\<close> may generate.
\<close>

record book =
  bk_own :: "public_key option"
  bk_people :: "(string, public_key) fmap"
  bk_groups :: "(string, group_config) fmap"

definition book_of :: "config \<Rightarrow> book" where
  "book_of c = \<lparr>bk_own = map_option ck_pubkey (cf_communication_key c), bk_people = fmmap ct_pubkey (cf_contact c),
     bk_groups = cf_group c\<rparr>"

fun book_op :: "'w cli_env \<Rightarrow> public_key option \<Rightarrow> command \<Rightarrow> book \<Rightarrow> book option" where
  "book_op env new (Init path) b =
     (if bk_own b = None then map_option (\<lambda>k. b\<lparr>bk_own := Some k\<rparr>) new else Some b)"
| "book_op env new (Export nm path) b = (if bk_own b = None then None else Some b)"
| "book_op env new (Import t path) b =
     (case from_text env t of
        Inl e \<Rightarrow> None
      | Inr contact \<Rightarrow>
          if ct_name contact |\<in>| fmdom (bk_people b) \<or> ct_pubkey contact \<in> fmvals (bk_people b) \<or>
             bk_own b = Some (ct_pubkey contact)
          then None else Some (b\<lparr>bk_people := fmupd (ct_name contact) (ct_pubkey contact) (bk_people b)\<rparr>))"
| "book_op env new (Contacts path) b = Some b"
| "book_op env new (RemoveContact path pubkey) b =
     map_option (\<lambda>(nm, _). b\<lparr>bk_people := fmdrop nm (bk_people b)\<rparr>)
       (List.find (\<lambda>(_, k). hex_encode (ce_text env) (pk_bytes k) = pubkey) (btree_items (bk_people b)))"
| "book_op env new (Groups path) b = Some b"
| "book_op env new (RemoveGroup path grp) b =
     (if grp |\<in>| fmdom (bk_groups b) then Some (b\<lparr>bk_groups := fmdrop grp (bk_groups b)\<rparr>) else None)"
| "book_op env new _ b = None"

text \<open>The path of the configuration file a command is given.\<close>

fun command_path :: "command \<Rightarrow> string option" where
  "command_path (Init path) = path"
| "command_path (Export _ path) = path"
| "command_path (Import _ path) = path"
| "command_path (Contacts path) = path"
| "command_path (RemoveContact path _) = path"
| "command_path (Groups path) = path"
| "command_path (RemoveGroup path _) = path"
| "command_path _ = None"

text \<open>The address books of the files of a machine.\<close>

definition book_at :: "'w cli_env \<Rightarrow> 'w machine \<Rightarrow> string \<Rightarrow> book option" where
  "book_at env m p = map_option book_of (config_at env (files m) p)"

definition generated_key :: "'w cli_env \<Rightarrow> 'w machine \<Rightarrow> public_key option" where
  "generated_key env m = map_option (\<lambda>(sk, pk). PublicKey pk) (fst (ce_keypair env (mc_world m)))"

text \<open>What one command does to the address books of all files, when it succeeds and when it fails.\<close>

definition book_done ::
    "'w cli_env \<Rightarrow> command \<Rightarrow> (error + 'a) \<Rightarrow> 'w machine \<Rightarrow> 'w machine \<Rightarrow> bool" where
  "book_done env cmd r m m' \<longleftrightarrow>
     (case r of
        Inl e \<Rightarrow> book_at env m' = book_at env m
      | Inr _ \<Rightarrow> (\<exists>p b b'. parse_path env (command_path cmd) = Inr p \<and> book_at env m (resolve m p) = Some b \<and>
          book_op env (generated_key env m) cmd b = Some b' \<and>
          book_at env m' = (book_at env m)(resolve m p \<mapsto> b')))"

lemma book_of_path [simp]: "book_of (c\<lparr>cf_path := p\<rparr>) = book_of c"
  by (simp add: book_of_def)

lemma book_of_simps [simp]:
  "bk_own (book_of c) = map_option ck_pubkey (cf_communication_key c)"
  "bk_people (book_of c) = fmmap ct_pubkey (cf_contact c)"
  "bk_groups (book_of c) = cf_group c"
  by (simp_all add: book_of_def)

lemma book_at_cong: "files m' = files m \<Longrightarrow> book_at env m' = book_at env m"
  by (simp add: book_at_def fun_eq_iff)

text \<open>Parts of a command that leave the files and the working directory alone.\<close>

definition same_disk :: "'w machine \<Rightarrow> 'w machine \<Rightarrow> bool" where
  "same_disk m m' \<longleftrightarrow> files m' = files m \<and> mc_cwd m' = mc_cwd m"

definition no_writes :: "('w machine, error, 'a) io \<Rightarrow> bool" where
  "no_writes body \<longleftrightarrow> (\<forall>m r m'. body m = (r, m') \<longrightarrow> same_disk m m')"

lemma same_disk_refl [simp]: "same_disk m m"
  by (simp add: same_disk_def)

lemma same_disk_trans: "same_disk a b \<Longrightarrow> same_disk b c \<Longrightarrow> same_disk a c"
  by (simp add: same_disk_def)

lemma no_writesD: "no_writes body \<Longrightarrow> body m = (r, m') \<Longrightarrow> same_disk m m'"
  by (simp add: no_writes_def)

lemma no_writes_basic [inv_intros]:
  "no_writes (eprint s)" "no_writes (eprintln s)" "no_writes (ret_io x)" "no_writes (fail_io e)" "no_writes (lift_io r)"
  by (simp_all add: no_writes_def same_disk_def eprint_def eprintln_def)

lemma no_writes_try [inv_intros]: "no_writes first \<Longrightarrow> (\<And>x. no_writes (rest x)) \<Longrightarrow> no_writes (try_io first rest)"
  unfolding no_writes_def try_io_def by (fastforce split: prod.splits sum.splits intro: same_disk_trans)

lemma no_writes_for [inv_intros]: "(\<And>x. no_writes (f x)) \<Longrightarrow> no_writes (for_io xs f)"
  by (induction xs) (auto intro: inv_intros)

lemma no_writes_read [inv_intros]: "no_writes (config_read env path)"
  unfolding no_writes_def by (metis config_read_Inl config_read_Inr(1) same_disk_refl sum.exhaust)

lemma no_writes_generate [inv_intros]: "no_writes (generate_keypair env)"
  by (auto simp: no_writes_def same_disk_def generate_keypair_def split: prod.splits option.splits)

text \<open>Commands that fail leave the files alone.\<close>

definition fails_clean :: "('w machine, error, 'a) io \<Rightarrow> bool" where
  "fails_clean body \<longleftrightarrow> (\<forall>m e m'. body m = (Inl e, m') \<longrightarrow> files m' = files m)"

lemma fails_clean_no_writes: "no_writes body \<Longrightarrow> fails_clean body"
  by (auto simp: fails_clean_def no_writes_def same_disk_def)

lemma fails_clean_before:
  assumes "no_writes first" and "\<And>x. fails_clean (rest x)"
  shows "fails_clean (try_io first rest)"
  unfolding fails_clean_def
proof (intro allI impI)
  fix m e m' assume run: "try_io first rest m = (Inl e, m')"
  obtain r1 m1 where m1: "first m = (r1, m1)" by fastforce
  from no_writesD[OF assms(1) m1] have same: "files m1 = files m" by (simp add: same_disk_def)
  show "files m' = files m"
  proof (cases r1)
    case (Inl e1)
    with run m1 same show ?thesis by (simp add: try_io_def)
  next
    case (Inr x)
    with run m1 have "rest x m1 = (Inl e, m')" by (simp add: try_io_def)
    with assms(2) same show ?thesis by (metis fails_clean_def)
  qed
qed

lemma fails_clean_if: "fails_clean x \<Longrightarrow> fails_clean y \<Longrightarrow> fails_clean (if b then x else y)"
  by simp

lemma fails_clean_write: "fails_clean (config_write env config)"
  unfolding fails_clean_def
proof (intro allI impI)
  fix m e m' assume w: "config_write env config m = (Inl e, m')"
  show "files m' = files m"
  proof (cases "ce_toml_print env config")
    case None
    with w show ?thesis by (simp add: config_write_def)
  next
    case s: (Some s)
    show ?thesis
    proof (cases "cf_path config")
      case None
      with w s show ?thesis by (simp add: config_write_def)
    next
      case (Some p)
      with w s have "write_file (ce_tmp env) p (as_bytes s) m = (Inl e, m')" by (simp add: config_write_def)
      from write_file_spec(2)[OF this] show ?thesis by simp
    qed
  qed
qed

lemma fails_clean_end: "fails_clean body \<Longrightarrow> fails_clean (try_io body (\<lambda>_. eprintln s))"
  by (auto simp: fails_clean_def try_io_def eprintln_def eprint_def split: prod.splits sum.splits)

lemmas fails_clean_intros = fails_clean_end[OF fails_clean_write] fails_clean_write fails_clean_if
  fails_clean_before[OF no_writes_read] fails_clean_before[OF no_writes_basic(1)] fails_clean_before[OF no_writes_basic(2)]
  fails_clean_before[OF no_writes_basic(5)] fails_clean_no_writes[OF no_writes_basic(4)]

text \<open>A command that succeeds has stored the configuration its branch computes.\<close>

lemma try_no_writes:
  assumes "try_io first rest m = (Inr v, m')" and "no_writes first"
  obtains x m1 where "first m = (Inr x, m1)" "rest x m1 = (Inr v, m')" "same_disk m m1"
  using assms no_writesD[OF assms(2)] by (auto simp: try_io_eq_Inr simp del: try_io_lift)

lemma wrote_book:
  assumes r: "config_read env path m = (Inr config, m1)" and e: "toml_ok env"
    and p: "cf_path config' = cf_path config" and m2: "same_disk m m2"
    and w: "config_write env config' m2 = (Inr (), m3)" and m': "same_disk m3 m'"
  obtains p where "parse_path env path = Inr p" "book_at env m (resolve m p) = Some (book_of config)"
    "book_at env m' = (book_at env m)(resolve m p \<mapsto> book_of config')"
proof -
  from config_read_Inr(2)[OF r] obtain p c where c: "parse_path env path = Inr p"
    "config_at env (files m) (resolve m p) = Some c" "config = c\<lparr>cf_path := Some p\<rparr>" by blast
  from m2 have res: "resolve m2 q = resolve m q" for q by (simp add: same_disk_def resolve_def current_dir_def)
  from p c(3) have p': "cf_path config' = Some p" by simp
  from config_write_cases(2)[OF w e p'] have upd: "\<exists>b. files m3 = fmupd (resolve m p) b (files m2)"
    and at: "config_at env (files m3) (resolve m p) = Some (config'\<lparr>cf_path := None\<rparr>)"
    by (auto simp: res)
  have "book_at env m' q = ((book_at env m)(resolve m p \<mapsto> book_of config')) q" for q
    using upd at m2 m' by (auto simp: book_at_def config_at_def same_disk_def)
  then have "book_at env m' = (book_at env m)(resolve m p \<mapsto> book_of config')" by (rule ext)
  with c show ?thesis by (intro that[of p]) (simp_all add: book_at_def)
qed

lemma read_book:
  assumes r: "config_read env path m = (Inr config, m1)" and m': "files m' = files m"
  obtains p where "parse_path env path = Inr p" "book_at env m (resolve m p) = Some (book_of config)"
    "book_at env m' = (book_at env m)(resolve m p \<mapsto> book_of config)"
proof -
  from config_read_Inr(2)[OF r] obtain p c where c: "parse_path env path = Inr p"
    "config_at env (files m) (resolve m p) = Some c" "config = c\<lparr>cf_path := Some p\<rparr>" by blast
  then have "book_at env m (resolve m p) = Some (book_of config)" by (simp add: book_at_def)
  with c(1) book_at_cong[OF m', of env] show ?thesis by (intro that[of p]) (simp_all add: fun_upd_idem)
qed

lemma fmmap_upd: "fmmap f (fmupd k v m) = fmupd k (f v) (fmmap f m)"
  by (rule fmap_ext) simp

lemma btree_items_fmmap: "btree_items (fmmap f m) = map (\<lambda>(k, v). (k, f v)) (btree_items m)"
  by (auto simp: btree_items_def intro!: map_cong)

lemma find_map: "List.find P (map f xs) = map_option f (List.find (\<lambda>x. P (f x)) xs)"
  by (induction xs) auto

section \<open>The commands and the address book\<close>

definition set_key :: "'w cli_env \<Rightarrow> config \<Rightarrow> ('w machine, error, config) io" where
  "set_key env config =
     (case cf_communication_key config of
         Some _ \<Rightarrow> try_io (eprintln ''Skipping keypair generation; keypair already generated and stored'') (\<lambda>_.
                   ret_io config)
       | None \<Rightarrow> try_io (eprintln ''Generating keypair... '') (\<lambda>_.
                 try_io (generate_keypair env) (\<lambda>(privkey, pubkey).
                 ret_io (config\<lparr>cf_communication_key := Some \<lparr>ck_privkey = privkey, ck_pubkey = pubkey\<rparr>\<rparr>))))"

lemma set_key_no_writes [inv_intros]: "no_writes (set_key env config)"
  unfolding set_key_def by (auto intro!: inv_intros split: option.split)

lemma set_key_Inr:
  assumes "set_key env config m = (Inr config', m')"
  shows "book_op env (generated_key env m) (Init path) (book_of config) = Some (book_of config') \<and>
    cf_path config' = cf_path config"
  using assms
  by (auto simp: set_key_def try_io_eq_Inr generate_keypair_def generated_key_def book_of_def eprintln_def
      eprint_def simp del: try_io_lift split: option.splits prod.splits)

lemma init_cmd_eq:
  "init_cmd env (Init path) = try_io (config_read env path) (\<lambda>config.
     try_io (set_key env config) (\<lambda>config.
     try_io (lift_io (ok_or (cf_path config) (Panic ''should not be None''))) (\<lambda>p.
     try_io (eprintln (''Writing to config file at '' @ p @ ''...'')) (\<lambda>_.
     try_io (config_write env config) (\<lambda>_. eprintln KEEP_SAFE)))))"
  by (simp add: set_key_def fun_eq_iff)

lemma config_cmd_fails_clean:
  assumes "config_cmd env cmd = Some f"
  shows "fails_clean f"
proof (cases cmd)
  case (Init path)
  have "fails_clean (init_cmd env (Init path))"
    unfolding init_cmd_eq by (intro fails_clean_intros fails_clean_before[OF set_key_no_writes])
  with Init assms show ?thesis by simp
next
  case (Import t path)
  have "fails_clean (import_cmd env (Import t path))"
    unfolding import_cmd.simps Let_def by (intro fails_clean_intros)
  with Import assms show ?thesis by simp
next
  case (RemoveContact path k)
  have "fails_clean (remove_contact_cmd env (RemoveContact path k))"
    unfolding remove_contact_cmd.simps case_prod_beta by (intro fails_clean_intros)
  with RemoveContact assms show ?thesis by simp
next
  case (RemoveGroup path g)
  have "fails_clean (remove_group_cmd env (RemoveGroup path g))"
    unfolding remove_group_cmd.simps by (intro fails_clean_intros)
  with RemoveGroup assms show ?thesis by simp
qed (use assms in \<open>auto intro!: fails_clean_no_writes inv_intros simp: Let_def\<close>)

text \<open>The commands that succeed, one by one.\<close>

abbreviation succeeded :: "'w cli_env \<Rightarrow> command \<Rightarrow> 'w machine \<Rightarrow> 'w machine \<Rightarrow> bool" where
  "succeeded env cmd m m' \<equiv> book_done env cmd (Inr () :: error + unit) m m'"

lemma succeededI:
  assumes "parse_path env (command_path cmd) = Inr p" and "book_at env m (resolve m p) = Some b"
    and "book_op env (generated_key env m) cmd b = Some b'" and "book_at env m' = (book_at env m)(resolve m p \<mapsto> b')"
  shows "succeeded env cmd m m'"
  using assms by (auto simp: book_done_def)

lemma succeeded_write:
  assumes "config_read env (command_path cmd) m = (Inr config, m1)" and "toml_ok env"
    and "cf_path config' = cf_path config" and "same_disk m m2"
    and "config_write env config' m2 = (Inr (), m3)" and "same_disk m3 m'"
    and "book_op env (generated_key env m) cmd (book_of config) = Some (book_of config')"
  shows "succeeded env cmd m m'"
  by (rule wrote_book[OF assms(1-6)]) (rule succeededI, assumption+, rule assms(7), assumption)

lemma succeeded_read:
  assumes "config_read env (command_path cmd) m = (Inr config, m1)" and "same_disk m m'"
    and "book_op env (generated_key env m) cmd (book_of config) = Some (book_of config)"
  shows "succeeded env cmd m m'"
proof -
  from assms(2) have "files m' = files m" by (simp add: same_disk_def)
  from assms(1) this show ?thesis
    by (rule read_book) (rule succeededI, assumption+, rule assms(3), assumption)
qed

lemma init_done:
  assumes "init_cmd env (Init path) m = (Inr (), m')" and e: "toml_ok env"
  shows "succeeded env (Init path) m m'"
proof -
  from assms(1) obtain config m1 where m1: "config_read env path m = (Inr config, m1)" "same_disk m m1"
    "try_io (set_key env config) (\<lambda>config.
     try_io (lift_io (ok_or (cf_path config) (Panic ''should not be None''))) (\<lambda>p.
     try_io (eprintln (''Writing to config file at '' @ p @ ''...'')) (\<lambda>_.
     try_io (config_write env config) (\<lambda>_. eprintln KEEP_SAFE)))) m1 = (Inr (), m')"
    unfolding init_cmd_eq by (rule try_no_writes[OF _ no_writes_read]) (rule that)
  from m1(1) have g: "m1 = m" by (rule config_read_Inr(1))
  from m1(3) obtain config' m2 where m2: "set_key env config m1 = (Inr config', m2)" "same_disk m1 m2"
    "try_io (lift_io (ok_or (cf_path config') (Panic ''should not be None''))) (\<lambda>p.
     try_io (eprintln (''Writing to config file at '' @ p @ ''...'')) (\<lambda>_.
     try_io (config_write env config') (\<lambda>_. eprintln KEEP_SAFE))) m2 = (Inr (), m')"
    by (rule try_no_writes[OF _ set_key_no_writes]) (rule that)
  from m2(3) obtain p m3 where m3: "try_io (eprintln (''Writing to config file at '' @ p @ ''...'')) (\<lambda>_.
     try_io (config_write env config') (\<lambda>_. eprintln KEEP_SAFE)) m3 = (Inr (), m')" "same_disk m2 m3"
    by (rule try_no_writes[OF _ no_writes_basic(5)]) (rule that)
  from m3(1) obtain m4 where m4: "try_io (config_write env config') (\<lambda>_. eprintln KEEP_SAFE) m4 = (Inr (), m')" "same_disk m3 m4"
    by (rule try_no_writes[OF _ no_writes_basic(2)]) (rule that)
  from m4(1) obtain m5 where m5: "config_write env config' m4 = (Inr (), m5)" "eprintln KEEP_SAFE m5 = (Inr (), m')"
    by (auto simp: try_io_eq_Inr)
  have d: "same_disk m m4" using m2(2) m3(2) m4(2) unfolding g by (blast intro: same_disk_trans)
  note k = set_key_Inr[OF m2(1)[unfolded g]]
  show ?thesis
    by (rule succeeded_write[where config = config and config' = config', OF _ e _ d m5(1)
          no_writesD[OF no_writes_basic(2) m5(2)]])
      (use m1(1) k in auto)
qed

lemma import_done:
  assumes "import_cmd env (Import t path) m = (Inr (), m')" and e: "toml_ok env"
  obtains contact config m1 where "config_read env path m = (Inr config, m1)" "from_text env t = Inr contact"
    "book_op env new (Import t path) (book_of config) =
       Some (book_of (config\<lparr>cf_contact := fmupd (ct_name contact) (contact\<lparr>ct_version := None\<rparr>) (cf_contact config)\<rparr>))"
    "ct_pubkey contact \<notin> fmvals (bk_people (book_of config))" "bk_own (book_of config) \<noteq> Some (ct_pubkey contact)"
    "\<exists>m2. same_disk m m2 \<and> config_write env
       (config\<lparr>cf_contact := fmupd (ct_name contact) (contact\<lparr>ct_version := None\<rparr>) (cf_contact config)\<rparr>) m2 = (Inr (), m')"
proof -
  from assms(1) obtain config m1 where r: "config_read env path m = (Inr config, m1)"
    by (auto simp: try_io_eq_Inr simp del: try_io_lift)
  then have g: "m1 = m" by (rule config_read_Inr(1))
  from assms(1) r obtain contact where t: "from_text env t = Inr contact"
    by (cases "from_text env t") (auto simp: try_io_def)
  let ?config = "config\<lparr>cf_contact := fmupd (ct_name contact) (contact\<lparr>ct_version := None\<rparr>) (cf_contact config)\<rparr>"
  from assms(1) r t g have guards: "ct_name contact |\<notin>| fmdom (cf_contact config)"
      "\<not> list_ex (\<lambda>(_, c). ct_pubkey c = ct_pubkey contact) (btree_items (cf_contact config))"
      "map_option ck_pubkey (cf_communication_key config) \<noteq> Some (ct_pubkey contact)"
    and w: "\<exists>x. config_write env ?config (m\<lparr>mc_stderr := x\<rparr>) = (Inr (), m')"
    by (auto simp: try_io_def Let_def eprintln_def eprint_def split: if_splits)
  have new: "ct_pubkey contact \<notin> fmvals (bk_people (book_of config))"
  proof
    assume "ct_pubkey contact \<in> fmvals (bk_people (book_of config))"
    then obtain n x where "fmlookup (cf_contact config) n = Some x" "ct_pubkey x = ct_pubkey contact"
      by (auto simp: fmvals_iff)
    then have "list_ex (\<lambda>(_, c). ct_pubkey c = ct_pubkey contact) (btree_items (cf_contact config))"
      unfolding list_ex_iff by (intro bexI[of _ "(n, x)"]) simp_all
    with guards(2) show False by simp
  qed
  have own: "bk_own (book_of config) \<noteq> Some (ct_pubkey contact)" using guards(3) by simp
  show thesis
  proof (rule that[OF r t _ new own])
    show "book_op env new (Import t path) (book_of config) = Some (book_of ?config)"
      using guards(1) new own t by (simp add: book_of_def fmmap_upd)
    show "\<exists>m2. same_disk m m2 \<and> config_write env ?config m2 = (Inr (), m')"
    proof -
      from w obtain x where "config_write env ?config (m\<lparr>mc_stderr := x\<rparr>) = (Inr (), m')" ..
      moreover have "same_disk m (m\<lparr>mc_stderr := x\<rparr>)" by (simp add: same_disk_def)
      ultimately show ?thesis by blast
    qed
  qed
qed

lemma remove_contact_done:
  assumes "remove_contact_cmd env (RemoveContact path k) m = (Inr (), m')" and e: "toml_ok env"
  shows "succeeded env (RemoveContact path k) m m'"
proof -
  from assms(1) obtain config m1 where r: "config_read env path m = (Inr config, m1)"
    by (auto simp: try_io_eq_Inr simp del: try_io_lift)
  then have g: "m1 = m" by (rule config_read_Inr(1))
  let ?find = "List.find (\<lambda>(_, c). hex_encode (ce_text env) (pk_bytes (ct_pubkey c)) = k) (btree_items (cf_contact config))"
  from assms(1) r g have body: "try_io (lift_io (ok_or ?find (Eyre ''contact not found''))) (\<lambda>(nm, _).
     config_write env (config\<lparr>cf_contact := fmdrop nm (cf_contact config)\<rparr>)) m = (Inr (), m')"
    by (simp add: try_io_Inr)
  obtain nm c where c: "?find = Some (nm, c)"
    and w: "config_write env (config\<lparr>cf_contact := fmdrop nm (cf_contact config)\<rparr>) m = (Inr (), m')"
  proof (cases ?find)
    case None
    with body show ?thesis by simp
  next
    case (Some x)
    with body show ?thesis by (intro that[of "fst x" "snd x"]) (simp_all add: case_prod_beta)
  qed
  have "book_op env new (RemoveContact path k) (book_of config) =
      Some (book_of (config\<lparr>cf_contact := fmdrop nm (cf_contact config)\<rparr>))" for new
    using c by (simp add: book_of_def btree_items_fmmap find_map case_prod_unfold)
  then show ?thesis
    by (intro succeeded_write[where config = config and ?m2.0 = m and ?m3.0 = m' and
          config' = "config\<lparr>cf_contact := fmdrop nm (cf_contact config)\<rparr>"]) (use r e w in simp_all)
qed

lemma remove_group_done:
  assumes "remove_group_cmd env (RemoveGroup path g) m = (Inr (), m')" and e: "toml_ok env"
  shows "succeeded env (RemoveGroup path g) m m'"
proof -
  from assms(1) obtain config m1 where r: "config_read env path m = (Inr config, m1)"
    by (auto simp: try_io_eq_Inr simp del: try_io_lift)
  then have "m1 = m" by (rule config_read_Inr(1))
  with assms(1) r have body: "try_io (lift_io (ok_or (fmlookup (cf_group config) g) (Eyre ''group not found''))) (\<lambda>_.
     config_write env (config\<lparr>cf_group := fmdrop g (cf_group config)\<rparr>)) m = (Inr (), m')"
    by (simp add: try_io_Inr)
  obtain grp where g: "fmlookup (cf_group config) g = Some grp"
    and w: "config_write env (config\<lparr>cf_group := fmdrop g (cf_group config)\<rparr>) m = (Inr (), m')"
    using body by (cases "fmlookup (cf_group config) g") auto
  from g have "book_op env new (RemoveGroup path g) (book_of config) =
      Some (book_of (config\<lparr>cf_group := fmdrop g (cf_group config)\<rparr>))" for new
    by (simp add: book_of_def fmdomI)
  then show ?thesis
    by (intro succeeded_write[where config = config and ?m2.0 = m and ?m3.0 = m' and
          config' = "config\<lparr>cf_group := fmdrop g (cf_group config)\<rparr>"]) (use r e w in simp_all)
qed

lemma config_cmd_done:
  assumes c: "config_cmd env cmd = Some f" and run: "f m = (r, m')" and e: "toml_ok env"
  shows "book_done env cmd r m m'"
proof (cases r)
  case (Inl err)
  with run config_cmd_fails_clean[OF c] have "files m' = files m" by (simp add: fails_clean_def)
  with Inl book_at_cong show ?thesis by (simp add: book_done_def)
next
  case (Inr u)
  have read: "succeeded env cmd m m'"
    if "try_io (config_read env (command_path cmd)) body m = (Inr (), m')" "\<And>config. no_writes (body config)"
      "\<And>config m0. body config m = (Inr (), m0) \<Longrightarrow>
        book_op env (generated_key env m) cmd (book_of config) = Some (book_of config)" for body
  proof -
    from that(1) obtain config m1 where m1: "config_read env (command_path cmd) m = (Inr config, m1)"
      "body config m1 = (Inr (), m')" by (rule try_no_writes[OF _ no_writes_read])
    moreover from m1(1) have "m1 = m" by (rule config_read_Inr(1))
    ultimately show ?thesis using that(3) no_writesD[OF that(2)] by (blast intro: succeeded_read)
  qed
  have "succeeded env cmd m m'"
  proof (cases cmd)
    case (Init path)
    with c run Inr show ?thesis by (auto intro: init_done[OF _ e] simp del: init_cmd.simps)
  next
    case (Export nm path)
    with c run Inr have "export_cmd env (Export nm path) m = (Inr (), m')" by simp
    then show ?thesis unfolding export_cmd.simps Let_def Export
    proof (rule read[unfolded Export command_path.simps])
      fix config :: config and m0 :: "'a machine"
      assume "try_io (lift_io (ok_or (cf_communication_key config) (Eyre ''pubkey not generated yet''))) (\<lambda>key.
         try_io (eprintln ''Exporting this information:'') (\<lambda>_.
         try_io (eprint (contact_summary env \<lparr>ct_version = Some 0, ct_name = nm, ct_pubkey = ck_pubkey key\<rparr>)) (\<lambda>_.
         try_io (eprintln CHECK_EXPORT) (\<lambda>_.
         try_io (lift_io (as_text env \<lparr>ct_version = Some 0, ct_name = nm, ct_pubkey = ck_pubkey key\<rparr>)) eprintln)))) m
        = (Inr (), m0)"
      then have "cf_communication_key config \<noteq> None" by (cases "cf_communication_key config") auto
      then show "book_op env (generated_key env m) (Export nm path) (book_of config) = Some (book_of config)"
        by (auto simp: book_of_def)
    qed (intro inv_intros)
  next
    case (Import t path)
    with c run Inr have "import_cmd env (Import t path) m = (Inr (), m')" by simp
    then show ?thesis
    proof (rule import_done[OF _ e])
      fix contact config m1
      assume r: "config_read env path m = (Inr config, m1)"
      let ?config = "config\<lparr>cf_contact := fmupd (ct_name contact) (contact\<lparr>ct_version := None\<rparr>) (cf_contact config)\<rparr>"
      assume op: "book_op env (generated_key env m) (Import t path) (book_of config) = Some (book_of ?config)"
        and "\<exists>m2. same_disk m m2 \<and> config_write env ?config m2 = (Inr (), m')"
      then obtain m2 where m2: "same_disk m m2" "config_write env ?config m2 = (Inr (), m')" by blast
      show ?thesis unfolding Import
        by (rule succeeded_write[where config = config and config' = ?config, OF _ e _ m2 same_disk_refl])
          (use r op in \<open>simp_all only: command_path.simps, simp\<close>)
    qed
  next
    case (Contacts path)
    with c run Inr have "contacts_cmd env (Contacts path) m = (Inr (), m')" by simp
    then show ?thesis unfolding contacts_cmd.simps Contacts
      by (intro read[unfolded Contacts command_path.simps]) (auto intro!: inv_intros)
  next
    case (RemoveContact path k)
    with c run Inr show ?thesis by (auto intro: remove_contact_done[OF _ e] simp del: remove_contact_cmd.simps)
  next
    case (Groups path)
    with c run Inr have "groups_cmd env (Groups path) m = (Inr (), m')" by simp
    then show ?thesis unfolding groups_cmd.simps Groups
      by (intro read[unfolded Groups command_path.simps]) (auto intro!: inv_intros)
  next
    case (RemoveGroup path g)
    with c run Inr show ?thesis by (auto intro: remove_group_done[OF _ e] simp del: remove_group_cmd.simps)
  qed (use c in auto)
  with Inr show ?thesis by (simp add: book_done_def)
qed

end
