(* ===== verification/Trusted_Dealer_Props.thy ===== *)
theory Trusted_Dealer_Props
  imports Trusted_Dealer
begin

text \<open>What a run of the trusted dealer generates and writes.\<close>

section \<open>The shares\<close>

text \<open>The source of the shares: a fresh key, or the given one.\<close>

definition dealt ::
    "('id, 'sk, 'ss, 'kp, 'pkp, 'rng) dealer_ops \<Rightarrow> dealer_config \<Rightarrow> 'rng \<Rightarrow> ('id, 'ss) fmap \<Rightarrow> 'pkp \<Rightarrow> bool" where
  "dealt ops config rng shares pubkeys \<longleftrightarrow>
     (\<exists>shares0 pubkeys0.
        (if tc_secret config = []
         then generate_with_dealer ops (tc_max_signers config) (tc_min_signers config) rng = Inr (shares0, pubkeys0)
         else \<exists>sk. signing_key_deserialize ops (tc_secret config) = Inr sk \<and>
           split_key ops sk (tc_max_signers config) (tc_min_signers config) rng = Inr (shares0, pubkeys0)) \<and>
        (\<forall>i v. fmlookup shares0 i = Some v \<longrightarrow> is_ok (key_package_try_from ops v)) \<and>
        (shares, pubkeys) = dealer_into_even_y ops (shares0, pubkeys0))"

lemma trusted_dealer_iff:
  "trusted_dealer ops config rng = Inr (shares, pubkeys) \<longleftrightarrow> dealt ops config rng shares pubkeys"
  by (auto simp: trusted_dealer_def dealt_def trusted_dealer_keygen_def split_secret_def check_shares_Inr)

section \<open>The files\<close>

lemma dealer_print_values_files:
  assumes run: "dealer_print_values te ops args shares pubkeys m = (Inr (), m')"
    and cli: "\<not> da_cli args" and t: "has_braces (da_key_package args)"
    and pub: "\<And>i. resolve m (key_package_path args i) \<noteq> resolve m (da_public_key_package args)"
  shows "\<exists>pt. pubkeys_json ops pubkeys = Some pt \<and>
      fmlookup (files m') (resolve m (da_public_key_package args)) = Some (as_bytes pt)"
    and "\<forall>j<fmsize shares. \<exists>t. secret_share_json ops (snd (btree_items shares ! j)) = Some t \<and>
      fmlookup (files m') (resolve m (key_package_path args j)) = Some (as_bytes t)"
proof -
  from run cli obtain pt m1 m2 where pt: "pubkeys_json ops pubkeys = Some pt"
    and w: "fs_write (da_public_key_package args) (as_bytes pt) m = (Inr (), m1)"
    and m2: "\<exists>x. m2 = m1\<lparr>mc_stderr := x\<rparr>"
    and items: "for_io (enumerate 0 (btree_items shares)) (dealer_item te ops args) m2 = (Inr (), m')"
    unfolding dealer_print_values_def Let_def dealer_item_def
    by (auto simp: try_io_eq_Inr eprintln_def eprint_def simp del: try_io_lift)
  from same_rest_resolve[OF fs_write_Inr(2)[OF w]] m2 have res: "resolve m2 p = resolve m p" for p by auto
  from fs_write_Inr(1)[OF w] m2 have f2: "files m2 = fmupd (resolve m (da_public_key_package args)) (as_bytes pt) (files m)"
    by auto
  note fin = dealer_items_files[OF items t, unfolded res f2]
  have "fmlookup (files m') (resolve m (da_public_key_package args)) = Some (as_bytes pt)"
    using conjunct1[OF fin, THEN spec[of _ "resolve m (da_public_key_package args)"]] pub by (simp add: eq_commute)
  with pt show "\<exists>pt. pubkeys_json ops pubkeys = Some pt \<and>
      fmlookup (files m') (resolve m (da_public_key_package args)) = Some (as_bytes pt)" by blast
  from conjunct2[OF fin] show "\<forall>j<fmsize shares. \<exists>t. secret_share_json ops (snd (btree_items shares ! j)) = Some t \<and>
      fmlookup (files m') (resolve m (key_package_path args j)) = Some (as_bytes t)" by simp
qed


section \<open>A run\<close>

definition ex_dealer :: "(nat, nat, nat, nat, nat, nat) dealer_ops" where
  "ex_dealer = \<lparr>
     generate_with_dealer = (\<lambda>n k rng. Inr (fmupd 1 rng (fmupd 2 (rng + 1) fmempty), 7)),
     signing_key_deserialize = (\<lambda>b. if b = [] then Inl ''MalformedSigningKey'' else Inr (length b)),
     split_key = (\<lambda>sk n k rng. Inr (fmupd 1 (sk + rng) (fmupd 2 sk fmempty), sk)),
     key_package_try_from = (\<lambda>v. Inr v),
     dealer_is_redpallas = True, dealer_has_even_y = (\<lambda>p. p mod 2 = 0),
     dealer_pkp_into_even_y = (\<lambda>p e. if e = Some False then p + 1 else p),
     share_into_even_y = (\<lambda>v e. if e = Some False then v + 10 else v),
     dealer_id_serialize = (\<lambda>i. [of_nat i]),
     secret_share_json = (\<lambda>v. Some [char_of v]), pubkeys_json = (\<lambda>p. Some [char_of p])\<rparr>"

definition ex_dealer_args :: dealer_args where
  "ex_dealer_args = \<lparr>da_ciphersuite = ''r'', da_cli = False, da_public_key_package = ''p'',
     da_key_package = ''k{}'', da_threshold = 2, da_num_signers = 2, da_key = None\<rparr>"

definition ex_machine :: "'w \<Rightarrow> 'w machine" where
  "ex_machine w = \<lparr>mc_console = \<lparr>co_input = [], co_output = [], co_files = fmempty\<rparr>, mc_stderr = [],
     mc_dirs = {|''/''|}, mc_cwd = [], mc_space = 100, mc_world = w, mc_history = []\<rparr>"

definition ex_text :: text_env where
  "ex_text = \<lparr>hex_decode = (\<lambda>s. Some (map of_char s)), hex_encode = map (\<lambda>b. char_of (unat b)),
     utf8 = (\<lambda>b. Some (map (\<lambda>b. char_of (unat b)) b))\<rparr>"

lemma ex_items [simp]: "btree_items (fmupd (Suc 0) v (fmupd 2 w fmempty)) = [(1, v), (2, w)]"
  by (simp add: btree_items_def sorted_list_of_fset.rep_eq)

lemma ex_request: "\<exists>x. dealer_request_inputs ex_text ex_dealer_args (ex_machine w) =
    (Inr \<lparr>tc_min_signers = 2, tc_max_signers = 2, tc_secret = []\<rparr>, (ex_machine w)\<lparr>mc_stderr := x\<rparr>)"
  by (simp add: dealer_request_inputs_def ex_dealer_args_def ex_text_def dealer_validate_inputs_def try_io_def
      eprintln_def eprint_def) (auto simp: ret_io_def)

lemma fmmap_fmupd_simp [simp]: "fmmap f (fmupd k v m) = fmupd k (f v) (fmmap f m)"
  by (rule fmap_ext) simp

lemma ex_deal: "trusted_dealer ex_dealer \<lparr>tc_min_signers = 2, tc_max_signers = 2, tc_secret = []\<rparr> 1 =
    Inr (fmupd 1 11 (fmupd 2 12 fmempty), 8)"
  by (simp add: trusted_dealer_def trusted_dealer_keygen_def check_shares_def dealer_into_even_y_def ex_dealer_def)

lemma ex_paths: "key_package_path ex_dealer_args 0 = ''k1''" "key_package_path ex_dealer_args 1 = ''k2''"
  by code_simp+

lemma ex_machine_dir [simp]: "is_dir (ex_machine w) p \<longleftrightarrow> resolve (ex_machine w) p = ''/''"
  "mc_dirs (ex_machine w) = {|''/''|}" "mc_space (ex_machine w) = 100"
  by (simp_all add: is_dir_def ex_machine_def)

lemma ex_resolve: "resolve (ex_machine w) ''p'' = ''/p''" "resolve (ex_machine w) ''k1'' = ''/k1''"
  "resolve (ex_machine w) ''k2'' = ''/k2''"
  by (simp_all add: path_eval ex_machine_def)

lemma ex_parent: "path_parent ''/p'' = Some ''/''" "path_parent ''/k1'' = Some ''/''" "path_parent ''/k2'' = Some ''/''"
  by (simp_all add: path_eval)

lemma ex_print: "\<exists>m'. dealer_print_values ex_text ex_dealer ex_dealer_args (fmupd 1 11 (fmupd 2 12 fmempty)) 8
    ((ex_machine w)\<lparr>mc_stderr := x\<rparr>) = (Inr (), m')"
proof -
  have f: "\<not> da_cli ex_dealer_args" "da_public_key_package ex_dealer_args = ''p''"
    "pubkeys_json ex_dealer p = Some [char_of p]" "secret_share_json ex_dealer p = Some [char_of p]" for p
    by (simp_all add: ex_dealer_args_def ex_dealer_def)
  show ?thesis
    unfolding dealer_print_values_def Let_def
    by (simp add: f try_io_def lift_io_def eprintln_def eprint_def fs_write_ok ex_resolve ex_parent ex_paths[simplified] as_bytes_def)
qed

lemma ex_dealer_paths: "resolve (ex_machine w) (key_package_path ex_dealer_args i) \<noteq>
    resolve (ex_machine w) (da_public_key_package ex_dealer_args)"
  by (simp add: ex_dealer_args_def ex_resolve(1)) (simp add: path_eval key_package_path_def ex_dealer_args_def ex_machine_def)


end
