(* ===== verification/Contacts_Props.thy ===== *)
theory Contacts_Props
  imports Contacts Trusted_Dealer_Props
begin

text \<open>What the commands on the configuration file promise.\<close>

section \<open>Atomic writes\<close>

text \<open>
  C34: Writing a file atomically. Provided the temporary file is not the file itself, after every
  system call of the write, and so also when the machine crashes there, the file holds either what
  it held before or all of the new data, and no file but the temporary one has changed otherwise;
  an error leaves the files as they were.
\<close>

theorem write_file_atomic:
  assumes "write_file tmp src data m = (r, m')"
    and "\<And>parent. resolve m (tmp parent) \<noteq> resolve m src"
  shows "(case r of Inl _ \<Rightarrow> files m' = files m | Inr _ \<Rightarrow> files m' = fmupd (resolve m src) data (files m)) \<and>
    (\<exists>h f. mc_history m' = mc_history m @ h \<and> f \<noteq> resolve m src \<and>
       (\<forall>d\<in>set h. (fmlookup d (resolve m src) = fmlookup (files m) (resolve m src) \<or>
            fmlookup d (resolve m src) = Some data) \<and>
          (\<forall>p. p \<noteq> resolve m src \<longrightarrow> p \<noteq> f \<longrightarrow> fmlookup d p = fmlookup (files m) p)))"
proof -
  note w = write_file_spec[OF assms(1)]
  from w(3) obtain f h parent where h: "f = resolve m (tmp parent)" "mc_history m' = mc_history m @ h"
    "\<forall>d\<in>set h. during_write f (resolve m src) data (files m) d" by blast
  have "(fmlookup d (resolve m src) = fmlookup (files m) (resolve m src) \<or> fmlookup d (resolve m src) = Some data) \<and>
      (\<forall>p. p \<noteq> resolve m src \<longrightarrow> p \<noteq> f \<longrightarrow> fmlookup d p = fmlookup (files m) p)" if "d \<in> set h" for d
  proof -
    from h(3) that have "during_write f (resolve m src) data (files m) d" by blast
    then show ?thesis using h(1) assms(2)[of parent]
      by (auto simp: during_write_def differs_only_lookup)
  qed
  with w(2) h assms(2)[of parent] show ?thesis by (auto split: sum.split)
qed

section \<open>The address book\<close>

text \<open>
  C30: The commands \<open>init\<close>, \<open>export\<close>, \<open>import\<close>, \<open>contacts\<close>, \<open>remove-contact\<close>, \<open>groups\<close> and
  \<open>remove-group\<close> refine the operations of an abstract address book. A command that succeeds does
  exactly its own operation (\<open>book_op\<close>), which must be possible, on the book of the file its
  \<open>--config\<close> names: \<open>init\<close> sets the generated key when there is none, \<open>import\<close> adds the name and
  key of the text when both are new and not one's own, \<open>remove-contact\<close> drops the first name whose
  key has the given hexadecimal text, \<open>remove-group\<close> drops the group of that name, the others change
  nothing. The books of all other files stay; a command that fails changes none.
\<close>

theorem book_refinement:
  assumes "config_cmd env cmd = Some f" and "f m = (r, m')" and "toml_ok env"
  shows "(\<forall>e. r = Inl e \<longrightarrow> book_at env m' = book_at env m) \<and>
    (\<forall>u. r = Inr u \<longrightarrow> (\<exists>p b b'. parse_path env (command_path cmd) = Inr p \<and>
       book_at env m (resolve m p) = Some b \<and> book_op env (generated_key env m) cmd b = Some b' \<and>
       book_at env m' = (book_at env m)(resolve m p \<mapsto> b')))"
  using config_cmd_done[OF assms] by (simp add: book_done_def split: sum.splits)

text \<open>The invariant of an address book: no key has two names.\<close>

definition book_ok :: "book \<Rightarrow> bool" where
  "book_ok b \<longleftrightarrow> (\<forall>n n' k. fmlookup (bk_people b) n = Some k \<and> fmlookup (bk_people b) n' = Some k \<longrightarrow> n = n')"

text \<open>How a book may develop: the own key stays, and does not become a contact's.\<close>

definition book_later :: "book \<Rightarrow> book \<Rightarrow> bool" where
  "book_later b b' \<longleftrightarrow> (book_ok b \<longrightarrow> book_ok b') \<and>
     (\<forall>k. bk_own b = Some k \<longrightarrow> bk_own b' = Some k \<and> (k \<notin> fmvals (bk_people b) \<longrightarrow> k \<notin> fmvals (bk_people b')))"

lemma book_later_refl: "book_later b b"
  by (simp add: book_later_def)

lemma book_later_trans: "book_later a b \<Longrightarrow> book_later b c \<Longrightarrow> book_later a c"
  unfolding book_later_def by blast

lemma book_op_later:
  assumes "book_op env new cmd b = Some b'"
  shows "book_later b b'"
proof (cases cmd)
  case (Import t path)
  with assms show ?thesis
    by (auto simp: book_later_def book_ok_def fmvals_iff split: sum.splits if_splits)
next
  case (RemoveContact path k)
  with assms show ?thesis
    by (auto simp: book_later_def book_ok_def fmvals_iff split: if_splits)
qed (use assms in \<open>auto simp: book_later_def book_ok_def split: if_splits\<close>)

text \<open>
  A sequence of commands on the configuration file, each a process of its own, whatever the
  others returned. Sequences with other commands are not covered.
\<close>

fun run_commands :: "'w cli_env \<Rightarrow> command list \<Rightarrow> 'w machine \<Rightarrow> 'w machine option" where
  "run_commands env [] m = Some m"
| "run_commands env (c # cs) m =
     (case config_cmd env c of None \<Rightarrow> None | Some f \<Rightarrow> run_commands env cs (snd (f m)))"

lemma command_later:
  assumes "config_cmd env c = Some f" and "toml_ok env" and "book_at env m p = Some b"
  shows "\<exists>b1. book_at env (snd (f m)) p = Some b1 \<and> book_later b b1"
proof -
  obtain r m1 where m1: "f m = (r, m1)" by fastforce
  note d = config_cmd_done[OF assms(1) m1 assms(2)]
  show ?thesis
  proof (cases r)
    case (Inl e)
    with d assms(3) m1 book_later_refl show ?thesis by (auto simp: book_done_def)
  next
    case (Inr u)
    with d obtain q b0 b' where q: "book_at env m q = Some b0" "book_op env (generated_key env m) c b0 = Some b'"
      "book_at env m1 = (book_at env m)(q \<mapsto> b')"
      by (auto simp: book_done_def)
    show ?thesis
    proof (cases "p = q")
      case True
      with q assms(3) book_op_later[OF q(2)] m1 show ?thesis by simp
    next
      case False
      with q assms(3) m1 book_later_refl show ?thesis by auto
    qed
  qed
qed

lemma run_commands_later:
  "toml_ok env \<Longrightarrow> run_commands env cs m = Some m' \<Longrightarrow> book_at env m p = Some b \<Longrightarrow>
   \<exists>b'. book_at env m' p = Some b' \<and> book_later b b'"
proof (induction cs arbitrary: m b)
  case Nil
  then show ?case by (auto intro: book_later_refl)
next
  case (Cons c cs)
  then obtain f where f: "config_cmd env c = Some f" "run_commands env cs (snd (f m)) = Some m'"
    by (auto split: option.splits)
  from command_later[OF f(1) Cons.prems(1,3)] obtain b1 where
    b1: "book_at env (snd (f m)) p = Some b1" "book_later b b1" by blast
  from Cons.IH[OF Cons.prems(1) f(2) b1(1)] book_later_trans[OF b1(2)] show ?case by blast
qed


section \<open>Exporting and importing a contact\<close>

lemma config_read_at:
  assumes "config_read env path m = (Inr config, m')"
  obtains p c where "m' = m" "parse_path env path = Inr p" "config_at env (files m) (resolve m p) = Some c"
    "config = c\<lparr>cf_path := Some p\<rparr>"
  using config_read_Inr[OF assms] that by blast

lemma export_text:
  assumes "export_cmd env (Export nm path) m = (Inr (), m1)"
  obtains p c key t out where "parse_path env path = Inr p" "config_at env (files m) (resolve m p) = Some c"
    "cf_communication_key c = Some key"
    "as_text env \<lparr>ct_version = Some 0, ct_name = nm, ct_pubkey = ck_pubkey key\<rparr> = Inr t"
    "mc_stderr m1 = out @ [t @ [CHR 0x0A]]"
  using assms
  by (auto simp: try_io_eq_Inr Let_def eprintln_def eprint_def simp del: try_io_lift elim!: config_read_at)

lemma import_added:
  assumes run: "import_cmd env (Import t path) n = (Inr (), n')" and e: "toml_ok env"
    and t: "from_text env t = Inr contact"
  obtains p c where "parse_path env path = Inr p" "config_at env (files n) (resolve n p) = Some c"
    "ct_pubkey contact \<notin> fmvals (bk_people (book_of c))" "bk_own (book_of c) \<noteq> Some (ct_pubkey contact)"
    "config_at env (files n') (resolve n p) = Some (c\<lparr>cf_path := None,
       cf_contact := fmupd (ct_name contact) (contact\<lparr>ct_version := None\<rparr>) (cf_contact c)\<rparr>)"
proof -
  obtain contact' config n1 n2 where
    d: "config_read env path n = (Inr config, n1)" "from_text env t = Inr contact'"
    "ct_pubkey contact' \<notin> fmvals (bk_people (book_of config))" "bk_own (book_of config) \<noteq> Some (ct_pubkey contact')"
    "same_disk n n2" "config_write env
       (config\<lparr>cf_contact := fmupd (ct_name contact') (contact'\<lparr>ct_version := None\<rparr>) (cf_contact config)\<rparr>) n2 = (Inr (), n')"
    by (rule import_done[OF run e, where new = None], elim exE conjE) (rule that)
  from d(2) t have c: "contact' = contact" by simp
  from d(1) obtain p c where p: "parse_path env path = Inr p" "config_at env (files n) (resolve n p) = Some c"
    "config = c\<lparr>cf_path := Some p\<rparr>" by (rule config_read_at)
  from d(5) have res: "resolve n2 p = resolve n p" by (simp add: same_disk_def resolve_def current_dir_def)
  from config_write_cases(2)[OF d(6) e, of p] have
    at: "config_at env (files n') (resolve n p) = Some (c\<lparr>cf_path := None,
       cf_contact := fmupd (ct_name contact) (contact\<lparr>ct_version := None\<rparr>) (cf_contact c)\<rparr>)"
    by (simp add: res p(3) c)
  from d(3,4) have "ct_pubkey contact \<notin> fmvals (bk_people (book_of c))"
    "bk_own (book_of c) \<noteq> Some (ct_pubkey contact)" unfolding c p(3) book_of_path .
  from that[OF p(1,2) this at] show thesis .
qed

lemma find_new_contact:
  assumes "k \<notin> fmvals (bk_people (book_of c))" "bk_own (book_of c) \<noteq> Some k" "ct_pubkey contact = k"
  shows "contact_by_pubkey (c\<lparr>cf_path := p, cf_contact := fmupd nm contact (cf_contact c)\<rparr>) k = Inr contact"
proof -
  let ?items = "btree_items (fmupd nm contact (cf_contact c))"
  have only: "x = contact" if "x \<in> set (map snd ?items)" "ct_pubkey x = k" for x
    using that assms(1) by (force simp: book_of_def fmvals_iff split: if_splits)
  have "contact \<in> set (map snd ?items)"
    by (auto intro!: rev_image_eqI[of "(nm, contact)"])
  with assms(3) obtain x where x: "List.find (\<lambda>c. ct_pubkey c = k) (map snd ?items) = Some x"
    by (cases "List.find (\<lambda>c. ct_pubkey c = k) (map snd ?items)") (auto simp: find_None_iff)
  then have "x \<in> set (map snd ?items)" "ct_pubkey x = k"
    by (auto simp: find_Some_iff)
  with only have "x = contact" by blast
  moreover have "Some k \<noteq> map_option ck_pubkey (cf_communication_key c)"
    using assms(2) unfolding book_of_def book.select_convs by (rule not_sym)
  ultimately show ?thesis using x by (simp add: contact_by_pubkey_def)
qed

text \<open>
  C33: Round trip of a contact. The text that \<open>export\<close> prints last, imported into another address
  book, adds the exporter's key under the given name and changes nothing else; the key is then
  found as that contact.
\<close>

theorem import_exported:
  assumes "contact_text_ok env" and "toml_ok env"
    and exp: "export_cmd env (Export nm path) m = (Inr (), m1)" and t: "mc_stderr m1 = out @ [t @ [CHR 0x0A]]"
    and imp: "import_cmd env (Import t path') n = (Inr (), n')"
  shows "\<exists>p c key p' c' contact config.
      parse_path env path = Inr p \<and> config_at env (files m) (resolve m p) = Some c \<and>
      cf_communication_key c = Some key \<and>
      parse_path env path' = Inr p' \<and> config_at env (files n) (resolve n p') = Some c' \<and>
      contact = \<lparr>ct_version = None, ct_name = nm, ct_pubkey = ck_pubkey key\<rparr> \<and>
      config = c'\<lparr>cf_path := None, cf_contact := fmupd nm contact (cf_contact c')\<rparr> \<and>
      config_at env (files n') (resolve n p') = Some config \<and>
      contact_by_pubkey config (ck_pubkey key) = Inr contact"
proof -
  from exp obtain p c key t' out' where e: "parse_path env path = Inr p"
    "config_at env (files m) (resolve m p) = Some c" "cf_communication_key c = Some key"
    "as_text env \<lparr>ct_version = Some 0, ct_name = nm, ct_pubkey = ck_pubkey key\<rparr> = Inr t'"
    "mc_stderr m1 = out' @ [t' @ [CHR 0x0A]]" by (rule export_text)
  from e(5) t have "t' = t" by simp
  with from_text_as_text[OF assms(1) e(4)]
  have ft: "from_text env t = Inr \<lparr>ct_version = Some 0, ct_name = nm, ct_pubkey = ck_pubkey key\<rparr>" by simp
  obtain p' c' where i: "parse_path env path' = Inr p'"
    "config_at env (files n) (resolve n p') = Some c'"
    "ck_pubkey key \<notin> fmvals (bk_people (book_of c'))" "bk_own (book_of c') \<noteq> Some (ck_pubkey key)"
    "config_at env (files n') (resolve n p') = Some (c'\<lparr>cf_path := None,
       cf_contact := fmupd nm \<lparr>ct_version = None, ct_name = nm, ct_pubkey = ck_pubkey key\<rparr> (cf_contact c')\<rparr>)"
    by (rule import_added[OF imp assms(2) ft]) (rule that, simp_all)
  have "contact_by_pubkey (c'\<lparr>cf_path := None,
      cf_contact := fmupd nm \<lparr>ct_version = None, ct_name = nm, ct_pubkey = ck_pubkey key\<rparr> (cf_contact c')\<rparr>) (ck_pubkey key)
    = Inr \<lparr>ct_version = None, ct_name = nm, ct_pubkey = ck_pubkey key\<rparr>"
    by (rule find_new_contact[OF i(3,4)]) simp
  with e(1-3) i(1,2,5) show ?thesis by (intro exI conjI) (assumption | rule refl)+
qed

section \<open>Example runs\<close>

text \<open>
  Alice's key pair is made, exported and imported by Bob. The text formats know the
  configurations and the contact of this story only.
\<close>

definition ex_alice :: config where
  "ex_alice = config_default\<lparr>cf_communication_key := Some \<lparr>ck_privkey = PrivateKey [7], ck_pubkey = PublicKey [8]\<rparr>\<rparr>"

definition ex_contact :: contact where
  "ex_contact = \<lparr>ct_version = Some 0, ct_name = ''A'', ct_pubkey = PublicKey [8]\<rparr>"

definition ex_bob :: config where
  "ex_bob = config_default\<lparr>cf_contact := fmupd ''A'' (ex_contact\<lparr>ct_version := None\<rparr>) fmempty\<rparr>"

definition ex_cli :: "unit cli_env" where
  "ex_cli = \<lparr>ce_text = ex_text, ce_config_dir = None,
     ce_toml_print = (\<lambda>c. if c\<lparr>cf_path := None\<rparr> = ex_alice then Some ''a''
       else if c\<lparr>cf_path := None\<rparr> = ex_bob then Some ''b'' else None),
     ce_toml_parse = (\<lambda>s. if s = ''a'' then Some ex_alice else if s = ''b'' then Some ex_bob else None),
     ce_tmp = (\<lambda>d. ''/t''), ce_contact_bytes = (\<lambda>c. if c = ex_contact then Some [1] else None),
     ce_contact_of_bytes = (\<lambda>b. Some ex_contact),
     ce_bech32_encode = (\<lambda>h b. if h = ''zffrost'' \<and> b = [1] then Some ''z'' else None),
     ce_bech32_decode = (\<lambda>s. Some (''zffrost'', [1])),
     ce_keypair = (\<lambda>w. (Some ([7], [8]), w)), ce_ed25519_id = ''e'', ce_redpallas_id = ''r'',
     ce_key_package = (\<lambda>_ _. None), ce_public_key_package = (\<lambda>_ _. None)\<rparr>"

lemma ex_utf8 [simp]: "utf8 ex_text (as_bytes s) = Some s" "map (char_of \<circ> unat \<circ> (of_char :: char \<Rightarrow> byte)) s = s"
proof -
  have "char_of (unat (of_char c :: byte)) = c" for c :: char
  proof -
    have "unat (of_char c :: byte) = of_char c"
    proof -
      have "unat (of_nat (of_char c) :: byte) = of_char c"
        using nat_of_char_less_256[of c] by (simp add: unsigned_of_nat take_bit_nat_eq_self)
      then show ?thesis by (simp only: of_nat_of_char)
    qed
    then show ?thesis by simp
  qed
  then show "utf8 ex_text (as_bytes s) = Some s" "map (char_of \<circ> unat \<circ> (of_char :: char \<Rightarrow> byte)) s = s"
    by (simp_all add: ex_text_def as_bytes_def comp_def)
qed

lemma ex_cli_ok [simp]: "toml_ok ex_cli" "contact_text_ok ex_cli"
  by (auto simp: toml_ok_def contact_text_ok_def ex_cli_def split: if_splits)

text \<open>A write to a file of the root directory.\<close>

lemma write_file_root:
  assumes "\<not> is_dir m p" "path_parent (resolve m p) = Some ''/''" "''/'' |\<in>| mc_dirs m"
    and "tmp ''/'' = t" "path_parent (resolve m t) = Some ''/''" "\<not> path_exists m t"
    and "length data \<le> mc_space m"
  shows "\<exists>m'. write_file tmp p data m = (Inr (), m')"
proof -
  have root: "resolve m ''/'' = ''/''" by (simp add: path_eval)
  then have "create_dir_all ''/'' m = (Inr (), m)"
    using assms(3) by (simp add: create_dir_all.simps sys_mkdir_def path_exists_def is_dir_def)
  then have c: "check_path p m = (Inr (resolve m p, ''/''), m)"
    using assms(1,2) by (simp add: check_path_def Let_def resolve_def try_io_def)
  obtain m1 where m1: "sys_create_new t m = (Inr (), m1)" "m1 = set_files (fmupd (resolve m t) [] (files m)) m"
    using assms(3,5,6) by (simp add: sys_create_new_def)
  have "\<exists>m'. try_io (sys_write_all t data) (\<lambda>_. sys_rename t (resolve m p)) m1 = (Inr (), m')"
    using assms(1,7) by (simp add: m1(2) try_io_def sys_write_all_def sys_rename_def Let_def is_dir_def)
  then obtain m' where "try_io (sys_write_all t data) (\<lambda>_. sys_rename t (resolve m p)) m1 = (Inr (), m')" ..
  then show ?thesis
    by (simp add: write_file_def try_io_Inr[where m = "check_path p", OF c] Let_def assms(4)
        try_io_Inr[where m = "sys_create_new t", OF m1(1)])
qed

lemma config_write_root:
  assumes "ce_toml_print env c = Some s" "cf_path c = Some p" "\<not> is_dir m p" "path_parent (resolve m p) = Some ''/''"
    and "''/'' |\<in>| mc_dirs m" "ce_tmp env ''/'' = t" "path_parent (resolve m t) = Some ''/''" "\<not> path_exists m t"
    and "length s \<le> mc_space m"
  shows "\<exists>m'. config_write env c m = (Inr (), m')"
  using write_file_root[where tmp = "ce_tmp env" and data = "as_bytes s", OF assms(3-8)] assms(1,2,9) by (simp add: config_write_def as_bytes_def)

definition alice_machine :: "unit machine" where
  "alice_machine = set_files (fmupd ''/p'' [of_char (CHR ''a'')] fmempty) (ex_machine ())"

text \<open>A file whose temporary file is \<open>/t\<close>.\<close>

theorem write_file_atomic_witness:
  "\<exists>m'. write_file (\<lambda>_. ''/t'') ''p'' [1] (ex_machine ()) = (Inr (), m') \<and>
     files m' = fmupd (resolve (ex_machine ()) ''p'') [1] (files (ex_machine ()))"
proof -
  have t: "resolve (ex_machine ()) ''/t'' = ''/t''" by (simp add: path_eval)
  have "\<exists>m'. write_file (\<lambda>_. ''/t'') ''p'' [1] (ex_machine ()) = (Inr (), m')"
    by (rule write_file_root[OF _ _ _ refl])
      (simp_all add: ex_resolve ex_parent t path_exists_def, simp_all add: ex_machine_def path_eval)
  then obtain m' where m': "write_file (\<lambda>_. ''/t'') ''p'' [1] (ex_machine ()) = (Inr (), m')" ..
  have "resolve (ex_machine ()) ''/t'' \<noteq> resolve (ex_machine ()) ''p''" by (simp add: t ex_resolve)
  from conjunct1[OF write_file_atomic[OF m' this]] m' show ?thesis by auto
qed

lemma alice_machine_simps [simp]:
  "files alice_machine = fmupd ''/p'' (as_bytes ''a'') fmempty" "resolve alice_machine ''p'' = ''/p''"
  "mc_dirs alice_machine = {|''/''|}" "is_dir alice_machine p \<longleftrightarrow> resolve alice_machine p = ''/''"
  by (simp_all add: alice_machine_def as_bytes_def ex_resolve)

lemma ex_cli_simps [simp]:
  "ce_text ex_cli = ex_text" "ce_toml_parse ex_cli ''a'' = Some ex_alice" "parse_path ex_cli (Some p) = Inr p"
  "as_text ex_cli ex_contact = Inr ''z''" "from_text ex_cli ''z'' = Inr ex_contact" "ce_tmp ex_cli d = ''/t''"
  by (simp_all add: ex_cli_def parse_path_def as_text_def from_text_def) (simp add: ex_contact_def)

lemma ex_read: "config_read ex_cli (Some ''p'') alice_machine = (Inr (ex_alice\<lparr>cf_path := Some ''p''\<rparr>), alice_machine)"
  by (simp add: config_read_def path_exists_def fs_read_def try_io_def)

lemma ex_export: "\<exists>m1. export_cmd ex_cli (Export ''A'' (Some ''p'')) alice_machine = (Inr (), m1) \<and>
    (\<exists>out. mc_stderr m1 = out @ [''z'' @ [CHR 0x0A]])"
proof -
  have k: "cf_communication_key ex_alice = Some \<lparr>ck_privkey = PrivateKey [7], ck_pubkey = PublicKey [8]\<rparr>"
    by (simp add: ex_alice_def)
  show ?thesis
    by (simp add: ex_read k ex_contact_def[symmetric] Let_def try_io_def eprint_def eprintln_def)
qed

lemma ex_import: "\<exists>n'. import_cmd ex_cli (Import ''z'' (Some ''p'')) (ex_machine ()) = (Inr (), n')"
proof -
  have r: "config_read ex_cli (Some ''p'') (ex_machine ()) = (Inr (config_default\<lparr>cf_path := Some ''p''\<rparr>), ex_machine ())"
    by (simp add: config_read_def path_exists_def ex_resolve) (simp add: ex_machine_def)
  let ?c = "ex_bob\<lparr>cf_path := Some ''p''\<rparr>"
  let ?m = "\<lambda>x. (ex_machine ())\<lparr>mc_stderr := x\<rparr>"
  have t: "resolve (ex_machine ()) ''/t'' = ''/t''" "path_parent ''/t'' = Some ''/''" by (simp_all add: path_eval)
  have "\<exists>n'. config_write ex_cli ?c (?m x) = (Inr (), n')" for x
    by (rule config_write_root[where s = "''b''" and p = "''p''" and t = "''/t''"])
      (simp_all add: ex_resolve ex_parent t path_exists_def, simp_all add: ex_cli_def ex_machine_def ex_bob_def ex_alice_def config_default_def)
  moreover have "(config_default\<lparr>cf_path := Some ''p''\<rparr>)\<lparr>cf_contact :=
      fmupd ''A'' (ex_contact\<lparr>ct_version := None\<rparr>) fmempty\<rparr> = ?c"
    by (simp add: ex_bob_def)
  moreover have "cf_contact config_default = fmempty" "cf_communication_key config_default = None"
    "ct_name ex_contact = ''A''" "btree_items (fmempty :: (string, contact) fmap) = []"
    by (simp_all add: config_default_def ex_contact_def btree_items_def sorted_list_of_fset.rep_eq)
  ultimately show ?thesis
    by (simp add: r Let_def try_io_def eprint_def eprintln_def)
qed

definition empty_book :: book where
  "empty_book = \<lparr>bk_own = None, bk_people = fmempty, bk_groups = fmempty\<rparr>"

lemma ex_book: "book_at ex_cli (ex_machine ()) p = Some empty_book"
proof -
  have "files (ex_machine ()) = fmempty" by (simp add: ex_machine_def)
  moreover have "cf_contact config_default = fmempty" "cf_communication_key config_default = None"
    "cf_group config_default = fmempty" by (simp_all add: config_default_def)
  ultimately show ?thesis by (simp add: book_at_def config_at_def book_of_def empty_book_def)
qed

theorem book_refinement_witness:
  "\<exists>n'. import_cmd ex_cli (Import ''z'' (Some ''p'')) (ex_machine ()) = (Inr (), n') \<and>
     book_at ex_cli n' = (book_at ex_cli (ex_machine ()))
       (''/p'' \<mapsto> \<lparr>bk_own = None, bk_people = fmupd ''A'' (PublicKey [8]) fmempty, bk_groups = fmempty\<rparr>)"
proof -
  from ex_import obtain n' where n': "import_cmd ex_cli (Import ''z'' (Some ''p'')) (ex_machine ()) = (Inr (), n')" ..
  from conjunct2[OF book_refinement[OF config_cmd.simps(3) this ex_cli_ok(1)]] obtain p b b' where
    "parse_path ex_cli (Some ''p'') = Inr p" "book_at ex_cli (ex_machine ()) (resolve (ex_machine ()) p) = Some b"
    "book_op ex_cli (generated_key ex_cli (ex_machine ())) (Import ''z'' (Some ''p'')) b = Some b'"
    "book_at ex_cli n' = (book_at ex_cli (ex_machine ()))(resolve (ex_machine ()) p \<mapsto> b')" by auto
  with n' show ?thesis
    by (auto simp: ex_book ex_resolve empty_book_def ex_contact_def split: if_splits)
qed


theorem import_exported_witness:
  "\<exists>(config :: config) (contact :: contact). ct_name contact = ''A'' \<and> contact_by_pubkey config (ct_pubkey contact) = Inr contact"
proof -
  from ex_export obtain m1 out where e: "export_cmd ex_cli (Export ''A'' (Some ''p'')) alice_machine = (Inr (), m1)"
    "mc_stderr m1 = out @ [''z'' @ [CHR 0x0A]]" by blast
  from ex_import obtain n' where i: "import_cmd ex_cli (Import ''z'' (Some ''p'')) (ex_machine ()) = (Inr (), n')" ..
  from import_exported[OF ex_cli_ok(2,1) e i]
  obtain contact and key :: communication_key and config :: config
    where "contact = \<lparr>ct_version = None, ct_name = ''A'', ct_pubkey = ck_pubkey key\<rparr>"
      "contact_by_pubkey config (ck_pubkey key) = Inr contact" by (elim exE conjE) (rule that)
  then have "ct_name contact = ''A'' \<and> contact_by_pubkey config (ct_pubkey contact) = Inr contact" by simp
  then show ?thesis by (intro exI)
qed

end
