(* ===== verification/Sinsemilla.thy ===== *)
theory Sinsemilla
  imports Prelude
begin

unbundle bit_operations_syntax

text \<open>
  The Sinsemilla hash of two nodes of the Orchard Merkle tree (\<open>OrchardHasher\<close> in
  \<open>zcash-sign/src/transaction_plan.rs\<close>): the code moves the bits of the two field elements together
  and reads chunks of ten bits; the specification hashes the chunks of the concatenated bits. The
  group and the table of generators are parameters (\<open>pasta_curves\<close>, \<open>halo2_gadgets\<close>).
\<close>

section \<open>The code\<close>

type_synonym node = bytes

record 'p orchard_hasher =
  oh_Q :: 'p
  oh_add :: "'p \<Rightarrow> 'p \<Rightarrow> 'p"
  oh_S :: "nat \<Rightarrow> 'p"
  oh_x_repr :: "'p \<Rightarrow> node"

text \<open>One byte of the shift of \<open>right\<close> by one bit.\<close>

definition shift_byte :: "nat \<Rightarrow> bytes \<Rightarrow> bytes" where
  "shift_byte i right =
     (let carry = (if i < 31 then push_bit 7 (right ! (i + 1) AND 1) else 0)
      in right[i := drop_bit 1 (right ! i) OR carry])"

definition chunk_at :: "bytes \<Rightarrow> bytes \<Rightarrow> nat \<Rightarrow> nat \<Rightarrow> 16 word" where
  "chunk_at left right byte_offset bit_offset =
     (let v = (if byte_offset < 31
               then ucast (left ! byte_offset) OR push_bit 8 (ucast (left ! (byte_offset + 1)))
               else if byte_offset = 31
               then ucast (left ! 31) OR push_bit 8 (ucast (right ! 0))
               else ucast (right ! (byte_offset - 32)) OR push_bit 8 (ucast (right ! (byte_offset - 31))))
      in drop_bit bit_offset v AND 0x03FF)"

text \<open>The loop over the chunks, with the number of iterations left.\<close>

fun chunk_loop :: "'p orchard_hasher \<Rightarrow> bytes \<Rightarrow> bytes \<Rightarrow> nat \<Rightarrow> nat \<Rightarrow> nat \<Rightarrow> 'p \<Rightarrow> 'p" where
  "chunk_loop oh left right 0 byte_offset bit_offset acc = acc"
| "chunk_loop oh left right (Suc k) byte_offset bit_offset acc =
     (let S_chunk = oh_S oh (unat (chunk_at left right byte_offset bit_offset));
          acc = oh_add oh (oh_add oh acc S_chunk) acc;
          bit_offset = bit_offset + 10;
          (byte_offset, bit_offset) =
            (if bit_offset \<ge> 8 then (byte_offset + bit_offset div 8, bit_offset mod 8) else (byte_offset, bit_offset))
      in chunk_loop oh left right k byte_offset bit_offset acc)"

definition node_combine_inner :: "'p orchard_hasher \<Rightarrow> byte \<Rightarrow> node \<Rightarrow> node \<Rightarrow> 'p" where
  "node_combine_inner oh depth left right =
     (let acc = oh_add oh (oh_add oh (oh_Q oh) (oh_S oh (unat depth))) (oh_Q oh);
          left = left[31 := left ! 31 OR push_bit 7 (right ! 0 AND 1)];
          right = fold shift_byte [0..<32] right
      in chunk_loop oh left right 51 0 0 acc)"

definition orchard_node_combine :: "'p orchard_hasher \<Rightarrow> byte \<Rightarrow> node \<Rightarrow> node \<Rightarrow> node" where
  "orchard_node_combine oh depth left right = oh_x_repr oh (node_combine_inner oh depth left right)"

section \<open>The specification\<close>

text \<open>The bits of a byte string, least significant first, and the number a list of bits denotes.\<close>

definition bits_of :: "bytes \<Rightarrow> bool list" where
  "bits_of b = concat (map (\<lambda>w. map (bit w) [0..<8]) b)"

definition number_of :: "bool list \<Rightarrow> nat" where
  "number_of bs = horner_sum of_bool 2 bs"

text \<open>
  \<open>MerkleCRH\<close>: the chunks of the depth and of the 255 bits of each child, hashed from left to right.
\<close>

definition merkle_message :: "node \<Rightarrow> node \<Rightarrow> bool list" where
  "merkle_message left right = take 255 (bits_of left) @ take 255 (bits_of right)"

definition message_chunks :: "bool list \<Rightarrow> nat list" where
  "message_chunks bs = map (\<lambda>i. number_of (take 10 (drop (10 * i) bs))) [0..<length bs div 10]"

definition sinsemilla :: "'p orchard_hasher \<Rightarrow> nat list \<Rightarrow> 'p" where
  "sinsemilla oh chunks = foldl (\<lambda>acc m. oh_add oh (oh_add oh acc (oh_S oh m)) acc) (oh_Q oh) chunks"

section \<open>Bits\<close>

lemma length_bits_of [simp]: "length (bits_of b) = 8 * length b"
  by (induction b) (simp_all add: bits_of_def)

lemma nth_bits_of: "o' < length b \<Longrightarrow> n < 8 \<Longrightarrow> bits_of b ! (8 * o' + n) = bit (b ! o') n"
proof (induction b arbitrary: o')
  case Nil
  then show ?case by simp
next
  case (Cons w b)
  have c: "bits_of (w # b) = map (bit w) [0..<8] @ bits_of b" by (simp add: bits_of_def)
  show ?case
  proof (cases o')
    case 0
    with Cons.prems show ?thesis by (simp add: c nth_append)
  next
    case (Suc k)
    with Cons.IH[of k] Cons.prems show ?thesis by (simp add: c nth_append)
  qed
qed

lemma nth_bits_of': "k < 8 * length b \<Longrightarrow> bits_of b ! k = bit (b ! (k div 8)) (k mod 8)"
  using nth_bits_of[of "k div 8" b "k mod 8"] by simp

lemma bits_of_append: "bits_of (a @ b) = bits_of a @ bits_of b"
  by (simp add: bits_of_def)

text \<open>The bytes of \<open>right\<close> after the shift.\<close>

definition shifted_byte :: "bytes \<Rightarrow> nat \<Rightarrow> byte" where
  "shifted_byte r i = drop_bit 1 (r ! i) OR (if i < 31 then push_bit 7 (r ! (i + 1) AND 1) else 0)"

lemma shift_byte_nth:
  assumes "length x = 32" "i < 32" "\<And>j. n \<le> j \<Longrightarrow> j < 32 \<Longrightarrow> x ! j = r ! j" "n < 32"
  shows "shift_byte n x ! i = (if i = n then shifted_byte r n else x ! i)"
  using assms by (auto simp: shift_byte_def shifted_byte_def Let_def)

lemma shift_bytes:
  assumes "length r = 32" "n \<le> 32"
  shows "length (fold shift_byte [0..<n] r) = 32 \<and>
    (\<forall>i<32. fold shift_byte [0..<n] r ! i = (if i < n then shifted_byte r i else r ! i))"
  using assms(2)
proof (induction n)
  case 0
  with assms(1) show ?case by simp
next
  case (Suc n)
  then have IH: "length (fold shift_byte [0..<n] r) = 32"
    "\<And>i. i < 32 \<Longrightarrow> fold shift_byte [0..<n] r ! i = (if i < n then shifted_byte r i else r ! i)" by auto
  have "fold shift_byte [0..<Suc n] r ! i = (if i = n then shifted_byte r n else fold shift_byte [0..<n] r ! i)"
    if "i < 32" for i
    using shift_byte_nth[OF IH(1) that, of n r] IH(2) Suc.prems by simp
  moreover have "length (fold shift_byte [0..<Suc n] r) = 32" using IH(1) by (simp add: shift_byte_def Let_def)
  ultimately show ?case using IH(2) by (auto simp: less_Suc_eq)
qed

lemma bit_shifted:
  fixes a b :: byte
  assumes "n < 8"
  shows "bit (drop_bit 1 a OR (if c then push_bit 7 (b AND 1) else 0)) n = (if n < 7 then bit a (Suc n) else c \<and> bit b 0)"
proof (cases "n = 7")
  case True
  have "\<not> bit a 8" using not_bit_length[of a] by simp
  with True show ?thesis by (simp add: bit_simps)
next
  case False
  with assms show ?thesis by (auto simp: bit_simps)
qed

lemma nth_shift_right:
  assumes "length right = 32" "k < 255"
  shows "bits_of (fold shift_byte [0..<32] right) ! k = bits_of right ! Suc k"
proof -
  note sh = shift_bytes[OF assms(1), of 32]
  let ?o = "k div 8" and ?n = "k mod 8"
  have o: "?o < 32" using assms(2) by simp
  have "bits_of (fold shift_byte [0..<32] right) ! k = bit (shifted_byte right ?o) ?n"
    using sh o assms(2) by (simp add: nth_bits_of')
  also have "\<dots> = (if ?n < 7 then bit (right ! ?o) (Suc ?n) else ?o < 31 \<and> bit (right ! (?o + 1)) 0)"
    unfolding shifted_byte_def by (rule bit_shifted) simp
  also have "\<dots> = bits_of right ! Suc k"
  proof (cases "?n < 7")
    case True
    have "8 * ?o + Suc ?n = Suc k" by simp
    with nth_bits_of[of ?o right "Suc ?n"] True o assms(1) show ?thesis by simp
  next
    case False
    then have n: "?n = 7" using mod_less_divisor[of 8 k] by linarith
    then have k: "Suc k = 8 * (?o + 1) + 0" by presburger
    with assms(2) have "?o + 1 < 32" by presburger
    have "bits_of right ! Suc k = bits_of right ! (8 * (?o + 1) + 0)" by (simp only: k)
    also have "\<dots> = bit (right ! (?o + 1)) 0" using \<open>?o + 1 < 32\<close> assms(1) by (intro nth_bits_of) simp_all
    finally show ?thesis using n \<open>?o + 1 < 32\<close> by simp
  qed
  finally show ?thesis .
qed

lemma nth_left_with_bit:
  assumes "length left = 32" "\<not> bit (left ! 31) 7" "k < 256"
  shows "bits_of (left[31 := left ! 31 OR push_bit 7 (b AND 1)]) ! k = (if k = 255 then bit b 0 else bits_of left ! k)"
proof (cases "k div 8 = 31")
  case True
  have m: "k mod 8 < 8" by simp
  have k: "k = 248 + k mod 8" using True div_mult_mod_eq[of k 8] by linarith
  have "bit (left ! 31 OR push_bit 7 (b AND 1)) (k mod 8) = (if k = 255 then bit b 0 else bit (left ! 31) (k mod 8))"
  proof (cases "k mod 8 = 7")
    case True
    with k have "k = 255" by simp
    with True assms(2) show ?thesis by (simp add: bit_simps)
  next
    case False
    with k have "k \<noteq> 255" by auto
    with False m show ?thesis by (auto simp: bit_simps)
  qed
  with True assms(1,3) show ?thesis by (simp add: nth_bits_of')
next
  case False
  with assms(1,3) show ?thesis by (auto simp: nth_bits_of')
qed

text \<open>The bits the loop reads are the message of the specification.\<close>

lemma loop_bits:
  assumes "length left = 32" "length right = 32" "\<not> bit (left ! 31) 7"
  shows "take 510 (bits_of (left[31 := left ! 31 OR push_bit 7 (right ! 0 AND 1)] @ fold shift_byte [0..<32] right))
    = merkle_message left right"
proof (rule nth_equalityI)
  note len = shift_bytes[OF assms(2), of 32]
  show "length (take 510 (bits_of (left[31 := left ! 31 OR push_bit 7 (right ! 0 AND 1)] @ fold shift_byte [0..<32] right)))
    = length (merkle_message left right)"
    using assms len by (simp add: merkle_message_def)
  fix k assume "k < length (take 510 (bits_of (left[31 := left ! 31 OR push_bit 7 (right ! 0 AND 1)] @ fold shift_byte [0..<32] right)))"
  then have k: "k < 510" by simp
  consider "k < 255" | "k = 255" | "256 \<le> k" by linarith
  then show "take 510 (bits_of (left[31 := left ! 31 OR push_bit 7 (right ! 0 AND 1)] @ fold shift_byte [0..<32] right)) ! k
    = merkle_message left right ! k"
  proof cases
    case 1
    with k assms nth_left_with_bit[OF assms(1,3), of k "right ! 0"] show ?thesis
      by (simp add: bits_of_append nth_append merkle_message_def)
  next
    case 2
    with k assms nth_left_with_bit[OF assms(1,3), of k "right ! 0"] nth_bits_of[of 0 right 0] show ?thesis
      by (simp add: bits_of_append nth_append merkle_message_def)
  next
    case 3
    then have "Suc (k - 256) = k - 255" by simp
    with 3 k assms nth_shift_right[OF assms(2), of "k - 256"] show ?thesis
      by (simp add: bits_of_append nth_append merkle_message_def)
  qed
qed

section \<open>Chunks\<close>

lemma chunk_at_word:
  assumes "length left = 32" "length right = 32" "byte_offset < 63"
  shows "chunk_at left right byte_offset bit_offset =
    drop_bit bit_offset (ucast ((left @ right) ! byte_offset) OR push_bit 8 (ucast ((left @ right) ! (byte_offset + 1)))) AND 0x03FF"
  using assms by (simp add: chunk_at_def Let_def nth_append)

lemma bit_1023: "bit (0x03FF :: 16 word) n \<longleftrightarrow> n < 10"
proof -
  have "(0x03FF :: 16 word) = mask 10" by (simp add: mask_eq_exp_minus_1)
  moreover have "bit (mask 10 :: 16 word) n \<longleftrightarrow> n < 10" by (auto simp: bit_mask_iff simp del: mask_numeral)
  ultimately show ?thesis by (simp only:)
qed

lemma bit_chunk_at:
  assumes "length left = 32" "length right = 32" "byte_offset < 63" "bit_offset < 7"
  shows "bit (chunk_at left right byte_offset bit_offset) j \<longleftrightarrow>
    j < 10 \<and> bits_of (left @ right) ! (8 * byte_offset + bit_offset + j)"
proof (cases "j < 10")
  case True
  let ?b = "left @ right" and ?n = "bit_offset + j"
  have n: "?n < 16" using True assms(4) by simp
  have bit: "bit (chunk_at left right byte_offset bit_offset) j \<longleftrightarrow>
      (if ?n < 8 then bit (?b ! byte_offset) ?n else bit (?b ! (byte_offset + 1)) (?n - 8))"
    using True n unfolding chunk_at_word[OF assms(1-3)] bit_and_iff bit_1023
    by (auto simp: bit_simps dest: bit_imp_le_length)
  show ?thesis
  proof (cases "?n < 8")
    case True
    have eq: "8 * byte_offset + bit_offset + j = 8 * byte_offset + ?n" by simp
    show ?thesis unfolding eq
      using bit True \<open>j < 10\<close> nth_bits_of[of byte_offset ?b ?n] assms by simp
  next
    case False
    then have eq: "8 * byte_offset + bit_offset + j = 8 * (byte_offset + 1) + (?n - 8)" by simp
    have "bits_of ?b ! (8 * (byte_offset + 1) + (?n - 8)) = bit (?b ! (byte_offset + 1)) (?n - 8)"
      using n assms by (intro nth_bits_of) simp_all
    then show ?thesis unfolding eq using bit False \<open>j < 10\<close> by simp
  qed
next
  case False
  then show ?thesis unfolding chunk_at_word[OF assms(1-3)] bit_and_iff bit_1023 by simp
qed

lemma unat_chunk_at:
  assumes "length left = 32" "length right = 32" "byte_offset < 63" "bit_offset < 7"
    and bs: "take 510 (bits_of (left @ right)) = bs" and i: "8 * byte_offset + bit_offset = 10 * i" "i < 51"
  shows "unat (chunk_at left right byte_offset bit_offset) = number_of (take 10 (drop (10 * i) bs))"
proof (rule bit_eqI)
  fix j
  have len: "length bs = 510" using assms by (simp flip: bs)
  have "bit (unat (chunk_at left right byte_offset bit_offset)) j \<longleftrightarrow>
      j < 10 \<and> bits_of (left @ right) ! (10 * i + j)"
    using bit_chunk_at[OF assms(1-4), of j] i(1) by (simp add: bit_unsigned_iff)
  also have "\<dots> \<longleftrightarrow> j < 10 \<and> bs ! (10 * i + j)"
    using i(2) by (auto simp flip: bs)
  also have "\<dots> \<longleftrightarrow> bit (number_of (take 10 (drop (10 * i) bs))) j"
    using i(2) len by (auto simp: number_of_def bit_horner_sum_bit_iff)
  finally show "bit (unat (chunk_at left right byte_offset bit_offset)) j \<longleftrightarrow>
      bit (number_of (take 10 (drop (10 * i) bs))) j" .
qed

section \<open>The loop\<close>

lemma message_chunks_nth:
  "i < length bs div 10 \<Longrightarrow> message_chunks bs ! i = number_of (take 10 (drop (10 * i) bs))"
  by (simp add: message_chunks_def)

lemma length_message_chunks [simp]: "length (message_chunks bs) = length bs div 10"
  by (simp add: message_chunks_def)

lemma ten_mod_8: "10 * n mod 8 < (7 :: nat)"
proof -
  have "10 * n mod 8 = (2 * (5 * n)) mod (2 * 4)" by simp
  also have "\<dots> = 2 * (5 * n mod 4)" by (simp only: mult_mod_right)
  also have "\<dots> < 7" using mod_less_divisor[of 4 "5 * n"] by linarith
  finally show ?thesis .
qed

text \<open>With \<open>k\<close> iterations left, the first \<open>51 - k\<close> chunks have been read.\<close>

lemma chunk_loop_spec:
  assumes len: "length left = 32" "length right = 32"
    and bs: "take 510 (bits_of (left @ right)) = bs"
  shows "k \<le> 51 \<Longrightarrow> byte_offset = 10 * (51 - k) div 8 \<Longrightarrow> bit_offset = 10 * (51 - k) mod 8 \<Longrightarrow>
    chunk_loop oh left right k byte_offset bit_offset acc =
      foldl (\<lambda>acc m. oh_add oh (oh_add oh acc (oh_S oh m)) acc) acc (drop (51 - k) (message_chunks bs))"
proof (induction k arbitrary: byte_offset bit_offset acc)
  case 0
  have "length bs = 510" using assms by (simp flip: bs)
  then show ?case by simp
next
  case (Suc k)
  let ?i = "51 - Suc k"
  have lb: "length bs = 510" using assms by (simp flip: bs)
  have i: "?i < 51" "51 - k = Suc ?i" using Suc.prems(1) by auto
  have pos: "8 * byte_offset + bit_offset = 10 * ?i" unfolding Suc.prems(2,3) by (rule mult_div_mod_eq)
  have "bit_offset < 7" unfolding Suc.prems(3) by (rule ten_mod_8)
  moreover have "byte_offset < 63" using Suc.prems(2) i(1) by simp
  ultimately have chunk: "unat (chunk_at left right byte_offset bit_offset) = message_chunks bs ! ?i"
    using unat_chunk_at[OF len _ _ bs pos i(1)] i(1) lb by (simp add: message_chunks_nth)
  have next_pos: "10 * (51 - k) = 8 * byte_offset + (bit_offset + 10)" using pos i(2) by simp
  have byte: "byte_offset + (bit_offset + 10) div 8 = 10 * (51 - k) div 8"
    unfolding next_pos by simp
  have bit: "(bit_offset + 10) mod 8 = 10 * (51 - k) mod 8"
    unfolding next_pos by presburger
  have drop: "drop ?i (message_chunks bs) = message_chunks bs ! ?i # drop (51 - k) (message_chunks bs)"
    unfolding i(2) using i(1) lb by (intro Cons_nth_drop_Suc[symmetric]) simp
  show ?case
    unfolding drop using Suc.IH[OF _ byte[symmetric, THEN sym] bit[symmetric, THEN sym]] Suc.prems(1) chunk
    by simp
qed

lemma fold_shift_byte_length: "length right = 32 \<Longrightarrow> length (fold shift_byte [0..<32] right) = 32"
  using shift_bytes[of right 32] by simp

text \<open>
  C21: The hash of two nodes. For nodes of 32 bytes, the left one a canonical field element (its top
  bit is clear), the loop of the code, which moves the bits of the children together and reads two
  bytes at a time, computes the Sinsemilla hash of the chunks of the depth and of the 255 bits of
  each child.
\<close>

theorem node_combine_sinsemilla:
  assumes "length left = 32" and "length right = 32" and "\<not> bit (left ! 31) 7"
  shows "orchard_node_combine oh depth left right =
    oh_x_repr oh (sinsemilla oh (unat depth # message_chunks (merkle_message left right)))"
proof -
  let ?left = "left[31 := left ! 31 OR push_bit 7 (right ! 0 AND 1)]"
  let ?right = "fold shift_byte [0..<32] right"
  have "chunk_loop oh ?left ?right 51 0 0 acc =
      foldl (\<lambda>acc m. oh_add oh (oh_add oh acc (oh_S oh m)) acc) acc (message_chunks (merkle_message left right))" for acc
    using chunk_loop_spec[OF _ _ loop_bits[OF assms], of 51 0 0 oh acc] assms
    by (simp add: fold_shift_byte_length)
  then show ?thesis
    by (simp add: orchard_node_combine_def node_combine_inner_def sinsemilla_def Let_def)
qed

text \<open>Points are numbers here, so that the hash of the message can be compared.\<close>

definition ex_hasher :: "nat orchard_hasher" where
  "ex_hasher = \<lparr>oh_Q = 1, oh_add = (\<lambda>a b. (a + 2 * b) mod 65537), oh_S = (\<lambda>m. m + 3), oh_x_repr = (\<lambda>p. [of_nat p])\<rparr>"

theorem node_combine_sinsemilla_witness:
  "orchard_node_combine ex_hasher 1 (replicate 32 5) (replicate 32 6) =
   oh_x_repr ex_hasher (sinsemilla ex_hasher (1 # message_chunks (merkle_message (replicate 32 5) (replicate 32 6))))"
proof -
  have "\<not> bit (replicate 32 (5 :: byte) ! 31) 7" by simp
  from node_combine_sinsemilla[OF _ _ this, of "replicate 32 6" ex_hasher 1] show ?thesis by simp
qed

end
