(* ===== verification/Merkle.thy ===== *)
theory Merkle
  imports Sinsemilla Api
begin

text \<open>
  The commitment tree of a transaction plan and its witnesses (\<open>CTree\<close>, \<open>Witness\<close> and \<open>Hasher\<close> in
  \<open>zcash-sign/src/transaction_plan.rs\<close>): roots and authentication paths, and the Merkle tree over a
  list of leaves they stand for. Indices out of bounds and arithmetic overflow are panics. The
  encodings of optional values and vectors are those of the crate \<open>zcash_encoding\<close>.
\<close>

section \<open>Hashers\<close>

record 'n hasher =
  uncommited_node :: 'n
  node_combine :: "byte \<Rightarrow> 'n \<Rightarrow> 'n \<Rightarrow> 'n"

text \<open>\<open>Hasher::empty_roots\<close>.\<close>

definition empty_roots :: "'n hasher \<Rightarrow> nat \<Rightarrow> 'n list" where
  "empty_roots ha height =
     fst (fold (\<lambda>depth (roots, cur). let cur = node_combine ha (of_nat depth) cur cur in (roots @ [cur], cur))
       [0..<height] ([uncommited_node ha], uncommited_node ha))"

definition orchard :: "'p orchard_hasher \<Rightarrow> node \<Rightarrow> node hasher" where
  "orchard oh two_repr = \<lparr>uncommited_node = two_repr, node_combine = orchard_node_combine oh\<rparr>"

section \<open>The commitment tree\<close>

record 'n ctree =
  tr_left :: "'n option"
  tr_right :: "'n option"
  tr_parents :: "'n option list"

definition ctree_new :: "'n ctree" where
  "ctree_new = \<lparr>tr_left = None, tr_right = None, tr_parents = []\<rparr>"

definition overflow :: error where
  "overflow = Panic ''arithmetic overflow''"

text \<open>Numbers of type \<open>usize\<close>, 64 bits wide.\<close>

definition usize :: "nat \<Rightarrow> error + nat" where
  "usize n = (if n < 2 ^ 64 then Inr n else Inl overflow)"

fun position_of_parents :: "'n option list \<Rightarrow> nat \<Rightarrow> error + nat" where
  "position_of_parents [] p = Inr p"
| "position_of_parents (parent # parents) p =
     tryr (usize (p + (if parent \<noteq> None then 1 else 0))) (\<lambda>p.
     tryr (usize (p * 2)) (\<lambda>p. position_of_parents parents p))"

definition get_position :: "'n ctree \<Rightarrow> error + nat" where
  "get_position t =
     tryr (position_of_parents (rev (tr_parents t)) 0) (\<lambda>p.
     tryr (usize (p + (if tr_left t \<noteq> None then 1 else 0))) (\<lambda>p.
     usize (p + (if tr_right t \<noteq> None then 1 else 0))))"

definition at_index :: "'a list \<Rightarrow> nat \<Rightarrow> error + 'a" where
  "at_index xs i = (if i < length xs then Inr (xs ! i) else Inl (Panic ''index out of bounds''))"

text \<open>Merging the parents; \<open>depth\<close> is a \<open>u8\<close>.\<close>

fun root_parents :: "'n hasher \<Rightarrow> 'n list \<Rightarrow> 'n option list \<Rightarrow> nat \<Rightarrow> 'n \<Rightarrow> error + nat \<times> 'n" where
  "root_parents ha roots [] depth cur = Inr (depth, cur)"
| "root_parents ha roots (p # parents) depth cur =
     tryr (case p of
         Some left \<Rightarrow> Inr (node_combine ha (of_nat depth) left cur)
       | None \<Rightarrow> tryr (at_index roots depth) (\<lambda>e. Inr (node_combine ha (of_nat depth) cur e))) (\<lambda>cur.
     if depth = 255 then Inl overflow else root_parents ha roots parents (depth + 1) cur)"

text \<open>Filling in the missing levels.\<close>

fun root_fill :: "'n hasher \<Rightarrow> 'n list \<Rightarrow> nat list \<Rightarrow> 'n \<Rightarrow> error + 'n" where
  "root_fill ha roots [] cur = Inr cur"
| "root_fill ha roots (d # ds) cur =
     tryr (at_index roots d) (\<lambda>e. root_fill ha roots ds (node_combine ha (of_nat d) cur e))"

definition ctree_root :: "'n ctree \<Rightarrow> nat \<Rightarrow> 'n list \<Rightarrow> 'n hasher \<Rightarrow> error + 'n" where
  "ctree_root t height roots ha =
     (case tr_left t of
        None \<Rightarrow> at_index roots height
      | Some left \<Rightarrow>
          let right = (case tr_right t of Some right \<Rightarrow> right | None \<Rightarrow> uncommited_node ha);
              cur = node_combine ha 0 left right
          in tryr (root_parents ha roots (tr_parents t) 1 cur) (\<lambda>(depth, cur).
             root_fill ha roots [depth..<height] cur))"

section \<open>Witnesses\<close>

record 'n witness =
  wi_position :: nat
  wi_tree :: "'n ctree"
  wi_filled :: "'n list"
  wi_cursor :: "'n ctree"
  wi_id_note :: "32 word"
  wi_cmx :: bytes

definition witness_new :: "nat \<Rightarrow> 32 word \<Rightarrow> bytes \<Rightarrow> 'n witness" where
  "witness_new position id_note cmx = \<lparr>wi_position = position, wi_tree = ctree_new, wi_filled = [],
     wi_cursor = ctree_new, wi_id_note = id_note, wi_cmx = cmx\<rparr>"

text \<open>The closure \<open>next_filler\<close>: its state is what is left of \<open>filled\<close>, and \<open>cursor_used\<close>.\<close>

definition next_filler ::
    "'n witness \<Rightarrow> 'n list \<Rightarrow> 'n hasher \<Rightarrow> nat \<Rightarrow> ('n list \<times> bool, error, 'n) io" where
  "next_filler w roots ha depth s =
     (case s of
        (f # filled, cursor_used) \<Rightarrow> (Inr f, (filled, cursor_used))
      | ([], False) \<Rightarrow> (ctree_root (wi_cursor w) depth roots ha, ([], True))
      | ([], True) \<Rightarrow> (at_index roots depth, s))"

fun path_levels ::
    "'n witness \<Rightarrow> 'n list \<Rightarrow> 'n hasher \<Rightarrow> nat list \<Rightarrow> ('n list \<times> bool, error, 'n list) io" where
  "path_levels w roots ha [] = ret_io []"
| "path_levels w roots ha (i # is) =
     try_io (case (if i - 1 < length (tr_parents (wi_tree w)) then tr_parents (wi_tree w) ! (i - 1) else None) of
         Some node \<Rightarrow> ret_io node
       | None \<Rightarrow> next_filler w roots ha i) (\<lambda>n.
     try_io (path_levels w roots ha is) (\<lambda>path.
     ret_io (n # path)))"

definition auth_path :: "'n witness \<Rightarrow> nat \<Rightarrow> 'n list \<Rightarrow> 'n hasher \<Rightarrow> error + 'n list" where
  "auth_path w height roots ha =
     fst (try_io
       (case tr_left (wi_tree w) of
          Some left \<Rightarrow>
            if tr_right (wi_tree w) \<noteq> None then ret_io [left]
            else try_io (next_filler w roots ha 0) (\<lambda>n. ret_io [n])
        | None \<Rightarrow> ret_io []) (\<lambda>path0.
       try_io (path_levels w roots ha [1..<height]) (\<lambda>path.
       ret_io (path0 @ path))) (wi_filled w, False))"

section \<open>Reading\<close>

type_synonym 'a reader = "bytes \<Rightarrow> error + 'a \<times> bytes"

text \<open>The readers of \<open>zcash_encoding\<close> at the types the code uses them with.\<close>

record zcash_encoding =
  ze_optional_node :: "node reader \<Rightarrow> node option reader"
  ze_vector_parents :: "node option reader \<Rightarrow> node option list reader"
  ze_vector_node :: "node reader \<Rightarrow> node list reader"
  ze_optional_ctree :: "node ctree reader \<Rightarrow> node ctree option reader"

definition read_exact :: "nat \<Rightarrow> bytes reader" where
  "read_exact n bs = (if n \<le> length bs then Inr (take n bs, drop n bs) else Inl Io_Error)"

definition node_read :: "node reader" where
  "node_read = read_exact 32"

definition ctree_read :: "zcash_encoding \<Rightarrow> node ctree reader" where
  "ctree_read ze bs =
     tryr (ze_optional_node ze node_read bs) (\<lambda>(left, bs).
     tryr (ze_optional_node ze node_read bs) (\<lambda>(right, bs).
     tryr (ze_vector_parents ze (ze_optional_node ze node_read) bs) (\<lambda>(parents, bs).
     Inr (\<lparr>tr_left = left, tr_right = right, tr_parents = parents\<rparr>, bs))))"

text \<open>The position of the last leaf: \<open>get_position() - 1\<close> overflows for an empty tree.\<close>

definition witness_read :: "zcash_encoding \<Rightarrow> 32 word \<Rightarrow> node witness reader" where
  "witness_read ze id_note bs =
     tryr (ctree_read ze bs) (\<lambda>(tree, bs).
     tryr (ze_vector_node ze node_read bs) (\<lambda>(filled, bs).
     tryr (ze_optional_ctree ze (ctree_read ze) bs) (\<lambda>(cursor, bs).
     tryr (read_exact 32 bs) (\<lambda>(cmx, bs).
     tryr (get_position tree) (\<lambda>position.
     if position = 0 then Inl overflow
     else Inr (\<lparr>wi_position = position - 1, wi_tree = tree, wi_filled = filled,
       wi_cursor = (case cursor of None \<Rightarrow> ctree_new | Some c \<Rightarrow> c), wi_id_note = id_note, wi_cmx = cmx\<rparr>, bs))))))"

definition witness_from_bytes :: "zcash_encoding \<Rightarrow> 32 word \<Rightarrow> bytes \<Rightarrow> error + node witness" where
  "witness_from_bytes ze id_note bs = tryr (witness_read ze id_note bs) (\<lambda>(w, _). Inr w)"

end
