(* ===== verification/Merkle_Props.thy ===== *)
theory Merkle_Props
  imports Merkle
begin

text \<open>
  The Merkle tree over a list of leaves, level by level, and what the roots and authentication
  paths of the code compute on it.
\<close>

section \<open>The Merkle tree of a list of leaves\<close>

text \<open>The root of an empty subtree of height \<open>d\<close>, and the nodes one level up.\<close>

fun empty_root :: "'n hasher \<Rightarrow> nat \<Rightarrow> 'n" where
  "empty_root ha 0 = uncommited_node ha"
| "empty_root ha (Suc d) = node_combine ha (of_nat d) (empty_root ha d) (empty_root ha d)"

fun pair_up :: "'n hasher \<Rightarrow> nat \<Rightarrow> 'n list \<Rightarrow> 'n list" where
  "pair_up ha d [] = []"
| "pair_up ha d [x] = [node_combine ha (of_nat d) x (empty_root ha d)]"
| "pair_up ha d (x # y # xs) = node_combine ha (of_nat d) x y # pair_up ha d xs"

text \<open>The nodes of level \<open>d\<close>, and the root of the tree of a height.\<close>

fun nodes_at :: "'n hasher \<Rightarrow> nat \<Rightarrow> 'n list \<Rightarrow> 'n list" where
  "nodes_at ha 0 xs = xs"
| "nodes_at ha (Suc d) xs = pair_up ha d (nodes_at ha d xs)"

text \<open>The root \<open>k\<close> levels above level \<open>d\<close>.\<close>

fun root_above :: "'n hasher \<Rightarrow> nat \<Rightarrow> nat \<Rightarrow> 'n list \<Rightarrow> 'n" where
  "root_above ha d 0 ns = (case ns of [] \<Rightarrow> empty_root ha d | n # _ \<Rightarrow> n)"
| "root_above ha d (Suc k) ns = root_above ha (Suc d) k (pair_up ha d ns)"

definition merkle_root :: "'n hasher \<Rightarrow> nat \<Rightarrow> 'n list \<Rightarrow> 'n" where
  "merkle_root ha height xs = (case nodes_at ha height xs of [] \<Rightarrow> empty_root ha height | n # _ \<Rightarrow> n)"

text \<open>
  A commitment tree stands for its leaves: the last one or two leaves are \<open>left\<close> and \<open>right\<close>, and at
  each level above the parent holds the last node when the number of nodes is odd.
\<close>

fun parents_rep :: "'n hasher \<Rightarrow> nat \<Rightarrow> 'n option list \<Rightarrow> 'n list \<Rightarrow> bool" where
  "parents_rep ha d [] ns \<longleftrightarrow> ns = []"
| "parents_rep ha d (None # ps) ns \<longleftrightarrow> even (length ns) \<and> parents_rep ha (Suc d) ps (pair_up ha d ns)"
| "parents_rep ha d (Some n # ps) ns \<longleftrightarrow>
     ns \<noteq> [] \<and> last ns = n \<and> odd (length ns) \<and> parents_rep ha (Suc d) ps (pair_up ha d (butlast ns))"

definition tree_rep :: "'n hasher \<Rightarrow> 'n ctree \<Rightarrow> 'n list \<Rightarrow> bool" where
  "tree_rep ha t xs \<longleftrightarrow>
     (case tr_left t of
        None \<Rightarrow> tr_right t = None \<and> xs = []
      | Some left \<Rightarrow>
          \<exists>ys. xs = ys @ left # (case tr_right t of None \<Rightarrow> [] | Some right \<Rightarrow> [right]) \<and> even (length ys) \<and>
            parents_rep ha 1 (tr_parents t) (pair_up ha 0 ys))"

section \<open>Levels\<close>

lemma empty_roots_fold:
  "fold (\<lambda>depth (roots, cur). let cur = node_combine ha (of_nat depth) cur cur in (roots @ [cur], cur))
     [0..<height] ([uncommited_node ha], uncommited_node ha)
   = (map (empty_root ha) [0..<Suc height], empty_root ha height)"
  by (induction height) (simp_all add: Let_def)

lemma empty_roots_nth [simp]: "d \<le> height \<Longrightarrow> empty_roots ha height ! d = empty_root ha d"
  unfolding empty_roots_def empty_roots_fold by (simp del: upt_Suc)

lemma length_empty_roots [simp]: "length (empty_roots ha height) = Suc height"
  unfolding empty_roots_def empty_roots_fold by simp

lemma at_empty_roots [simp]: "d \<le> height \<Longrightarrow> at_index (empty_roots ha height) d = Inr (empty_root ha d)"
  by (simp add: at_index_def)

lemma pair_up_append: "even (length xs) \<Longrightarrow> pair_up ha d (xs @ ys) = pair_up ha d xs @ pair_up ha d ys"
  by (induction ha d xs rule: pair_up.induct) auto

lemma length_pair_up: "length (pair_up ha d xs) = (length xs + 1) div 2"
  by (induction ha d xs rule: pair_up.induct) auto

lemma pair_up_last_left: "even (length ys) \<Longrightarrow> pair_up ha d (ys @ [x]) = pair_up ha d ys @ [node_combine ha (of_nat d) x (empty_root ha d)]"
  by (simp add: pair_up_append)

lemma pair_up_last_pair: "even (length ys) \<Longrightarrow> pair_up ha d (ys @ x # y # zs) = pair_up ha d ys @ node_combine ha (of_nat d) x y # pair_up ha d zs"
  by (simp add: pair_up_append)

lemma root_above_single_Suc:
  "root_above ha d (Suc k) [x] = root_above ha (Suc d) k [node_combine ha (of_nat d) x (empty_root ha d)]"
  by simp

lemma root_above_nodes_at: "root_above ha d k (nodes_at ha d xs) =
    (case nodes_at ha (d + k) xs of [] \<Rightarrow> empty_root ha (d + k) | n # _ \<Rightarrow> n)"
proof (induction k arbitrary: d)
  case (Suc k)
  from Suc[of "Suc d"] show ?case by (simp split: list.split)
qed (simp split: list.split)

lemma merkle_root_above: "merkle_root ha height xs = root_above ha 0 height xs"
  using root_above_nodes_at[of ha 0 height xs] by (simp add: merkle_root_def split: list.split)

section \<open>The root of a commitment tree\<close>

lemma root_fill_single:
  "d + k \<le> height \<Longrightarrow> root_fill ha (empty_roots ha height) [d..<d + k] cur = Inr (root_above ha d k [cur])"
proof (induction k arbitrary: d cur)
  case 0
  then show ?case by simp
next
  case (Suc k)
  have u: "[d..<d + Suc k] = d # [Suc d..<Suc d + k]" by (simp add: upt_conv_Cons del: upt_Suc)
  show ?case unfolding u using Suc.IH[of "Suc d"] Suc.prems by (simp del: upt_Suc)
qed

text \<open>What \<open>root_parents\<close> followed by \<open>root_fill\<close> computes.\<close>

lemma root_parents_rep:
  assumes "parents_rep ha d ps ns" "d + length ps \<le> h" "h \<le> height" "d + length ps \<le> 255"
  shows "tryr (root_parents ha (empty_roots ha height) ps d cur) (\<lambda>(depth, cur). root_fill ha (empty_roots ha height) [depth..<h] cur)
    = Inr (root_above ha d (h - d) (ns @ [cur]))"
  using assms
proof (induction ha d ps ns arbitrary: cur rule: parents_rep.induct)
  case (1 ha d ns)
  with root_fill_single[of d "h - d" height ha cur] show ?case by simp
next
  case (2 ha d ps ns)
  from 2(3) have hd: "h - d = Suc (h - Suc d)" by simp
  have "pair_up ha d (ns @ [cur]) = pair_up ha d ns @ [node_combine ha (of_nat d) cur (empty_root ha d)]"
    using 2(2) by (simp add: pair_up_last_left)
  moreover have "d \<le> height" "d \<noteq> 255" using 2(3-5) by auto
  ultimately show ?case using 2 by (simp add: hd)
next
  case (3 ha d n ps ns)
  from 3(3) have hd: "h - d = Suc (h - Suc d)" by simp
  from 3(2) obtain ys where ys: "ns = ys @ [n]" by (metis append_butlast_last_id parents_rep.simps(3))
  with 3(2) have e: "even (length ys)" by simp
  have "pair_up ha d (ns @ [cur]) = pair_up ha d ys @ [node_combine ha (of_nat d) n cur]"
    unfolding ys using pair_up_last_pair[OF e, of ha d n cur "[]"] by simp
  moreover have "d \<noteq> 255" using 3(5) by auto
  moreover have "butlast ns = ys" by (simp add: ys)
  ultimately show ?case using 3 by (simp add: hd)
qed

lemma ctree_root_rep:
  assumes "tree_rep ha t xs" "h \<le> height" "tr_left t \<noteq> None \<longrightarrow> length (tr_parents t) < h" "h \<le> 255"
  shows "ctree_root t h (empty_roots ha height) ha = Inr (merkle_root ha h xs)"
proof (cases "tr_left t")
  case None
  have "root_above ha d k [] = empty_root ha (d + k)" for d k
    by (induction k arbitrary: d) auto
  with None assms show ?thesis by (simp add: ctree_root_def tree_rep_def merkle_root_above)
next
  case (Some left)
  let ?last = "left # (case tr_right t of None \<Rightarrow> [] | Some right \<Rightarrow> [right])"
  let ?right = "case tr_right t of Some right \<Rightarrow> right | None \<Rightarrow> uncommited_node ha"
  from assms(1) Some obtain ys where ys: "xs = ys @ ?last" "even (length ys)"
    "parents_rep ha 1 (tr_parents t) (pair_up ha 0 ys)" by (auto simp: tree_rep_def)
  from assms(3) Some have h: "h = Suc (h - 1)" by auto
  have "pair_up ha 0 xs = pair_up ha 0 ys @ [node_combine ha 0 left ?right]"
    using ys(1,2) by (auto simp: pair_up_append split: option.split)
  then have "merkle_root ha h xs = root_above ha 1 (h - 1) (pair_up ha 0 ys @ [node_combine ha 0 left ?right])"
    unfolding merkle_root_above by (subst h) simp
  moreover have "tryr (root_parents ha (empty_roots ha height) (tr_parents t) 1 (node_combine ha 0 left ?right))
      (\<lambda>(depth, cur). root_fill ha (empty_roots ha height) [depth..<h] cur) =
    Inr (root_above ha 1 (h - 1) (pair_up ha 0 ys @ [node_combine ha 0 left ?right]))"
    using assms Some by (intro root_parents_rep[OF ys(3)]) auto
  ultimately show ?thesis using Some by (simp add: ctree_root_def Let_def)
qed

text \<open>The position of a commitment tree is its number of leaves.\<close>

lemma position_of_parents_snoc: "position_of_parents (ps @ [q]) p =
    tryr (position_of_parents ps p) (\<lambda>p. position_of_parents [q] p)"
proof (induction ps arbitrary: p)
  case (Cons a ps)
  then show ?case by (simp add: usize_def)
qed simp

lemma position_of_parents_rep:
  "parents_rep ha d ps ns \<Longrightarrow> position_of_parents (rev ps) 0 = usize (2 * length ns)"
proof (induction ha d ps ns rule: parents_rep.induct)
  case (2 ha d ps ns)
  then show ?case by (auto simp: position_of_parents_snoc length_pair_up usize_def)
next
  case (3 ha d n ps ns)
  then have "2 * length (pair_up ha d (butlast ns)) = length ns - 1" by (simp add: length_pair_up)
  moreover from 3 have "0 < length ns" by simp
  ultimately show ?case using 3 by (auto simp: position_of_parents_snoc usize_def)
qed (simp add: usize_def)

lemma get_position_rep:
  assumes "tree_rep ha t xs" "tr_left t = None \<Longrightarrow> tr_parents t = []"
  shows "get_position t = usize (length xs)"
proof (cases "tr_left t")
  case None
  with assms show ?thesis by (simp add: tree_rep_def get_position_def usize_def)
next
  case (Some left)
  with assms(1) obtain ys where ys: "xs = ys @ left # (case tr_right t of None \<Rightarrow> [] | Some right \<Rightarrow> [right])"
    "even (length ys)" "parents_rep ha 1 (tr_parents t) (pair_up ha 0 ys)" by (auto simp: tree_rep_def)
  from ys(2) have "2 * length (pair_up ha 0 ys) = length ys" by (simp add: length_pair_up)
  with position_of_parents_rep[OF ys(3)] have "position_of_parents (rev (tr_parents t)) 0 = usize (length ys)" by simp
  then show ?thesis unfolding get_position_def ys(1) using Some
    by (cases "tr_right t") (auto simp: usize_def)
qed

end
