(* ===== verification/Merkle_Paths.thy ===== *)
theory Merkle_Paths
  imports Merkle_Props
begin

text \<open>
  The authentication path of a witness: which leaves the tree, the filled nodes and the cursor of a
  witness stand for, and that \<open>auth_path\<close> is the list of siblings on the way from the witnessed leaf
  to the root.
\<close>

section \<open>Siblings and paths\<close>

definition sibling :: "'n hasher \<Rightarrow> nat \<Rightarrow> 'n list \<Rightarrow> nat \<Rightarrow> 'n" where
  "sibling ha d ns i =
     (if odd i then ns ! (i - 1) else if i + 1 < length ns then ns ! (i + 1) else empty_root ha d)"

text \<open>The siblings of the node at index \<open>i\<close> of level \<open>d\<close>, for \<open>k\<close> levels.\<close>

fun merkle_path :: "'n hasher \<Rightarrow> nat \<Rightarrow> nat \<Rightarrow> 'n list \<Rightarrow> nat \<Rightarrow> 'n list" where
  "merkle_path ha d 0 ns i = []"
| "merkle_path ha d (Suc k) ns i = sibling ha d ns i # merkle_path ha (Suc d) k (pair_up ha d ns) (i div 2)"

text \<open>The root a verifier computes from a leaf, its index and a path.\<close>

fun path_root :: "'n hasher \<Rightarrow> nat \<Rightarrow> 'n list \<Rightarrow> nat \<Rightarrow> 'n \<Rightarrow> 'n" where
  "path_root ha d [] i cur = cur"
| "path_root ha d (s # path) i cur = path_root ha (Suc d) path (i div 2)
     (if odd i then node_combine ha (of_nat d) s cur else node_combine ha (of_nat d) cur s)"

lemma pair_up_nth: "i < length ns \<Longrightarrow> pair_up ha d ns ! (i div 2) =
    (if odd i then node_combine ha (of_nat d) (sibling ha d ns i) (ns ! i)
     else node_combine ha (of_nat d) (ns ! i) (sibling ha d ns i))"
proof (induction ha d ns arbitrary: i rule: pair_up.induct)
  case (2 ha d x)
  then show ?case by (simp add: sibling_def)
next
  case (3 ha d x y xs)
  show ?case
  proof (cases "i < 2")
    case True
    then consider "i = 0" | "i = 1" by linarith
    then show ?thesis by cases (simp_all add: sibling_def)
  next
    case False
    then obtain j where j: "i = Suc (Suc j)" by (metis less_2_cases_iff not0_implies_Suc One_nat_def)
    from 3(2) j have "j < length xs" by simp
    moreover have "sibling ha d (x # y # xs) i = sibling ha d xs j"
      by (cases j) (simp_all add: sibling_def j)
    ultimately show ?thesis using 3(1)[of j] by (simp add: j)
  qed
qed simp

lemma path_root_merkle_path: "i < length ns \<Longrightarrow> length ns \<le> 2 ^ k \<Longrightarrow>
    path_root ha d (merkle_path ha d k ns i) i (ns ! i) = root_above ha d k ns"
proof (induction k arbitrary: d ns i)
  case 0
  then have "i = 0" "length ns = 1" by auto
  then show ?case by (cases ns) auto
next
  case (Suc k)
  from Suc.prems have "i div 2 < length (pair_up ha d ns)" "length (pair_up ha d ns) \<le> 2 ^ k"
    by (auto simp: length_pair_up)
  from Suc.IH[OF this, of "Suc d"] show ?case using Suc.prems(1) by (simp add: pair_up_nth)
qed

section \<open>The nodes of a level, subtree by subtree\<close>

lemma length_nodes_at: "length (nodes_at ha d xs) = (length xs + (2 ^ d - 1)) div 2 ^ d"
proof (induction d)
  case (Suc d)
  have "(length xs + (2 ^ d - 1)) div 2 ^ d + 1 = (length xs + (2 ^ d - 1) + 2 ^ d) div 2 ^ d"
    by simp
  also have "length xs + (2 ^ d - 1) + 2 ^ d = length xs + (2 ^ Suc d - 1)" by simp
  finally have "((length xs + (2 ^ d - 1)) div 2 ^ d + 1) div 2 = (length xs + (2 ^ Suc d - 1)) div 2 ^ d div 2"
    by (rule arg_cong)
  also have "\<dots> = (length xs + (2 ^ Suc d - 1)) div 2 ^ Suc d"
    by (simp only: div_mult2_eq[symmetric] power_Suc2)
  finally show ?case using Suc by (simp add: length_pair_up)
qed simp

lemma nodes_at_append:
  "2 ^ d dvd length xs \<Longrightarrow> nodes_at ha d (xs @ ys) = nodes_at ha d xs @ nodes_at ha d ys"
proof (induction d)
  case (Suc d)
  from Suc.prems obtain m where m: "length xs = 2 ^ Suc d * m" by blast
  have "length (nodes_at ha d xs) = (2 ^ d - 1 + 2 ^ d * (2 * m)) div 2 ^ d"
    unfolding length_nodes_at m power_Suc by (simp only: ac_simps)
  also have "\<dots> = 2 * m" by (subst div_mult_self2) simp_all
  finally have "even (length (nodes_at ha d xs))" by simp
  moreover have "2 ^ d dvd length xs" by (simp add: m)
  ultimately show ?case using Suc.IH by (simp add: pair_up_append)
qed simp

lemma nodes_at_nil [simp]: "nodes_at ha d [] = []"
  by (induction d) simp_all

lemma nodes_at_one:
  assumes "xs \<noteq> []" "length xs \<le> 2 ^ d"
  shows "nodes_at ha d xs = [merkle_root ha d xs]"
proof -
  from assms have "2 ^ d \<le> length xs + (2 ^ d - 1)" "length xs + (2 ^ d - 1) < 2 * 2 ^ d"
    by (cases xs; simp)+
  then have "length (nodes_at ha d xs) = 1" unfolding length_nodes_at
    by (metis One_nat_def Suc_1 div_nat_eqI mult.commute mult.right_neutral mult_1)
  then show ?thesis by (auto simp: merkle_root_def length_Suc_conv split: list.splits)
qed

lemma nodes_at_Cons: "xs \<noteq> [] \<Longrightarrow>
    nodes_at ha d xs = merkle_root ha d (take (2 ^ d) xs) # nodes_at ha d (drop (2 ^ d) xs)"
proof (cases "2 ^ d \<le> length xs")
  case True
  assume xs: "xs \<noteq> []"
  have "nodes_at ha d (take (2 ^ d) xs @ drop (2 ^ d) xs) =
      nodes_at ha d (take (2 ^ d) xs) @ nodes_at ha d (drop (2 ^ d) xs)"
    using True by (intro nodes_at_append) (simp add: min_def)
  moreover have "nodes_at ha d (take (2 ^ d) xs) = [merkle_root ha d (take (2 ^ d) xs)]"
    using xs by (intro nodes_at_one) auto
  ultimately show ?thesis by simp
next
  case False
  assume "xs \<noteq> []"
  with False nodes_at_one[of xs d ha] show ?thesis by simp
qed

lemma merkle_root_nil [simp]: "merkle_root ha d [] = empty_root ha d"
  by (simp add: merkle_root_def)

lemma merkle_root_hd: "xs \<noteq> [] \<Longrightarrow> hd (nodes_at ha d xs) = merkle_root ha d (take (2 ^ d) xs)"
  by (simp add: nodes_at_Cons)

lemma nodes_at_tl: "tl (nodes_at ha d xs) = nodes_at ha d (drop (2 ^ d) xs)"
  by (cases "xs = []") (simp_all add: nodes_at_Cons)

section \<open>What a witness stands for\<close>

text \<open>
  The levels of the path at which the sibling is to the right of the tree, so that a filler gives
  it, and the fillers: the roots of the complete subtrees of the leaves added since, then the cursor
  over what is left of them.
\<close>

definition parent_at :: "'n option list \<Rightarrow> nat \<Rightarrow> 'n option" where
  "parent_at parents i = (if i - 1 < length parents then parents ! (i - 1) else None)"

definition open_levels :: "'n ctree \<Rightarrow> nat \<Rightarrow> nat list" where
  "open_levels t height =
     (if tr_right t = None then [0] else []) @ filter (\<lambda>i. parent_at (tr_parents t) i = None) [1..<height]"

fun fills :: "'n hasher \<Rightarrow> 'n ctree \<Rightarrow> 'n list \<Rightarrow> nat list \<Rightarrow> 'n list \<Rightarrow> bool" where
  "fills ha cursor (r # filled) (d # ds) zs \<longleftrightarrow>
     2 ^ d \<le> length zs \<and> r = merkle_root ha d (take (2 ^ d) zs) \<and> fills ha cursor filled ds (drop (2 ^ d) zs)"
| "fills ha cursor [] (d # ds) zs \<longleftrightarrow>
     tree_rep ha cursor zs \<and> length zs \<le> 2 ^ d \<and> (tr_left cursor \<noteq> None \<longrightarrow> length (tr_parents cursor) < d)"
| "fills ha cursor filled [] zs \<longleftrightarrow> filled = [] \<and> zs = []"

text \<open>The witness of the last of the leaves \<open>xs\<close>, after the leaves \<open>zs\<close> were added.\<close>

definition witness_rep :: "'n hasher \<Rightarrow> nat \<Rightarrow> 'n witness \<Rightarrow> 'n list \<Rightarrow> 'n list \<Rightarrow> bool" where
  "witness_rep ha height w xs zs \<longleftrightarrow>
     xs \<noteq> [] \<and> tree_rep ha (wi_tree w) xs \<and> length (tr_parents (wi_tree w)) < height \<and>
     fills ha (wi_cursor w) (wi_filled w) (open_levels (wi_tree w) height) zs"

text \<open>The state of the closure \<open>next_filler\<close> before the open levels \<open>ds\<close>.\<close>

definition filler_rep :: "'n hasher \<Rightarrow> 'n ctree \<Rightarrow> 'n list \<times> bool \<Rightarrow> nat list \<Rightarrow> 'n list \<Rightarrow> bool" where
  "filler_rep ha cursor s ds zs \<longleftrightarrow>
     (if snd s then fst s = [] \<and> zs = [] else fills ha cursor (fst s) ds zs)"

lemma next_filler_rep:
  assumes "filler_rep ha (wi_cursor w) s (d # ds) zs" "d \<le> height" "height \<le> 255"
  obtains s' where "next_filler w (empty_roots ha height) ha d s = (Inr (merkle_root ha d (take (2 ^ d) zs)), s')"
    "filler_rep ha (wi_cursor w) s' ds (drop (2 ^ d) zs)"
proof -
  consider (filled) r filled where "s = (r # filled, False)" | (cursor) "s = ([], False)" | (used) "s = ([], True)"
    using assms(1) by (cases s; cases "fst s"; cases "snd s") (auto simp: filler_rep_def)
  then show thesis
  proof cases
    case filled
    with assms(1) show ?thesis by (intro that[of "(filled, False)"]) (auto simp: filler_rep_def next_filler_def)
  next
    case cursor
    with assms(1) have c: "tree_rep ha (wi_cursor w) zs" "length zs \<le> 2 ^ d"
      "tr_left (wi_cursor w) \<noteq> None \<longrightarrow> length (tr_parents (wi_cursor w)) < d" by (simp_all add: filler_rep_def)
    from ctree_root_rep[OF c(1) assms(2) c(3)] assms have
      "ctree_root (wi_cursor w) d (empty_roots ha height) ha = Inr (merkle_root ha d zs)" by simp
    with cursor c(2) show ?thesis
      by (intro that[of "([], True)"]) (simp_all add: filler_rep_def next_filler_def)
  next
    case used
    with assms show ?thesis by (intro that[of s]) (simp_all add: filler_rep_def next_filler_def)
  qed
qed

section \<open>The path\<close>

lemma sibling_left: "odd (length ns) \<Longrightarrow> ns \<noteq> [] \<Longrightarrow> sibling ha d (ns @ cur # qs) (length ns) = last ns"
  by (simp add: sibling_def nth_append last_conv_nth)

lemma sibling_right: "even (length ns) \<Longrightarrow>
    sibling ha d (ns @ cur # qs) (length ns) = (case qs of [] \<Rightarrow> empty_root ha d | q # _ \<Rightarrow> q)"
  by (auto simp: sibling_def nth_append split: list.split)

lemma sibling_filler: "even (length ns) \<Longrightarrow>
    sibling ha d (ns @ cur # nodes_at ha d zs) (length ns) = merkle_root ha d (take (2 ^ d) zs)"
  by (cases "zs = []") (simp_all add: sibling_right nodes_at_Cons)

lemma pair_up_right: "even (length ns) \<Longrightarrow>
    pair_up ha d (ns @ cur # nodes_at ha d zs) =
      pair_up ha d ns @ node_combine ha (of_nat d) cur (merkle_root ha d (take (2 ^ d) zs)) #
        nodes_at ha (Suc d) (drop (2 ^ d) zs)"
  by (cases "zs = []") (simp_all add: pair_up_append nodes_at_Cons)

lemma pair_up_left: "odd (length ns) \<Longrightarrow> ns \<noteq> [] \<Longrightarrow>
    pair_up ha d (ns @ cur # nodes_at ha d zs) =
      pair_up ha d (butlast ns) @ node_combine ha (of_nat d) (last ns) cur # nodes_at ha (Suc d) zs"
proof -
  assume "odd (length ns)" "ns \<noteq> []"
  moreover from this have "ns @ cur # nodes_at ha d zs = butlast ns @ last ns # cur # nodes_at ha d zs"
    by (metis append.assoc append_Cons append_Nil append_butlast_last_id)
  ultimately show ?thesis by (simp only: pair_up_append even_diff_nat length_butlast pair_up.simps nodes_at.simps)
      (simp add: pair_up_append)
qed

lemma path_levels_Cons: "path_levels w roots ha (i # is) =
    try_io (case parent_at (tr_parents (wi_tree w)) i of Some node \<Rightarrow> ret_io node | None \<Rightarrow> next_filler w roots ha i)
      (\<lambda>n. try_io (path_levels w roots ha is) (\<lambda>path. ret_io (n # path)))"
  by (simp add: parent_at_def)

lemma path_levels_step:
  assumes "(case parent_at (tr_parents (wi_tree w)) i of Some node \<Rightarrow> ret_io node | None \<Rightarrow> next_filler w roots ha i) s = (Inr n, s')"
    and "fst (path_levels w roots ha is s') = Inr path"
  shows "fst (path_levels w roots ha (i # is) s) = Inr (n # path)"
  unfolding path_levels_Cons try_io_Inr[where m = "case_option _ _ _", OF assms(1)]
  using assms(2) by (auto simp: try_io_def ret_io_def split: prod.splits sum.splits)

lemma parents_rep_None: "parents_rep ha d ps ns \<Longrightarrow> (case ps of [] \<Rightarrow> None | p # _ \<Rightarrow> p) = None \<Longrightarrow>
    even (length ns) \<and> parents_rep ha (Suc d) (tl ps) (pair_up ha d ns)"
  by (auto split: list.splits)

lemma parents_rep_Some: "parents_rep ha d ps ns \<Longrightarrow> (case ps of [] \<Rightarrow> None | p # _ \<Rightarrow> p) = Some n \<Longrightarrow>
    odd (length ns) \<and> ns \<noteq> [] \<and> last ns = n \<and> parents_rep ha (Suc d) (tl ps) (pair_up ha d (butlast ns))"
  by (auto split: list.splits)

text \<open>The levels above the leaves: \<open>ps\<close> are the parents from level \<open>d\<close> on.\<close>

lemma path_levels_rep:
  assumes "parents_rep ha d ps ns" "ps = drop (d - 1) (tr_parents (wi_tree w))" "1 \<le> d" "d + k \<le> height"
    "height \<le> 255" "filler_rep ha (wi_cursor w) s (filter (\<lambda>i. parent_at (tr_parents (wi_tree w)) i = None) [d..<d + k]) zs"
  shows "fst (path_levels w (empty_roots ha height) ha [d..<d + k] s) =
    Inr (merkle_path ha d k (ns @ cur # nodes_at ha d zs) (length ns))"
  using assms
proof (induction k arbitrary: d ps ns s zs cur)
  case 0
  then show ?case by (simp add: ret_io_def)
next
  case (Suc k)
  let ?ps = "tr_parents (wi_tree w)"
  have u: "[d..<d + Suc k] = d # [Suc d..<Suc d + k]" by (simp add: upt_conv_Cons del: upt_Suc)
  have tl: "tl ps = drop (Suc d - 1) ?ps" using Suc.prems(2,3) by (simp add: tl_drop flip: drop_Suc)
  have at: "parent_at ?ps d = (case ps of [] \<Rightarrow> None | p # _ \<Rightarrow> p)"
    using Suc.prems(2) by (auto simp: parent_at_def hd_drop_conv_nth[symmetric] split: list.split)
  show ?case
  proof (cases "parent_at ?ps d")
    case None
    with parents_rep_None[OF Suc.prems(1)] at have ns: "even (length ns)"
      "parents_rep ha (Suc d) (tl ps) (pair_up ha d ns)" by simp_all
    from Suc.prems(6) None have fr: "filler_rep ha (wi_cursor w) s
        (d # filter (\<lambda>i. parent_at ?ps i = None) [Suc d..<Suc d + k]) zs" by (simp only: u filter.simps if_True refl)
    have "d \<le> height" using Suc.prems(4) by simp
    from next_filler_rep[OF fr this Suc.prems(5)] obtain s' where
      s': "next_filler w (empty_roots ha height) ha d s = (Inr (merkle_root ha d (take (2 ^ d) zs)), s')"
      "filler_rep ha (wi_cursor w) s' (filter (\<lambda>i. parent_at ?ps i = None) [Suc d..<Suc d + k]) (drop (2 ^ d) zs)" .
    from ns(1) have "length (pair_up ha d ns) = length ns div 2" by (simp add: length_pair_up)
    with Suc.IH[OF ns(2) tl _ _ Suc.prems(5) s'(2)] Suc.prems(4) pair_up_right[OF ns(1)]
    have "fst (path_levels w (empty_roots ha height) ha [Suc d..<Suc d + k] s') = Inr (merkle_path ha (Suc d) k
        (pair_up ha d (ns @ cur # nodes_at ha d zs)) (length ns div 2))" by simp
    then show ?thesis unfolding u merkle_path.simps
      by (intro path_levels_step) (simp_all add: None s'(1) sibling_filler[OF ns(1)])
  next
    case (Some n)
    from parents_rep_Some[OF Suc.prems(1) trans[OF at[symmetric] Some]] have ns: "odd (length ns)" "ns \<noteq> []" "last ns = n"
      "parents_rep ha (Suc d) (tl ps) (pair_up ha d (butlast ns))" by simp_all
    from Suc.prems(6) Some have fr: "filler_rep ha (wi_cursor w) s
        (filter (\<lambda>i. parent_at ?ps i = None) [Suc d..<Suc d + k]) zs"
      by (simp only: u filter.simps option.distinct if_False)
    from ns(1) have "length (pair_up ha d (butlast ns)) = length ns div 2" by (simp add: length_pair_up)
    with Suc.IH[OF ns(4) tl _ _ Suc.prems(5) fr] Suc.prems(4) pair_up_left[OF ns(1,2)]
    have "fst (path_levels w (empty_roots ha height) ha [Suc d..<Suc d + k] s) = Inr (merkle_path ha (Suc d) k
        (pair_up ha d (ns @ cur # nodes_at ha d zs)) (length ns div 2))" by simp
    then show ?thesis unfolding u merkle_path.simps
      by (intro path_levels_step) (simp_all add: Some ret_io_def sibling_left[OF ns(1,2)] ns(3))
  qed
qed

lemma auth_path_levels:
  assumes "tr_left (wi_tree w) = Some left"
    "(if tr_right (wi_tree w) \<noteq> None then ret_io left else next_filler w roots ha 0) (wi_filled w, False) = (Inr n, s)"
    "fst (path_levels w roots ha [1..<height] s) = Inr path"
  shows "auth_path w height roots ha = Inr (n # path)"
  using assms by (auto simp: auth_path_def try_io_def ret_io_def split: if_splits prod.splits sum.splits)

lemma auth_path_rep:
  assumes "witness_rep ha height w xs zs" "height \<le> 255"
  shows "auth_path w height (empty_roots ha height) ha = Inr (merkle_path ha 0 height (xs @ zs) (length xs - 1))"
proof -
  let ?t = "wi_tree w" and ?E = "empty_roots ha height"
  let ?levels = "filter (\<lambda>i. parent_at (tr_parents ?t) i = None) [1..<height]"
  from assms(1) obtain left where left: "tr_left ?t = Some left"
    by (cases "tr_left ?t") (auto simp: witness_rep_def tree_rep_def)
  with assms(1) obtain ys where ys: "xs = ys @ left # (case tr_right ?t of None \<Rightarrow> [] | Some right \<Rightarrow> [right])"
    "even (length ys)" "parents_rep ha 1 (tr_parents ?t) (pair_up ha 0 ys)" by (auto simp: witness_rep_def tree_rep_def)
  from assms(1) have h: "0 < height" by (auto simp: witness_rep_def)
  then obtain k where k: "height = Suc k" by (cases height) auto
  have len: "length (pair_up ha 0 ys) = length ys div 2" using ys(2) by (simp add: length_pair_up)
  show ?thesis
  proof (cases "tr_right ?t")
    case (Some right)
    with assms(1) have "filler_rep ha (wi_cursor w) (wi_filled w, False) ?levels zs"
      by (simp add: witness_rep_def filler_rep_def open_levels_def)
    with k have fr: "filler_rep ha (wi_cursor w) (wi_filled w, False)
      (filter (\<lambda>i. parent_at (tr_parents ?t) i = None) [1..<1 + k]) zs" by simp
    have xs: "xs = (ys @ [left]) @ [right]" using ys(1) Some by simp
    have odd: "odd (length (ys @ [left]))" "ys @ [left] \<noteq> []" using ys(2) by auto
    have "fst (path_levels w ?E ha [1..<1 + k] (wi_filled w, False)) = Inr (merkle_path ha 1 k
        (pair_up ha 0 (xs @ zs)) (length ys div 2))"
      using path_levels_rep[OF ys(3) _ _ _ assms(2) fr, of "node_combine ha 0 left right"] k
        pair_up_left[OF odd, of ha 0 right zs] len by (simp add: xs)
    then have "auth_path w height ?E ha = Inr (left # merkle_path ha 1 k (pair_up ha 0 (xs @ zs)) (length ys div 2))"
      using Some left k by (intro auth_path_levels[of w left]) (simp_all add: ret_io_def)
    with k sibling_left[OF odd, of ha 0 right zs] ys(2) show ?thesis by (simp add: xs)
  next
    case None
    with assms(1) have "filler_rep ha (wi_cursor w) (wi_filled w, False) (0 # ?levels) zs"
      by (simp add: witness_rep_def filler_rep_def open_levels_def)
    from next_filler_rep[OF this _ assms(2)] obtain s where
      s: "next_filler w ?E ha 0 (wi_filled w, False) = (Inr (merkle_root ha 0 (take 1 zs)), s)"
      "filler_rep ha (wi_cursor w) s ?levels (drop 1 zs)" by auto
    from s(2) k have fr: "filler_rep ha (wi_cursor w) s
      (filter (\<lambda>i. parent_at (tr_parents ?t) i = None) [1..<1 + k]) (drop 1 zs)" by simp
    have xs: "xs = ys @ [left]" using ys(1) None by simp
    have "fst (path_levels w ?E ha [1..<1 + k] s) = Inr (merkle_path ha 1 k
        (pair_up ha 0 (xs @ zs)) (length ys div 2))"
      using path_levels_rep[OF ys(3) _ _ _ assms(2) fr, of "node_combine ha 0 left (merkle_root ha 0 (take 1 zs))"] k
        pair_up_right[OF ys(2), of ha 0 left zs] len by (simp add: xs)
    then have "auth_path w height ?E ha =
        Inr (merkle_root ha 0 (take 1 zs) # merkle_path ha 1 k (pair_up ha 0 (xs @ zs)) (length ys div 2))"
      using None left k s(1) by (intro auth_path_levels[of w left]) simp_all
    with k sibling_filler[OF ys(2), of ha 0 left zs] show ?thesis by (simp add: xs)
  qed
qed

section \<open>Properties\<close>

text \<open>A concrete hasher on numbers, and the witness of the third of seven leaves.\<close>

definition ex_hasher :: "nat hasher" where
  "ex_hasher = \<lparr>uncommited_node = 0, node_combine = (\<lambda>d x y. 2 * x + 3 * y + unat d + 1)\<rparr>"

definition ex_ctree :: "nat ctree" where
  "ex_ctree = \<lparr>tr_left = Some 7, tr_right = None, tr_parents = [Some (2 * 3 + 3 * 5 + 1)]\<rparr>"

definition ex_witness :: "nat witness" where
  "ex_witness = \<lparr>wi_position = 2, wi_tree = ex_ctree, wi_filled = [9],
     wi_cursor = \<lparr>tr_left = Some 4, tr_right = Some 6, tr_parents = [None]\<rparr>, wi_id_note = 0, wi_cmx = []\<rparr>"

lemma ex_ctree_rep: "tree_rep ex_hasher ex_ctree [3, 5, 7]"
  by (simp add: tree_rep_def ex_ctree_def ex_hasher_def)

lemma ex_open_levels: "open_levels ex_ctree 4 = [0, 2, 3]"
  by (simp add: open_levels_def ex_ctree_def parent_at_def upt_rec)

lemma ex_witness_rep: "witness_rep ex_hasher 4 ex_witness [3, 5, 7] [9, 4, 6]"
  by (simp add: witness_rep_def ex_witness_def ex_ctree_rep ex_open_levels)
    (simp add: ex_ctree_def tree_rep_def merkle_root_def)

text \<open>
  C22: The root of a commitment tree. For a tree that stands for a list of leaves and fits the
  height, \<open>root\<close> is the root of the Merkle tree of that height over these leaves, padded with
  uncommitted nodes, and \<open>get_position\<close> is the number of the leaves, or an overflow.
\<close>

theorem ctree_root_correct:
  assumes "tree_rep ha t xs" and "height \<le> 255"
    and "if tr_left t = None then tr_parents t = [] else length (tr_parents t) < height"
  shows "ctree_root t height (empty_roots ha height) ha = Inr (merkle_root ha height xs) \<and>
    get_position t = usize (length xs)"
  using ctree_root_rep[OF assms(1) order_refl] get_position_rep[OF assms(1)] assms(2,3) by (auto split: if_splits)

theorem ctree_root_correct_witness:
  "ctree_root ex_ctree 4 (empty_roots ex_hasher 4) ex_hasher = Inr (merkle_root ex_hasher 4 [3, 5, 7]) \<and>
    get_position ex_ctree = Inr 3"
  using ctree_root_correct[OF ex_ctree_rep, of 4] by (simp_all add: ex_ctree_def usize_def)

text \<open>
  C20: The authentication path of a witness. Let the tree of the witness stand for the leaves up to
  the witnessed one, and the filled nodes and the cursor for the leaves added since. \<open>auth_path\<close>
  panics at no index and is the list of siblings on the way up from the leaf, and a verifier that
  combines the leaf with it reaches the root of the Merkle tree over all the leaves.
\<close>

theorem auth_path_correct:
  assumes "witness_rep ha height w xs zs" and "length (xs @ zs) \<le> 2 ^ height" and "height \<le> 255"
  shows "\<exists>path. auth_path w height (empty_roots ha height) ha = Inr path \<and> length path = height \<and>
    path = merkle_path ha 0 height (xs @ zs) (length xs - 1) \<and>
    path_root ha 0 path (length xs - 1) (last xs) = merkle_root ha height (xs @ zs)"
proof -
  have xs: "xs \<noteq> []" using assms(1) by (simp add: witness_rep_def)
  then have "last xs = (xs @ zs) ! (length xs - 1)" "length xs - 1 < length (xs @ zs)"
    by (simp_all add: nth_append last_conv_nth trans_less_add1)
  moreover have "length (merkle_path ha d k ns i) = k" for d k ns i
    by (induction k arbitrary: d ns i) auto
  ultimately show ?thesis
    using path_root_merkle_path[OF _ assms(2), of "length xs - 1" ha 0] auth_path_rep[OF assms(1,3)]
    by (simp only: merkle_root_above) simp
qed

theorem auth_path_correct_witness:
  "\<exists>path. auth_path ex_witness 4 (empty_roots ex_hasher 4) ex_hasher = Inr path \<and> length path = 4 \<and>
    path = merkle_path ex_hasher 0 4 [3, 5, 7, 9, 4, 6] (length [3, 5, 7 :: nat] - 1) \<and>
    path_root ex_hasher 0 path (length [3, 5, 7 :: nat] - 1) 7 = merkle_root ex_hasher 4 [3, 5, 7, 9, 4, 6]"
  using auth_path_correct[OF ex_witness_rep] by simp

end
