(* ===== verification/Zcash_Sign.thy ===== *)
theory Zcash_Sign
  imports Merkle Trusted_Dealer
begin

text \<open>
  The program \<open>zcash-sign\<close>: its input (\<open>transaction_plan.rs\<close>, \<open>sign.rs\<close>), the signing of the Orchard
  and Ironwood spends of a partially created transaction with signatures from the console
  (\<open>sign.rs\<close>), the generation of a viewing key (\<open>generate.rs\<close>) and the two commands (\<open>main.rs\<close>). The
  crates for PCZT files, transactions and keys are the fields of \<open>pczt_lib\<close> and \<open>key_lib\<close>; an error
  of theirs is represented by its debug text.
\<close>

section \<open>Transaction plans\<close>

type_synonym hash = bytes

datatype source =
    Transparent_Source (src_txid: bytes) (src_index: "32 word")
  | Sapling_Source (src_id_note: "32 word") (src_diversifier: bytes) (src_rseed: bytes) (src_witness: bytes)
  | Orchard_Source (src_id_note: "32 word") (src_diversifier: bytes) (src_rseed: bytes) (src_rho: bytes)
      (src_witness: bytes)

record utxo =
  ux_id :: "32 word"
  ux_source :: source
  ux_amount :: "64 word"

datatype destination =
    Transparent_Destination bytes
  | Sapling_Destination bytes
  | Orchard_Destination bytes

datatype transparent_address = PublicKeyHash bytes | ScriptHash bytes

definition from_transparent :: "transparent_address \<Rightarrow> destination" where
  "from_transparent ta =
     (case ta of
        PublicKeyHash data \<Rightarrow> Transparent_Destination (0 # data)
      | ScriptHash data \<Rightarrow> Transparent_Destination (1 # data))"

fun transparent :: "destination \<Rightarrow> error + transparent_address" where
  "transparent (Transparent_Destination data) =
     Inr (if data ! 0 = 0 then PublicKeyHash (take 20 (drop 1 data)) else ScriptHash (take 20 (drop 1 data)))"
| "transparent _ = Inl (Panic ''internal error: entered unreachable code'')"

text \<open>Memos, of 512 bytes at most, are written in hex; a bad one panics.\<close>

definition get_memo_bytes :: "text_env \<Rightarrow> bytes \<Rightarrow> string" where
  "get_memo_bytes te memo = hex_encode te memo"

definition memo_from_proxy :: "text_env \<Rightarrow> (bytes \<Rightarrow> bytes option) \<Rightarrow> string \<Rightarrow> error + bytes" where
  "memo_from_proxy te memo_from_bytes p =
     tryr (ok_or (hex_decode te p) (Panic ''called Result::unwrap() on an Err value'')) (\<lambda>b.
     ok_or (memo_from_bytes b) (Panic ''called Result::unwrap() on an Err value''))"

record fill =
  fi_id_order :: "32 word option"
  fi_destination :: destination
  fi_amount :: "64 word"
  fi_memo :: bytes

record transaction_plan =
  tp_taddr :: string
  tp_fvk :: string
  tp_orchard_fvk :: string
  tp_anchor_height :: "32 word"
  tp_expiry_height :: "32 word"
  tp_orchard_anchor :: hash
  tp_spends :: "utxo list"
  tp_outputs :: "fill list"
  tp_fee :: "64 word"
  tp_net_chg :: "64 word \<times> 64 word"

datatype 'p input = YwalletTxPlan transaction_plan | PcztInput 'p

section \<open>Pools and versions\<close>

datatype pool = Orchard | Ironwood

definition signer_name :: "pool \<Rightarrow> string" where
  "signer_name p = (case p of Orchard \<Rightarrow> ''sign_orchard_with'' | Ironwood \<Rightarrow> ''sign_ironwood_with'')"

definition pool_label :: "pool \<Rightarrow> string" where
  "pool_label p = (case p of Orchard \<Rightarrow> ''orchard'' | Ironwood \<Rightarrow> ''ironwood'')"

datatype tx_version = V5 | V6 | Other_Version

definition pools_for :: "tx_version \<Rightarrow> pool list" where
  "pools_for version = (case version of V6 \<Rightarrow> [Orchard, Ironwood] | _ \<Rightarrow> [Orchard])"

text \<open>
  The libraries. \<open>pz_bundle\<close> parses the actions of the bundle of a pool and \<open>pz_set_bundle\<close> writes them
  back, as \<open>sign_orchard_with\<close> and \<open>sign_ironwood_with\<close> do around their closure.
\<close>

record ('p, 'tx, 'act) pczt_lib =
  pz_parse :: "bytes \<Rightarrow> 'p option"
  pz_into_effects :: "'p \<Rightarrow> string + 'tx"
  pz_bundle :: "pool \<Rightarrow> 'p \<Rightarrow> string + 'act list"
  pz_set_bundle :: "pool \<Rightarrow> 'act list \<Rightarrow> 'p \<Rightarrow> 'p"
  pz_serialize :: "'p \<Rightarrow> string + bytes"
  tx_version_of :: "'tx \<Rightarrow> tx_version"
  tx_has_orchard :: "'tx \<Rightarrow> bool"
  v5_signature_hash :: "'tx \<Rightarrow> bytes"
  v6_signature_hash :: "'tx \<Rightarrow> bytes"
  ac_spend_auth_sig :: "'act \<Rightarrow> bytes option"
  ac_alpha :: "'act \<Rightarrow> bytes option"
  ac_apply_signature :: "bytes \<Rightarrow> bytes \<Rightarrow> 'act \<Rightarrow> string + 'act"
  pz_plan_of_json :: "bytes \<Rightarrow> transaction_plan option"

definition sighash_for_pczt :: "('p, 'tx, 'act) pczt_lib \<Rightarrow> 'p \<Rightarrow> error + tx_version \<times> bytes" where
  "sighash_for_pczt lib pczt =
     tryr (map_err (\<lambda>e. Eyre (''Not enough information to build the transaction'' @ [CHR 0x27] @ ''s effects: '' @ e))
       (pz_into_effects lib pczt)) (\<lambda>tx_data.
     let version = tx_version_of lib tx_data in
     tryr (case version of
         V6 \<Rightarrow> Inr (v6_signature_hash lib tx_data)
       | V5 \<Rightarrow> if tx_has_orchard lib tx_data then Inr (v5_signature_hash lib tx_data)
               else Inl (Eyre ''Only v6 (Ironwood) and v5 shielded-Orchard transactions are supported'')
       | _ \<Rightarrow> Inl (Eyre ''Only v6 (Ironwood) and v5 shielded-Orchard transactions are supported'')) (\<lambda>sighash.
     if length sighash \<noteq> 32 then Inl (Eyre ''unexpected sighash length'')
     else Inr (version, sighash)))"

section \<open>Signing\<close>

text \<open>The error of the closures; a panic inside a closure passes through the signer.\<close>

datatype sign_err = Parse_Err string | Apply_Err string | Closure_Panic string

definition sign_err_debug :: "sign_err \<Rightarrow> string" where
  "sign_err_debug e = (case e of
      Parse_Err s \<Rightarrow> ''Parse('' @ s @ '')''
    | Apply_Err s \<Rightarrow> ''Apply('' @ s @ '')''
    | Closure_Panic s \<Rightarrow> s)"

definition map_sign_err :: "(string \<Rightarrow> string) \<Rightarrow> sign_err + 'a \<Rightarrow> error + 'a" where
  "map_sign_err context = map_err (\<lambda>e. case e of
      Closure_Panic s \<Rightarrow> Panic s
    | _ \<Rightarrow> Eyre (context (sign_err_debug e)))"

text \<open>\<open>Signer::sign_orchard_with\<close> and \<open>Signer::sign_ironwood_with\<close>, by pool.\<close>

definition sign_with ::
    "('p, 'tx, 'act) pczt_lib \<Rightarrow> pool \<Rightarrow> ('act list \<Rightarrow> sign_err + 'act list) \<Rightarrow> 'p \<Rightarrow> sign_err + 'p" where
  "sign_with lib pool f pczt =
     tryr (map_err Parse_Err (pz_bundle lib pool pczt)) (\<lambda>actions.
     tryr (f actions) (\<lambda>actions.
     Inr (pz_set_bundle lib pool actions pczt)))"

definition randomizer_of :: "('p, 'tx, 'act) pczt_lib \<Rightarrow> nat \<times> 'act \<Rightarrow> sign_err + (nat \<times> bytes) list" where
  "randomizer_of lib ia = (case ia of (idx, action) \<Rightarrow>
     if ac_spend_auth_sig lib action = None
     then (case ac_alpha lib action of
          Some alpha \<Rightarrow>
            if length alpha = 32 then Inr [(idx, alpha)]
            else Inl (Closure_Panic ''a Pallas scalar repr is 32 bytes'')
        | None \<Rightarrow> Inr [])
     else Inr [])"

definition collect_randomizers :: "('p, 'tx, 'act) pczt_lib \<Rightarrow> 'act list \<Rightarrow> sign_err + (nat \<times> bytes) list" where
  "collect_randomizers lib actions =
     tryr (collect_results (map (randomizer_of lib) (enumerate 0 actions))) (\<lambda>found. Inr (concat found))"

fun apply_signatures ::
    "('p, 'tx, 'act) pczt_lib \<Rightarrow> bytes \<Rightarrow> (nat \<times> bytes) list \<Rightarrow> 'act list \<Rightarrow> sign_err + 'act list" where
  "apply_signatures lib sighash [] actions = Inr actions"
| "apply_signatures lib sighash ((idx, sig) # sigs) actions =
     (if idx < length actions
      then tryr (map_err Apply_Err (ac_apply_signature lib sighash sig (actions ! idx))) (\<lambda>action.
           apply_signatures lib sighash sigs (actions[idx := action]))
      else Inl (Closure_Panic ''index out of bounds''))"

definition announce :: "text_env \<Rightarrow> pool \<times> nat \<times> bytes \<Rightarrow> string" where
  "announce te r = (case r of (pool, idx, alpha) \<Rightarrow>
     ''Randomizer #'' @ decimal idx @ '' ('' @ pool_label pool @ ''): '' @ hex_encode te alpha)"

definition request :: "pool \<times> nat \<times> bytes \<Rightarrow> string" where
  "request r = (case r of (pool, idx, _) \<Rightarrow>
     ''Input hex-encoded signature #'' @ decimal idx @ '' ('' @ pool_label pool @ ''): '')"

definition bad_length :: "nat \<Rightarrow> string" where
  "bad_length idx = ''signature #'' @ decimal idx @ '' must be 64 bytes''"

definition prompt_one :: "text_env \<Rightarrow> pool \<times> nat \<times> bytes \<Rightarrow> (console, error, pool \<times> nat \<times> bytes) io" where
  "prompt_one te r = (case r of (pool, idx, _) \<Rightarrow>
     try_io (writeln (request r)) (\<lambda>_.
     try_io (read_hex te) (\<lambda>signature.
     if length signature = 64 then ret_io (pool, idx, signature)
     else fail_io (Eyre (bad_length idx)))))"

definition prompt_for_signatures ::
    "text_env \<Rightarrow> (pool \<times> nat \<times> bytes) list \<Rightarrow> (console, error, (pool \<times> nat \<times> bytes) list) io" where
  "prompt_for_signatures te randomizers =
     try_io (for_io randomizers (\<lambda>r. writeln (announce te r))) (\<lambda>_.
     map_io (prompt_one te) randomizers)"

text \<open>The two passes over the pools.\<close>

fun extract_pass :: "('p, 'tx, 'act) pczt_lib \<Rightarrow> 'p \<Rightarrow> pool list \<Rightarrow> error + (pool \<times> nat \<times> bytes) list" where
  "extract_pass lib pczt [] = Inr []"
| "extract_pass lib pczt (pool # pools) =
     tryr (map_err (\<lambda>e. Eyre (signer_name pool @ '' (extract): '' @ e)) (pz_bundle lib pool pczt)) (\<lambda>actions.
     tryr (map_sign_err id (collect_randomizers lib actions)) (\<lambda>found.
     tryr (extract_pass lib pczt pools) (\<lambda>rest.
     Inr (map (\<lambda>(idx, alpha). (pool, idx, alpha)) found @ rest))))"

fun apply_pass ::
    "('p, 'tx, 'act) pczt_lib \<Rightarrow> bytes \<Rightarrow> (pool \<times> nat \<times> bytes) list \<Rightarrow> pool list \<Rightarrow> 'p \<Rightarrow> error + 'p" where
  "apply_pass lib sighash sigs [] pczt = Inr pczt"
| "apply_pass lib sighash sigs (pool # pools) pczt =
     (let for_pool = map snd (filter (\<lambda>(p, _, _). p = pool) sigs)
      in if for_pool = [] then apply_pass lib sighash sigs pools pczt
         else tryr (map_sign_err (\<lambda>e. signer_name pool @ '' (apply): '' @ e)
             (sign_with lib pool (apply_signatures lib sighash for_pool) pczt)) (\<lambda>pczt.
           apply_pass lib sighash sigs pools pczt))"

definition sign_pczt :: "text_env \<Rightarrow> ('p, 'tx, 'act) pczt_lib \<Rightarrow> 'p \<Rightarrow> (console, error, bytes) io" where
  "sign_pczt te lib pczt =
     try_io (lift_io (sighash_for_pczt lib pczt)) (\<lambda>(version, sighash).
     try_io (writeln (''SIGHASH: '' @ hex_encode te sighash)) (\<lambda>_.
     try_io (lift_io (extract_pass lib pczt (pools_for version))) (\<lambda>randomizers.
     try_io (prompt_for_signatures te randomizers) (\<lambda>sigs.
     try_io (lift_io (apply_pass lib sighash sigs (pools_for version) pczt)) (\<lambda>pczt.
     lift_io (map_err (\<lambda>e. Eyre (''failed to serialize signed PCZT: '' @ e)) (pz_serialize lib pczt)))))))"

definition sign :: "text_env \<Rightarrow> ('p, 'tx, 'act) pczt_lib \<Rightarrow> 'p input \<Rightarrow> (console, error, bytes) io" where
  "sign te lib tx_plan =
     (case tx_plan of
        YwalletTxPlan _ \<Rightarrow> fail_io (Eyre ''Ywallet signing is disabled'')
      | PcztInput pczt \<Rightarrow> sign_pczt te lib pczt)"

section \<open>Viewing keys\<close>

datatype network = MainNetwork | TestNetwork

record ('w, 'ak, 'sk, 'fvk, 'sapling) key_lib =
  random_bytes :: "nat \<Rightarrow> 'w \<Rightarrow> bytes \<times> 'w"
  spending_key_from_bytes :: "bytes \<Rightarrow> 'sk option"
  validating_key_from_bytes :: "bytes \<Rightarrow> 'ak option"
  fvk_from_sk_ak :: "'sk \<Rightarrow> 'ak \<Rightarrow> 'fvk"
  orchard_unified_address :: "'fvk \<Rightarrow> string option"
  encode_address :: "network \<Rightarrow> string \<Rightarrow> string"
  sapling_fvk_of_seed :: "bytes \<Rightarrow> 'sapling"
  encode_ufvk :: "network \<Rightarrow> 'sapling option \<Rightarrow> 'fvk \<Rightarrow> string option"
  decode_ufvk :: "network \<Rightarrow> string \<Rightarrow> bool"

text \<open>The loop that samples spending keys until one is valid, which may not end.\<close>

partial_function (option) sample_spending_key ::
    "('w, 'ak, 'sk, 'fvk, 'sapling) key_lib \<Rightarrow> 'w \<Rightarrow> ('sk \<times> 'w) option" where
  "sample_spending_key kl w =
     (case random_bytes kl 32 w of (b, w') \<Rightarrow>
        (case spending_key_from_bytes kl b of
           Some sk \<Rightarrow> Some (sk, w')
         | None \<Rightarrow> sample_spending_key kl w'))"

definition generate :: "('w, 'ak, 'sk, 'fvk, 'sapling) key_lib \<Rightarrow> 'ak \<Rightarrow> 'w \<Rightarrow> ('fvk \<times> 'w) option" where
  "generate kl ak w =
     map_option (\<lambda>(sk, w'). (fvk_from_sk_ak kl sk ak, w')) (sample_spending_key kl w)"

section \<open>Commands\<close>

datatype zcash_command =
    Generate (zc_ak: string) (zc_network: string) (zc_danger_dummy_sapling: bool)
  | Sign (zc_tx_plan: string) (zc_tx: string) (zc_ufvk: "string option") (zc_network: string)

definition network_of :: "string \<Rightarrow> error + network" where
  "network_of s =
     (if s = ''main'' then Inr MainNetwork
      else if s = ''test'' then Inr TestNetwork
      else Inl (Eyre (''Invalid network: '' @ s)))"

definition unwrap_err :: error where
  "unwrap_err = Panic ''called Result::unwrap() on an Err value''"

definition quoted :: "string \<Rightarrow> string" where
  "quoted s = [CHR 0x22] @ s @ [CHR 0x22]"

fun generate_cmd ::
    "text_env \<Rightarrow> ('w, 'ak, 'sk, 'fvk, 'sapling) key_lib \<Rightarrow> zcash_command \<Rightarrow> ('w machine, error, unit) iop" where
  "generate_cmd te kl (Generate ak network danger_dummy_sapling) =
     try_iop (run_io (lift_io (network_of network))) (\<lambda>params.
     try_iop (run_io (lift_io (ok_or (hex_decode te (trim ak)) unwrap_err))) (\<lambda>ak.
     try_iop (run_io (lift_io (ok_or (validating_key_from_bytes kl ak) (Eyre ''Invalid ak'')))) (\<lambda>ak.
     try_iop (\<lambda>m. map_option (\<lambda>(fvk, w). (Inr fvk, m\<lparr>mc_world := w\<rparr>)) (generate kl ak (mc_world m))) (\<lambda>fvk.
     try_iop (run_io (lift_io (ok_or (orchard_unified_address kl fvk) (Panic ''must work with a shielded address'')))) (\<lambda>address.
     try_iop (run_io (on_console (writeln (''Orchard-only unified address: '' @ quoted (encode_address kl params address))))) (\<lambda>_.
     try_iop (if danger_dummy_sapling
       then run_io (\<lambda>m. case random_bytes kl 64 (mc_world m) of (seed, w) \<Rightarrow>
              (Inr (Some (sapling_fvk_of_seed kl seed)), m\<lparr>mc_world := w\<rparr>))
       else run_io (ret_io None)) (\<lambda>sapling_fvk.
     try_iop (run_io (lift_io (ok_or (encode_ufvk kl params sapling_fvk fvk) unwrap_err))) (\<lambda>ufvk.
     run_io (on_console (writeln (''Unified Full Viewing Key: '' @ quoted ufvk)))))))))))"
| "generate_cmd te kl _ = run_io (fail_io (Panic ''invalid Command''))"

definition read_input :: "('p, 'tx, 'act) pczt_lib \<Rightarrow> bytes \<Rightarrow> error + 'p input" where
  "read_input lib tx_plan =
     (case pz_parse lib tx_plan of
        Some pczt \<Rightarrow> Inr (PcztInput pczt)
      | None \<Rightarrow> tryr (ok_or (pz_plan_of_json lib tx_plan) Json_Error) (\<lambda>plan. Inr (YwalletTxPlan plan)))"

text \<open>The viewing key is parsed, and not used.\<close>

definition check_ufvk :: "('w, 'ak, 'sk, 'fvk, 'sapling) key_lib \<Rightarrow> network \<Rightarrow> string option \<Rightarrow> error + unit" where
  "check_ufvk kl params ufvk =
     (case ufvk of
        Some ufvk_str \<Rightarrow> if decode_ufvk kl params (trim ufvk_str) then Inr () else Inl unwrap_err
      | None \<Rightarrow> Inr ())"

definition written :: "string \<Rightarrow> string" where
  "written tx_path = ''Tx written to '' @ tx_path"

fun sign_cmd ::
    "text_env \<Rightarrow> ('w, 'ak, 'sk, 'fvk, 'sapling) key_lib \<Rightarrow> ('p, 'tx, 'act) pczt_lib \<Rightarrow> zcash_command \<Rightarrow>
     ('w machine, error, unit) io" where
  "sign_cmd te kl lib (Sign tx_plan tx_path ufvk network) =
     try_io (lift_io (network_of network)) (\<lambda>params.
     try_io (fs_read tx_plan) (\<lambda>tx_plan.
     try_io (lift_io (read_input lib tx_plan)) (\<lambda>input.
     try_io (lift_io (check_ufvk kl params ufvk)) (\<lambda>_.
     try_io (on_console (sign te lib input)) (\<lambda>tx_bytes.
     try_io (fs_write tx_path tx_bytes) (\<lambda>_.
     on_console (writeln (written tx_path))))))))"
| "sign_cmd te kl lib _ = fail_io (Panic ''invalid Command'')"

definition zcash_main ::
    "text_env \<Rightarrow> ('w, 'ak, 'sk, 'fvk, 'sapling) key_lib \<Rightarrow> ('p, 'tx, 'act) pczt_lib \<Rightarrow> zcash_command \<Rightarrow>
     ('w machine, error, unit) iop" where
  "zcash_main te kl lib command =
     (case command of
        Generate _ _ _ \<Rightarrow> generate_cmd te kl command
      | Sign _ _ _ _ \<Rightarrow> run_io (sign_cmd te kl lib command))"

end
