(* ===== verification/Zcash_Sign_Props.thy ===== *)
theory Zcash_Sign_Props
  imports Zcash_Sign Trusted_Dealer_Props
begin

text \<open>
  What \<open>zcash-sign\<close> does: every spend that awaits a signature gets its own signature, on the
  signature hash of its version, and nothing else changes; the commands; and the sampling of keys.
\<close>

section \<open>Spends that await a signature\<close>

definition awaits :: "('p, 'tx, 'act) pczt_lib \<Rightarrow> 'act \<Rightarrow> bool" where
  "awaits lib a \<longleftrightarrow> ac_spend_auth_sig lib a = None \<and> ac_alpha lib a \<noteq> None"

definition pool_spends :: "('p, 'tx, 'act) pczt_lib \<Rightarrow> 'act list \<Rightarrow> (nat \<times> bytes) list" where
  "pool_spends lib acts = map (\<lambda>(i, a). (i, the (ac_alpha lib a))) (filter (\<lambda>(_, a). awaits lib a) (enumerate 0 acts))"

definition spends :: "('p, 'tx, 'act) pczt_lib \<Rightarrow> 'p \<Rightarrow> pool list \<Rightarrow> (pool \<times> nat \<times> bytes) list" where
  "spends lib pczt pools =
     concat (map (\<lambda>pool. case pz_bundle lib pool pczt of
       Inl _ \<Rightarrow> [] | Inr acts \<Rightarrow> map (Pair pool) (pool_spends lib acts)) pools)"

text \<open>
  What the crate \<open>pczt\<close> promises: a bundle written back is read again, and the bundle of the other
  pool stays.
\<close>

definition pczt_ok :: "('p, 'tx, 'act) pczt_lib \<Rightarrow> bool" where
  "pczt_ok lib \<longleftrightarrow>
     (\<forall>pool p old acts. pz_bundle lib pool p = Inr old \<longrightarrow> length acts = length old \<longrightarrow>
        pz_bundle lib pool (pz_set_bundle lib pool acts p) = Inr acts) \<and>
     (\<forall>pool pool' p acts. pool \<noteq> pool' \<longrightarrow> pz_bundle lib pool' (pz_set_bundle lib pool acts p) = pz_bundle lib pool' p)"

text \<open>Each action that awaits a signature got one of those given, on its own; the others are as before.\<close>

definition signed_actions ::
    "('p, 'tx, 'act) pczt_lib \<Rightarrow> bytes \<Rightarrow> (nat \<times> bytes) list \<Rightarrow> 'act list \<Rightarrow> 'act list \<Rightarrow> bool" where
  "signed_actions lib sighash sigs acts acts' \<longleftrightarrow>
     length acts' = length acts \<and>
     (\<forall>(i, s)\<in>set sigs. i < length acts \<and> ac_apply_signature lib sighash s (acts ! i) = Inr (acts' ! i)) \<and>
     (\<forall>i<length acts. i \<notin> fst ` set sigs \<longrightarrow> acts' ! i = acts ! i)"

lemma pool_spends_fst: "fst ` set (pool_spends lib acts) = {i. i < length acts \<and> awaits lib (acts ! i)}"
  by (force simp: pool_spends_def in_set_enumerate_eq image_iff)

lemma pool_spends_distinct: "distinct (map fst (pool_spends lib acts))"
proof -
  have "map fst (pool_spends lib acts) = map fst (filter (\<lambda>(_, a). awaits lib a) (enumerate 0 acts))"
    by (simp add: pool_spends_def case_prod_beta comp_def)
  then show ?thesis by (simp add: distinct_map_filter)
qed

section \<open>The extraction pass\<close>

lemma randomizer_of_Inr:
  "randomizer_of lib (i, a) = Inr x \<Longrightarrow> x = (if awaits lib a then [(i, the (ac_alpha lib a))] else [])"
  by (auto simp: randomizer_of_def awaits_def split: if_splits option.splits)

lemma collect_randomizers_enumerate:
  "collect_results (map (randomizer_of lib) (enumerate n acts)) = Inr found \<Longrightarrow>
     concat found = map (\<lambda>(i, a). (i, the (ac_alpha lib a))) (filter (\<lambda>(_, a). awaits lib a) (enumerate n acts))"
  by (induction acts arbitrary: n found) (auto dest!: randomizer_of_Inr split: sum.splits)

lemma collect_randomizers_Inr: "collect_randomizers lib acts = Inr found \<Longrightarrow> found = pool_spends lib acts"
  by (auto simp: collect_randomizers_def pool_spends_def dest: collect_randomizers_enumerate)

lemma extract_pass_Inr:
  "extract_pass lib pczt pools = Inr rs \<Longrightarrow>
     rs = spends lib pczt pools \<and> (\<forall>pool\<in>set pools. \<exists>acts. pz_bundle lib pool pczt = Inr acts)"
  by (induction pools arbitrary: rs)
    (auto simp: spends_def map_sign_err_def dest!: collect_randomizers_Inr)

section \<open>The prompts\<close>

text \<open>The signatures the lines are, for the spends in their order.\<close>

definition given :: "text_env \<Rightarrow> (pool \<times> nat \<times> bytes) list \<Rightarrow> string list \<Rightarrow> (pool \<times> nat \<times> bytes) list \<Rightarrow> bool" where
  "given te rs ls sigs \<longleftrightarrow> length ls = length rs \<and>
     sigs = map2 (\<lambda>(pool, i, _) l. (pool, i, the (hex_decode te (trim l)))) rs ls \<and>
     (\<forall>l\<in>set ls. \<exists>s. hex_decode te (trim l) = Some s \<and> length s = 64)"

lemma given_nil [simp]: "given te [] ls sigs \<longleftrightarrow> ls = [] \<and> sigs = []"
  by (auto simp: given_def)

lemma given_Cons: "given te rs ls sigs \<Longrightarrow> hex_decode te (trim l) = Some s \<Longrightarrow> length s = 64 \<Longrightarrow>
    given te ((pool, i, alpha) # rs) (l # ls) ((pool, i, s) # sigs)"
  by (simp add: given_def)

lemma given_fst: "given te rs ls sigs \<Longrightarrow> map (\<lambda>(pool, i, _). (pool, i)) sigs = map (\<lambda>(pool, i, _). (pool, i)) rs"
  by (auto simp: given_def intro!: nth_equalityI split: prod.splits)

lemma for_io_writeln: "for_io xs (\<lambda>x. writeln (f x)) c = (Inr (), c\<lparr>co_output := co_output c @ map f xs\<rparr>)"
  by (induction xs arbitrary: c) (simp_all add: try_io_def writeln_def)

lemma read_hex_Inr:
  assumes "read_hex te c = (Inr s, c')" and "s \<noteq> []" and "hex_decode te [] = Some []"
  obtains l where "co_input c = l # co_input c'" "hex_decode te (trim l) = Some s" "co_output c' = co_output c"
    "co_files c' = co_files c"
  using assms by (auto simp: read_hex_def read_line_def try_io_eq_Inr trim_def ok_or_def simp del: try_io_lift
      split: list.splits option.splits)

lemma prompt_one_Inr:
  assumes "prompt_one te (pool, i, alpha) c = (Inr x, c')" and "hex_decode te [] = Some []"
  obtains l s where "x = (pool, i, s)" "co_input c = l # co_input c'" "hex_decode te (trim l) = Some s" "length s = 64"
    "co_output c' = co_output c @ [request (pool, i, alpha)]" "co_files c' = co_files c"
proof -
  let ?c = "c\<lparr>co_output := co_output c @ [request (pool, i, alpha)]\<rparr>"
  obtain r c1 where r: "read_hex te ?c = (r, c1)" by fastforce
  have step: "prompt_one te (pool, i, alpha) c = (case r of
      Inl e \<Rightarrow> (Inl e, c1)
    | Inr s \<Rightarrow> (if length s = 64 then Inr (pool, i, s) else Inl (Eyre (bad_length i)), c1))"
    by (simp add: prompt_one_def try_io_def writeln_def r split: sum.split)
  obtain s where s: "read_hex te ?c = (Inr s, c')" "length s = 64" "x = (pool, i, s)"
  proof (cases r)
    case (Inr s)
    from assms(1)[unfolded step] r Inr show ?thesis by (intro that[of s]) (simp_all split: if_splits)
  qed (use assms(1)[unfolded step] in simp)
  from s(2) have "s \<noteq> []" by auto
  then obtain l where l: "co_input ?c = l # co_input c'" "hex_decode te (trim l) = Some s"
    "co_output c' = co_output ?c" "co_files c' = co_files ?c" by (rule read_hex_Inr[OF s(1) _ assms(2)])
  show thesis by (rule that[of s l]) (use l s in simp_all)
qed

lemma prompts_Inr:
  assumes "map_io (prompt_one te) rs c = (Inr sigs, c')" and "hex_decode te [] = Some []"
  shows "\<exists>ls. given te rs ls sigs \<and> co_input c = ls @ co_input c' \<and> co_output c' = co_output c @ map request rs \<and>
    co_files c' = co_files c"
  using assms(1)
proof (induction rs arbitrary: c sigs)
  case (Cons r rs)
  obtain pool i alpha where r: "r = (pool, i, alpha)" by (cases r)
  from Cons.prems obtain x c1 xs where x: "prompt_one te r c = (Inr x, c1)" "map_io (prompt_one te) rs c1 = (Inr xs, c')"
    "sigs = x # xs" by (auto simp: try_io_eq_Inr)
  from prompt_one_Inr[OF x(1)[unfolded r] assms(2)] obtain l s where
    l: "x = (pool, i, s)" "co_input c = l # co_input c1" "hex_decode te (trim l) = Some s" "length s = 64"
    "co_output c1 = co_output c @ [request (pool, i, alpha)]" "co_files c1 = co_files c" .
  from Cons.IH[OF x(2)] obtain ls where ls: "given te rs ls xs" "co_input c1 = ls @ co_input c'"
    "co_output c' = co_output c1 @ map request rs" "co_files c' = co_files c1" by blast
  from given_Cons[OF ls(1) l(3,4), of pool i alpha] l ls x(3) r
  show ?case by (intro exI[of _ "l # ls"]) simp
qed simp

lemma prompt_for_signatures_Inr:
  assumes "prompt_for_signatures te rs c = (Inr sigs, c')" and "hex_decode te [] = Some []"
  shows "\<exists>ls. given te rs ls sigs \<and> co_input c = ls @ co_input c' \<and>
    co_output c' = co_output c @ map (announce te) rs @ map request rs \<and> co_files c' = co_files c"
proof -
  from assms(1) have "map_io (prompt_one te) rs (c\<lparr>co_output := co_output c @ map (announce te) rs\<rparr>) = (Inr sigs, c')"
    by (simp add: prompt_for_signatures_def for_io_writeln try_io_def)
  from prompts_Inr[OF this assms(2)] show ?thesis by simp
qed

section \<open>The signing pass\<close>

lemma apply_signatures_Inr:
  "apply_signatures lib sighash sigs acts = Inr acts' \<Longrightarrow> distinct (map fst sigs) \<Longrightarrow>
     signed_actions lib sighash sigs acts acts'"
proof (induction sigs arbitrary: acts)
  case Nil
  then show ?case by (simp add: signed_actions_def)
next
  case (Cons p sigs)
  obtain i s where p: "p = (i, s)" by (cases p)
  from Cons.prems(1) p obtain a where a: "i < length acts" "ac_apply_signature lib sighash s (acts ! i) = Inr a"
    "apply_signatures lib sighash sigs (acts[i := a]) = Inr acts'" by (auto split: if_splits)
  from Cons.prems(2) p have i: "i \<notin> fst ` set sigs" and d: "distinct (map fst sigs)" by simp_all
  from Cons.IH[OF a(3) d] have IH: "length acts' = length acts"
    "\<And>j t. (j, t) \<in> set sigs \<Longrightarrow> j < length acts \<and> ac_apply_signature lib sighash t (acts[i := a] ! j) = Inr (acts' ! j)"
    "\<And>j. j < length acts \<Longrightarrow> j \<notin> fst ` set sigs \<Longrightarrow> acts' ! j = acts[i := a] ! j"
    by (auto simp: signed_actions_def)
  have "acts' ! i = a" using IH(3)[OF a(1) i] a(1) by simp
  moreover have "(j, t) \<in> set sigs \<Longrightarrow> acts[i := a] ! j = acts ! j" for j t
    using i by (metis fst_conv image_eqI nth_list_update_neq)
  ultimately show ?case unfolding signed_actions_def using IH a p by (auto simp: nth_list_update)
qed

text \<open>The signatures for a pool.\<close>

definition for_pool :: "pool \<Rightarrow> (pool \<times> nat \<times> bytes) list \<Rightarrow> (nat \<times> bytes) list" where
  "for_pool pool sigs = map snd (filter (\<lambda>(p, _, _). p = pool) sigs)"

lemma sign_with_Inr:
  assumes "sign_with lib pool f pczt = Inr pczt'" "pczt_ok lib" "\<And>acts acts'. f acts = Inr acts' \<Longrightarrow> length acts' = length acts"
  obtains acts acts' where "pz_bundle lib pool pczt = Inr acts" "f acts = Inr acts'" "pz_bundle lib pool pczt' = Inr acts'"
    "\<forall>pool'. pool' \<noteq> pool \<longrightarrow> pz_bundle lib pool' pczt' = pz_bundle lib pool' pczt"
proof -
  from assms(1) obtain acts acts' where a: "pz_bundle lib pool pczt = Inr acts" "f acts = Inr acts'"
    "pczt' = pz_set_bundle lib pool acts' pczt" by (auto simp: sign_with_def)
  from assms(3)[OF a(2)] assms(2) a show thesis by (intro that[of acts acts']) (auto simp: pczt_ok_def)
qed

definition bundle_signed ::
    "('p, 'tx, 'act) pczt_lib \<Rightarrow> bytes \<Rightarrow> (pool \<times> nat \<times> bytes) list \<Rightarrow> 'p \<Rightarrow> 'p \<Rightarrow> pool \<Rightarrow> bool" where
  "bundle_signed lib sighash sigs pczt pczt' pool \<longleftrightarrow>
     (case pz_bundle lib pool pczt of
        Inl _ \<Rightarrow> False
      | Inr acts \<Rightarrow> (case pz_bundle lib pool pczt' of
            Inl _ \<Rightarrow> False
          | Inr acts' \<Rightarrow> signed_actions lib sighash (for_pool pool sigs) acts acts'))"

lemma apply_pass_Inr:
  assumes "apply_pass lib sighash sigs pools pczt = Inr pczt'" "pczt_ok lib" "distinct pools"
    "\<And>pool. pool \<in> set pools \<Longrightarrow> distinct (map fst (for_pool pool sigs))"
    "\<And>pool. pool \<in> set pools \<Longrightarrow> \<exists>acts. pz_bundle lib pool pczt = Inr acts"
  shows "(\<forall>pool\<in>set pools. bundle_signed lib sighash sigs pczt pczt' pool) \<and>
    (\<forall>pool. pool \<notin> set pools \<longrightarrow> pz_bundle lib pool pczt' = pz_bundle lib pool pczt)"
  using assms
proof (induction pools arbitrary: pczt)
  case (Cons pool pools)
  have "pool \<notin> set pools" "distinct pools" using Cons.prems(3) by simp_all
  note IH = Cons.IH[OF _ Cons.prems(2) this(2)]
  show ?case
  proof (cases "for_pool pool sigs = []")
    case True
    with Cons.prems(1) have "apply_pass lib sighash sigs pools pczt = Inr pczt'" by (simp add: for_pool_def)
    note IH = IH[OF this] and same = True
    from IH Cons.prems(4,5) have rest: "\<forall>pool\<in>set pools. bundle_signed lib sighash sigs pczt pczt' pool"
      "\<forall>pool. pool \<notin> set pools \<longrightarrow> pz_bundle lib pool pczt' = pz_bundle lib pool pczt" by simp_all
    from Cons.prems(5)[of pool] obtain acts where "pz_bundle lib pool pczt = Inr acts" by auto
    with rest(2) \<open>pool \<notin> set pools\<close> same have "bundle_signed lib sighash sigs pczt pczt' pool"
      by (simp add: bundle_signed_def signed_actions_def)
    with rest show ?thesis by simp
  next
    case False
    with Cons.prems(1) obtain pczt1 where p1: "sign_with lib pool (apply_signatures lib sighash (for_pool pool sigs)) pczt = Inr pczt1"
      "apply_pass lib sighash sigs pools pczt1 = Inr pczt'"
      by (auto simp: for_pool_def map_sign_err_def)
    have d: "distinct (map fst (for_pool pool sigs))" using Cons.prems(4) by simp
    have len: "length acts' = length acts"
      if "apply_signatures lib sighash (for_pool pool sigs) acts = Inr acts'" for acts acts'
      using apply_signatures_Inr[OF that d] by (simp add: signed_actions_def)
    obtain acts acts' where a: "pz_bundle lib pool pczt = Inr acts"
      "apply_signatures lib sighash (for_pool pool sigs) acts = Inr acts'" "pz_bundle lib pool pczt1 = Inr acts'"
      "\<forall>pool'. pool' \<noteq> pool \<longrightarrow> pz_bundle lib pool' pczt1 = pz_bundle lib pool' pczt"
      by (rule sign_with_Inr[OF p1(1) Cons.prems(2) len])
    have "\<And>pool'. pool' \<in> set pools \<Longrightarrow> pool' \<noteq> pool" using \<open>pool \<notin> set pools\<close> by auto
    with a(4) IH[OF p1(2)] Cons.prems(4,5)
    have rest: "\<forall>pool\<in>set pools. bundle_signed lib sighash sigs pczt1 pczt' pool"
      "\<forall>pool. pool \<notin> set pools \<longrightarrow> pz_bundle lib pool pczt' = pz_bundle lib pool pczt1" by simp_all
    moreover have "bundle_signed lib sighash sigs pczt pczt' pool"
      using a apply_signatures_Inr[OF a(2) d] rest(2) \<open>pool \<notin> set pools\<close> by (simp add: bundle_signed_def)
    moreover have "bundle_signed lib sighash sigs pczt pczt' pool'" if "pool' \<in> set pools" for pool'
    proof -
      have "pool' \<noteq> pool" using that \<open>pool \<notin> set pools\<close> by auto
      with a(4) have "pz_bundle lib pool' pczt1 = pz_bundle lib pool' pczt" by blast
      with bspec[OF rest(1) that] show ?thesis by (simp add: bundle_signed_def)
    qed
    ultimately show ?thesis using a(4) by auto
  qed
qed simp

text \<open>The signatures given for the spends of a list of pools, pool by pool.\<close>

lemma for_pool_fst: "map fst (for_pool pool sigs) = map snd (filter (\<lambda>(p, _). p = pool) (map (\<lambda>(pool, i, _). (pool, i)) sigs))"
  unfolding for_pool_def by (induction sigs) auto

lemma for_pool_append [simp]: "for_pool pool (xs @ ys) = for_pool pool xs @ for_pool pool ys"
  by (simp add: for_pool_def)

lemma for_pool_map [simp]: "for_pool pool (map (Pair p) xs) = (if p = pool then xs else [])"
  unfolding for_pool_def by (induction xs) auto

lemma for_pool_spends:
  "distinct pools \<Longrightarrow> pz_bundle lib pool pczt = Inr acts \<Longrightarrow>
     for_pool pool (spends lib pczt pools) = (if pool \<in> set pools then pool_spends lib acts else [])"
  unfolding spends_def
proof (induction pools)
  case (Cons p pools)
  then show ?case by (cases "p = pool") (auto simp: for_pool_def[of pool "[]"] split: sum.splits)
qed (simp add: for_pool_def)

lemma for_pool_given:
  assumes "given te (spends lib pczt pools) ls sigs" "distinct pools" "pool \<in> set pools" "pz_bundle lib pool pczt = Inr acts"
  shows "map fst (for_pool pool sigs) = map fst (pool_spends lib acts)"
  using for_pool_spends[OF assms(2,4)] assms(3) for_pool_fst[of pool sigs] for_pool_fst[of pool "spends lib pczt pools"]
    given_fst[OF assms(1)] by simp

lemma in_for_pool: "(i, s) \<in> set (for_pool pool sigs) \<longleftrightarrow> (pool, i, s) \<in> set sigs"
  by (force simp: for_pool_def)

lemma bundle_signed_given:
  assumes b: "bundle_signed lib sighash sigs pczt pczt' pool"
    and g: "given te (spends lib pczt pools) ls sigs" "distinct pools" "pool \<in> set pools"
  obtains acts acts' where "pz_bundle lib pool pczt = Inr acts" "pz_bundle lib pool pczt' = Inr acts'"
    "length acts' = length acts" "\<And>i. i < length acts \<Longrightarrow>
      if awaits lib (acts ! i)
      then \<exists>s. (pool, i, s) \<in> set sigs \<and> ac_apply_signature lib sighash s (acts ! i) = Inr (acts' ! i)
      else acts' ! i = acts ! i"
proof -
  from b obtain acts acts' where a: "pz_bundle lib pool pczt = Inr acts" "pz_bundle lib pool pczt' = Inr acts'"
    "signed_actions lib sighash (for_pool pool sigs) acts acts'" by (auto simp: bundle_signed_def split: sum.splits)
  have idx: "fst ` set (for_pool pool sigs) = {i. i < length acts \<and> awaits lib (acts ! i)}"
    using arg_cong[OF for_pool_given[OF g a(1)], of set] by (simp add: pool_spends_fst)
  show thesis
  proof (rule that[OF a(1,2)])
    from a(3) show "length acts' = length acts" by (simp add: signed_actions_def)
    fix i assume i: "i < length acts"
    show "if awaits lib (acts ! i)
      then \<exists>s. (pool, i, s) \<in> set sigs \<and> ac_apply_signature lib sighash s (acts ! i) = Inr (acts' ! i)
      else acts' ! i = acts ! i"
    proof (cases "awaits lib (acts ! i)")
      case True
      with idx i have "i \<in> fst ` set (for_pool pool sigs)" by simp
      then obtain s where "(i, s) \<in> set (for_pool pool sigs)" by auto
      moreover from this have "(pool, i, s) \<in> set sigs" by (simp add: in_for_pool)
      moreover have "\<forall>(i, s)\<in>set (for_pool pool sigs). ac_apply_signature lib sighash s (acts ! i) = Inr (acts' ! i)"
        using a(3) by (auto simp: signed_actions_def)
      ultimately show ?thesis using True by auto
    next
      case False
      with idx i have "i \<notin> fst ` set (for_pool pool sigs)" by simp
      with a(3) False i show ?thesis by (simp add: signed_actions_def)
    qed
  qed
qed

lemma distinct_pools_for [simp]: "distinct (pools_for version)"
  by (simp add: pools_for_def split: tx_version.split)

section \<open>Properties\<close>

definition sighash_line :: "text_env \<Rightarrow> bytes \<Rightarrow> string" where
  "sighash_line te sighash = ''SIGHASH: '' @ hex_encode te sighash"

text \<open>
  C19: Signing. When \<open>sign_pczt\<close> succeeds, it has printed the signature hash of the version of the
  transaction, the randomizer of every spend of every pool of that version that awaits a
  signature, and then asked for the signatures in the same order; each of these spends has been
  signed once with its own 64 bytes on that hash, all other actions and bundles are unchanged, and
  the result is the serialization of that transaction.
\<close>

theorem sign_pczt_correct:
  assumes run: "sign_pczt te lib pczt c = (Inr bs, c')" and lib: "pczt_ok lib" and hex: "hex_decode te [] = Some []"
  shows "\<exists>version sighash ls sigs pczt'. sighash_for_pczt lib pczt = Inr (version, sighash) \<and>
    given te (spends lib pczt (pools_for version)) ls sigs \<and> co_input c = ls @ co_input c' \<and>
    co_output c' = co_output c @ [sighash_line te sighash] @ map (announce te) (spends lib pczt (pools_for version)) @
      map request (spends lib pczt (pools_for version)) \<and>
    (\<forall>pool. if pool \<in> set (pools_for version)
       then \<exists>acts acts'. pz_bundle lib pool pczt = Inr acts \<and> pz_bundle lib pool pczt' = Inr acts' \<and>
         length acts' = length acts \<and> (\<forall>i<length acts. if awaits lib (acts ! i)
           then \<exists>s. (pool, i, s) \<in> set sigs \<and> ac_apply_signature lib sighash s (acts ! i) = Inr (acts' ! i)
           else acts' ! i = acts ! i)
       else pz_bundle lib pool pczt' = pz_bundle lib pool pczt) \<and>
    pz_serialize lib pczt' = Inr bs"
proof -
  let ?c = "\<lambda>sighash. c\<lparr>co_output := co_output c @ [sighash_line te sighash]\<rparr>"
  from run obtain version sighash rs sigs c1 pczt' where
    s: "sighash_for_pczt lib pczt = Inr (version, sighash)" "extract_pass lib pczt (pools_for version) = Inr rs"
    "prompt_for_signatures te rs (?c sighash) = (Inr sigs, c1)"
    "apply_pass lib sighash sigs (pools_for version) pczt = Inr pczt'" "c1 = c'" "pz_serialize lib pczt' = Inr bs"
    unfolding sign_pczt_def sighash_line_def[symmetric]
    by (auto simp: try_io_eq_Inr writeln_def simp del: try_io_lift)
  from extract_pass_Inr[OF s(2)] have rs: "rs = spends lib pczt (pools_for version)"
    and parse: "\<And>pool. pool \<in> set (pools_for version) \<Longrightarrow> \<exists>acts. pz_bundle lib pool pczt = Inr acts" by auto
  from prompt_for_signatures_Inr[OF s(3) hex] obtain ls where ls: "given te rs ls sigs" "co_input c = ls @ co_input c'"
    "co_output c' = co_output c @ [sighash_line te sighash] @ map (announce te) rs @ map request rs"
    using s(5) by auto
  note g = ls(1)[unfolded rs]
  have "distinct (map fst (for_pool pool sigs))" if "pool \<in> set (pools_for version)" for pool
    using parse[OF that] for_pool_given[OF g distinct_pools_for that] pool_spends_distinct by fastforce
  from apply_pass_Inr[OF s(4) lib distinct_pools_for this parse]
  have pass: "\<forall>pool\<in>set (pools_for version). bundle_signed lib sighash sigs pczt pczt' pool"
    "\<forall>pool. pool \<notin> set (pools_for version) \<longrightarrow> pz_bundle lib pool pczt' = pz_bundle lib pool pczt" by auto
  have each: "if pool \<in> set (pools_for version)
       then \<exists>acts acts'. pz_bundle lib pool pczt = Inr acts \<and> pz_bundle lib pool pczt' = Inr acts' \<and>
         length acts' = length acts \<and> (\<forall>i<length acts. if awaits lib (acts ! i)
           then \<exists>s. (pool, i, s) \<in> set sigs \<and> ac_apply_signature lib sighash s (acts ! i) = Inr (acts' ! i)
           else acts' ! i = acts ! i)
       else pz_bundle lib pool pczt' = pz_bundle lib pool pczt" for pool
  proof (cases "pool \<in> set (pools_for version)")
    case True
    from bundle_signed_given[OF bspec[OF pass(1) True] g distinct_pools_for True] show ?thesis
      by (simp only: True if_True) metis
  next
    case False
    with pass(2) show ?thesis by simp
  qed
  show ?thesis
    by (rule exI[of _ version], rule exI[of _ sighash], rule exI[of _ ls], rule exI[of _ sigs], rule exI[of _ pczt'])
      (intro conjI allI each s(1,6) g ls(2) ls(3)[unfolded rs])
qed

text \<open>
  A transaction of version 6 with an action that is signed already and one spend in each pool; its
  serialization is the list of signatures.
\<close>

type_synonym ex_action = "bytes option \<times> bytes option"

definition ex_sign_text :: text_env where
  "ex_sign_text = \<lparr>hex_decode = (\<lambda>s. Some (if s = [] then [] else replicate 64 (of_char (hd s)))),
     hex_encode = (\<lambda>b. ''x''), utf8 = (\<lambda>b. Some (map (char_of \<circ> unat) b))\<rparr>"

definition ex_pczt_lib :: "(ex_action list \<times> ex_action list, unit, ex_action) pczt_lib" where
  "ex_pczt_lib = \<lparr>pz_parse = (\<lambda>b. if b = [] then None else Some ([(Some [1], None), (None, Some (replicate 32 2))], [(None, Some (replicate 32 3))])),
     pz_into_effects = (\<lambda>p. Inr ()),
     pz_bundle = (\<lambda>pool p. Inr (case pool of Orchard \<Rightarrow> fst p | Ironwood \<Rightarrow> snd p)),
     pz_set_bundle = (\<lambda>pool acts p. case pool of Orchard \<Rightarrow> (acts, snd p) | Ironwood \<Rightarrow> (fst p, acts)),
     pz_serialize = (\<lambda>p. Inr (map (\<lambda>a. case fst a of Some s \<Rightarrow> hd s | None \<Rightarrow> 0) (fst p @ snd p))),
     tx_version_of = (\<lambda>_. V6), tx_has_orchard = (\<lambda>_. True),
     v5_signature_hash = (\<lambda>_. replicate 32 5), v6_signature_hash = (\<lambda>_. replicate 32 6),
     ac_spend_auth_sig = fst, ac_alpha = snd,
     ac_apply_signature = (\<lambda>h s a. if h = replicate 32 6 then Inr (Some s, snd a) else Inl ''sighash''),
     pz_plan_of_json = (\<lambda>_. None)\<rparr>"

definition ex_pczt :: "ex_action list \<times> ex_action list" where
  "ex_pczt = ([(Some [1], None), (None, Some (replicate 32 2))], [(None, Some (replicate 32 3))])"

definition ex_sign_console :: console where
  "ex_sign_console = \<lparr>co_input = [''a'', ''b'', ''rest''], co_output = [], co_files = fmupd ''/i'' [1] fmempty\<rparr>"

lemma ex_pczt_ok: "pczt_ok ex_pczt_lib"
  by (auto simp: pczt_ok_def ex_pczt_lib_def split: pool.splits)

lemma ex_sign_run: "fst (sign_pczt ex_sign_text ex_pczt_lib ex_pczt ex_sign_console) = Inr [1, 97, 98]"
  by code_simp

theorem sign_pczt_correct_witness:
  "\<exists>version sighash ls sigs pczt' (c' :: console). sighash_for_pczt ex_pczt_lib ex_pczt = Inr (version, sighash) \<and>
    given ex_sign_text (spends ex_pczt_lib ex_pczt (pools_for version)) ls sigs \<and>
    co_input ex_sign_console = ls @ co_input c' \<and> pz_serialize ex_pczt_lib pczt' = Inr [1, 97, 98]"
proof -
  from ex_sign_run obtain c' where run: "sign_pczt ex_sign_text ex_pczt_lib ex_pczt ex_sign_console = (Inr [1, 97, 98], c')"
    by (metis prod.collapse)
  have "hex_decode ex_sign_text [] = Some []" by (simp add: ex_sign_text_def)
  from sign_pczt_correct[OF run ex_pczt_ok this] obtain version sighash ls sigs pczt' where
    s: "sighash_for_pczt ex_pczt_lib ex_pczt = Inr (version, sighash)"
      "given ex_sign_text (spends ex_pczt_lib ex_pczt (pools_for version)) ls sigs"
      "co_input ex_sign_console = ls @ co_input c'" "pz_serialize ex_pczt_lib pczt' = Inr [1, 97, 98]"
    by (elim exE conjE) (rule that)
  show ?thesis
    by (rule exI[of _ version], rule exI[of _ sighash], rule exI[of _ ls], rule exI[of _ sigs],
        rule exI[of _ pczt'], rule exI[of _ c']) (intro conjI s)
qed

section \<open>The commands\<close>

lemma keeps_console [inv_intros]:
  "keeps (\<lambda>c. co_files c = F) (writeln s)"
  "keeps (\<lambda>c. co_files c = F) (read_hex te)"
  by (auto simp: writeln_def read_hex_def read_line_def try_io_def lift_io_def keeps_def split: list.splits)

lemma keeps_sign: "keeps (\<lambda>c. co_files c = F) (sign te lib input)"
  unfolding sign_def sign_pczt_def prompt_for_signatures_def prompt_one_def
  by (auto intro!: inv_intros split: input.split)

lemma fs_write_files:
  "fs_write p data m = (Inr u, m') \<Longrightarrow> files m' = fmupd (resolve m p) data (files m)"
  by (auto simp: fs_write_def sys_write_all_def Let_def split: option.splits if_splits)

text \<open>
  C23: The command \<open>sign\<close>. It succeeds only for an input file that holds a PCZT, and then the output
  file holds the transaction signed at the console and no other file has changed. A file that is no
  PCZT is an error before anything is printed, asked or written, also when it is a transaction plan.
\<close>

theorem sign_cmd_correct:
  assumes run: "sign_cmd te kl lib (Sign tx_plan tx ufvk network) m = (r, m')"
  shows "case fmlookup (files m) (resolve m tx_plan) of
      None \<Rightarrow> \<not> is_ok r \<and> m' = m
    | Some data \<Rightarrow> (case pz_parse lib data of
          None \<Rightarrow> \<not> is_ok r \<and> m' = m
        | Some pczt \<Rightarrow> \<not> is_ok r \<or>
            (\<exists>bs. fst (sign_pczt te lib pczt (mc_console m)) = Inr bs \<and>
               files m' = fmupd (resolve m tx) bs (files m)))"
proof (cases "\<exists>params data pczt u. network_of network = Inr params \<and> fs_read tx_plan m = (Inr data, m) \<and>
    pz_parse lib data = Some pczt \<and> check_ufvk kl params ufvk = Inr u")
  case True
  then obtain params data pczt u where s: "network_of network = Inr params" "fs_read tx_plan m = (Inr data, m)"
    "pz_parse lib data = Some pczt" "check_ufvk kl params ufvk = Inr u" by blast
  from s(2) have data: "fmlookup (files m) (resolve m tx_plan) = Some data" by (simp add: fs_read_def split: if_splits)
  obtain r1 c1 where c1: "sign_pczt te lib pczt (mc_console m) = (r1, c1)" by fastforce
  have keep: "co_files c1 = files m"
    using keepsD[OF keeps_sign[of "files m" te lib "PcztInput pczt"], of "mc_console m" r1 c1] c1 by (simp add: sign_def)
  let ?m = "m\<lparr>mc_console := c1\<rparr>"
  have on: "on_console (sign te lib (PcztInput pczt)) m = (r1, ?m)" by (simp add: on_console_def sign_def c1)
  have step: "sign_cmd te kl lib (Sign tx_plan tx ufvk network) m = (case r1 of
      Inl e \<Rightarrow> (Inl e, ?m)
    | Inr bs \<Rightarrow> try_io (fs_write tx bs) (\<lambda>_. on_console (writeln (written tx))) ?m)"
    using s on by (simp add: try_io_Inr[where m = "fs_read tx_plan"] read_input_def)
      (simp add: try_io_def split: sum.split)
  show ?thesis
  proof (cases "is_ok r")
    case True
    with run[unfolded step] obtain bs m2 where w: "r1 = Inr bs" "fs_write tx bs ?m = (Inr (), m2)"
      "on_console (writeln (written tx)) m2 = (r, m')"
      by (auto simp: is_ok_iff try_io_eq_Inr split: sum.splits)
    from fs_write_files[OF w(2)] w(3) keep have "files m' = fmupd (resolve m tx) bs (files m)"
      by (auto simp: on_console_def writeln_def resolve_def current_dir_def)
    with w(1) c1 s data show ?thesis by simp
  qed (use data s in simp)
next
  case False
  then show ?thesis
    using run by (auto simp: try_io_def on_console_def sign_def fs_read_def read_input_def ok_or_def lift_io_def is_ok_def
        split: option.splits sum.splits if_splits prod.splits)
qed

definition ex_sign_machine :: "nat machine" where
  "ex_sign_machine = (ex_machine 0)\<lparr>mc_console := ex_sign_console\<rparr>"

definition ex_key_lib :: "(nat, unit, byte, byte, unit) key_lib" where
  "ex_key_lib = \<lparr>random_bytes = (\<lambda>n w. (replicate n (of_nat w), Suc w)),
     spending_key_from_bytes = (\<lambda>b. if hd b < 2 then None else Some (hd b)),
     validating_key_from_bytes = (\<lambda>b. Some ()), fvk_from_sk_ak = (\<lambda>sk ak. sk),
     orchard_unified_address = (\<lambda>fvk. Some ''u''), encode_address = (\<lambda>n a. a), sapling_fvk_of_seed = (\<lambda>_. ()),
     encode_ufvk = (\<lambda>n s f. Some ''f''), decode_ufvk = (\<lambda>n s. True)\<rparr>"

lemma ex_sign_cmd:
  "\<exists>m'. sign_cmd ex_sign_text ex_key_lib ex_pczt_lib (Sign ''i'' ''o'' None ''main'') ex_sign_machine = (Inr (), m')"
proof -
  obtain c' where run: "sign_pczt ex_sign_text ex_pczt_lib ex_pczt ex_sign_console = (Inr [1, 97, 98], c')"
    using ex_sign_run by (metis prod.collapse)
  let ?m = "ex_sign_machine\<lparr>mc_console := c'\<rparr>"
  have res: "resolve ex_sign_machine ''i'' = ''/i''" "resolve ?m ''o'' = ''/o''" "path_parent ''/o'' = Some ''/''"
    by (simp_all add: path_eval ex_sign_machine_def ex_machine_def)
  have dirs: "mc_dirs ex_sign_machine = {|''/''|}" "mc_space ex_sign_machine = 100"
    by (simp_all add: ex_sign_machine_def ex_machine_def)
  have read: "fs_read ''i'' ex_sign_machine = (Inr [1], ex_sign_machine)"
    by (simp add: fs_read_def is_dir_def res dirs) (simp add: ex_sign_machine_def ex_sign_console_def)
  have input: "read_input ex_pczt_lib [1] = Inr (PcztInput ex_pczt)"
    by (simp add: read_input_def ex_pczt_lib_def ex_pczt_def)
  have on: "on_console (sign ex_sign_text ex_pczt_lib (PcztInput ex_pczt)) ex_sign_machine = (Inr [1, 97, 98], ?m)"
    using run by (simp add: on_console_def sign_def) (simp add: ex_sign_machine_def)
  have "fst (fs_write ''o'' [1, 97, 98] ?m) = Inr ()"
    by (subst fs_write_ok[where q = "''/''"]) (simp_all add: is_dir_def res dirs)
  then obtain m2 where "fs_write ''o'' [1, 97, 98] ?m = (Inr (), m2)" by (metis prod.collapse)
  with read input on show ?thesis
    by (simp add: network_of_def check_ufvk_def try_io_def) (simp add: on_console_def writeln_def)
qed

theorem sign_cmd_correct_witness:
  "\<exists>bs (m' :: nat machine). pz_parse ex_pczt_lib [1] = Some ex_pczt \<and>
    fst (sign_pczt ex_sign_text ex_pczt_lib ex_pczt ex_sign_console) = Inr bs \<and>
    files m' = fmupd ''/o'' bs (files ex_sign_machine)"
proof -
  from ex_sign_cmd obtain m' where
    run: "sign_cmd ex_sign_text ex_key_lib ex_pczt_lib (Sign ''i'' ''o'' None ''main'') ex_sign_machine = (Inr (), m')" ..
  have "resolve ex_sign_machine ''i'' = ''/i''" "resolve ex_sign_machine ''o'' = ''/o''"
    by (simp_all add: path_eval ex_sign_machine_def ex_machine_def)
  moreover have "fmlookup (files ex_sign_machine) ''/i'' = Some [1]" "mc_console ex_sign_machine = ex_sign_console"
    by (simp_all add: ex_sign_machine_def ex_sign_console_def)
  moreover have "pz_parse ex_pczt_lib [1] = Some ex_pczt" by (simp add: ex_pczt_lib_def ex_pczt_def)
  ultimately show ?thesis using sign_cmd_correct[OF run] by auto
qed

section \<open>Sampling a spending key\<close>

text \<open>The \<open>n\<close>-th sample of 32 bytes, with the state of the generator after it.\<close>

primrec draw :: "('w, 'ak, 'sk, 'fvk, 'sapling) key_lib \<Rightarrow> nat \<Rightarrow> 'w \<Rightarrow> bytes \<times> 'w" where
  "draw kl 0 w = random_bytes kl 32 w"
| "draw kl (Suc n) w = draw kl n (snd (random_bytes kl 32 w))"

definition first_valid :: "('w, 'ak, 'sk, 'fvk, 'sapling) key_lib \<Rightarrow> 'w \<Rightarrow> nat \<Rightarrow> 'sk \<Rightarrow> bool" where
  "first_valid kl w n sk \<longleftrightarrow> spending_key_from_bytes kl (fst (draw kl n w)) = Some sk \<and>
     (\<forall>k<n. spending_key_from_bytes kl (fst (draw kl k w)) = None)"

lemma first_valid_0: "first_valid kl w 0 sk \<longleftrightarrow> spending_key_from_bytes kl (fst (random_bytes kl 32 w)) = Some sk"
  by (simp add: first_valid_def)

lemma first_valid_Suc: "first_valid kl w (Suc n) sk \<longleftrightarrow>
    spending_key_from_bytes kl (fst (random_bytes kl 32 w)) = None \<and> first_valid kl (snd (random_bytes kl 32 w)) n sk"
  by (auto simp: first_valid_def All_less_Suc2)

lemma sample_step: "sample_spending_key kl w =
    (case spending_key_from_bytes kl (fst (random_bytes kl 32 w)) of
       Some sk \<Rightarrow> Some (sk, snd (random_bytes kl 32 w))
     | None \<Rightarrow> sample_spending_key kl (snd (random_bytes kl 32 w)))"
  by (subst sample_spending_key.simps) (simp add: case_prod_beta)

lemma sample_first_valid: "first_valid kl w n sk \<Longrightarrow> sample_spending_key kl w = Some (sk, snd (draw kl n w))"
  by (induction n arbitrary: w) (simp_all add: first_valid_0 first_valid_Suc sample_step)

lemma sample_Some: "sample_spending_key kl w = Some y \<Longrightarrow> \<exists>n. first_valid kl w n (fst y)"
proof (rule sample_spending_key.raw_induct[where P = "\<lambda>kl w y. \<exists>n. first_valid kl w n (fst y)"])
  fix sample kl w y
  assume IH: "\<And>kl w y. sample kl w = Some y \<Longrightarrow> \<exists>n. first_valid kl w n (fst y)"
    and eq: "(case random_bytes kl 32 w of (b, w') \<Rightarrow> case spending_key_from_bytes kl b of
      None \<Rightarrow> sample kl w' | Some sk \<Rightarrow> Some (sk, w')) = Some y"
  show "\<exists>n. first_valid kl w n (fst y)"
  proof (cases "spending_key_from_bytes kl (fst (random_bytes kl 32 w))")
    case None
    with eq have "sample kl (snd (random_bytes kl 32 w)) = Some y" by (simp add: case_prod_beta)
    from IH[OF this] obtain n where "first_valid kl (snd (random_bytes kl 32 w)) n (fst y)" ..
    with None have "first_valid kl w (Suc n) (fst y)" by (simp add: first_valid_Suc)
    then show ?thesis ..
  next
    case (Some sk)
    with eq have "first_valid kl w 0 (fst y)" by (auto simp: case_prod_beta first_valid_0)
    then show ?thesis ..
  qed
qed

text \<open>
  Generation of a viewing key. \<open>generate\<close> returns exactly when some sample of the random number
  generator is a spending key, then with the viewing key of the first one and the given
  \<open>SpendValidatingKey\<close>; otherwise it never returns.
\<close>

theorem generate_correct:
  "(generate kl ak w = Some (fvk, w')) =
     (\<exists>n sk. first_valid kl w n sk \<and> fvk = fvk_from_sk_ak kl sk ak \<and> w' = snd (draw kl n w)) \<and>
   (generate kl ak w = None) = (\<nexists>n sk. spending_key_from_bytes kl (fst (draw kl n w)) = Some sk)"
proof (cases "sample_spending_key kl w")
  case None
  have "\<not> first_valid kl w n sk" for n sk using None sample_first_valid[of kl w n sk] by auto
  moreover have "spending_key_from_bytes kl (fst (draw kl n w)) = None" for n
  proof (induction n rule: less_induct)
    case (less n)
    with calculation[of n] show ?case by (auto simp: first_valid_def)
  qed
  ultimately show ?thesis using None by (simp add: generate_def)
next
  case (Some y)
  from sample_Some[OF this] obtain n where n: "first_valid kl w n (fst y)" ..
  have uniq: "n' = n \<and> sk = fst y" if "first_valid kl w n' sk" for n' sk
    using that n by (cases n' n rule: linorder_cases) (auto simp: first_valid_def)
  from sample_first_valid[OF n] Some have "snd y = snd (draw kl n w)" by (metis option.inject snd_conv)
  then have "generate kl ak w = Some (fvk_from_sk_ak kl (fst y) ak, snd (draw kl n w))"
    using Some by (simp add: generate_def case_prod_beta)
  then have g: "generate kl ak w = Some (fvk, w') \<longleftrightarrow> fvk = fvk_from_sk_ak kl (fst y) ak \<and> w' = snd (draw kl n w)"
    "generate kl ak w \<noteq> None" by auto
  have "fvk = fvk_from_sk_ak kl (fst y) ak \<and> w' = snd (draw kl n w) \<longleftrightarrow>
      (\<exists>n sk. first_valid kl w n sk \<and> fvk = fvk_from_sk_ak kl sk ak \<and> w' = snd (draw kl n w))"
    using n uniq by blast
  moreover have "\<exists>n sk. spending_key_from_bytes kl (fst (draw kl n w)) = Some sk"
    using n unfolding first_valid_def by blast
  ultimately show ?thesis using g by simp
qed

end
