(* ===== verification/Dealer_Command.thy ===== *)
theory Dealer_Command
  imports Contacts
begin

text \<open>
  The command \<open>trusted-dealer\<close> (\<open>cli/trusted_dealer.rs\<close>): it deals the shares of a new group and
  writes group and contacts into the configuration files of all participants.
\<close>

section \<open>The command\<close>

text \<open>What a ciphersuite provides to describe a group: its id and the encodings of its packages.\<close>

record ('kp, 'pkp) group_codec =
  gk_id :: string
  gk_key_package_bytes :: "'kp \<Rightarrow> bytes option"
  gk_public_key_package_bytes :: "'pkp \<Rightarrow> bytes option"
  gk_verifying_key :: "'pkp \<Rightarrow> string + bytes"

text \<open>The first pass: the participants of the group and their contacts.\<close>

fun dealer_participants ::
    "'w cli_env \<Rightarrow> ('id \<Rightarrow> bytes) \<Rightarrow> ('id \<times> string \<times> string) list \<Rightarrow> (string, group_member) fmap \<Rightarrow> contact list \<Rightarrow>
     ('w machine, error, (string, group_member) fmap \<times> contact list) io" where
  "dealer_participants env ser [] participants contacts = ret_io (participants, contacts)"
| "dealer_participants env ser ((identifier, path, nm) # rest) participants contacts =
     try_io (config_read env (Some path)) (\<lambda>config.
     try_io (lift_io (ok_or (cf_communication_key config) (Eyre ''config not initialized''))) (\<lambda>key.
     dealer_participants env ser rest
       (fmupd (hex_encode (ce_text env) (ser identifier))
          \<lparr>gm_identifier = ser identifier, gm_pubkey = ck_pubkey key\<rparr> participants)
       (contacts @ [\<lparr>ct_version = None, ct_name = nm, ct_pubkey = ck_pubkey key\<rparr>])))"

text \<open>The second pass: every participant's file gets the group and all contacts.\<close>

definition insert_contacts :: "contact list \<Rightarrow> (string, contact) fmap \<Rightarrow> (string, contact) fmap" where
  "insert_contacts cts m = fold (\<lambda>c. fmupd (ct_name c) c) cts m"

definition dealer_store ::
    "'w cli_env \<Rightarrow> ('id, 'sk, 'ss, 'kp, 'pkp, 'rng) dealer_ops \<Rightarrow> ('kp, 'pkp) group_codec \<Rightarrow> dealer_command \<Rightarrow>
     'pkp \<Rightarrow> (string, group_member) fmap \<Rightarrow> contact list \<Rightarrow> 'ss \<times> string \<Rightarrow> ('w machine, error, unit) io" where
  "dealer_store env ops gk args public_key_package participants contacts sp =
     (case sp of (share, path) \<Rightarrow>
     try_io (config_read env (Some path)) (\<lambda>config.
     try_io (lift_io (map_err Frost_Error (key_package_try_from ops share))) (\<lambda>key_package.
     try_io (lift_io (ok_or (gk_key_package_bytes gk key_package) (Parse_Error ''postcard''))) (\<lambda>key_package.
     try_io (lift_io (ok_or (gk_public_key_package_bytes gk public_key_package) (Parse_Error ''postcard''))) (\<lambda>public_key_bytes.
     try_io (lift_io (map_err Frost_Error (gk_verifying_key gk public_key_package))) (\<lambda>key.
     config_write env (config\<lparr>
       cf_group := fmupd (hex_encode (ce_text env) key)
         \<lparr>gc_description = dl_description args, gc_ciphersuite = gk_id gk,
          gc_public_key_package = public_key_bytes, gc_key_package = key_package,
          gc_server_url = dl_server_url args, gc_participant = participants\<rparr> (cf_group config),
       cf_contact := insert_contacts contacts (cf_contact config)\<rparr>)))))))"

definition trusted_dealer_for_ciphersuite ::
    "'w cli_env \<Rightarrow> ('id::linorder, 'sk, 'ss, 'kp, 'pkp, 'rng) dealer_ops \<Rightarrow> ('kp, 'pkp) group_codec \<Rightarrow> 'rng \<Rightarrow>
     dealer_command \<Rightarrow> ('w machine, error, unit) io" where
  "trusted_dealer_for_ciphersuite env ops gk rng args =
     (if length (dl_config args) \<noteq> unat (dl_num_signers args)
      then fail_io (Eyre ''The `config` option must specify `num_signers` different config files'')
      else if length (dl_names args) \<noteq> unat (dl_num_signers args)
      then fail_io (Eyre ''The `names` option must specify `num_signers` names'')
      else
        try_io (lift_io (trusted_dealer ops
          \<lparr>tc_min_signers = dl_threshold args, tc_max_signers = dl_num_signers args, tc_secret = []\<rparr> rng))
          (\<lambda>(shares, public_key_package).
        try_io (dealer_participants env (dealer_id_serialize ops)
          (zip (map fst (btree_items shares)) (zip (dl_config args) (dl_names args))) fmempty [])
          (\<lambda>(participants, contacts).
        for_io (zip (map snd (btree_items shares)) (dl_config args))
          (dealer_store env ops gk args public_key_package participants contacts))))"

text \<open>The dispatch on the name of the ciphersuite; the instances are the arguments.\<close>

definition trusted_dealer_cmd ::
    "(dealer_command \<Rightarrow> ('w machine, error, unit) io) \<Rightarrow> (dealer_command \<Rightarrow> ('w machine, error, unit) io) \<Rightarrow>
     command \<Rightarrow> ('w machine, error, unit) io" where
  "trusted_dealer_cmd ed25519 redpallas args =
     (case args of
        TrustedDealer a \<Rightarrow>
          if dl_ciphersuite a = ''ed25519'' then ed25519 a
          else if dl_ciphersuite a = ''redpallas'' then redpallas a
          else fail_io (Eyre ''unsupported ciphersuite'')
      | _ \<Rightarrow> invalid_command)"

section \<open>What the passes do\<close>

text \<open>Everything but the files and the names in use on disk.\<close>

lemma config_write_other:
  assumes w: "config_write env config m = (r, m')" and e: "toml_ok env" and p: "cf_path config = Some p"
    and q: "q \<noteq> resolve m p"
  shows "config_at env (files m') q = config_at env (files m) q"
  using config_write_cases(2)[OF w e p] q by (auto simp: config_at_def)

lemma config_read_path:
  assumes "config_read env (Some path) m = (Inr config, m')"
  shows "m' = m" and "\<exists>c. config_at env (files m) (resolve m path) = Some c \<and> config = c\<lparr>cf_path := Some path\<rparr>"
  using config_read_Inr[OF assms] by (auto simp: parse_path_def)

text \<open>The key of the configuration at a path.\<close>

definition key_at :: "'w cli_env \<Rightarrow> 'w machine \<Rightarrow> string \<Rightarrow> public_key option" where
  "key_at env m path = Option.bind (config_at env (files m) (resolve m path))
     (\<lambda>c. map_option ck_pubkey (cf_communication_key c))"

lemma dealer_participants_Inr:
  assumes "dealer_participants env ser ips ps cs m = (Inr (ps', cs'), m')"
  shows "m' = m \<and> (\<exists>keys. map (\<lambda>(_, path, _). key_at env m path) ips = map Some keys \<and>
    ps' = fold (\<lambda>(i, k). fmupd (hex_encode (ce_text env) (ser i)) \<lparr>gm_identifier = ser i, gm_pubkey = k\<rparr>)
      (zip (map fst ips) keys) ps \<and>
    cs' = cs @ map2 (\<lambda>(_, _, nm) k. \<lparr>ct_version = None, ct_name = nm, ct_pubkey = k\<rparr>) ips keys)"
  using assms
proof (induction ips arbitrary: ps cs)
  case Nil
  then show ?case by simp
next
  case (Cons ip ips)
  obtain i path nm where ip: "ip = (i, path, nm)" by (cases ip)
  from Cons.prems ip obtain config key where c: "config_read env (Some path) m = (Inr config, m)"
    "cf_communication_key config = Some key" and
    rest: "dealer_participants env ser ips
       (fmupd (hex_encode (ce_text env) (ser i)) \<lparr>gm_identifier = ser i, gm_pubkey = ck_pubkey key\<rparr> ps)
       (cs @ [\<lparr>ct_version = None, ct_name = nm, ct_pubkey = ck_pubkey key\<rparr>]) m = (Inr (ps', cs'), m')"
    by (auto simp: try_io_eq_Inr dest: config_read_path(1) simp del: try_io_lift)
  from config_read_path(2)[OF c(1)] c(2) have k: "key_at env m path = Some (ck_pubkey key)"
    by (auto simp: key_at_def)
  from Cons.IH[OF rest] obtain keys where "m' = m" "map (\<lambda>(_, path, _). key_at env m path) ips = map Some keys"
    "ps' = fold (\<lambda>(i, k). fmupd (hex_encode (ce_text env) (ser i)) \<lparr>gm_identifier = ser i, gm_pubkey = k\<rparr>)
      (zip (map fst ips) keys) (fmupd (hex_encode (ce_text env) (ser i)) \<lparr>gm_identifier = ser i, gm_pubkey = ck_pubkey key\<rparr> ps)"
    "cs' = (cs @ [\<lparr>ct_version = None, ct_name = nm, ct_pubkey = ck_pubkey key\<rparr>]) @
      map2 (\<lambda>(_, _, nm) k. \<lparr>ct_version = None, ct_name = nm, ct_pubkey = k\<rparr>) ips keys" by blast
  with k ip show ?case by (intro conjI exI[of _ "ck_pubkey key # keys"]) simp_all
qed

text \<open>What the second pass makes of a participant's configuration.\<close>

definition dealt_config ::
    "'w cli_env \<Rightarrow> ('id, 'sk, 'ss, 'kp, 'pkp, 'rng) dealer_ops \<Rightarrow> ('kp, 'pkp) group_codec \<Rightarrow> dealer_command \<Rightarrow>
     'pkp \<Rightarrow> (string, group_member) fmap \<Rightarrow> contact list \<Rightarrow> 'ss \<Rightarrow> config \<Rightarrow> config \<Rightarrow> bool" where
  "dealt_config env ops gk args pkp participants contacts share c c' \<longleftrightarrow>
     (\<exists>kp kpb pkb key. key_package_try_from ops share = Inr kp \<and> gk_key_package_bytes gk kp = Some kpb \<and>
        gk_public_key_package_bytes gk pkp = Some pkb \<and> gk_verifying_key gk pkp = Inr key \<and>
        c' = c\<lparr>cf_group := fmupd (hex_encode (ce_text env) key)
            \<lparr>gc_description = dl_description args, gc_ciphersuite = gk_id gk, gc_public_key_package = pkb,
             gc_key_package = kpb, gc_server_url = dl_server_url args, gc_participant = participants\<rparr> (cf_group c),
          cf_contact := insert_contacts contacts (cf_contact c), cf_path := None\<rparr>)"

lemma dealer_store_Inr:
  assumes run: "dealer_store env ops gk args pkp ps cs (share, path) m = (Inr (), m')" and e: "toml_ok env"
  shows "same_rest m m'" and "q \<noteq> resolve m path \<Longrightarrow> config_at env (files m') q = config_at env (files m) q"
    and "\<exists>c c'. config_at env (files m) (resolve m path) = Some c \<and>
      config_at env (files m') (resolve m path) = Some c' \<and> dealt_config env ops gk args pkp ps cs share c c'"
proof -
  from run obtain config m1 kp kpb pkb key where
    c1: "config_read env (Some path) m = (Inr config, m1)" and
    k: "key_package_try_from ops share = Inr kp" "gk_key_package_bytes gk kp = Some kpb"
      "gk_public_key_package_bytes gk pkp = Some pkb" "gk_verifying_key gk pkp = Inr key" and
    w1: "config_write env (config\<lparr>
       cf_group := fmupd (hex_encode (ce_text env) key)
         \<lparr>gc_description = dl_description args, gc_ciphersuite = gk_id gk, gc_public_key_package = pkb,
          gc_key_package = kpb, gc_server_url = dl_server_url args, gc_participant = ps\<rparr> (cf_group config),
       cf_contact := insert_contacts cs (cf_contact config)\<rparr>) m1 = (Inr (), m')" (is "config_write env ?config m1 = _")
    unfolding dealer_store_def by (auto simp: try_io_eq_Inr simp del: try_io_lift)
  note m1 = config_read_path(1)[OF c1]
  note c = c1[unfolded m1] and w = w1[unfolded m1]
  from config_read_path(2)[OF c] obtain c0 where c0: "config_at env (files m) (resolve m path) = Some c0"
    "config = c0\<lparr>cf_path := Some path\<rparr>" by blast
  then have p: "cf_path ?config = Some path" by simp
  from config_write_cases[OF w e p] have s: "same_rest m m'"
    "config_at env (files m') (resolve m path) = Some (?config\<lparr>cf_path := None\<rparr>)" by auto
  then show "same_rest m m'" by blast
  show "q \<noteq> resolve m path \<Longrightarrow> config_at env (files m') q = config_at env (files m) q"
    by (rule config_write_other[OF w e p])
  have "dealt_config env ops gk args pkp ps cs share c0 (?config\<lparr>cf_path := None\<rparr>)"
    unfolding dealt_config_def using k by (intro exI conjI) (simp_all add: c0(2))
  with c0(1) s(2) show "\<exists>c c'. config_at env (files m) (resolve m path) = Some c \<and>
      config_at env (files m') (resolve m path) = Some c' \<and> dealt_config env ops gk args pkp ps cs share c c'" by blast
qed

lemma dealer_store_all:
  assumes "for_io xs (dealer_store env ops gk args pkp ps cs) m = (Inr (), m')" and e: "toml_ok env"
    and "distinct (map (\<lambda>(_, path). resolve m path) xs)"
  shows "\<forall>(share, path)\<in>set xs. \<exists>c c'. config_at env (files m) (resolve m path) = Some c \<and>
      config_at env (files m') (resolve m path) = Some c' \<and> dealt_config env ops gk args pkp ps cs share c c'"
    and "\<forall>q. q \<notin> set (map (\<lambda>(_, path). resolve m path) xs) \<longrightarrow> config_at env (files m') q = config_at env (files m) q"
proof -
  have "(\<forall>(share, path)\<in>set xs. \<exists>c c'. config_at env (files m) (resolve m path) = Some c \<and>
      config_at env (files m') (resolve m path) = Some c' \<and> dealt_config env ops gk args pkp ps cs share c c') \<and>
    (\<forall>q. q \<notin> set (map (\<lambda>(_, path). resolve m path) xs) \<longrightarrow> config_at env (files m') q = config_at env (files m) q)"
    using assms(1,3)
  proof (induction xs arbitrary: m)
    case (Cons x xs)
    obtain share path where x: "x = (share, path)" by (cases x)
    from Cons.prems(1) x obtain m1 where m1: "dealer_store env ops gk args pkp ps cs (share, path) m = (Inr (), m1)"
      "for_io xs (dealer_store env ops gk args pkp ps cs) m1 = (Inr (), m')" by (auto simp: try_io_eq_Inr)
    note st = dealer_store_Inr[OF m1(1) e]
    have res: "resolve m1 p = resolve m p" for p by (rule same_rest_resolve[OF st(1)])
    from Cons.prems(2) x have d: "resolve m path \<notin> set (map (\<lambda>(_, path). resolve m path) xs)"
      "distinct (map (\<lambda>(_, path). resolve m path) xs)" by simp_all
    from Cons.IH[OF m1(2)] d(2) have IH: "\<forall>(share, path)\<in>set xs. \<exists>c c'. config_at env (files m1) (resolve m path) = Some c \<and>
        config_at env (files m') (resolve m path) = Some c' \<and> dealt_config env ops gk args pkp ps cs share c c'"
      "\<And>q. q \<notin> set (map (\<lambda>(_, path). resolve m path) xs) \<Longrightarrow> config_at env (files m') q = config_at env (files m1) q"
      unfolding res by blast+
    have "\<exists>c c'. config_at env (files m) (resolve m p) = Some c \<and>
        config_at env (files m') (resolve m p) = Some c' \<and> dealt_config env ops gk args pkp ps cs sh c c'"
      if "(sh, p) \<in> set xs" for sh p
    proof -
      from that d(1) have "resolve m p \<noteq> resolve m path" by (force simp: image_iff)
      note same = st(2)[OF this]
      from bspec[OF IH(1) that] show ?thesis unfolding prod.case same .
    qed
    moreover from st(3) IH(2)[OF d(1)] have "\<exists>c c'. config_at env (files m) (resolve m path) = Some c \<and>
        config_at env (files m') (resolve m path) = Some c' \<and> dealt_config env ops gk args pkp ps cs share c c'" by simp
    ultimately show ?case using st(2) IH(2) x by auto
  qed simp
  then show "\<forall>(share, path)\<in>set xs. \<exists>c c'. config_at env (files m) (resolve m path) = Some c \<and>
      config_at env (files m') (resolve m path) = Some c' \<and> dealt_config env ops gk args pkp ps cs share c c'"
    "\<forall>q. q \<notin> set (map (\<lambda>(_, path). resolve m path) xs) \<longrightarrow> config_at env (files m') q = config_at env (files m) q" by auto
qed

end
