(* ===== verification/Dealer_Command_Props.thy ===== *)
theory Dealer_Command_Props
  imports Dealer_Command Contacts_Props
begin

text \<open>
  What the command \<open>trusted-dealer\<close> leaves in the configuration files: the shares of a group, and
  address books in which a participant's own key is a contact.
\<close>

section \<open>Properties\<close>

definition members ::
    "'w cli_env \<Rightarrow> ('id::linorder \<Rightarrow> bytes) \<Rightarrow> ('id, 'ss) fmap \<Rightarrow> public_key list \<Rightarrow> (string, group_member) fmap" where
  "members env ser shares keys =
     fold (\<lambda>(i, k). fmupd (hex_encode (ce_text env) (ser i)) \<lparr>gm_identifier = ser i, gm_pubkey = k\<rparr>)
       (zip (map fst (btree_items shares)) keys) fmempty"

definition named :: "string list \<Rightarrow> public_key list \<Rightarrow> contact list" where
  "named nms keys = map2 (\<lambda>nm k. \<lparr>ct_version = None, ct_name = nm, ct_pubkey = k\<rparr>) nms keys"

text \<open>The dealer of \<open>frost-core\<close> makes as many shares as asked for.\<close>

definition deals_all :: "('id::linorder, 'sk, 'ss, 'kp, 'pkp, 'rng) dealer_ops \<Rightarrow> bool" where
  "deals_all ops \<longleftrightarrow> (\<forall>config rng shares pkp. trusted_dealer ops config rng = Inr (shares, pkp) \<longrightarrow>
     fmsize shares = unat (tc_max_signers config))"

text \<open>What the command leaves behind.\<close>

definition all_dealt ::
    "'w cli_env \<Rightarrow> ('id::linorder, 'sk, 'ss, 'kp, 'pkp, 'rng) dealer_ops \<Rightarrow> ('kp, 'pkp) group_codec \<Rightarrow> 'rng \<Rightarrow>
     dealer_command \<Rightarrow> 'w machine \<Rightarrow> 'w machine \<Rightarrow> bool" where
  "all_dealt env ops gk rng args m m' \<longleftrightarrow> (\<exists>shares pkp keys. trusted_dealer ops
      \<lparr>tc_min_signers = dl_threshold args, tc_max_signers = dl_num_signers args, tc_secret = []\<rparr> rng = Inr (shares, pkp) \<and>
    map (key_at env m) (dl_config args) = map Some keys \<and> length (dl_names args) = length (dl_config args) \<and>
    (\<forall>i<length (dl_config args). \<exists>c c'. config_at env (files m) (resolve m (dl_config args ! i)) = Some c \<and>
       config_at env (files m') (resolve m (dl_config args ! i)) = Some c' \<and>
       dealt_config env ops gk args pkp (members env (dealer_id_serialize ops) shares keys) (named (dl_names args) keys)
         (snd (btree_items shares ! i)) c c') \<and>
    (\<forall>q. q \<notin> set (map (resolve m) (dl_config args)) \<longrightarrow> config_at env (files m') q = config_at env (files m) q))"

lemma trusted_dealer_dealt:
  assumes run: "trusted_dealer_for_ciphersuite env ops gk rng args m = (Inr (), m')"
    and e: "toml_ok env" and all: "deals_all ops" and d: "distinct (map (resolve m) (dl_config args))"
  shows "all_dealt env ops gk rng args m m'"
proof -
  let ?cfg = "dl_config args" and ?ser = "dealer_id_serialize ops"
  from run obtain shares pkp ps cs m1 where l: "length ?cfg = unat (dl_num_signers args)"
    "length (dl_names args) = unat (dl_num_signers args)" and
    t: "trusted_dealer ops \<lparr>tc_min_signers = dl_threshold args, tc_max_signers = dl_num_signers args, tc_secret = []\<rparr> rng
      = Inr (shares, pkp)" and
    p: "dealer_participants env ?ser (zip (map fst (btree_items shares)) (zip ?cfg (dl_names args))) fmempty [] m
      = (Inr (ps, cs), m1)" and
    st: "for_io (zip (map snd (btree_items shares)) ?cfg) (dealer_store env ops gk args pkp ps cs) m1 = (Inr (), m')"
    unfolding trusted_dealer_for_ciphersuite_def
    by (auto simp: try_io_eq_Inr case_prod_beta split: if_splits simp del: try_io_lift)
  have n: "fmsize shares = length ?cfg" using all[unfolded deals_all_def, rule_format, OF t] l by simp
  from dealer_participants_Inr[OF p] obtain keys where m1: "m1 = m" and
    keys: "map (\<lambda>(_, path, _). key_at env m path) (zip (map fst (btree_items shares)) (zip ?cfg (dl_names args))) = map Some keys" and
    ps: "ps = fold (\<lambda>(i, k). fmupd (hex_encode (ce_text env) (?ser i)) \<lparr>gm_identifier = ?ser i, gm_pubkey = k\<rparr>)
      (zip (map fst (zip (map fst (btree_items shares)) (zip ?cfg (dl_names args)))) keys) fmempty" and
    cs: "cs = map2 (\<lambda>(_, _, nm) k. \<lparr>ct_version = None, ct_name = nm, ct_pubkey = k\<rparr>)
      (zip (map fst (btree_items shares)) (zip ?cfg (dl_names args))) keys" by auto
  have k: "map (key_at env m) ?cfg = map Some keys"
    using keys l n by (intro nth_equalityI) (auto dest!: arg_cong[where f = length] simp: list_eq_iff_nth_eq)
  have ps': "ps = members env ?ser shares keys" unfolding ps members_def using l n by simp
  have lk: "length keys = length ?cfg" using arg_cong[OF k, of length] by simp
  have cs': "cs = named (dl_names args) keys"
    unfolding cs named_def using l n lk by (intro nth_equalityI) simp_all
  have "map (\<lambda>(_, path). resolve m path) (zip (map snd (btree_items shares)) ?cfg) = map (resolve m) ?cfg"
    using n by (intro nth_equalityI) simp_all
  with d have d': "distinct (map (\<lambda>(_, path). resolve m path) (zip (map snd (btree_items shares)) ?cfg))"
    and q: "set (map (\<lambda>(_, path). resolve m path) (zip (map snd (btree_items shares)) ?cfg)) = set (map (resolve m) ?cfg)"
    by simp_all
  note fin = dealer_store_all[OF st[unfolded m1] e d', unfolded q]
  have each: "\<exists>c c'. config_at env (files m) (resolve m (?cfg ! i)) = Some c \<and>
       config_at env (files m') (resolve m (?cfg ! i)) = Some c' \<and>
       dealt_config env ops gk args pkp (members env ?ser shares keys) (named (dl_names args) keys)
         (snd (btree_items shares ! i)) c c'" if i: "i < length ?cfg" for i
  proof -
    have "(snd (btree_items shares ! i), ?cfg ! i) \<in> set (zip (map snd (btree_items shares)) ?cfg)"
      using i n by (auto simp: in_set_zip intro!: exI[of _ i])
    from bspec[OF fin(1) this] show ?thesis unfolding prod.case ps' cs' .
  qed
  show ?thesis
    unfolding all_dealt_def
    by (rule exI[of _ shares], rule exI[of _ pkp], rule exI[of _ keys]) (intro conjI allI impI t k each, use l fin(2) in simp_all)
qed

text \<open>
  C27: The trusted dealer's command. On success every participant's configuration has been read for
  its key, and then extended, with nothing else changed: by the group with the key package of that
  participant's own share and the identifiers and keys of all participants, and by contacts for
  all of them. Other files are as before.
\<close>

theorem trusted_dealer_stores:
  assumes run: "trusted_dealer_for_ciphersuite env ops gk rng args m = (Inr (), m')"
    and e: "toml_ok env" and all: "deals_all ops" and d: "distinct (map (resolve m) (dl_config args))"
  shows "\<exists>shares pkp keys. trusted_dealer ops
      \<lparr>tc_min_signers = dl_threshold args, tc_max_signers = dl_num_signers args, tc_secret = []\<rparr> rng = Inr (shares, pkp) \<and>
    map (key_at env m) (dl_config args) = map Some keys \<and> length (dl_names args) = length (dl_config args) \<and>
    (\<forall>i<length (dl_config args). \<exists>c c'. config_at env (files m) (resolve m (dl_config args ! i)) = Some c \<and>
       config_at env (files m') (resolve m (dl_config args ! i)) = Some c' \<and>
       dealt_config env ops gk args pkp (members env (dealer_id_serialize ops) shares keys) (named (dl_names args) keys)
         (snd (btree_items shares ! i)) c c') \<and>
    (\<forall>q. q \<notin> set (map (resolve m) (dl_config args)) \<longrightarrow> config_at env (files m') q = config_at env (files m) q)"
  by (rule trusted_dealer_dealt[OF assms, unfolded all_dealt_def])

lemma lookup_named:
  assumes "distinct nms" "i < length nms" "length keys = length nms"
  shows "fmlookup (insert_contacts (named nms keys) m) (nms ! i) = Some \<lparr>ct_version = None, ct_name = nms ! i, ct_pubkey = keys ! i\<rparr>"
  using assms
proof (induction nms arbitrary: keys m i)
  case (Cons nm nms)
  then obtain k ks where k: "keys = k # ks" by (cases keys) auto
  have other: "fmlookup (insert_contacts cs m) n = fmlookup m n" if "n \<notin> ct_name ` set cs" for cs n and m :: "(string, contact) fmap"
    using that unfolding insert_contacts_def by (induction cs arbitrary: m) auto
  have nms: "ct_name ` set (named nms ks) = set nms"
    using Cons.prems k unfolding named_def by (auto simp: set_zip in_set_conv_nth image_iff)
  show ?case
  proof (cases i)
    case 0
    with Cons.prems(1) k nms other[of nm "named nms ks"] show ?thesis
      by (simp add: named_def insert_contacts_def)
  next
    case (Suc j)
    with Cons k show ?thesis by (simp add: named_def insert_contacts_def)
  qed
qed simp

text \<open>
  C28: The trusted dealer breaks the address books. Over the other commands a participant's own key
  never becomes a contact; after this one every participant has a contact with the own key.
\<close>

theorem trusted_dealer_own_contact:
  assumes run: "trusted_dealer_for_ciphersuite env ops gk rng args m = (Inr (), m')"
    and e: "toml_ok env" and all: "deals_all ops" and d: "distinct (map (resolve m) (dl_config args))"
    and nms: "distinct (dl_names args)" and i: "i < length (dl_config args)"
  shows "\<exists>b k. book_at env m' (resolve m (dl_config args ! i)) = Some b \<and> bk_own b = Some k \<and>
    fmlookup (bk_people b) (dl_names args ! i) = Some k"
proof -
  from trusted_dealer_dealt[OF run e all d, unfolded all_dealt_def] obtain shares pkp keys where
    k: "map (key_at env m) (dl_config args) = map Some keys" "length (dl_names args) = length (dl_config args)"
    and each: "\<forall>i<length (dl_config args). \<exists>c c'. config_at env (files m) (resolve m (dl_config args ! i)) = Some c \<and>
       config_at env (files m') (resolve m (dl_config args ! i)) = Some c' \<and>
       dealt_config env ops gk args pkp (members env (dealer_id_serialize ops) shares keys) (named (dl_names args) keys)
         (snd (btree_items shares ! i)) c c'" by (elim exE conjE) (rule that)
  from each i obtain c c' where c: "config_at env (files m) (resolve m (dl_config args ! i)) = Some c"
    "config_at env (files m') (resolve m (dl_config args ! i)) = Some c'"
    "dealt_config env ops gk args pkp (members env (dealer_id_serialize ops) shares keys) (named (dl_names args) keys)
         (snd (btree_items shares ! i)) c c'" by blast
  from c(3) have c': "cf_communication_key c' = cf_communication_key c"
    "cf_contact c' = insert_contacts (named (dl_names args) keys) (cf_contact c)" by (auto simp: dealt_config_def)
  have lk: "length keys = length (dl_names args)" using arg_cong[OF k(1), of length] k(2) by simp
  have "key_at env m (dl_config args ! i) = Some (keys ! i)"
    using arg_cong[OF k(1), of "\<lambda>xs. xs ! i"] i lk k(2) by simp
  with c(1) have own: "map_option ck_pubkey (cf_communication_key c) = Some (keys ! i)" by (simp add: key_at_def)
  have "fmlookup (cf_contact c') (dl_names args ! i) =
      Some \<lparr>ct_version = None, ct_name = dl_names args ! i, ct_pubkey = keys ! i\<rparr>"
    using lookup_named[OF nms _ lk] i k(2) c'(2) by simp
  with c(2) c'(1) own show ?thesis by (simp add: book_at_def book_of_def)
qed

section \<open>An example\<close>

text \<open>A group of one, whose only participant is Alice.\<close>

definition solo_ops :: "(nat, nat, nat, nat, nat, nat) dealer_ops" where
  "solo_ops = ex_dealer\<lparr>generate_with_dealer := (\<lambda>n k rng. if n = 1 then Inr (fmupd 1 rng fmempty, 8) else Inl ''InvalidMaxSigners''),
     split_key := (\<lambda>sk n k rng. Inl ''InvalidMaxSigners''), dealer_is_redpallas := False\<rparr>"

definition solo_codec :: "(nat, nat) group_codec" where
  "solo_codec = \<lparr>gk_id = ''e'', gk_key_package_bytes = (\<lambda>k. Some [of_nat k]),
     gk_public_key_package_bytes = (\<lambda>p. Some [of_nat p]), gk_verifying_key = (\<lambda>p. Inr [71])\<rparr>"

definition solo_command :: dealer_command where
  "solo_command = \<lparr>dl_config = [''p''], dl_description = [], dl_names = [''N''], dl_server_url = None,
     dl_ciphersuite = ''ed25519'', dl_threshold = 1, dl_num_signers = 1\<rparr>"

definition solo_member :: "(string, group_member) fmap" where
  "solo_member = fmupd (hex_encode ex_text [1]) \<lparr>gm_identifier = [1], gm_pubkey = PublicKey [8]\<rparr> fmempty"

definition solo_dealt :: config where
  "solo_dealt = ex_alice\<lparr>cf_group := fmupd (hex_encode ex_text [71]) \<lparr>gc_description = [], gc_ciphersuite = ''e'',
       gc_public_key_package = [8], gc_key_package = [5], gc_server_url = None, gc_participant = solo_member\<rparr> fmempty,
     cf_contact := fmupd ''N'' \<lparr>ct_version = None, ct_name = ''N'', ct_pubkey = PublicKey [8]\<rparr> fmempty\<rparr>"

definition solo_cli :: "unit cli_env" where
  "solo_cli = ex_cli\<lparr>ce_toml_print := (\<lambda>c. if c\<lparr>cf_path := None\<rparr> = solo_dealt then Some ''d'' else None),
     ce_toml_parse := (\<lambda>s. if s = ''a'' then Some ex_alice else if s = ''d'' then Some solo_dealt else None)\<rparr>"

lemma solo_ok: "toml_ok solo_cli" "deals_all solo_ops"
proof -
  show "toml_ok solo_cli" by (auto simp: toml_ok_def solo_cli_def ex_cli_def split: if_splits)
  show "deals_all solo_ops"
    by (auto simp: deals_all_def solo_ops_def trusted_dealer_def trusted_dealer_keygen_def split_secret_def
        check_shares_def dealer_into_even_y_def split: if_splits)
qed

lemma solo_run: "\<exists>m'. trusted_dealer_for_ciphersuite solo_cli solo_ops solo_codec 5 solo_command alice_machine = (Inr (), m')"
proof -
  let ?c = "ex_alice\<lparr>cf_path := Some ''p''\<rparr>"
  have r: "config_read solo_cli (Some ''p'') alice_machine = (Inr ?c, alice_machine)"
    by (simp add: config_read_def path_exists_def fs_read_def try_io_def solo_cli_def parse_path_def)
  have items: "btree_items (fmupd (Suc 0) (5 :: nat) fmempty) = [(1, 5)]"
    by (simp add: btree_items_def sorted_list_of_fset.rep_eq)
  have deal: "trusted_dealer solo_ops \<lparr>tc_min_signers = 1, tc_max_signers = 1, tc_secret = []\<rparr> 5 = Inr (fmupd 1 5 fmempty, 8)"
    by (simp add: trusted_dealer_def trusted_dealer_keygen_def check_shares_def dealer_into_even_y_def solo_ops_def
        ex_dealer_def items)
  have t: "resolve alice_machine ''/t'' = ''/t''" by (simp add: is_absolute_def is_slash_def)
  have pt: "path_parent ''/t'' = Some ''/''" by (simp add: path_eval)
  have path: "cf_path solo_dealt = None" by (simp add: solo_dealt_def ex_alice_def config_default_def)
  have print: "ce_toml_print solo_cli (solo_dealt\<lparr>cf_path := Some ''p''\<rparr>) = Some ''d''"
  proof -
    have "(solo_dealt\<lparr>cf_path := Some ''p''\<rparr>)\<lparr>cf_path := None\<rparr> = solo_dealt" using path by simp
    then show ?thesis by (simp add: solo_cli_def)
  qed
  have tmp: "ce_tmp solo_cli ''/'' = ''/t''" by (simp add: solo_cli_def)
  have space: "mc_space alice_machine = 100" by (simp add: alice_machine_def ex_machine_def)
  have w: "\<exists>m'. config_write solo_cli (solo_dealt\<lparr>cf_path := Some ''p''\<rparr>) alice_machine = (Inr (), m')"
    by (rule config_write_root[where p = "''p''", OF print _ _ _ _ tmp]) (simp_all add: ex_parent t pt path_exists_def space)
  have key: "cf_communication_key ?c = Some \<lparr>ck_privkey = PrivateKey [7], ck_pubkey = PublicKey [8]\<rparr>"
    "cf_group ?c = fmempty" "cf_contact ?c = fmempty" by (simp_all add: ex_alice_def config_default_def)
  have d: "?c\<lparr>cf_group := fmupd (hex_encode ex_text [71]) \<lparr>gc_description = [], gc_ciphersuite = ''e'',
       gc_public_key_package = [8], gc_key_package = [5], gc_server_url = None, gc_participant = solo_member\<rparr> fmempty,
     cf_contact := fmupd ''N'' \<lparr>ct_version = None, ct_name = ''N'', ct_pubkey = PublicKey [8]\<rparr> fmempty\<rparr>
     = solo_dealt\<lparr>cf_path := Some ''p''\<rparr>" by (simp add: solo_dealt_def)
  have store: "dealer_store solo_cli solo_ops solo_codec solo_command 8 solo_member
      [\<lparr>ct_version = None, ct_name = ''N'', ct_pubkey = PublicKey [8]\<rparr>] (5, ''p'') alice_machine =
      config_write solo_cli (solo_dealt\<lparr>cf_path := Some ''p''\<rparr>) alice_machine"
    using key d by (simp add: dealer_store_def try_io_Inr[where m = "config_read solo_cli (Some ''p'')", OF r] solo_codec_def solo_ops_def ex_dealer_def solo_command_def
        insert_contacts_def) (simp add: solo_cli_def)
  have parts: "dealer_participants solo_cli (dealer_id_serialize solo_ops) [(1, ''p'', ''N'')] fmempty [] alice_machine =
      (Inr (solo_member, [\<lparr>ct_version = None, ct_name = ''N'', ct_pubkey = PublicKey [8]\<rparr>]), alice_machine)"
    using key(1) by (simp add: try_io_Inr[where m = "config_read solo_cli (Some ''p'')", OF r] solo_member_def solo_ops_def ex_dealer_def) (simp add: solo_cli_def)
  let ?store = "dealer_store solo_cli solo_ops solo_codec solo_command 8 solo_member
      [\<lparr>ct_version = None, ct_name = ''N'', ct_pubkey = PublicKey [8]\<rparr>]"
  have cmd: "dl_config solo_command = [''p'']" "dl_names solo_command = [''N'']" "dl_num_signers solo_command = 1"
    "dl_threshold solo_command = 1" by (simp_all add: solo_command_def)
  have "trusted_dealer_for_ciphersuite solo_cli solo_ops solo_codec 5 solo_command alice_machine =
      for_io [(5, ''p'')] ?store alice_machine"
    unfolding trusted_dealer_for_ciphersuite_def cmd try_io_lift deal
    by (simp add: items try_io_Inr[where m = "dealer_participants _ _ _ _ _", OF parts[unfolded One_nat_def]] cmd del: dealer_participants.simps)
  moreover obtain m' where "?store (5, ''p'') alice_machine = (Inr (), m')" using w store by auto
  ultimately show ?thesis by (simp add: try_io_def)
qed

theorem trusted_dealer_stores_witness:
  "\<exists>m' c'. trusted_dealer_for_ciphersuite solo_cli solo_ops solo_codec 5 solo_command alice_machine = (Inr (), m') \<and>
     config_at solo_cli (files m') ''/p'' = Some c' \<and> \<not> config_at solo_cli (files alice_machine) ''/p'' = Some c'"
proof -
  obtain m' where run: "trusted_dealer_for_ciphersuite solo_cli solo_ops solo_codec 5 solo_command alice_machine = (Inr (), m')"
    using solo_run ..
  have d: "distinct (map (resolve alice_machine) (dl_config solo_command))" "length (dl_config solo_command) = 1"
    "dl_config solo_command ! 0 = ''p''" by (simp_all add: solo_command_def)
  from trusted_dealer_stores[OF run solo_ok d(1)] d obtain c c' ps cs pkp share where
    c: "config_at solo_cli (files alice_machine) ''/p'' = Some c" "config_at solo_cli (files m') ''/p'' = Some c'"
    "dealt_config solo_cli solo_ops solo_codec solo_command pkp ps cs share c c'"
    by (elim exE conjE) (erule allE[of _ 0], auto)
  have "c = ex_alice" using c(1) by (simp add: config_at_def solo_cli_def ex_cli_def)
  then have "cf_group c = fmempty" by (simp add: ex_alice_def config_default_def)
  with c(3) have "c' \<noteq> c" by (auto simp: dealt_config_def dest: arg_cong[of _ _ "cf_group"])
  with run c(1,2) show ?thesis by (intro exI[of _ m'] exI[of _ c']) simp
qed

theorem trusted_dealer_own_contact_witness:
  "\<exists>m' b k. trusted_dealer_for_ciphersuite solo_cli solo_ops solo_codec 5 solo_command alice_machine = (Inr (), m') \<and>
     book_at solo_cli m' ''/p'' = Some b \<and> bk_own b = Some k \<and> fmlookup (bk_people b) ''N'' = Some k"
proof -
  obtain m' where run: "trusted_dealer_for_ciphersuite solo_cli solo_ops solo_codec 5 solo_command alice_machine = (Inr (), m')"
    using solo_run ..
  have d: "distinct (map (resolve alice_machine) (dl_config solo_command))" "distinct (dl_names solo_command)"
    "0 < length (dl_config solo_command)" by (simp_all add: solo_command_def)
  from trusted_dealer_own_contact[OF run solo_ok d] run show ?thesis by (auto simp: solo_command_def)
qed

end
