(* ===== verification/Commands.thy ===== *)
theory Commands
  imports Contacts Dealer_Command Coordinator_Args Coordinator_Http Participant_Http Dkg_Client_Cli
begin

text \<open>
  The commands of the client that talk to the server: \<open>sessions\<close> (\<open>cli/session.rs\<close>), \<open>dkg\<close>
  (\<open>cli/dkg.rs\<close>), \<open>coordinator\<close> (\<open>cli/coordinator.rs\<close>) and \<open>participant\<close>
  (\<open>cli/participant.rs\<close>), and the dispatch of \<open>main.rs\<close>. The world of the machine is what the HTTP
  transport reaches; an HTTP run starts in it and leaves it behind.
\<close>

section \<open>Environment\<close>

text \<open>\<open>me_parse_url\<close> gives the host, if there is one, and the port of an \<open>https\<close> URL.\<close>

record ('w, 'h, 't, 'rng) cmd_env =
  me_cli :: "'w cli_env"
  me_http :: "('w, 'h, 't, 'rng) http_env"
  me_parse_url :: "string \<Rightarrow> (string option \<times> 16 word) option"

abbreviation me_text :: "('w, 'h, 't, 'rng) cmd_env \<Rightarrow> text_env" where
  "me_text me \<equiv> ce_text (me_cli me)"

definition own_key :: "config \<Rightarrow> error + communication_key" where
  "own_key config = ok_or (cf_communication_key config) (Eyre ''user not initialized'')"

definition group_of :: "config \<Rightarrow> string \<Rightarrow> error + group_config" where
  "group_of config grp = ok_or (fmlookup (cf_group config) grp) (Eyre ''Group not found'')"

definition server_of :: "string option \<Rightarrow> group_config \<Rightarrow> error + string" where
  "server_of server_url grp =
     (case server_url of
        Some server_url \<Rightarrow> Inr server_url
      | None \<Rightarrow> ok_or (gc_server_url grp) (Eyre ''server-url required''))"

definition parse_server :: "('w, 'h, 't, 'rng) cmd_env \<Rightarrow> string \<Rightarrow> error + string option \<times> 16 word" where
  "parse_server me server_url =
     ok_or (me_parse_url me (''https://'' @ server_url)) (Eyre ''error parsing server-url'')"

definition host_of :: "string option \<times> 16 word \<Rightarrow> error + string" where
  "host_of url = ok_or (fst url) (Eyre ''host missing in URL'')"

text \<open>Dispatch on the ciphersuite of a group; the instances are the arguments.\<close>

definition for_suite ::
    "('w, 'h, 't, 'rng) cmd_env \<Rightarrow> string option \<Rightarrow> string \<Rightarrow> ('w machine, error, 'a) iop \<Rightarrow> ('w machine, error, 'a) iop \<Rightarrow>
     ('w machine, error, 'a) iop" where
  "for_suite me path grp ed25519 redpallas =
     try_iop (run_io (config_read (me_cli me) path)) (\<lambda>config.
     try_iop (run_io (lift_io (group_of config grp))) (\<lambda>grp.
     if gc_ciphersuite grp = ce_ed25519_id (me_cli me) then ed25519
     else if gc_ciphersuite grp = ce_redpallas_id (me_cli me) then redpallas
     else run_io (fail_io (Eyre ''unsupported ciphersuite''))))"

section \<open>Sessions\<close>

definition list_server :: "string option \<Rightarrow> string option \<Rightarrow> config \<Rightarrow> error + string" where
  "list_server server_url grp config =
     (case server_url of
        Some server_url \<Rightarrow> Inr server_url
      | None \<Rightarrow> (case grp of
          Some grp \<Rightarrow> tryr (group_of config grp) (\<lambda>grp.
            ok_or (gc_server_url grp) (Eyre ''the group specified does not have an associated server URL''))
        | None \<Rightarrow> Inl (Eyre ''must specify either server_url or group'')))"

definition UNKNOWN :: string where
  "UNKNOWN = ''(Unknown contact)''"

definition session_lines ::
    "('w, 'h, 't, 'rng) cmd_env \<Rightarrow> config \<Rightarrow> uuid \<Rightarrow> get_session_info_output \<Rightarrow> string list" where
  "session_lines me config sid r =
     [''Session with ID '' @ uuid_to_string (he_client (me_http me)) sid,
      ''Coordinator: '' @ (case contact_by_pubkey config (gi_coordinator_pubkey r) of Inr c \<Rightarrow> ct_name c | Inl _ \<Rightarrow> UNKNOWN),
      ''Signers: '' @ decimal (length (gi_pubkeys r))] @
     map (\<lambda>pubkey. case contact_by_pubkey config pubkey of
         Inr c \<Rightarrow> tab @ ct_name c @ tab @ ''('' @ hex_encode (me_text me) (pk_bytes (ct_pubkey c)) @ '')''
       | Inl _ \<Rightarrow> tab @ UNKNOWN) (gi_pubkeys r) @ [[]]"

text \<open>A session of the client beside the machine.\<close>

definition client_base :: "string \<Rightarrow> 'w \<Rightarrow> ('w, 'h, 't) http_base" where
  "client_base server_url w = \<lparr>hb_world = w, hb_client = client_new (''https://'' @ server_url),
     hb_session_id = None, hb_cipher = None\<rparr>"

definition with_client ::
    "string \<Rightarrow> ('w machine \<times> ('w, 'h, 't) http_base, error, 'a) io \<Rightarrow> ('w machine, error, 'a) io" where
  "with_client server_url f m =
     (case f (m, client_base server_url (mc_world m)) of (r, (m', s)) \<Rightarrow> (r, m'\<lparr>mc_world := hb_world s\<rparr>))"

definition list_one ::
    "('w, 'h, 't, 'rng) cmd_env \<Rightarrow> bool \<Rightarrow> config \<Rightarrow> uuid \<Rightarrow> ('w machine \<times> ('w, 'h, 't) http_base, error, unit) io" where
  "list_one me close_all config sid =
     try_io (second_io (client_op (client_get_session_info (he_client (me_http me)) \<lparr>gi_session_id = sid\<rparr>))) (\<lambda>r.
     try_io (first_io (for_io (session_lines me config sid r) eprintln)) (\<lambda>_.
     if close_all then second_io (client_op (client_close_session (he_client (me_http me)) \<lparr>cl_session_id = sid\<rparr>))
     else ret_io ()))"

definition sessions_cmd :: "('w, 'h, 't, 'rng) cmd_env \<Rightarrow> command \<Rightarrow> ('w machine, error, unit) io" where
  "sessions_cmd me args =
     (case args of
        Sessions a \<Rightarrow>
          try_io (config_read (me_cli me) (ss_config a)) (\<lambda>config.
          try_io (lift_io (list_server (ss_server_url a) (ss_group a) config)) (\<lambda>server_url.
          try_io (lift_io (own_key config)) (\<lambda>key.
          with_client server_url (
            try_io (second_io (http_login (me_http me) (Some (ck_privkey key)) (Some (ck_pubkey key)))) (\<lambda>_.
            try_io (second_io (client_op (client_list_sessions (he_client (me_http me))))) (\<lambda>r.
            if ls_session_ids r = [] then first_io (eprintln ''No active sessions.'')
            else for_io (ls_session_ids r) (list_one me (ss_close_all a) config)))))))
      | _ \<Rightarrow> invalid_command)"

section \<open>Participant\<close>

definition participant_getter :: "group_config \<Rightarrow> public_key \<Rightarrow> public_key option" where
  "participant_getter grp coordinator_pubkey =
     map_option gm_pubkey (List.find (\<lambda>p. gm_pubkey p = coordinator_pubkey) (map snd (btree_items (gc_participant grp))))"

definition participant_http_args_of ::
    "config \<Rightarrow> group_config \<Rightarrow> string option \<Rightarrow> string option \<times> 16 word \<Rightarrow> error + participant_http_args" where
  "participant_http_args_of config grp session url =
     tryr (host_of url) (\<lambda>ip.
     tryr (own_key config) (\<lambda>key.
     Inr \<lparr>ha_ip = ip, ha_port = snd url, ha_session_id = (case session of None \<Rightarrow> [] | Some s \<Rightarrow> s),
       ha_comm_privkey = Some (ck_privkey key), ha_comm_pubkey = Some (ck_pubkey key),
       ha_coordinator_pubkey_getter = Some (participant_getter grp)\<rparr>))"

definition run_participant ::
    "('w, 'h, 't, 'rng) cmd_env \<Rightarrow> ('id, 'kp, 'rng2, 'n, 'c, 'sp, 'r, 's) signing_ops \<Rightarrow>
     ('c, 's, 'sp, 'r) participant_http_codec \<Rightarrow> participant_http_args \<Rightarrow> 'kp \<Rightarrow> 'rng2 \<Rightarrow> ('w machine, error, unit) iop" where
  "run_participant me ops hc args key_package rng m =
     (case participant ops (participant_http_comms (me_http me) args hc (me_text me) ops) key_package rng
         (participant_http_new (me_http me) args (mc_world m) (mc_console m)) of
        None \<Rightarrow> None
      | Some (r, s) \<Rightarrow> Some (r, m\<lparr>mc_world := hb_world s, mc_console := ph_console s\<rparr>))"

definition participant_for_ciphersuite ::
    "('w, 'h, 't, 'rng) cmd_env \<Rightarrow> ('id, 'kp, 'rng2, 'n, 'c, 'sp, 'r, 's) signing_ops \<Rightarrow>
     ('c, 's, 'sp, 'r) participant_http_codec \<Rightarrow> (bytes \<Rightarrow> 'kp option) \<Rightarrow> 'rng2 \<Rightarrow> participant_command \<Rightarrow>
     ('w machine, error, unit) iop" where
  "participant_for_ciphersuite me ops hc kp_of_bytes rng a =
     try_iop (run_io (config_read (me_cli me) (pc_config a))) (\<lambda>config.
     try_iop (run_io (lift_io (group_of config (pc_group a)))) (\<lambda>grp.
     try_iop (run_io (lift_io (ok_or (kp_of_bytes (gc_key_package grp)) (Parse_Error ''postcard'')))) (\<lambda>key_package.
     try_iop (run_io (lift_io (server_of (pc_server_url a) grp))) (\<lambda>server_url.
     try_iop (run_io (lift_io (parse_server me server_url))) (\<lambda>url.
     try_iop (run_io (lift_io (participant_http_args_of config grp (pc_session a) url))) (\<lambda>args.
     try_iop (run_participant me ops hc args key_package rng) (\<lambda>_.
     run_io (on_console (writeln ''Done'')))))))))"

definition participant_cmd ::
    "('w, 'h, 't, 'rng) cmd_env \<Rightarrow> (participant_command \<Rightarrow> ('w machine, error, unit) iop) \<Rightarrow>
     (participant_command \<Rightarrow> ('w machine, error, unit) iop) \<Rightarrow> command \<Rightarrow> ('w machine, error, unit) iop" where
  "participant_cmd me ed25519 redpallas args =
     (case args of
        ParticipantCmd a \<Rightarrow> for_suite me (pc_config a) (pc_group a) (ed25519 a) (redpallas a)
      | _ \<Rightarrow> run_io invalid_command)"

section \<open>Coordinator\<close>

text \<open>The signers are collected into a hash map; \<open>de\<close> is \<open>Identifier::deserialize\<close>.\<close>

definition read_signers ::
    "text_env \<Rightarrow> (bytes \<Rightarrow> string + 'id) \<Rightarrow> group_config \<Rightarrow> string list \<Rightarrow> error + (public_key, 'id) fmap" where
  "read_signers te de grp signers =
     tryr (collect_results (map (\<lambda>s.
         tryr (ok_or (hex_decode te s) Hex_Error) (\<lambda>b.
         tryr (participant_by_pubkey grp (PublicKey b)) (\<lambda>contact.
         tryr (map_err Frost_Error (de (gm_identifier contact))) (\<lambda>identifier.
         Inr (PublicKey b, identifier))))) signers)) (\<lambda>pairs.
     Inr (fold (\<lambda>(p, i). fmupd p i) pairs fmempty))"

text \<open>Files are read relative to the working directory.\<close>

definition input_path :: "'w machine \<Rightarrow> string \<Rightarrow> string" where
  "input_path m p = (if p = ''-'' \<or> p = [] then p else resolve m p)"

definition read_inputs ::
    "text_env \<Rightarrow> ('r, 'pkp) args_codec \<Rightarrow> 'pkp \<Rightarrow> nat \<Rightarrow> coordinator_command \<Rightarrow>
     ('w machine, error, ('r, 'pkp) processed_args) io" where
  "read_inputs te ac public_key_package n_in a m = on_console (
     try_io (read_messages te (map (input_path m) (cc_message a))) (\<lambda>messages.
     try_io (read_randomizers te ac (map (input_path m) (cc_randomizer a))) (\<lambda>randomizers.
     try_io (case cc_aux_message a of
         None \<Rightarrow> ret_io None
       | Some filename \<Rightarrow> try_io (read_aux_message te (input_path m filename)) (\<lambda>b. ret_io (Some b))) (\<lambda>aux_msg.
     ret_io \<lparr>pa_num_signers = of_nat n_in, pa_public_key_package = public_key_package,
       pa_messages = messages, pa_randomizers = randomizers, pa_aux_msg = aux_msg\<rparr>)))) m"

definition COUNT_ERROR :: string where
  "COUNT_ERROR = ''number of signature outputs must match number of messages''"

definition coordinator_http_args_of ::
    "config \<Rightarrow> (public_key, 'id) fmap \<Rightarrow> string option \<times> 16 word \<Rightarrow> error + 'id coordinator_http_args" where
  "coordinator_http_args_of config signers url =
     tryr (host_of url) (\<lambda>ip.
     tryr (own_key config) (\<lambda>key.
     Inr \<lparr>ca_signers = signers, ca_ip = ip, ca_port = snd url,
       ca_comm_privkey = Some (ck_privkey key), ca_comm_pubkey = Some (ck_pubkey key)\<rparr>))"

definition run_coordinator ::
    "('w, 'h, 't, 'rng) cmd_env \<Rightarrow> ('id, 'c, 's, 'sp, 'r, 'rp, 'pkp, 'sig) aggregation \<Rightarrow>
     ('c, 's, 'sp, 'r) signing_codec \<Rightarrow> 'id coordinator_http_args \<Rightarrow> ('r, 'pkp) processed_args \<Rightarrow>
     ('w machine, error, 'sig list) iop" where
  "run_coordinator me ag sc args pargs m =
     (case coordinator ag (coordinator_http_comms (me_http me) args sc) pargs
         (coordinator_http_new pargs args (mc_world m)) of
        None \<Rightarrow> None
      | Some (r, s) \<Rightarrow> Some (r, m\<lparr>mc_world := hb_world s\<rparr>))"

definition write_signature ::
    "text_env \<Rightarrow> ('sig \<Rightarrow> string + bytes) \<Rightarrow> 'sig \<times> string \<Rightarrow> ('w machine, error, unit) io" where
  "write_signature te ser sf =
     (case sf of (signature, signature_fn) \<Rightarrow>
     try_io (lift_io (map_err Frost_Error (ser signature))) (\<lambda>b.
     if signature_fn = [] \<or> signature_fn = ''-'' then on_console (writeln (hex_encode te b))
     else try_io (fs_write signature_fn b) (\<lambda>_.
          eprintln (''Raw signature written to '' @ signature_fn))))"

definition coordinator_for_ciphersuite ::
    "('w, 'h, 't, 'rng) cmd_env \<Rightarrow> ('id, 'c, 's, 'sp, 'r, 'rp, 'pkp, 'sig) aggregation \<Rightarrow>
     ('c, 's, 'sp, 'r) signing_codec \<Rightarrow> ('r, 'pkp) args_codec \<Rightarrow> (bytes \<Rightarrow> 'pkp option) \<Rightarrow> (bytes \<Rightarrow> string + 'id) \<Rightarrow>
     ('sig \<Rightarrow> string + bytes) \<Rightarrow> coordinator_command \<Rightarrow> ('w machine, error, unit) iop" where
  "coordinator_for_ciphersuite me ag sc ac pkp_of_bytes de ser a =
     try_iop (run_io (config_read (me_cli me) (cc_config a))) (\<lambda>config.
     try_iop (run_io (lift_io (group_of config (cc_group a)))) (\<lambda>grp.
     try_iop (run_io (lift_io (ok_or (pkp_of_bytes (gc_public_key_package grp)) (Parse_Error ''postcard'')))) (\<lambda>public_key_package.
     try_iop (run_io (lift_io (server_of (cc_server_url a) grp))) (\<lambda>server_url.
     try_iop (run_io (lift_io (parse_server me server_url))) (\<lambda>url.
     try_iop (run_io (lift_io (read_signers (me_text me) de grp (cc_signers a)))) (\<lambda>signers.
     try_iop (run_io (read_inputs (me_text me) ac public_key_package (fmsize signers) a)) (\<lambda>pargs.
     if cc_signature a \<noteq> [] \<and> length (cc_signature a) \<noteq> length (pa_messages pargs)
     then run_io (fail_io (Eyre COUNT_ERROR))
     else
     try_iop (run_io (lift_io (coordinator_http_args_of config signers url))) (\<lambda>args.
     try_iop (run_coordinator me ag sc args pargs) (\<lambda>signatures.
     run_io (for_io (zip signatures (if cc_signature a = [] then replicate (length signatures) ''-'' else cc_signature a))
       (write_signature (me_text me) ser)))))))))))"

definition coordinator_cmd ::
    "('w, 'h, 't, 'rng) cmd_env \<Rightarrow> (coordinator_command \<Rightarrow> ('w machine, error, unit) iop) \<Rightarrow>
     (coordinator_command \<Rightarrow> ('w machine, error, unit) iop) \<Rightarrow> command \<Rightarrow> ('w machine, error, unit) iop" where
  "coordinator_cmd me ed25519 redpallas args =
     (case args of
        CoordinatorCmd a \<Rightarrow> for_suite me (cc_config a) (cc_group a) (ed25519 a) (redpallas a)
      | _ \<Rightarrow> run_io invalid_command)"

section \<open>Distributed key generation\<close>

definition read_pubkeys :: "text_env \<Rightarrow> string list \<Rightarrow> error + public_key list" where
  "read_pubkeys te participants =
     collect_results (map (\<lambda>s. tryr (ok_or (hex_decode te s) Hex_Error) (\<lambda>b. Inr (PublicKey b))) participants)"

text \<open>The arguments of the key generation; the peers are looked up in the address book.\<close>

definition dkg_args_of ::
    "config \<Rightarrow> communication_key \<Rightarrow> public_key list \<Rightarrow> 16 word \<Rightarrow> string option \<times> 16 word \<Rightarrow>
     error + 'id dkg_processed_args" where
  "dkg_args_of config key participants threshold url =
     tryr (host_of url) (\<lambda>ip.
     Inr \<lparr>dp_cli = False, dp_http = True, dp_ip = ip, dp_port = snd url,
       dp_comm_privkey = Some (ck_privkey key), dp_comm_pubkey = Some (ck_pubkey key),
       dp_participant_pubkey_getter = Some (\<lambda>pubkey. case contact_by_pubkey config pubkey of
          Inr c \<Rightarrow> Some (ct_pubkey c) | Inl _ \<Rightarrow> None),
       dp_min_signers = threshold, dp_max_signers = None,
       dp_participants = (if participants \<noteq> [] \<and> ck_pubkey key \<notin> set participants
         then participants @ [ck_pubkey key] else participants),
       dp_identifier = None\<rparr>)"

definition run_dkg ::
    "(console \<times> 'w, error, 'a) iop \<Rightarrow> ('w machine, error, 'a) iop" where
  "run_dkg f m =
     (case f (mc_console m, mc_world m) of
        None \<Rightarrow> None
      | Some (r, (c, w)) \<Rightarrow> Some (r, m\<lparr>mc_console := c, mc_world := w\<rparr>))"

text \<open>Reversing a hash map: a later key of the iteration replaces an earlier one with the same value.\<close>

definition reverse_map :: "('w, 'h, 't, 'rng) http_env \<Rightarrow> (public_key, 'id) fmap \<Rightarrow> ('id, public_key) fmap" where
  "reverse_map he m = fold (\<lambda>k. case fmlookup m k of None \<Rightarrow> id | Some i \<Rightarrow> fmupd i k) (keys_of he m) fmempty"

record ('id, 'kp, 'pkp) dkg_group_codec = "('kp, 'pkp) group_codec" +
  gk_share_ids :: "'pkp \<Rightarrow> 'id list"
  gk_identifier_bytes :: "'id \<Rightarrow> bytes"

definition dkg_participants ::
    "text_env \<Rightarrow> ('id, 'kp, 'pkp) dkg_group_codec \<Rightarrow> ('id, public_key) fmap \<Rightarrow> 'pkp \<Rightarrow>
     error + (string, group_member) fmap" where
  "dkg_participants te gk pubkey_map public_key_package =
     tryr (collect_results (map (\<lambda>identifier.
         tryr (ok_or (fmlookup pubkey_map identifier) (Eyre ''missing pubkey'')) (\<lambda>pubkey.
         Inr (hex_encode te (gk_identifier_bytes gk identifier),
           \<lparr>gm_identifier = gk_identifier_bytes gk identifier, gm_pubkey = pubkey\<rparr>)))
       (gk_share_ids gk public_key_package))) (\<lambda>pairs.
     Inr (fold (\<lambda>(h, p). fmupd h p) pairs fmempty))"

definition dkg_store ::
    "'w cli_env \<Rightarrow> ('id, 'kp, 'pkp) dkg_group_codec \<Rightarrow> dkg_command \<Rightarrow> 'kp \<Rightarrow> 'pkp \<Rightarrow> (string, group_member) fmap \<Rightarrow>
     ('w machine, error, unit) io" where
  "dkg_store env gk a key_package public_key_package participants =
     try_io (lift_io (ok_or (gk_key_package_bytes gk key_package) (Parse_Error ''postcard''))) (\<lambda>kp.
     try_io (lift_io (ok_or (gk_public_key_package_bytes gk public_key_package) (Parse_Error ''postcard''))) (\<lambda>pkp.
     try_io (config_read env (dk_config a)) (\<lambda>config.
     try_io (lift_io (map_err Frost_Error (gk_verifying_key gk public_key_package))) (\<lambda>key.
     let config = config\<lparr>cf_group := fmupd (hex_encode (ce_text env) key)
         \<lparr>gc_description = dk_description a, gc_ciphersuite = gk_id gk, gc_public_key_package = pkp,
          gc_key_package = kp, gc_server_url = Some (dk_server_url a), gc_participant = participants\<rparr> (cf_group config)\<rparr> in
     try_io (config_write env config) (\<lambda>_.
     try_io (lift_io (ok_or (cf_path config) (Panic ''should not be None''))) (\<lambda>p.
     eprintln (''Group created; information written to '' @ p)))))))"

definition dkg_for_ciphersuite ::
    "('w, 'h, 't, 'rng) cmd_env \<Rightarrow> ('id::linorder, 'rng2, 's1, 's2, 'p1, 'p2, 'kp, 'pkp) dkg_ops \<Rightarrow>
     ('id, 'p1, 'p2, 'kp, 'pkp) dkg_codec \<Rightarrow> ('id, 'p1, 'p2) dkg_http_codec \<Rightarrow> ('id, 'kp, 'pkp) dkg_group_codec \<Rightarrow>
     'rng2 \<Rightarrow> dkg_command \<Rightarrow> ('w machine, error, unit) iop" where
  "dkg_for_ciphersuite me ops dc hc gk rng a =
     try_iop (run_io (config_read (me_cli me) (dk_config a))) (\<lambda>config.
     try_iop (run_io (lift_io (parse_server me (dk_server_url a)))) (\<lambda>url.
     try_iop (run_io (lift_io (own_key config))) (\<lambda>key.
     try_iop (run_io (lift_io (read_pubkeys (me_text me) (dk_participants a)))) (\<lambda>participants.
     try_iop (run_io (lift_io (dkg_args_of config key participants (dk_threshold a) url))) (\<lambda>args.
     try_iop (run_dkg (cli_for_processed_args (me_text me) (me_http me) ops dc hc args rng))
       (\<lambda>(key_package, public_key_package, pubkey_map).
     try_iop (run_io (lift_io (dkg_participants (me_text me) gk (reverse_map (me_http me) pubkey_map) public_key_package)))
       (\<lambda>participants.
     run_io (dkg_store (me_cli me) gk a key_package public_key_package participants))))))))"

definition dkg_cmd ::
    "(dkg_command \<Rightarrow> ('w machine, error, unit) iop) \<Rightarrow> (dkg_command \<Rightarrow> ('w machine, error, unit) iop) \<Rightarrow>
     command \<Rightarrow> ('w machine, error, unit) iop" where
  "dkg_cmd ed25519 redpallas args =
     (case args of
        Dkg a \<Rightarrow>
          if dk_ciphersuite a = ''ed25519'' then ed25519 a
          else if dk_ciphersuite a = ''redpallas'' then redpallas a
          else run_io (fail_io (Eyre ''unsupported ciphersuite''))
      | _ \<Rightarrow> run_io invalid_command)"

section \<open>The program\<close>

text \<open>The instances of the commands for the two ciphersuites.\<close>

record 'w suite =
  su_dealer :: "dealer_command \<Rightarrow> ('w machine, error, unit) io"
  su_dkg :: "dkg_command \<Rightarrow> ('w machine, error, unit) iop"
  su_coordinator :: "coordinator_command \<Rightarrow> ('w machine, error, unit) iop"
  su_participant :: "participant_command \<Rightarrow> ('w machine, error, unit) iop"

definition client_main ::
    "('w, 'h, 't, 'rng) cmd_env \<Rightarrow> 'w suite \<Rightarrow> 'w suite \<Rightarrow> command \<Rightarrow> ('w machine, error, unit) iop" where
  "client_main me ed25519 redpallas args =
     (case args of
        TrustedDealer _ \<Rightarrow> run_io (trusted_dealer_cmd (su_dealer ed25519) (su_dealer redpallas) args)
      | Dkg _ \<Rightarrow> dkg_cmd (su_dkg ed25519) (su_dkg redpallas) args
      | Sessions _ \<Rightarrow> run_io (sessions_cmd me args)
      | CoordinatorCmd _ \<Rightarrow> coordinator_cmd me (su_coordinator ed25519) (su_coordinator redpallas) args
      | ParticipantCmd _ \<Rightarrow> participant_cmd me (su_participant ed25519) (su_participant redpallas) args
      | _ \<Rightarrow> (case config_cmd (me_cli me) args of Some f \<Rightarrow> run_io f | None \<Rightarrow> run_io invalid_command))"

end
