(* ===== verification/Command_Examples.thy ===== *)
theory Command_Examples
  imports Commands Http_Examples Contacts_Props
begin

text \<open>
  Machines on which the commands that talk to the server run: the file \<open>/p\<close> holds a configuration,
  the world is a script of replies, and every URL has the same host and port.
\<close>

definition command_cli :: "config \<Rightarrow> config \<Rightarrow> 'w cli_env" where
  "command_cli before after = \<lparr>ce_text = ex_text, ce_config_dir = None,
     ce_toml_print = (\<lambda>c. if c\<lparr>cf_path := None\<rparr> = after then Some ''d'' else None),
     ce_toml_parse = (\<lambda>s. if s = ''a'' then Some before else if s = ''d'' then Some after else None),
     ce_tmp = (\<lambda>d. ''/t''), ce_contact_bytes = (\<lambda>c. None), ce_contact_of_bytes = (\<lambda>b. None),
     ce_bech32_encode = (\<lambda>h b. None), ce_bech32_decode = (\<lambda>s. None),
     ce_keypair = (\<lambda>w. (None, w)), ce_ed25519_id = ''e'', ce_redpallas_id = ''r'',
     ce_key_package = (\<lambda>_ _. None), ce_public_key_package = (\<lambda>_ _. None)\<rparr>"

definition command_env :: "config \<Rightarrow> config \<Rightarrow> (http_reply list, unit, unit, unit) cmd_env" where
  "command_env before after = \<lparr>me_cli = command_cli before after, me_http = ex_http,
     me_parse_url = (\<lambda>_. Some (Some ''::1'', 443))\<rparr>"

definition command_machine :: "string list \<Rightarrow> 'w \<Rightarrow> 'w machine" where
  "command_machine lines w = (ex_machine w)\<lparr>mc_console := \<lparr>co_input = lines, co_output = [],
     co_files = fmupd ''/p'' (as_bytes ''a'') fmempty\<rparr>\<rparr>"

lemma command_env_simps [simp]:
  "me_cli (command_env b c) = command_cli b c" "me_http (command_env b c) = ex_http"
  "parse_server (command_env b c) u = Inr (Some ''::1'', 443)" "ce_text (command_cli b c) = ex_text"
  by (simp_all add: command_env_def command_cli_def parse_server_def)

lemma command_machine_simps [simp]:
  "mc_world (command_machine lines w) = w" "mc_console (command_machine lines w) =
    \<lparr>co_input = lines, co_output = [], co_files = fmupd ''/p'' (as_bytes ''a'') fmempty\<rparr>"
  "mc_dirs (command_machine lines w) = {|''/''|}" "mc_space (command_machine lines w) = 100"
  "resolve (command_machine lines w) ''p'' = ''/p''"
  by (simp_all add: command_machine_def ex_machine_def path_eval)

lemma command_config:
  "config_read (command_cli b c) (Some ''p'') (command_machine lines w) =
     (Inr (b\<lparr>cf_path := Some ''p''\<rparr>), command_machine lines w)"
  by (simp add: config_read_def path_exists_def is_dir_def fs_read_def try_io_def parse_path_def)
    (simp add: command_cli_def)

lemma command_group: "group_of (c\<lparr>cf_path := p\<rparr>) g = group_of c g"
  "own_key (c\<lparr>cf_path := p\<rparr>) = own_key c"
  by (simp_all add: group_of_def own_key_def)

end
