(* ===== verification/Coordinator_Command_Props.thy ===== *)
theory Coordinator_Command_Props
  imports Command_Examples Coordinator_Props
begin

text \<open>
  The command \<open>coordinator\<close>: whose shares its signatures are made of, and where they go.
\<close>

section \<open>What reading the inputs leaves alone\<close>

text \<open>The files are the same, and the console shows more at most.\<close>

definition shows_from :: "console \<Rightarrow> console \<Rightarrow> bool" where
  "shows_from c c' \<longleftrightarrow> co_files c' = co_files c \<and> (\<exists>lines. co_output c' = co_output c @ lines)"

lemma shows_from_refl [simp]: "shows_from c c"
  by (simp add: shows_from_def)

lemma keeps_shows [inv_intros]:
  "keeps (shows_from c) read_line"
  "keeps (shows_from c) (writeln s)"
  "keeps (shows_from c) (read_file p)"
  by (auto simp: shows_from_def read_line_def writeln_def read_file_def keeps_def split: list.splits)

lemma keeps_inputs [inv_intros]:
  "keeps (shows_from c) (read_hex te)"
  "keeps (shows_from c) (read_message te p)"
  "keeps (shows_from c) (read_aux_message te p)"
  by (auto simp: read_hex_def read_message_def read_aux_message_def intro!: inv_intros)

lemma keeps_messages [inv_intros]:
  "keeps (shows_from c) (read_messages te ps)"
  "keeps (shows_from c) (read_randomizers te ac rs)"
  by (auto simp: read_messages_def read_randomizers_def intro!: inv_intros)

lemma read_inputs_Inr:
  fixes m :: "'w machine"
  assumes "read_inputs te ac pkp n a m = (Inr pargs, m')"
  shows "m' = m\<lparr>mc_console := mc_console m'\<rparr>" and "shows_from (mc_console m) (mc_console m')"
    and "pa_num_signers pargs = of_nat n" and "pa_public_key_package pargs = pkp"
    and "length (pa_messages pargs) = (if cc_message a = [] then 1 else length (cc_message a))"
    and "length (pa_randomizers pargs) = length (cc_randomizer a)"
proof -
  let ?f = "try_io (read_messages te (map (input_path m) (cc_message a))) (\<lambda>messages.
     try_io (read_randomizers te ac (map (input_path m) (cc_randomizer a))) (\<lambda>randomizers.
     try_io (case cc_aux_message a of
         None \<Rightarrow> ret_io None
       | Some filename \<Rightarrow> try_io (read_aux_message te (input_path m filename)) (\<lambda>b. ret_io (Some b))) (\<lambda>aux_msg.
     ret_io \<lparr>pa_num_signers = of_nat n, pa_public_key_package = pkp,
       pa_messages = messages, pa_randomizers = randomizers, pa_aux_msg = aux_msg\<rparr>)))"
  have k: "keeps (shows_from (mc_console m)) ?f"
    by (intro inv_intros) (auto split: option.split intro!: inv_intros)
  from assms obtain c where c: "?f (mc_console m) = (Inr pargs, c)" "m' = m\<lparr>mc_console := c\<rparr>"
    by (auto simp: read_inputs_def on_console_def split: prod.splits)
  then show "m' = m\<lparr>mc_console := mc_console m'\<rparr>" "shows_from (mc_console m) (mc_console m')"
    using keepsD[OF k shows_from_refl c(1)] by simp_all
  from c(1) show "pa_num_signers pargs = of_nat n" "pa_public_key_package pargs = pkp"
    "length (pa_messages pargs) = (if cc_message a = [] then 1 else length (cc_message a))"
    "length (pa_randomizers pargs) = length (cc_randomizer a)"
    by (auto simp: try_io_eq_Inr read_randomizers_def dest: read_messages_count map_io_length split: if_splits)
qed

section \<open>Signers\<close>

text \<open>A participant of the group with this key and identifier.\<close>

definition named_member :: "(bytes \<Rightarrow> string + 'id) \<Rightarrow> group_config \<Rightarrow> public_key \<Rightarrow> 'id \<Rightarrow> bool" where
  "named_member de grp p i \<longleftrightarrow>
     (\<exists>h member. fmlookup (gc_participant grp) h = Some member \<and> gm_pubkey member = p \<and> de (gm_identifier member) = Inr i)"

lemma participant_by_pubkey_Inr:
  assumes "participant_by_pubkey grp p = Inr member"
  shows "gm_pubkey member = p \<and> (\<exists>h. fmlookup (gc_participant grp) h = Some member)"
proof -
  from assms have f: "List.find (\<lambda>q. gm_pubkey q = p) (map snd (btree_items (gc_participant grp))) = Some member"
    by (simp add: participant_by_pubkey_def)
  then show ?thesis by (auto simp: find_Some_iff intro!: exI btree_items_nth)
qed

lemma fold_pairs_lookup:
  "fmlookup (fold (\<lambda>(p, i). fmupd p i) xs M) p = Some i \<Longrightarrow> (p, i) \<in> set xs \<or> fmlookup M p = Some i"
  by (induction xs arbitrary: M) (force split: if_splits)+

lemma read_signers_Inr:
  assumes "read_signers te de grp ss = Inr signers" and "fmlookup signers p = Some i"
  shows "named_member de grp p i \<and> (\<exists>s\<in>set ss. hex_decode te s = Some (pk_bytes p))"
proof -
  let ?f = "\<lambda>s. tryr (ok_or (hex_decode te s) Hex_Error) (\<lambda>b.
         tryr (participant_by_pubkey grp (PublicKey b)) (\<lambda>contact.
         tryr (map_err Frost_Error (de (gm_identifier contact))) (\<lambda>identifier.
         Inr (PublicKey b, identifier))))"
  from assms(1) obtain pairs where pairs: "map ?f ss = map Inr pairs" and
    s: "signers = fold (\<lambda>(p, i). fmupd p i) pairs fmempty"
    by (auto simp: read_signers_def collect_results_eq_Inr)
  from fold_pairs_lookup[of pairs fmempty p i] assms(2) s have "(p, i) \<in> set pairs" by simp
  then have "Inr (p, i) \<in> set (map Inr pairs)" by force
  then have "Inr (p, i) \<in> set (map ?f ss)" by (simp only: pairs)
  then obtain s where s: "s \<in> set ss" and f: "Inr (p, i) = ?f s" by (simp only: set_map) (elim imageE)
  from f[symmetric] obtain b member where "hex_decode te s = Some b" "participant_by_pubkey grp p = Inr member"
    "de (gm_identifier member) = Inr i" "p = PublicKey b" by auto
  with s participant_by_pubkey_Inr[of grp p member] show ?thesis
    unfolding named_member_def by (intro conjI bexI[of _ s]) auto
qed

section \<open>Outputs\<close>

text \<open>Where the outputs go: a name that is empty or a dash is the standard output.\<close>

definition to_stdout :: "string \<Rightarrow> bool" where
  "to_stdout name \<longleftrightarrow> name = [] \<or> name = ''-''"

definition put_outputs :: "(string \<Rightarrow> string) \<Rightarrow> (bytes \<times> string) list \<Rightarrow> (string, bytes) fmap \<Rightarrow> (string, bytes) fmap" where
  "put_outputs at outs fs = fold (\<lambda>(b, name) fs. if to_stdout name then fs else fmupd (at name) b fs) outs fs"

definition shown_outputs :: "text_env \<Rightarrow> (bytes \<times> string) list \<Rightarrow> string list" where
  "shown_outputs te outs = map (hex_encode te \<circ> fst) (filter (to_stdout \<circ> snd) outs)"

lemma write_signature_Inr:
  fixes m :: "'w machine"
  assumes "write_signature te ser (sig, name) m = (Inr (), m')"
  shows "\<exists>b. ser sig = Inr b \<and> files m' = put_outputs (resolve m) [(b, name)] (files m) \<and>
    co_output (mc_console m') = co_output (mc_console m) @ shown_outputs te [(b, name)] \<and> resolve m' = resolve m"
proof -
  from assms obtain b where b: "ser sig = Inr b" and
    w: "(if to_stdout name then on_console (writeln (hex_encode te b))
      else try_io (fs_write name b) (\<lambda>_. eprintln (''Raw signature written to '' @ name))) m = (Inr (), m')"
    by (auto simp: write_signature_def to_stdout_def try_io_eq_Inr simp del: try_io_lift)
  show ?thesis
  proof (cases "to_stdout name")
    case True
    with w have "m' = m\<lparr>mc_console := (mc_console m)\<lparr>co_output := co_output (mc_console m) @ [hex_encode te b]\<rparr>\<rparr>"
      by (simp add: on_console_def writeln_def)
    with b True show ?thesis
      by (auto simp: put_outputs_def shown_outputs_def resolve_def current_dir_def fun_eq_iff)
  next
    case False
    with w obtain m1 where m1: "fs_write name b m = (Inr (), m1)"
      "eprintln (''Raw signature written to '' @ name) m1 = (Inr (), m')" by (auto simp: try_io_eq_Inr)
    note f = fs_write_Inr[OF m1(1)]
    have "files m' = files m1" "co_output (mc_console m') = co_output (mc_console m1)" "mc_cwd m' = mc_cwd m1"
      using m1(2) by (auto simp: eprintln_def eprint_def)
    with f b False show ?thesis
      by (auto simp: put_outputs_def shown_outputs_def same_rest_def resolve_def current_dir_def fun_eq_iff)
  qed
qed

lemma write_signatures_Inr:
  fixes m :: "'w machine"
  assumes "for_io sfs (write_signature te ser) m = (Inr (), m')"
  shows "\<exists>outs. map (\<lambda>(sig, name). (ser sig, name)) sfs = map (\<lambda>(b, name). (Inr b, name)) outs \<and>
    files m' = put_outputs (resolve m) outs (files m) \<and>
    co_output (mc_console m') = co_output (mc_console m) @ shown_outputs te outs"
  using assms
proof (induction sfs arbitrary: m)
  case Nil
  then show ?case by (intro exI[of _ "[]"]) (simp add: put_outputs_def shown_outputs_def)
next
  case (Cons sf sfs)
  obtain sig name where sf: "sf = (sig, name)" by (cases sf)
  from Cons.prems sf obtain m1 where m1: "write_signature te ser (sig, name) m = (Inr (), m1)"
    "for_io sfs (write_signature te ser) m1 = (Inr (), m')" by (auto simp: try_io_eq_Inr)
  from write_signature_Inr[OF m1(1)] obtain b where b: "ser sig = Inr b" "resolve m1 = resolve m"
    "files m1 = put_outputs (resolve m) [(b, name)] (files m)"
    "co_output (mc_console m1) = co_output (mc_console m) @ shown_outputs te [(b, name)]" by blast
  from Cons.IH[OF m1(2)] obtain outs where "map (\<lambda>(sig, name). (ser sig, name)) sfs = map (\<lambda>(b, name). (Inr b, name)) outs"
    "files m' = put_outputs (resolve m1) outs (files m1)"
    "co_output (mc_console m') = co_output (mc_console m1) @ shown_outputs te outs" by blast
  with b sf show ?case
    by (intro exI[of _ "(b, name) # outs"]) (simp add: put_outputs_def shown_outputs_def)
qed

lemma zip_outputs:
  assumes "length xs = length ys" and "map (\<lambda>(x, y). (f x, y)) (zip xs ys) = map (\<lambda>(b, y). (Inr b, y)) outs"
  shows "map f xs = map (Inr \<circ> fst) outs" and "map snd outs = ys"
proof -
  have "map f xs = map (Inr \<circ> fst) outs \<and> map snd outs = ys"
    using assms
  proof (induction xs ys arbitrary: outs rule: list_induct2)
    case (Cons x xs y ys)
    then obtain b outs' where "outs = (b, y) # outs'" "f x = Inr b" by (cases outs) auto
    with Cons show ?case by simp
  qed simp
  then show "map f xs = map (Inr \<circ> fst) outs" "map snd outs = ys" by blast+
qed

section \<open>The command\<close>


definition ex_group :: group_config where
  "ex_group = \<lparr>gc_description = [], gc_ciphersuite = ''e'', gc_public_key_package = [], gc_key_package = [],
     gc_server_url = Some ''s'', gc_participant = fmupd ''x'' \<lparr>gm_identifier = [11], gm_pubkey = PublicKey [1]\<rparr> fmempty\<rparr>"

definition ex_coordinator_config :: config where
  "ex_coordinator_config = config_default\<lparr>cf_communication_key := Some \<lparr>ck_privkey = ex_key32, ck_pubkey = PublicKey [9]\<rparr>,
     cf_group := fmupd ''g'' ex_group fmempty\<rparr>"

definition ex_coordinator_command :: coordinator_command where
  "ex_coordinator_command = \<lparr>cc_config = Some ''p'', cc_server_url = None, cc_group = ''g'',
     cc_signers = [[CHR 0x01]], cc_message = [], cc_randomizer = [], cc_aux_message = None, cc_signature = []\<rparr>"

definition ex_coordinator_cmd where
  "ex_coordinator_cmd = coordinator_for_ciphersuite (command_env ex_coordinator_config ex_coordinator_config)
     ex_ag ex_signing_codec ex_args_codec (\<lambda>b. Some ()) (\<lambda>b. Inr (unat (hd b))) (\<lambda>s. Inr (fst s))
     ex_coordinator_command (command_machine [''B''] ex_coordinator_world)"

lemma ex_coordinator_cmd: "\<exists>m'. ex_coordinator_cmd = Some (Inr (), m')"
proof -
  let ?me = "command_env ex_coordinator_config ex_coordinator_config"
  let ?m = "command_machine [''B''] ex_coordinator_world"
  let ?c = "ex_coordinator_config\<lparr>cf_path := Some ''p''\<rparr>"
  have a: "cc_config ex_coordinator_command = Some ''p''" "cc_group ex_coordinator_command = ''g''"
    "cc_server_url ex_coordinator_command = None" "cc_signers ex_coordinator_command = [[CHR 0x01]]"
    "cc_signature ex_coordinator_command = []" by (simp_all add: ex_coordinator_command_def)
  have g: "group_of ?c ''g'' = Inr ex_group" and s: "server_of None ex_group = Inr ''s''"
    and args: "coordinator_http_args_of ?c (fmupd (PublicKey [1]) 11 fmempty) (Some ''::1'', 443) = Inr ex_coordinator_args"
    by (simp_all add: group_of_def ex_coordinator_config_def server_of_def ex_group_def coordinator_http_args_of_def
        host_of_def own_key_def ex_coordinator_args_def)
  have sg: "read_signers ex_text (\<lambda>b. Inr (unat (hd b))) ex_group [[CHR 0x01]] = Inr (fmupd (PublicKey [1]) 11 fmempty)"
    by (simp add: read_signers_def participant_by_pubkey_def ex_group_def ex_text_def btree_items_def sorted_list_of_fset.rep_eq)
  obtain m1 where i: "read_inputs ex_text ex_args_codec () (Suc 0) ex_coordinator_command ?m = (Inr ex_pargs, m1)"
    and w: "mc_world m1 = ex_coordinator_world"
    by (simp add: read_inputs_def on_console_def ex_coordinator_command_def read_messages_def writeln_def read_hex_def
        read_line_def read_randomizers_def try_io_def trim_def is_space_def ex_text_def ex_pargs_def)
  obtain s' where r: "ex_coordinator_run = Some (Inr [([0x42], 1)], s')" using ex_coordinator_run by blast
  have run: "run_coordinator ?me ex_ag ex_signing_codec ex_coordinator_args ex_pargs m1 =
      Some (Inr [([0x42], 1)], m1\<lparr>mc_world := hb_world s'\<rparr>)"
    using r by (simp add: run_coordinator_def w ex_coordinator_run_def)
  note steps = command_config g s args sg i run
  obtain m' where m': "write_signature ex_text (\<lambda>s. Inr (fst s)) (([0x42], Suc 0), ''-'') (m1\<lparr>mc_world := hb_world s'\<rparr>)
      = (Inr (), m')" by (simp add: write_signature_def on_console_def writeln_def)
  have "ex_coordinator_cmd = Some (Inr (), m')"
    unfolding ex_coordinator_cmd_def coordinator_for_ciphersuite_def a
    by (simp add: try_iop_def steps a m')
  then show ?thesis by (rule exI)
qed


end
