(* ===== verification/Dkg_Command_Props.thy ===== *)
theory Dkg_Command_Props
  imports Command_Examples Dkg_Client_Props
begin

text \<open>
  The command \<open>dkg\<close>: which keys it stores in the configuration file, and for whom.
\<close>

section \<open>The peers of a run\<close>

text \<open>The public keys of a session do not change.\<close>

definition round2_pks :: "(public_key, 'id) fmap \<Rightarrow> ('id, 'p1, 'p2) dkg_session_state \<Rightarrow> bool" where
  "round2_pks pks st \<longleftrightarrow> (\<exists>r1 r2. st = WaitingForRound2Packages pks r1 r2) \<or> (\<exists>r2. st = Round2PackagesReady pks r2)"

lemma keeps_round2_pks: "keeps (round2_pks pks) (dkg_recv de1 deb de2 i m)"
  unfolding keeps_def
  by (auto simp: round2_pks_def dkg_recv_def Let_def split: option.splits if_splits)

lemma dkg_round2_pks:
  assumes "round2_pks pks (hs_state s)"
    and "dkg_http_get_round2_packages he args dc ps s = Some (Inr r2, s')"
  shows "round2_pks pks (hs_state s')"
proof -
  let ?send = "for_others he args (\<lambda>pubkey identifier.
    try_io (lift_io (ok_or (fmlookup ps identifier) (Eyre ''must have Round 2 Package for the given identifier'')))
      (\<lambda>package. send_encrypted he (Some pubkey) [pubkey] (dkg_ser2 dc package)))"
  let ?poll = "poll_until (dkg_http_round he dc) (\<lambda>(s, _). has_round2_packages (hs_state s))"
  from assms(2) obtain c x1 s2 c2 s3 s4 where
    sd: "?send (s, c) = (Inr (), x1)" and p: "?poll x1 = Some (Inr (), (s2, c2))" and
    cl: "(if dp_participants args \<noteq> [] then http_close_session he else ret_io ()) (s2\<lparr>hb_cipher := Some c2\<rparr>)
      = (Inr (), s3)" and lo: "http_logout he s3 = (Inr (), s4)" and s': "s' = s4"
    unfolding dkg_http_get_round2_packages_def try_iop_Some_Inr with_cipher_Inr run_io_simps
    by (force simp: try_iop_Some_Inr simp del: try_iop_simps)
  have "frames (\<lambda>s. hs_state (fst s)) ?send" by (intro frame_intros)
  from framesD[OF this sd] assms(1) have "round2_pks pks (hs_state (fst x1))" by simp
  from poll_dkg(1)[OF keeps_round2_pks p this] have r: "round2_pks pks (hs_state s2)" by simp
  have "frames hs_state (if dp_participants args \<noteq> [] then http_close_session he else ret_io ())"
    by (auto intro: frame_intros)
  from framesD[OF this cl] framesD[OF frames_logout(3) lo] r s' show ?thesis by simp
qed

lemma collect_ok_or:
  "collect_results (map (\<lambda>x. ok_or (f x) e) xs) = Inr ys \<Longrightarrow> x \<in> set xs \<Longrightarrow> \<exists>y. f x = Some y"
  using iffD1[OF collect_results_map_ex[of "\<lambda>x. ok_or (f x) e"] exI] by (fastforce simp: is_ok_iff)

lemma dkg_round1_peers:
  assumes "dkg_http_get_round1_packages he args dc p s = Some (Inr r1, s')" and "enumerates (he_order he)"
    and "dp_participant_pubkey_getter args = Some getter"
  shows "\<forall>q. q |\<in>| fmdom (hs_pubkeys s) \<longrightarrow> (\<exists>q'. getter q = Some q')"
proof -
  from assms(1) obtain s1 where "dkg_http_cipher he args s = (Inr (), s1)"
    unfolding dkg_http_get_round1_packages_def try_iop_Some_Inr run_io_simps by auto
  with assms(3) have "\<forall>q\<in>set (keys_of he (hs_pubkeys s)). \<exists>q'. getter q = Some q'"
    by (auto simp: dkg_http_cipher_def try_io_eq_Inr split: option.splits simp del: try_io_lift dest: collect_ok_or)
  with assms(2) show ?thesis by simp
qed

lemma dkg_http_peers:
  assumes run: "dkg_run_comms ops (dkg_http_comms he args dc) min_signers rng (dkg_http_new args w) = Some (Inr (kp, pkp, m), s')"
    and ord: "enumerates (he_order he)" and get: "dp_participant_pubkey_getter args = Some getter"
  shows "(\<exists>sid pubkeys. derive_all he dc sid pubkeys = Inr m) \<and> (\<forall>q i. fmlookup m q = Some i \<longrightarrow> (\<exists>q'. getter q = Some q'))"
proof -
  from dkg_run_comms_Inr[OF run] obtain i n s1 p1 r1 s2 ps r2 where
    j: "dkg_http_join he args dc (dkg_http_new args w) = (Inr (i, n), s1)" and
    g1: "dkg_http_get_round1_packages he args dc p1 s1 = Some (Inr r1, s2)" and
    g2: "dkg_http_get_round2_packages he args dc ps s2 = Some (Inr r2, s')" and
    m: "pubkey_identifier_map (hs_state s') = Inr m"
    unfolding dkg_doit_def Let_def
    by (auto simp: try_iop_Some_Inr case_prod_beta dkg_http_comms_def simp del: try_iop_simps)
  have st: "hs_state (dkg_http_new args w) = dkg_default" by (simp add: dkg_http_new_def)
  note jn = dkg_http_join_Inr[OF j st]
  from jn(4) have "dkg_for (hs_pubkeys s1) (hs_state s1)" by (simp add: dkg_for_def)
  from dkg_round1[OF this g1] have "round2_pks (hs_pubkeys s1) (hs_state s2)" by (auto simp: round2_pks_def)
  from dkg_round2_pks[OF this g2] m have "m = hs_pubkeys s1" by (auto simp: round2_pks_def)
  with jn(1) dkg_round1_peers[OF g1 ord get] show ?thesis by (auto simp: fmdom_fmlookup)
qed

section \<open>The participants of the group\<close>

lemma reverse_map_lookup:
  assumes "fmlookup (reverse_map he m) i = Some k"
  shows "fmlookup m k = Some i"
proof -
  have "fmlookup (fold (\<lambda>k. case fmlookup m k of None \<Rightarrow> id | Some i \<Rightarrow> fmupd i k) ks M) i = Some k \<Longrightarrow>
      fmlookup m k = Some i \<or> fmlookup M i = Some k" for ks M
    by (induction ks arbitrary: M) (force split: option.splits if_splits)+
  from this[of "keys_of he m" fmempty] assms show ?thesis by (simp add: reverse_map_def)
qed

text \<open>The participants stored are those with a share of the group key, each with the key of the run.\<close>

definition run_members ::
    "text_env \<Rightarrow> ('id, 'kp, 'pkp) dkg_group_codec \<Rightarrow> (public_key, 'id) fmap \<Rightarrow> 'pkp \<Rightarrow> (string, group_member) fmap \<Rightarrow> bool" where
  "run_members te gk pks pkp ms \<longleftrightarrow>
     (\<forall>i\<in>set (gk_share_ids gk pkp). hex_encode te (gk_identifier_bytes gk i) |\<in>| fmdom ms) \<and>
     (\<forall>h member. fmlookup ms h = Some member \<longrightarrow>
        (\<exists>i\<in>set (gk_share_ids gk pkp). h = hex_encode te (gk_identifier_bytes gk i) \<and>
           gm_identifier member = gk_identifier_bytes gk i \<and> fmlookup pks (gm_pubkey member) = Some i))"

lemma fold_members:
  "fmdom (fold (\<lambda>(h, p). fmupd h p) xs M) = fmdom M |\<union>| fset_of_list (map fst xs) \<and>
   (fmlookup (fold (\<lambda>(h, p). fmupd h p) xs M) h = Some p \<longrightarrow> (h, p) \<in> set xs \<or> fmlookup M h = Some p)"
proof (induction xs arbitrary: M)
  case (Cons x xs)
  obtain a b where x: "x = (a, b)" by (cases x)
  from Cons.IH[of "fmupd a b M"] x show ?case by (auto split: if_splits)
qed simp

lemma dkg_participants_Inr:
  assumes "dkg_participants te gk (reverse_map he pks) pkp = Inr ms"
  shows "run_members te gk pks pkp ms"
proof -
  let ?f = "\<lambda>identifier. tryr (ok_or (fmlookup (reverse_map he pks) identifier) (Eyre ''missing pubkey'')) (\<lambda>pubkey.
     Inr (hex_encode te (gk_identifier_bytes gk identifier),
           \<lparr>gm_identifier = gk_identifier_bytes gk identifier, gm_pubkey = pubkey\<rparr>))"
  from assms obtain pairs where pairs: "map ?f (gk_share_ids gk pkp) = map Inr pairs" and
    m: "ms = fold (\<lambda>(h, p). fmupd h p) pairs fmempty"
    by (auto simp: dkg_participants_def collect_results_eq_Inr)
  have at: "\<exists>i\<in>set (gk_share_ids gk pkp). ?f i = Inr x" if "x \<in> set pairs" for x
  proof -
    from that have "Inr x \<in> set (map ?f (gk_share_ids gk pkp))" unfolding pairs by simp
    then show ?thesis by (simp only: set_map) (elim imageE, rule bexI, rule sym)
  qed
  have "hex_encode te (gk_identifier_bytes gk i) \<in> fst ` set pairs" if i: "i \<in> set (gk_share_ids gk pkp)" for i
  proof -
    from i have "?f i \<in> set (map ?f (gk_share_ids gk pkp))" by simp
    then obtain x where x: "x \<in> set pairs" "?f i = Inr x" unfolding pairs by auto
    then show ?thesis by (auto intro!: image_eqI[of _ _ x])
  qed
  moreover have "\<exists>i\<in>set (gk_share_ids gk pkp). h = hex_encode te (gk_identifier_bytes gk i) \<and>
      gm_identifier member = gk_identifier_bytes gk i \<and> fmlookup pks (gm_pubkey member) = Some i"
    if "fmlookup ms h = Some member" for h member
  proof -
    from that fold_members[of pairs fmempty h member] have "(h, member) \<in> set pairs" by (simp add: m)
    from at[OF this] show ?thesis by (auto dest: reverse_map_lookup)
  qed
  ultimately show ?thesis
    using fold_members[of pairs fmempty] by (auto simp: run_members_def m fset_of_list.rep_eq)
qed

section \<open>The command\<close>

lemma run_dkg_http:
  assumes "run_dkg (cli_for_processed_args te he ops dc hc args rng) m = Some (Inr (kp, pkp, pks), m')"
    and "\<not> dp_cli args" and "dp_http args"
  shows "\<exists>s'. dkg_run_comms ops (dkg_http_comms he args hc) (dp_min_signers args) rng (dkg_http_new args (mc_world m)) =
      Some (Inr (kp, pkp, pks), s') \<and> m' = m\<lparr>mc_world := hb_world s'\<rparr>"
  using assms by (auto simp: run_dkg_def cli_for_processed_args_def split: option.splits prod.splits)

lemma dkg_store_Inr:
  assumes run: "dkg_store env gk a kp pkp ms m = (Inr (), m')" and e: "toml_ok env"
    and p: "parse_path env (dk_config a) = Inr p"
  shows "\<exists>c b kpb pkpb key. config_at env (files m) (resolve m p) = Some c \<and>
    gk_key_package_bytes gk kp = Some kpb \<and> gk_public_key_package_bytes gk pkp = Some pkpb \<and> gk_verifying_key gk pkp = Inr key \<and>
    files m' = fmupd (resolve m p) b (files m) \<and>
    config_at env (files m') (resolve m p) = Some (c\<lparr>cf_path := None, cf_group := fmupd (hex_encode (ce_text env) key)
      \<lparr>gc_description = dk_description a, gc_ciphersuite = gk_id gk, gc_public_key_package = pkpb,
       gc_key_package = kpb, gc_server_url = Some (dk_server_url a), gc_participant = ms\<rparr> (cf_group c)\<rparr>)"
proof -
  from run obtain kpb pkpb config m0 key m1 where
    k: "gk_key_package_bytes gk kp = Some kpb" "gk_public_key_package_bytes gk pkp = Some pkpb"
      "gk_verifying_key gk pkp = Inr key" and
    c0: "config_read env (dk_config a) m = (Inr config, m0)" and
    w0: "config_write env (config\<lparr>cf_group := fmupd (hex_encode (ce_text env) key)
      \<lparr>gc_description = dk_description a, gc_ciphersuite = gk_id gk, gc_public_key_package = pkpb,
       gc_key_package = kpb, gc_server_url = Some (dk_server_url a), gc_participant = ms\<rparr> (cf_group config)\<rparr>) m0
      = (Inr (), m1)" (is "config_write env ?config m0 = _") and
    m': "files m' = files m1"
    unfolding dkg_store_def Let_def
    by (auto simp: try_io_eq_Inr eprintln_def eprint_def simp del: try_io_lift)
  note m0 = config_read_Inr(1)[OF c0]
  from config_read_Inr(2)[OF c0] p obtain c where c: "config_at env (files m) (resolve m p) = Some c"
    "config = c\<lparr>cf_path := Some p\<rparr>" by auto
  then have "cf_path ?config = Some p" by simp
  from config_write_cases(2)[OF w0[unfolded m0] e this] obtain b where
    "files m1 = fmupd (resolve m p) b (files m)" "config_at env (files m1) (resolve m p) = Some (?config\<lparr>cf_path := None\<rparr>)"
    by auto
  moreover have "?config\<lparr>cf_path := None\<rparr> = c\<lparr>cf_path := None, cf_group := fmupd (hex_encode (ce_text env) key)
      \<lparr>gc_description = dk_description a, gc_ciphersuite = gk_id gk, gc_public_key_package = pkpb,
       gc_key_package = kpb, gc_server_url = Some (dk_server_url a), gc_participant = ms\<rparr> (cf_group c)\<rparr>"
    by (simp add: c(2))
  ultimately show ?thesis using c(1) k m' by (intro exI conjI) simp_all
qed


definition ex_dkg_config :: config where
  "ex_dkg_config = config_default\<lparr>cf_communication_key := Some \<lparr>ck_privkey = ex_key32, ck_pubkey = PublicKey [1]\<rparr>,
     cf_contact := fmupd ''B'' \<lparr>ct_version = None, ct_name = ''B'', ct_pubkey = PublicKey [2]\<rparr> fmempty\<rparr>"

definition ex_dkg_members :: "(string, group_member) fmap" where
  "ex_dkg_members = fmupd (hex_encode ex_text [2]) \<lparr>gm_identifier = [2], gm_pubkey = PublicKey [2]\<rparr>
     (fmupd (hex_encode ex_text [1]) \<lparr>gm_identifier = [1], gm_pubkey = PublicKey [1]\<rparr> fmempty)"

definition ex_dkg_group :: group_config where
  "ex_dkg_group = \<lparr>gc_description = [], gc_ciphersuite = ''e'', gc_public_key_package = [1], gc_key_package = [5],
     gc_server_url = Some ''s'', gc_participant = ex_dkg_members\<rparr>"

definition ex_dkg_after :: config where
  "ex_dkg_after = ex_dkg_config\<lparr>cf_group := fmupd (hex_encode ex_text [71]) ex_dkg_group fmempty\<rparr>"

definition ex_dkg_command :: dkg_command where
  "ex_dkg_command = \<lparr>dk_config = Some ''p'', dk_description = [], dk_server_url = ''s'', dk_ciphersuite = ''ed25519'',
     dk_threshold = 2, dk_participants = [[CHR 0x01], [CHR 0x02]]\<rparr>"

definition ex_dkg_group_codec :: "(nat, nat, bool) dkg_group_codec" where
  "ex_dkg_group_codec = \<lparr>gk_id = ''e'', gk_key_package_bytes = (\<lambda>k. Some [of_nat k]),
     gk_public_key_package_bytes = (\<lambda>p. Some [1]), gk_verifying_key = (\<lambda>p. Inr [71]),
     gk_share_ids = (\<lambda>_. [1, 2]), gk_identifier_bytes = (\<lambda>i. [of_nat i])\<rparr>"

definition ex_dkg_cmd where
  "ex_dkg_cmd = dkg_for_ciphersuite (command_env ex_dkg_config ex_dkg_after) ex_dkg_ops ex_dkg_cli_codec ex_dkg_codec
     ex_dkg_group_codec 5 ex_dkg_command (command_machine [] ex_dkg_world)"

lemma ex_dkg_run_known:
  assumes "g (PublicKey [1]) = Some (PublicKey [1])" and "g (PublicKey [2]) = Some (PublicKey [2])"
  shows "\<exists>s'. dkg_run_comms ex_dkg_ops (dkg_http_comms ex_http (ex_dkg_args\<lparr>dp_participant_pubkey_getter := Some g\<rparr>) ex_dkg_codec)
      2 5 (dkg_http_new (ex_dkg_args\<lparr>dp_participant_pubkey_getter := Some g\<rparr>) ex_dkg_world) =
    Some (Inr (5, True, fmupd (PublicKey [2]) 2 (fmupd (PublicKey [1]) 1 fmempty)), s')"
  using assms
  by (simp add: ex_dkg_defs ex_dkg_world_def dkg_run_comms_def dkg_doit_def ex_dkg_ops_def
      dkg_http_get_round1_packages_def dkg_http_cipher_def for_others_def dkg_http_round_def dkg_recv_def
      dkg_http_get_round2_packages_def maybe_into_even_y_def poll_until.simps insert_commute ex_http_eval)

lemma command_toml: "toml_ok (command_cli b c)"
  by (auto simp: toml_ok_def command_cli_def split: if_splits)

lemma ex_dkg_cmd: "\<exists>m'. ex_dkg_cmd = Some (Inr (), m')"
proof -
  let ?me = "command_env ex_dkg_config ex_dkg_after"
  let ?env = "command_cli ex_dkg_config ex_dkg_after :: http_reply list cli_env"
  let ?c = "ex_dkg_config\<lparr>cf_path := Some ''p''\<rparr>"
  let ?g = "\<lambda>q. case contact_by_pubkey ?c q of Inr c \<Rightarrow> Some (ct_pubkey c) | Inl _ \<Rightarrow> None"
  let ?args = "ex_dkg_args\<lparr>dp_participant_pubkey_getter := Some ?g\<rparr>"
  let ?key = "\<lparr>ck_privkey = ex_key32, ck_pubkey = PublicKey [1]\<rparr>"
  have a: "dk_config ex_dkg_command = Some ''p''" "dk_threshold ex_dkg_command = 2"
    "dk_participants ex_dkg_command = [[CHR 0x01], [CHR 0x02]]" "dk_server_url ex_dkg_command = ''s''"
    "dk_description ex_dkg_command = []"
    by (simp_all add: ex_dkg_command_def)
  have key: "own_key ?c = Inr ?key" by (simp add: own_key_def ex_dkg_config_def)
  have pks: "read_pubkeys ex_text [[CHR 0x01], [CHR 0x02]] = Inr [PublicKey [1], PublicKey [2]]"
    by (simp add: read_pubkeys_def ex_text_def)
  have args: "dkg_args_of ?c ?key [PublicKey [1], PublicKey [2]] 2 (Some ''::1'', 443) = Inr ?args"
    by (simp add: dkg_args_of_def host_of_def ex_dkg_args_def)
  have known: "?g (PublicKey [1]) = Some (PublicKey [1])" "?g (PublicKey [2]) = Some (PublicKey [2])"
    by (simp_all add: contact_by_pubkey_def ex_dkg_config_def btree_items_def sorted_list_of_fset.rep_eq)
  from ex_dkg_run_known[OF known] obtain s' where s': "dkg_run_comms ex_dkg_ops (dkg_http_comms ex_http ?args ex_dkg_codec)
      2 5 (dkg_http_new ?args ex_dkg_world) = Some (Inr (5, True, fmupd (PublicKey [2]) 2 (fmupd (PublicKey [1]) 1 fmempty)), s')" by blast
  let ?m1 = "(command_machine [] ex_dkg_world)\<lparr>mc_world := hb_world s'\<rparr>"
  have m1: "?m1 = command_machine [] (hb_world s')" by (simp add: command_machine_def ex_machine_def)
  have da: "\<not> dp_cli ?args" "dp_http ?args" "dp_min_signers ?args = 2" by (simp_all add: ex_dkg_args_def)
  have run: "run_dkg (cli_for_processed_args ex_text ex_http ex_dkg_ops ex_dkg_cli_codec ex_dkg_codec ?args 5)
      (command_machine [] ex_dkg_world) =
      Some (Inr (5, True, fmupd (PublicKey [2]) 2 (fmupd (PublicKey [1]) 1 fmempty)), command_machine [] (hb_world s'))"
    unfolding m1[symmetric] by (simp add: run_dkg_def cli_for_processed_args_def da s')
  have ms: "dkg_participants ex_text ex_dkg_group_codec (reverse_map ex_http (fmupd (PublicKey [2]) 2 (fmupd (PublicKey [1]) 1 fmempty))) True
      = Inr ex_dkg_members"
    by (simp add: dkg_participants_def reverse_map_def insert_commute ex_dkg_group_codec_def ex_dkg_members_def)
  let ?m = "command_machine [] (hb_world s')"
  have t: "resolve ?m ''/t'' = ''/t''" "path_parent ''/t'' = Some ''/''" by (simp_all add: path_eval)
  have print: "ce_toml_print ?env (ex_dkg_after\<lparr>cf_path := Some ''p''\<rparr>) = Some ''d''"
    by (simp add: command_cli_def ex_dkg_after_def ex_dkg_config_def config_default_def)
  have tmp: "ce_tmp ?env ''/'' = ''/t''" by (simp add: command_cli_def)
  have "\<exists>m'. config_write ?env (ex_dkg_after\<lparr>cf_path := Some ''p''\<rparr>) ?m = (Inr (), m')"
    by (rule config_write_root[where p = "''p''", OF print _ _ _ _ tmp])
      (simp_all add: ex_parent t path_exists_def is_dir_def)
  then obtain m2 where w: "config_write ?env (ex_dkg_after\<lparr>cf_path := Some ''p''\<rparr>) ?m = (Inr (), m2)" ..
  have after: "?c\<lparr>cf_group := fmupd (hex_encode ex_text [71]) ex_dkg_group (cf_group ?c)\<rparr> = ex_dkg_after\<lparr>cf_path := Some ''p''\<rparr>"
    by (simp add: ex_dkg_after_def ex_dkg_config_def config_default_def)
  have gk: "gk_key_package_bytes ex_dkg_group_codec 5 = Some [5]" "gk_public_key_package_bytes ex_dkg_group_codec True = Some [1]"
    "gk_verifying_key ex_dkg_group_codec True = Inr [71]" "gk_id ex_dkg_group_codec = ''e''"
    by (simp_all add: ex_dkg_group_codec_def)
  have "dkg_store ?env ex_dkg_group_codec ex_dkg_command 5 True ex_dkg_members ?m =
      eprintln (''Group created; information written to '' @ ''p'') m2"
    unfolding dkg_store_def Let_def try_io_lift gk a map_err_simps ok_or_simps sum.case
    using w after
    by (simp add: try_io_Inr[where m = "config_read _ _", OF command_config] gk ex_dkg_group_def try_io_Inr[where m = "config_write _ _"])
  then obtain m3 where st: "dkg_store ?env ex_dkg_group_codec ex_dkg_command 5 True ex_dkg_members ?m = (Inr (), m3)"
    by (simp add: eprintln_def eprint_def)
  note steps = command_config key pks args run ms st
  have "ex_dkg_cmd = Some (Inr (), m3)"
    unfolding ex_dkg_cmd_def dkg_for_ciphersuite_def a
    by (simp add: try_iop_def steps steps(6)[unfolded One_nat_def] a)
  then show ?thesis by (rule exI)
qed


end
