(* ===== verification/Participant_Command_Props.thy ===== *)
theory Participant_Command_Props
  imports Command_Examples Participant_Props
begin

text \<open>
  The command \<open>participant\<close>: with which key, for whom and when it signs.
\<close>

text \<open>The coordinator is a participant of the group.\<close>

lemma participant_getter_Some:
  assumes "participant_getter grp q = Some pk"
  shows "pk = q \<and> (\<exists>h member. fmlookup (gc_participant grp) h = Some member \<and> gm_pubkey member = q)"
  using assms by (auto simp: participant_getter_def find_Some_iff intro!: exI btree_items_nth)


definition ex_participant_group :: group_config where
  "ex_participant_group = \<lparr>gc_description = [], gc_ciphersuite = ''e'', gc_public_key_package = [], gc_key_package = [],
     gc_server_url = Some ''s'', gc_participant = fmupd ''x'' \<lparr>gm_identifier = [11], gm_pubkey = PublicKey [9]\<rparr> fmempty\<rparr>"

definition ex_participant_config :: config where
  "ex_participant_config = config_default\<lparr>cf_communication_key := Some \<lparr>ck_privkey = ex_key32, ck_pubkey = PublicKey [1]\<rparr>,
     cf_group := fmupd ''g'' ex_participant_group fmempty\<rparr>"

definition ex_participant_command :: participant_command where
  "ex_participant_command = \<lparr>pc_config = Some ''p'', pc_server_url = None, pc_group = ''g'', pc_session = None\<rparr>"

definition ex_participant_cmd where
  "ex_participant_cmd = participant_for_ciphersuite (command_env ex_participant_config ex_participant_config)
     ex_ops ex_participant_http_codec (\<lambda>b. Some ()) 5 ex_participant_command (command_machine [''y''] ex_participant_world)"

lemma ex_participant_run_group:
  assumes "g (PublicKey [9]) = Some (PublicKey [9])"
  shows "\<exists>s'. participant ex_ops (participant_http_comms ex_http (ex_participant_args\<lparr>ha_coordinator_pubkey_getter := Some g\<rparr>)
      ex_participant_http_codec ex_text ex_ops) () 5
     (participant_http_new ex_http (ex_participant_args\<lparr>ha_coordinator_pubkey_getter := Some g\<rparr>) ex_participant_world
       \<lparr>co_input = [''y''], co_output = [], co_files = fs\<rparr>) = Some (Inr (), s')"
  using assms
  by (simp add: participant_http_new_def ex_participant_args_def ex_participant_world_def
      participant_http_get_message_count_def choose_session_def client_new_def participant_http_comms_def
      participant_def is_rerandomized_def ex_ops_def participant_http_get_signing_package_def receive_first_def
      ex_participant_http_codec_def participant_http_send_share_def participant_http_confirm_def
      console_confirm_def user_confirms_def writeln_def read_line_def trim_def is_space_def generate_signature_def
      single_key_single ex_text_def poll_until.simps ex_http_eval)

lemma ex_participant_cmd: "\<exists>m'. ex_participant_cmd = Some (Inr (), m')"
proof -
  let ?me = "command_env ex_participant_config ex_participant_config"
  let ?c = "ex_participant_config\<lparr>cf_path := Some ''p''\<rparr>"
  let ?args = "ex_participant_args\<lparr>ha_coordinator_pubkey_getter := Some (participant_getter ex_participant_group)\<rparr>"
  let ?m = "command_machine [''y''] ex_participant_world"
  have a: "pc_config ex_participant_command = Some ''p''" "pc_group ex_participant_command = ''g''"
    "pc_server_url ex_participant_command = None" "pc_session ex_participant_command = None"
    by (simp_all add: ex_participant_command_def)
  have g: "group_of ?c ''g'' = Inr ex_participant_group" and s: "server_of None ex_participant_group = Inr ''s''"
    by (simp_all add: group_of_def ex_participant_config_def server_of_def ex_participant_group_def)
  have args: "participant_http_args_of ?c ex_participant_group None (Some ''::1'', 443) = Inr ?args"
    by (simp add: participant_http_args_of_def host_of_def own_key_def ex_participant_config_def ex_participant_args_def)
  have p: "participant_getter ex_participant_group (PublicKey [9]) = Some (PublicKey [9])"
    by (simp add: participant_getter_def ex_participant_group_def btree_items_def sorted_list_of_fset.rep_eq)
  from ex_participant_run_group[where g = "participant_getter ex_participant_group", OF p] obtain s' where
    "participant ex_ops (participant_http_comms ex_http ?args ex_participant_http_codec ex_text ex_ops) () 5
      (participant_http_new ex_http ?args ex_participant_world (mc_console ?m)) = Some (Inr (), s')" by auto
  then have run: "run_participant ?me ex_ops ex_participant_http_codec ?args () 5 ?m =
      Some (Inr (), ?m\<lparr>mc_world := hb_world s', mc_console := ph_console s'\<rparr>)"
    by (simp add: run_participant_def)
  obtain m' where d: "on_console (writeln ''Done'') (?m\<lparr>mc_world := hb_world s', mc_console := ph_console s'\<rparr>)
      = (Inr (), m')" by (simp add: on_console_def writeln_def)
  have "ex_participant_cmd = Some (Inr (), m')"
    unfolding ex_participant_cmd_def participant_for_ciphersuite_def a
    by (simp add: try_iop_def command_config g s args run d a)
  then show ?thesis by (rule exI)
qed


end
