(* ===== verification/Programs.thy ===== *)
theory Programs
  imports Commands Participant_Cli Trusted_Dealer
begin

text \<open>
  The main functions of the programs \<open>coordinator\<close>, \<open>participant\<close>, \<open>dkg\<close> and \<open>trusted-dealer\<close>
  (\<open>main.rs\<close> of each): the choice of the ciphersuite, and how the process ends. The runs for the two
  ciphersuites are the arguments; \<open>show_error\<close> is the text of an error.
\<close>

text \<open>The process ends with an exit code, after writing a line to standard error if it failed.\<close>

definition exit_with :: "(error \<Rightarrow> string) \<Rightarrow> ('w, error, 'a) iop \<Rightarrow> ('w, error, nat \<times> string list) iop" where
  "exit_with show_error f w =
     (case f w of
        None \<Rightarrow> None
      | Some (Inr _, w') \<Rightarrow> Some (Inr (0, []), w')
      | Some (Inl (Panic p), w') \<Rightarrow> Some (Inl (Panic p), w')
      | Some (Inl e, w') \<Rightarrow> Some (Inr (1, [show_error e]), w'))"

definition coordinator_main ::
    "(error \<Rightarrow> string) \<Rightarrow> (coordinator_args \<Rightarrow> ('w, error, 'a) iop) \<Rightarrow> (coordinator_args \<Rightarrow> ('w, error, 'b) iop) \<Rightarrow>
     coordinator_args \<Rightarrow> ('w, error, nat \<times> string list) iop" where
  "coordinator_main show_error ed25519 redpallas args =
     (if ar_ciphersuite args = ''ed25519'' then exit_with show_error (ed25519 args)
      else if ar_ciphersuite args = ''redpallas'' then exit_with show_error (redpallas args)
      else run_io (fail_io (Panic ''invalid ciphersuite'')))"

definition participant_main ::
    "(error \<Rightarrow> string) \<Rightarrow> (participant_args \<Rightarrow> ('w, error, 'a) iop) \<Rightarrow> (participant_args \<Rightarrow> ('w, error, 'b) iop) \<Rightarrow>
     participant_args \<Rightarrow> ('w, error, nat \<times> string list) iop" where
  "participant_main show_error ed25519 redpallas args =
     (if pr_ciphersuite args = ''ed25519'' then exit_with show_error (ed25519 args)
      else if pr_ciphersuite args = ''redpallas'' then exit_with show_error (redpallas args)
      else run_io (fail_io (Panic ''invalid ciphersuite'')))"

text \<open>These two do nothing for any other ciphersuite.\<close>

definition dkg_main ::
    "string \<Rightarrow> ('w, error, unit) iop \<Rightarrow> ('w, error, unit) iop \<Rightarrow> ('w, error, unit) iop" where
  "dkg_main ciphersuite ed25519 redpallas =
     (if ciphersuite = ''ed25519'' then ed25519
      else if ciphersuite = ''redpallas'' then redpallas
      else run_io (ret_io ()))"

definition dealer_main ::
    "(dealer_args \<Rightarrow> ('w, error, unit) io) \<Rightarrow> (dealer_args \<Rightarrow> ('w, error, unit) io) \<Rightarrow> dealer_args \<Rightarrow>
     ('w, error, unit) io" where
  "dealer_main ed25519 redpallas args =
     (if da_ciphersuite args = ''ed25519'' then ed25519 args
      else if da_ciphersuite args = ''redpallas'' then redpallas args
      else ret_io ())"

text \<open>The exit code is 0 exactly when the run succeeds.\<close>

lemma exit_with_code:
  "exit_with show_error f w = Some (Inr (code, out), w') \<Longrightarrow> code = 0 \<longleftrightarrow> (\<exists>x. f w = Some (Inr x, w'))"
  by (auto simp: exit_with_def split: option.splits prod.splits sum.splits error.splits)

end
