(* ===== verification/Config_Types.thy ===== *)
theory Config_Types
  imports Command_Examples Dealer_Command_Props Dkg_Command_Props
begin

text \<open>
  Well-formed configuration files: what the keys of the maps of a configuration say agrees with the
  values, and every group has a ciphersuite the client knows. Every command that writes
  configuration files keeps all of them well-formed, whether it succeeds or fails midway.
\<close>

section \<open>Well-formed configurations\<close>

definition group_wf :: "'w cli_env \<Rightarrow> group_config \<Rightarrow> bool" where
  "group_wf env grp \<longleftrightarrow> gc_ciphersuite grp \<in> {ce_ed25519_id env, ce_redpallas_id env} \<and>
     fmpred (\<lambda>h member. h = hex_encode (ce_text env) (gm_identifier member)) (gc_participant grp)"

definition config_wf :: "'w cli_env \<Rightarrow> config \<Rightarrow> bool" where
  "config_wf env c \<longleftrightarrow> fmpred (\<lambda>nm contact. nm = ct_name contact) (cf_contact c) \<and> fmpred (\<lambda>_. group_wf env) (cf_group c)"

text \<open>All files of a machine that are configurations.\<close>

definition files_wf :: "'w cli_env \<Rightarrow> 'v machine \<Rightarrow> bool" where
  "files_wf env m \<longleftrightarrow> (\<forall>p c. config_at env (files m) p = Some c \<longrightarrow> config_wf env c)"

lemma config_wf_simps [simp]:
  "config_wf env (c\<lparr>cf_path := p\<rparr>) = config_wf env c"
  "config_wf env (c\<lparr>cf_communication_key := k\<rparr>) = config_wf env c"
  by (simp_all add: config_wf_def)

lemma files_wf_cong: "files m' = files m \<Longrightarrow> files_wf env m' = files_wf env m"
  by (simp add: files_wf_def)

text \<open>What is read is well-formed, and writing what is well-formed keeps the files so.\<close>

lemma keeps_config_read [inv_intros]:
  assumes "\<And>config. config_wf env config \<Longrightarrow> keeps (files_wf env) (f config)"
  shows "keeps (files_wf env) (try_io (config_read env path) f)"
proof
  fix m :: "'a machine" assume wf: "files_wf env m"
  obtain r m1 where m1: "config_read env path m = (r, m1)" by fastforce
  show "files_wf env (snd (try_io (config_read env path) f m))"
  proof (cases r)
    case (Inl e)
    with m1 config_read_Inl[of env path m e m1] wf show ?thesis by (simp add: try_io_def)
  next
    case (Inr config)
    note rd = config_read_Inr[OF m1[unfolded Inr]]
    from rd(2) wf have "config_wf env config" by (auto simp: files_wf_def)
    from keepsD[OF assms[OF this] wf] m1 Inr rd(1) show ?thesis by (simp add: try_io_def) (metis prod.collapse)
  qed
qed

lemma keeps_config_write:
  assumes e: "toml_ok env" and c: "config_wf env config"
  shows "keeps (files_wf env) (config_write env config)"
proof
  fix m :: "'a machine" assume wf: "files_wf env m"
  obtain r m1 where m1: "config_write env config m = (r, m1)" by fastforce
  show "files_wf env (snd (config_write env config m))"
  proof (cases "cf_path config")
    case None
    with m1 have "m1 = m" by (cases "ce_toml_print env config") (auto simp: config_write_def)
    with wf m1 show ?thesis by simp
  next
    case (Some p)
    have other: "config_at env (files m1) q = config_at env (files m) q" if "q \<noteq> resolve m p" for q
      by (rule config_write_other[OF m1 e Some that])
    from config_write_cases(2)[OF m1 e Some] show ?thesis
    proof (elim disjE conjE)
      assume "files m1 = files m"
      from wf[folded files_wf_cong[OF this]] m1 show ?thesis by simp
    next
      assume at: "config_at env (files m1) (resolve m p) = Some (config\<lparr>cf_path := None\<rparr>)"
      have "config_wf env d" if d: "config_at env (files m1) q = Some d" for q d
      proof (cases "q = resolve m p")
        case True
        with at d have "d = config\<lparr>cf_path := None\<rparr>" by simp
        with c show ?thesis by simp
      next
        case False
        from wf d[unfolded other[OF this]] show ?thesis by (simp add: files_wf_def)
      qed
      with m1 show ?thesis by (simp add: files_wf_def)
    qed
  qed
qed

lemma keeps_no_writes: "no_writes f \<Longrightarrow> keeps (files_wf env) f"
  by (rule keepsI) (metis files_wf_cong no_writesD prod.collapse same_disk_def)

lemmas wf_intros = keeps_config_read keeps_config_write keeps_try_io keeps_for_io keeps_basic
  keeps_no_writes[OF no_writes_basic(1)] keeps_no_writes[OF no_writes_basic(2)]

section \<open>The commands on the configuration file alone\<close>

lemma config_wf_upd:
  "config_wf env c \<Longrightarrow> nm = ct_name contact \<Longrightarrow> config_wf env (c\<lparr>cf_contact := fmupd nm contact (cf_contact c)\<rparr>)"
  "config_wf env c \<Longrightarrow> config_wf env (c\<lparr>cf_contact := fmdrop nm (cf_contact c)\<rparr>)"
  "config_wf env c \<Longrightarrow> config_wf env (c\<lparr>cf_group := fmdrop g (cf_group c)\<rparr>)"
  "config_wf env c \<Longrightarrow> group_wf env grp \<Longrightarrow> config_wf env (c\<lparr>cf_group := fmupd g grp (cf_group c)\<rparr>)"
  by (auto simp: config_wf_def intro: fmpred_updI fmpred_drop)

text \<open>Like \<open>keeps_try_io\<close>, but the rest may use what the first part returns.\<close>

lemma keeps_try_value:
  "keeps P first \<Longrightarrow> (\<And>x m m'. first m = (Inr x, m') \<Longrightarrow> keeps P (rest x)) \<Longrightarrow> keeps P (try_io first rest)"
  by (fastforce simp: keeps_def try_io_def split: prod.splits sum.splits)

lemma set_key_wf:
  assumes "set_key env config m = (Inr config', m')" and "config_wf env config"
  shows "config_wf env config'"
proof -
  from assms(1) have "config' = config \<or> (\<exists>k. config' = config\<lparr>cf_communication_key := Some k\<rparr>)"
    by (auto simp: set_key_def try_io_eq_Inr simp del: try_io_lift split: option.splits)
  with assms(2) show ?thesis by auto
qed

lemma keeps_init:
  assumes e: "toml_ok env"
  shows "keeps (files_wf env) (init_cmd env (Init path))"
proof -
  have "keeps (files_wf env) (try_io (config_read env path) (\<lambda>config.
       try_io (set_key env config) (\<lambda>config.
       try_io (lift_io (ok_or (cf_path config) (Panic ''should not be None''))) (\<lambda>p.
       try_io (eprintln (''Writing to config file at '' @ p @ ''...'')) (\<lambda>_.
       try_io (config_write env config) (\<lambda>_. eprintln KEEP_SAFE))))))"
    by (intro wf_intros e keeps_try_value[OF keeps_no_writes[OF set_key_no_writes]]) (rule set_key_wf)
  then show ?thesis by (simp add: set_key_def)
qed

lemma keeps_config_cmd:
  assumes "config_cmd env cmd = Some f" and e: "toml_ok env"
  shows "keeps (files_wf env) f"
proof (cases "\<exists>path. cmd = Init path")
  case True
  with assms show ?thesis by (auto simp del: init_cmd.simps intro: keeps_init)
next
  case False
  with assms show ?thesis
    by (cases cmd) (auto intro!: wf_intros config_wf_upd simp: Let_def simp del: init_cmd.simps)
qed

section \<open>The commands that create groups\<close>

lemma dealer_participants_wf:
  assumes "dealer_participants env ser ips ps cs m = (Inr (ps', cs'), m')"
    and "fmpred (\<lambda>h member. h = hex_encode (ce_text env) (gm_identifier member)) ps"
  shows "fmpred (\<lambda>h member. h = hex_encode (ce_text env) (gm_identifier member)) ps'"
  using assms
proof (induction ips arbitrary: ps cs m)
  case (Cons ip ips)
  obtain i path nm where ip: "ip = (i, path, nm)" by (cases ip)
  from Cons.prems(1) ip obtain key :: communication_key and m1 where
    "dealer_participants env ser ips
       (fmupd (hex_encode (ce_text env) (ser i)) \<lparr>gm_identifier = ser i, gm_pubkey = ck_pubkey key\<rparr> ps)
       (cs @ [\<lparr>ct_version = None, ct_name = nm, ct_pubkey = ck_pubkey key\<rparr>]) m1 = (Inr (ps', cs'), m')"
    by (auto simp: try_io_eq_Inr simp del: try_io_lift)
  from Cons.IH[OF this fmpred_updI[OF Cons.prems(2)]] show ?case by simp
qed simp

lemma keeps_dealer_participants: "keeps (files_wf env) (dealer_participants env ser ips ps cs)"
  by (induction ips arbitrary: ps cs) (auto intro!: wf_intros)

lemma insert_contacts_wf:
  "config_wf env c \<Longrightarrow> config_wf env (c\<lparr>cf_contact := insert_contacts cs (cf_contact c)\<rparr>)"
  unfolding insert_contacts_def
proof (induction cs arbitrary: c)
  case (Cons a cs)
  from Cons.IH[OF config_wf_upd(1)[OF Cons.prems refl, of a]] show ?case by simp
qed simp

lemma keeps_dealer_store:
  assumes e: "toml_ok env" and id: "gk_id gk \<in> {ce_ed25519_id env, ce_redpallas_id env}"
    and ps: "fmpred (\<lambda>h member. h = hex_encode (ce_text env) (gm_identifier member)) ps"
  shows "keeps (files_wf env) (dealer_store env ops gk args pkp ps cs sp)"
proof -
  have "config_wf env (c\<lparr>cf_group := fmupd h \<lparr>gc_description = d, gc_ciphersuite = gk_id gk,
      gc_public_key_package = b, gc_key_package = k, gc_server_url = u, gc_participant = ps\<rparr> (cf_group c),
      cf_contact := insert_contacts cs (cf_contact c)\<rparr>)" if c: "config_wf env c" for c h d b k u
  proof -
    let ?g = "\<lparr>gc_description = d, gc_ciphersuite = gk_id gk,
      gc_public_key_package = b, gc_key_package = k, gc_server_url = u, gc_participant = ps\<rparr>"
    have "group_wf env ?g" using id ps by (simp add: group_wf_def)
    from insert_contacts_wf[OF config_wf_upd(4)[OF c this, of h], of cs] show ?thesis by simp
  qed
  then show ?thesis
    unfolding dealer_store_def by (cases sp) (auto intro!: wf_intros e)
qed

lemma keeps_trusted_dealer:
  assumes e: "toml_ok env" and id: "gk_id gk \<in> {ce_ed25519_id env, ce_redpallas_id env}"
  shows "keeps (files_wf env) (trusted_dealer_for_ciphersuite env ops gk rng args)"
  unfolding trusted_dealer_for_ciphersuite_def
  by (auto intro!: wf_intros keeps_dealer_store[OF e id] keeps_try_value[OF keeps_dealer_participants]
      dest: dealer_participants_wf)

text \<open>The same for computations that may not return.\<close>

definition keepsp :: "('w \<Rightarrow> bool) \<Rightarrow> ('w, 'e, 'a) iop \<Rightarrow> bool" where
  "keepsp P f \<longleftrightarrow> (\<forall>w r w'. P w \<longrightarrow> f w = Some (r, w') \<longrightarrow> P w')"

lemma keepsp_run: "keeps P f \<Longrightarrow> keepsp P (run_io f)"
  by (auto simp: keepsp_def keeps_def)

lemma keepsp_try:
  assumes f: "keepsp P f" and g: "\<And>x. keepsp P (g x)"
  shows "keepsp P (try_iop f g)"
  unfolding keepsp_def
proof (intro allI impI)
  fix w r w' assume p: "P w" and run: "try_iop f g w = Some (r, w')"
  show "P w'"
  proof (cases "f w")
    case None
    with run show ?thesis by (simp add: try_iop_None)
  next
    case (Some rw)
    obtain r1 w1 where rw: "f w = Some (r1, w1)" using Some by (cases rw) simp
    with f p have w1: "P w1" by (simp add: keepsp_def)
    show ?thesis
    proof (cases r1)
      case (Inl e)
      with rw run have "w' = w1" by (simp add: try_iop_Inl)
      with w1 show ?thesis by simp
    next
      case (Inr x)
      with rw run have "g x w1 = Some (r, w')" by (simp add: try_iop_Inr)
      with g[of x] w1 show ?thesis by (simp add: keepsp_def)
    qed
  qed
qed

lemma keepsp_lift:
  "(\<And>x. r = Inr x \<Longrightarrow> keepsp P (g x)) \<Longrightarrow> keepsp P (try_iop (run_io (lift_io r)) g)"
  by (cases r) (auto simp: keepsp_def try_iop_def)

lemma keepsp_config_read:
  assumes "\<And>config. config_wf env config \<Longrightarrow> keepsp (files_wf env) (f config)"
  shows "keepsp (files_wf env) (try_iop (run_io (config_read env path)) f)"
  unfolding keepsp_def
proof (intro allI impI)
  fix m :: "'a machine" and r m' assume wf: "files_wf env m" and run: "try_iop (run_io (config_read env path)) f m = Some (r, m')"
  obtain r1 m1 where m1: "config_read env path m = (r1, m1)" by fastforce
  show "files_wf env m'"
  proof (cases r1)
    case (Inl e)
    with m1 config_read_Inl[of env path m e m1] run wf show ?thesis by (simp add: try_iop_def)
  next
    case (Inr config)
    note rd = config_read_Inr[OF m1[unfolded Inr]]
    from rd(2) wf have c: "config_wf env config" by (auto simp: files_wf_def)
    from run m1 Inr rd(1) have "f config m = Some (r, m')" by (simp add: try_iop_def)
    with assms[OF c] wf show ?thesis by (auto simp: keepsp_def)
  qed
qed

lemma keepsp_run_dkg:
  assumes "dkg_args_of config key pks n url = Inr args"
  shows "keepsp (files_wf env) (run_dkg (cli_for_processed_args te he ops dc hc args rng))"
proof -
  from assms have a: "\<not> dp_cli args" "dp_http args" by (auto simp: dkg_args_of_def)
  have "files m' = files m" if "run_dkg (cli_for_processed_args te he ops dc hc args rng) m = Some (r, m')" for r and m m' :: "'b machine"
    using that a by (auto simp: run_dkg_def cli_for_processed_args_def split: option.splits prod.splits)
  then show ?thesis by (auto simp: keepsp_def dest: files_wf_cong)
qed

lemma keeps_dkg_store:
  assumes e: "toml_ok env" and id: "gk_id gk \<in> {ce_ed25519_id env, ce_redpallas_id env}"
    and ms: "fmpred (\<lambda>h member. h = hex_encode (ce_text env) (gm_identifier member)) ms"
  shows "keeps (files_wf env) (dkg_store env gk a kp pkp ms)"
proof -
  have "group_wf env \<lparr>gc_description = d, gc_ciphersuite = gk_id gk,
      gc_public_key_package = b, gc_key_package = k, gc_server_url = u, gc_participant = ms\<rparr>" for d b k u
    using id ms by (simp add: group_wf_def)
  then show ?thesis
    unfolding dkg_store_def Let_def by (intro wf_intros e config_wf_upd(4))
qed

lemma run_members_wf:
  "run_members te gk pks pkp ms \<Longrightarrow> fmpred (\<lambda>h member. h = hex_encode te (gm_identifier member)) ms"
  unfolding run_members_def by (rule fmpredI) metis

lemma keepsp_dkg:
  assumes e: "toml_ok (me_cli me)" and id: "gk_id gk \<in> {ce_ed25519_id (me_cli me), ce_redpallas_id (me_cli me)}"
  shows "keepsp (files_wf (me_cli me)) (dkg_for_ciphersuite me ops dc hc gk rng a)"
  unfolding dkg_for_ciphersuite_def case_prod_beta
  by (intro keepsp_config_read keepsp_lift) (auto intro!: keepsp_try[OF keepsp_run_dkg] keepsp_lift keepsp_run keeps_dkg_store[OF e id]
      dest!: dkg_participants_Inr run_members_wf)

section \<open>All commands that write configuration files\<close>

text \<open>
  C32: Well-formed configuration files. When every configuration file has its contacts under their
  own names, its groups' participants under the text of their identifiers, and only ciphersuites
  the client knows, this is so after every command that writes configuration files, whether it
  succeeds, fails, or fails midway.
\<close>

theorem config_well_formed:
  assumes e: "toml_ok (me_cli me)" and wf: "files_wf (me_cli me) m"
    and deal_id: "gk_id dgk \<in> {ce_ed25519_id (me_cli me), ce_redpallas_id (me_cli me)}"
    and dkg_id: "gk_id gk \<in> {ce_ed25519_id (me_cli me), ce_redpallas_id (me_cli me)}"
  shows "(\<forall>f. config_cmd (me_cli me) cmd = Some f \<longrightarrow> files_wf (me_cli me) (snd (f m))) \<and>
    files_wf (me_cli me) (snd (trusted_dealer_for_ciphersuite (me_cli me) dops dgk drng da m)) \<and>
    (\<forall>r m'. dkg_for_ciphersuite me ops dc hc gk rng a m = Some (r, m') \<longrightarrow> files_wf (me_cli me) m')"
proof (intro conjI allI impI)
  show "files_wf (me_cli me) (snd (f m))" if "config_cmd (me_cli me) cmd = Some f" for f
    by (rule keeps_config_cmd[OF that e, unfolded keeps_def, rule_format, OF wf])
  show "files_wf (me_cli me) (snd (trusted_dealer_for_ciphersuite (me_cli me) dops dgk drng da m))"
    by (rule keeps_trusted_dealer[OF e deal_id, unfolded keeps_def, rule_format, OF wf])
  show "files_wf (me_cli me) m'" if "dkg_for_ciphersuite me ops dc hc gk rng a m = Some (r, m')" for r m'
    by (rule keepsp_dkg[OF e dkg_id, unfolded keepsp_def, rule_format, OF wf that])
qed

text \<open>The files of the machine of the example, and those after its command.\<close>

lemma ex_dkg_files_wf: "files_wf (command_cli ex_dkg_config ex_dkg_after) (command_machine [] w)"
proof -
  let ?env = "command_cli ex_dkg_config ex_dkg_after"
  have "config_wf ?env ex_dkg_config" "config_wf ?env config_default"
    by (simp_all add: config_wf_def ex_dkg_config_def config_default_def fmpred_fmupd_iff)
  then show ?thesis
    by (auto simp: files_wf_def config_at_def command_cli_def split: if_splits)
qed

theorem config_well_formed_witness:
  "\<exists>m'. ex_dkg_cmd = Some (Inr (), m') \<and> files_wf (command_cli ex_dkg_config ex_dkg_after :: http_reply list cli_env) m'"
proof -
  obtain m' where m': "ex_dkg_cmd = Some (Inr (), m')" using ex_dkg_cmd ..
  have e: "toml_ok (me_cli (command_env ex_dkg_config ex_dkg_after))" by (simp add: command_toml)
  have wf: "files_wf (me_cli (command_env ex_dkg_config ex_dkg_after)) (command_machine [] ex_dkg_world)"
    by (simp add: ex_dkg_files_wf)
  have id: "gk_id ex_dkg_group_codec \<in> {ce_ed25519_id (me_cli (command_env ex_dkg_config ex_dkg_after)),
      ce_redpallas_id (me_cli (command_env ex_dkg_config ex_dkg_after))}"
    "gk_id solo_codec \<in> {ce_ed25519_id (me_cli (command_env ex_dkg_config ex_dkg_after)),
      ce_redpallas_id (me_cli (command_env ex_dkg_config ex_dkg_after))}"
    by (simp_all add: ex_dkg_group_codec_def solo_codec_def command_cli_def)
  note c = config_well_formed[OF e wf id(2,1), THEN conjunct2, THEN conjunct2, rule_format]
  from c[OF m'[unfolded ex_dkg_cmd_def]] m' show ?thesis unfolding command_env_simps by blast
qed

end
