(* ===== verification/Sessions_Props.thy ===== *)
theory Sessions_Props
  imports Command_Examples
begin

text \<open>
  The command \<open>sessions\<close> against the modelled server: logging in, listing, and visiting the listed
  sessions one after the other, each of which is closed when the user asks for that.
\<close>

section \<open>What a visit does at the server\<close>

definition system_of :: "('sm, 'cs, 'tm) app_state \<Rightarrow> ('sm, 'cs, 'tm) system" where
  "system_of st = \<lparr>sy_app = st, sy_timed_out = None\<rparr>"

lemma system_of_simps [simp]: "sy_app (system_of st) = st" "(system_of st)\<lparr>sy_app := st'\<rparr> = system_of st'"
  by (simp_all add: system_of_def)

definition visit_session ::
    "('sm, 'cs, 'tm) server_env \<Rightarrow> user \<Rightarrow> bool \<Rightarrow> uuid \<Rightarrow> (('sm, 'cs, 'tm) app_state, api_error, unit) io" where
  "visit_session env user close_all sid =
     try_io (get_session_info env user \<lparr>gi_session_id = sid\<rparr>) (\<lambda>_.
     if close_all then close_session env user \<lparr>cl_session_id = sid\<rparr> else ret_io ())"

text \<open>A visit succeeds when the session is live and, if it is to be closed, the user coordinates it.\<close>

definition visitable ::
    "('sm, 'cs, 'tm) server_env \<Rightarrow> public_key \<Rightarrow> bool \<Rightarrow> ('sm, 'cs, 'tm) app_state \<Rightarrow> uuid \<Rightarrow> bool" where
  "visitable env pubkey close_all st sid \<longleftrightarrow>
     (\<exists>s. live env (system_of st) sid = Some s \<and> (close_all \<longrightarrow> se_coordinator_pubkey s = pubkey))"

lemma lookup_listed:
  "sid \<in> listed (system_of st) (us_pubkey user) \<Longrightarrow>
     lookup_own_session env user sid st = ok_or (live env (system_of st) sid) SessionNotFound"
  by (auto simp: lookup_own_session_def listed_def listed_in_def live_def split: option.splits)

lemma close_tokens: "as_access_tokens (snd (close_session env user args st)) = as_access_tokens st"
  by (auto simp: close_session_def Let_def split: sum.splits)

context server
begin

lemma visit_spec:
  assumes l: "sid \<in> listed (system_of st) (us_pubkey user)"
    and v: "visit_session env user close_all sid st = (r, st')"
  shows "as_access_tokens st' = as_access_tokens st"
    and "r = Inr () \<longleftrightarrow> visitable env (us_pubkey user) close_all st sid"
    and "r \<noteq> Inr () \<Longrightarrow> st' = st"
    and "r = Inr () \<Longrightarrow> live env (system_of st') =
      (if close_all then (live env (system_of st))(sid := None) else live env (system_of st))"
    and "r = Inr () \<Longrightarrow> listed (system_of st') (us_pubkey user) =
      listed (system_of st) (us_pubkey user) - (if close_all then {sid} else {})"
proof -
  note k = lookup_listed[OF l, of env]
  let ?c = "close_session env user \<lparr>cl_session_id = sid\<rparr> st"
  consider "live env (system_of st) sid = None" "st' = st" "r \<noteq> Inr ()"
    | s where "live env (system_of st) sid = Some s" "\<not> close_all" "st' = st" "r = Inr ()"
    | s where "live env (system_of st) sid = Some s" "close_all" "?c = (r, st')"
    using v by (cases "live env (system_of st) sid"; cases close_all)
      (auto simp: visit_session_def get_session_info_def try_io_def k)
  note cases = this
  have ok: "se_coordinator_pubkey s = us_pubkey user \<longleftrightarrow> fst ?c = Inr ()"
    if "live env (system_of st) sid = Some s" for s
    using that by (simp add: close_session_def k Let_def)
  show "as_access_tokens st' = as_access_tokens st"
    using close_tokens[of env user "\<lparr>cl_session_id = sid\<rparr>" st] by (cases rule: cases) auto
  show "r = Inr () \<longleftrightarrow> visitable env (us_pubkey user) close_all st sid"
    using ok by (cases rule: cases) (auto simp: visitable_def)
  show "r \<noteq> Inr () \<Longrightarrow> st' = st"
    by (cases rule: cases; cases r) (auto dest: close_err)
  have "live env (system_of st') =
      (if close_all then (live env (system_of st))(sid := None) else live env (system_of st)) \<and>
    listed (system_of st') (us_pubkey user) =
      listed (system_of st) (us_pubkey user) - (if close_all then {sid} else {})" if r: "r = Inr ()"
  proof (cases close_all)
    case True
    with r cases have "close_session env user \<lparr>cl_session_id = sid\<rparr> (sy_app (system_of st)) = (Inr (), st')" by auto
    from close_ok[OF this] obtain s where s: "live env (system_of st) sid = Some s" "se_coordinator_pubkey s = us_pubkey user"
      "live env (system_of st') = (live env (system_of st))(sid := None)"
      "listed (system_of st') = (\<lambda>pk. if pk \<in> members s
         then listed (system_of st) pk - {sid} else listed (system_of st) pk)"
      unfolding system_of_simps close_session_args.simps by blast
    from s(2) have "us_pubkey user \<in> members s" by (simp add: members_def)
    with True s(3,4) show ?thesis by simp
  next
    case False
    with r cases have "st' = st" by auto
    with False show ?thesis by simp
  qed
  then show "r = Inr () \<Longrightarrow> live env (system_of st') =
      (if close_all then (live env (system_of st))(sid := None) else live env (system_of st))"
    and "r = Inr () \<Longrightarrow> listed (system_of st') (us_pubkey user) =
      listed (system_of st) (us_pubkey user) - (if close_all then {sid} else {})"
    by blast+
qed

lemma visits_spec:
  assumes "distinct sids" and "set sids \<subseteq> listed (system_of st) (us_pubkey user)"
    and "for_io sids (visit_session env user close_all) st = (r, st')"
  shows "as_access_tokens st' = as_access_tokens st \<and>
    (r = Inr () \<longleftrightarrow> (\<forall>sid\<in>set sids. visitable env (us_pubkey user) close_all st sid)) \<and>
    (r = Inr () \<longrightarrow>
      live env (system_of st') = (\<lambda>sid. if close_all \<and> sid \<in> set sids then None else live env (system_of st) sid) \<and>
      listed (system_of st') (us_pubkey user) =
        listed (system_of st) (us_pubkey user) - (if close_all then set sids else {})) \<and>
    (\<forall>sid. live env (system_of st') sid = live env (system_of st) sid \<or>
      close_all \<and> sid \<in> set sids \<and> visitable env (us_pubkey user) True st sid \<and> live env (system_of st') sid = None)"
  using assms
proof (induction sids arbitrary: st)
  case Nil
  then show ?case by (auto simp: fun_eq_iff)
next
  case (Cons sid sids)
  obtain r1 st1 where v: "visit_session env user close_all sid st = (r1, st1)" by fastforce
  note s = visit_spec[OF _ v]
  have l: "sid \<in> listed (system_of st) (us_pubkey user)" using Cons.prems(2) by simp
  show ?case
  proof (cases r1)
    case (Inl e)
    with s(2,3)[OF l] v Cons.prems(3) show ?thesis by (auto simp: try_io_def)
  next
    case (Inr x)
    then have r1: "r1 = Inr ()" by simp
    have rest: "for_io sids (visit_session env user close_all) st1 = (r, st')"
      using Cons.prems(3) v r1 by (simp add: try_io_def)
    have sub: "set sids \<subseteq> listed (system_of st1) (us_pubkey user)"
      using s(5)[OF l r1] Cons.prems(1,2) by auto
    have same: "visitable env (us_pubkey user) c st1 i \<longleftrightarrow> visitable env (us_pubkey user) c st i"
      if "i \<in> set sids" for i c
      using s(4)[OF l r1] Cons.prems(1) that by (auto simp: visitable_def)
    have first: "visitable env (us_pubkey user) close_all st sid" using s(2)[OF l] r1 by simp
    note IH = Cons.IH[OF _ sub rest]
    have d: "distinct sids" using Cons.prems(1) by simp
    note IH = IH[OF d]
    show ?thesis
    proof (intro conjI allI)
      show "as_access_tokens st' = as_access_tokens st" using IH s(1)[OF l] by simp
      show "r = Inr () \<longleftrightarrow> (\<forall>i\<in>set (sid # sids). visitable env (us_pubkey user) close_all st i)"
        using IH first same by simp
      show "r = Inr () \<longrightarrow>
          live env (system_of st') = (\<lambda>i. if close_all \<and> i \<in> set (sid # sids) then None else live env (system_of st) i) \<and>
          listed (system_of st') (us_pubkey user) =
            listed (system_of st) (us_pubkey user) - (if close_all then set (sid # sids) else {})"
        using IH s(4,5)[OF l r1] by (auto simp: fun_eq_iff)
      fix i
      show "live env (system_of st') i = live env (system_of st) i \<or>
          close_all \<and> i \<in> set (sid # sids) \<and> visitable env (us_pubkey user) True st i \<and> live env (system_of st') i = None"
        using IH[THEN conjunct2, THEN conjunct2, THEN conjunct2, rule_format, of i] s(4)[OF l r1] first same[of i True]
        by (cases "i = sid"; cases close_all) auto
    qed
  qed
qed

end

section \<open>The loop of the command\<close>

lemma user_from_request_cong:
  "as_access_tokens st' = as_access_tokens st \<Longrightarrow> user_from_request env auth st' = user_from_request env auth st"
  by (simp add: user_from_request_def cong: option.case_cong)

lemma for_eprintln: "\<exists>m'. for_io ls eprintln m = (Inr (), m')"
  by (induction ls arbitrary: m) (auto simp: eprintln_def eprint_def try_io_def)

lemma list_one_server:
  fixes me :: "(('sm, 'cs, 'tm) app_state \<times> nat, 'h, 't, 'rng) cmd_env"
    and s :: "(('sm, 'cs, 'tm) app_state \<times> nat, 'h, 't) http_base"
  defines "ce \<equiv> he_client (me_http me)"
  assumes post: "post ce = server_post env (codecs ce) url rejection clock supply"
    and cd: "codecs_ok (codecs ce)"
    and s: "hb_world s = (st, k)" "hb_client s = \<lparr>cl_host_port = url, cl_access_token = Some t\<rparr>"
    and u: "user_from_request env (Some (uuid_to_string ce t)) st = Inr user"
    and v: "visit_session env user close_all sid st = (r, st')"
  shows "\<exists>m' k'. list_one me close_all config sid (m, s) = (map_err Server_Error r, (m', s\<lparr>hb_world := (st', k')\<rparr>))"
proof -
  let ?c = "\<lparr>cl_host_port = url, cl_access_token = Some t\<rparr>"
  have post': "post ce = server_post env (codecs ce) (cl_host_port ?c) rejection clock supply" using post by simp
  have auth: "Some (uuid_to_string ce t) = map_option (uuid_to_string ce) (cl_access_token ?c)" by simp
  note info = client_get_session_info_server[OF post' cd auth, of "\<lparr>gi_session_id = sid\<rparr>" st]
    and close = client_close_session_server[OF post' cd auth, of "\<lparr>cl_session_id = sid\<rparr>" st]
  have i: "client_op (client_get_session_info ce \<lparr>gi_session_id = sid\<rparr>) s =
      (map_err Server_Error (fst (get_session_info env user \<lparr>gi_session_id = sid\<rparr> st)), s\<lparr>hb_world := (st, Suc k)\<rparr>)"
    using s u by (simp add: client_op_def info on_server_def authenticated_def get_session_info_def)
  have c: "client_op (client_close_session ce \<lparr>cl_session_id = sid\<rparr>) (s\<lparr>hb_world := (st, Suc k)\<rparr>) =
      (map_err Server_Error (fst (close_session env user \<lparr>cl_session_id = sid\<rparr> st)),
       s\<lparr>hb_world := (snd (close_session env user \<lparr>cl_session_id = sid\<rparr> st), Suc (Suc k))\<rparr>)"
    using s u by (simp add: client_op_def close on_server_def authenticated_def split: prod.splits)
  show ?thesis
  proof (cases "fst (get_session_info env user \<lparr>gi_session_id = sid\<rparr> st)")
    case (Inl e)
    with v have "r = Inl e" "st' = st"
      by (auto simp: visit_session_def try_io_def get_session_info_def split: sum.splits)
    with i Inl show ?thesis
      by (auto simp: list_one_def ce_def try_io_def second_io_def intro!: exI[of _ "Suc k"])
  next
    case (Inr out)
    with v have v': "(if close_all then close_session env user \<lparr>cl_session_id = sid\<rparr> else ret_io ()) st = (r, st')"
      by (auto simp: visit_session_def try_io_def get_session_info_def split: sum.splits)
    obtain m1 where m1: "for_io (session_lines me config sid out) eprintln m = (Inr (), m1)"
      using for_eprintln by blast
    have "list_one me close_all config sid (m, s) =
        (if close_all then second_io (client_op (client_close_session ce \<lparr>cl_session_id = sid\<rparr>)) else ret_io ())
          (m1, s\<lparr>hb_world := (st, Suc k)\<rparr>)"
      using i Inr m1 by (simp add: list_one_def ce_def try_io_def second_io_def first_io_def)
    with c v' show ?thesis by (cases close_all) (auto simp: second_io_def)
  qed
qed

context server
begin

lemma list_all_server:
  fixes me :: "(('sm, 'cs, 'tm) app_state \<times> nat, 'h, 't, 'rng) cmd_env"
    and s :: "(('sm, 'cs, 'tm) app_state \<times> nat, 'h, 't) http_base"
  assumes post: "post (he_client (me_http me)) =
      server_post env (codecs (he_client (me_http me))) url rejection clock supply"
    and cd: "codecs_ok (codecs (he_client (me_http me)))"
    and s: "hb_world s = (st, k)" "hb_client s = \<lparr>cl_host_port = url, cl_access_token = Some t\<rparr>"
    and u: "user_from_request env (Some (uuid_to_string (he_client (me_http me)) t)) st = Inr user"
    and d: "distinct sids" "set sids \<subseteq> listed (system_of st) (us_pubkey user)"
    and v: "for_io sids (visit_session env user close_all) st = (r, st')"
  shows "\<exists>m' k'. for_io sids (list_one me close_all config) (m, s) =
    (map_err Server_Error r, (m', s\<lparr>hb_world := (st', k')\<rparr>))"
  using s u d v
proof (induction sids arbitrary: st k s m)
  case Nil
  then show ?case by (auto intro!: exI[of _ k])
next
  case (Cons sid sids)
  obtain r1 st1 where v1: "visit_session env user close_all sid st = (r1, st1)" by fastforce
  obtain m1 k1 where o: "list_one me close_all config sid (m, s) =
      (map_err Server_Error r1, (m1, s\<lparr>hb_world := (st1, k1)\<rparr>))"
    using list_one_server[OF post cd Cons.prems(1-3) v1] by blast
  show ?case
  proof (cases r1)
    case (Inl e)
    with Cons.prems(6) v1 o show ?thesis by (auto simp: try_io_def)
  next
    case (Inr x)
    then have r1: "r1 = Inr ()" by simp
    have l: "sid \<in> listed (system_of st) (us_pubkey user)" using Cons.prems(5) by simp
    note sp = visit_spec[OF l v1]
    have "\<exists>m' k'. for_io sids (list_one me close_all config) (m1, s\<lparr>hb_world := (st1, k1)\<rparr>) =
        (map_err Server_Error r, (m', s\<lparr>hb_world := (st1, k1)\<rparr>\<lparr>hb_world := (st', k')\<rparr>))"
    proof (rule Cons.IH)
      show "user_from_request env (Some (uuid_to_string (he_client (me_http me)) t)) st1 = Inr user"
        using Cons.prems(3) user_from_request_cong[OF sp(1)] by simp
      show "set sids \<subseteq> listed (system_of st1) (us_pubkey user)"
        using sp(5)[OF r1] Cons.prems(4,5) by auto
      show "for_io sids (visit_session env user close_all) st1 = (r, st')"
        using Cons.prems(6) v1 r1 by (simp add: try_io_def)
    qed (use Cons.prems in simp_all)
    with o r1 show ?thesis by (simp add: try_io_def)
  qed
qed

end

section \<open>Logging in\<close>

text \<open>
  A key pair whose signatures the server accepts; drawing random numbers leaves the server alone.
\<close>

definition key_pair_ok ::
    "('sm, 'cs, 'tm) server_env \<Rightarrow> (('sm, 'cs, 'tm) app_state \<times> nat, 'h, 't, 'rng) http_env \<Rightarrow>
     communication_key \<Rightarrow> bool" where
  "key_pair_ok env he key \<longleftrightarrow> length (pk_bytes (ck_pubkey key)) = 32 \<and> (\<forall>w. snd (he_draw he w) = w) \<and>
     (\<forall>ch rng. \<exists>signature. private_key_sign (he_xsign he) (ck_privkey key) (he_uuid_bytes he ch) rng = Inr signature \<and>
        length signature = 64 \<and> verify env (pk_bytes (ck_pubkey key)) ch signature)"

context server
begin

lemma http_login_server:
  fixes he :: "(('sm, 'cs, 'tm) app_state \<times> nat, 'h, 't, 'rng) http_env"
    and s :: "(('sm, 'cs, 'tm) app_state \<times> nat, 'h, 't) http_base"
  assumes post: "post (he_client he) = server_post env (codecs (he_client he)) url rejection clock supply"
    and cd: "codecs_ok (codecs (he_client he))"
    and key: "key_pair_ok env he key"
    and s: "hb_world s = (st, k)" "hb_client s = client_new url"
  obtains st' where "http_login he (Some (ck_privkey key)) (Some (ck_pubkey key)) s =
      (Inr \<lparr>lo_access_token = supply (Suc k)\<rparr>, s\<lparr>hb_world := (st', Suc (Suc k)),
         hb_client := \<lparr>cl_host_port = url, cl_access_token = Some (supply (Suc k))\<rparr>\<rparr>)"
    "as_sessions st' = as_sessions st" "as_sessions_by_pubkey st' = as_sessions_by_pubkey st"
    "d_get (tok_ops env) (supply (Suc k)) (as_access_tokens st') = Some (ck_pubkey key)"
proof -
  let ?st1 = "st\<lparr>as_challenges := d_insert (cha_ops env) (clock k) (supply k) () (as_challenges st)\<rparr>"
  let ?s1 = "s\<lparr>hb_world := (?st1, Suc k), hb_client := client_new url\<rparr>"
  have post': "post (he_client he) =
      server_post env (codecs (he_client he)) (cl_host_port (client_new url)) rejection clock supply"
    using post by (simp add: client_new_def)
  have ch: "client_op (client_challenge (he_client he)) s = (Inr \<lparr>co_challenge = supply k\<rparr>, ?s1)"
    using s client_challenge_server[OF post' cd, of st k]
    by (simp add: client_op_def on_server_def challenge_def)
  obtain rng where rng: "he_draw he (?st1, Suc k) = (rng, (?st1, Suc k))"
    using key by (metis key_pair_ok_def prod.collapse)
  obtain signature where sg: "private_key_sign (he_xsign he) (ck_privkey key) (he_uuid_bytes he (supply k)) rng = Inr signature"
      "length signature = 64" "verify env (pk_bytes (ck_pubkey key)) (supply k) signature"
    using key[unfolded key_pair_ok_def] by blast
  have sign: "sign_challenge he (ck_privkey key) (supply k) ?s1 = (Inr signature, ?s1)"
    using rng sg(1) by (simp add: sign_challenge_def)
  let ?la = "\<lparr>la_challenge = supply k, la_pubkey = ck_pubkey key, la_signature = signature\<rparr>"
  obtain r st' where l: "login env (clock (Suc k)) (supply (Suc k)) ?la ?st1 = (r, st')" by fastforce
  have live: "fst (d_remove (cha_ops env) (supply k) (as_challenges ?st1)) \<noteq> None"
    by (simp add: cha.get_simps)
  have r: "r = Inr \<lparr>lo_access_token = supply (Suc k)\<rparr> \<and> as_sessions st' = as_sessions st \<and>
      as_sessions_by_pubkey st' = as_sessions_by_pubkey st \<and>
      d_get (tok_ops env) (supply (Suc k)) (as_access_tokens st') = Some (ck_pubkey key)"
    using l live sg(2,3) key
    by (auto simp: login_def key_pair_ok_def Let_def tok.get_insert split: prod.splits if_splits)
  have "http_login he (Some (ck_privkey key)) (Some (ck_pubkey key)) s =
      client_op (client_login (he_client he) ?la) ?s1"
    unfolding http_login_def
    by (subst try_io_Inr, rule ch) (simp, subst try_io_Inr, rule sign, simp)
  also have "\<dots> = (Inr \<lparr>lo_access_token = supply (Suc k)\<rparr>, s\<lparr>hb_world := (st', Suc (Suc k)),
       hb_client := \<lparr>cl_host_port = url, cl_access_token = Some (supply (Suc k))\<rparr>\<rparr>)"
    using r l client_login_server[OF post' cd, of ?la ?st1 "Suc k"]
    by (simp add: client_op_def client_new_def)
  finally show thesis using r by (intro that[of st']) auto
qed

end

section \<open>The command\<close>

lemma with_client_Inr:
  "f (m, client_base url (mc_world m)) = (r, (m', s)) \<Longrightarrow> with_client url f m = (r, m'\<lparr>mc_world := hb_world s\<rparr>)"
  by (simp add: with_client_def)

text \<open>
  C9: The command \<open>sessions\<close> at the server. Logged in with the key of the configuration, it succeeds
  exactly when every session in the user's list is live and, with \<open>--close-all\<close>, coordinated by the
  user; then all of these are closed and the list is empty (without the option, nothing changes).
  Also when it fails midway, no session is touched but listed ones the user coordinates, and those
  only with \<open>--close-all\<close>. So one expired session that is left in the list makes the command fail.
\<close>

theorem sessions_cmd_correct:
  fixes me :: "(('sm, 'cs, 'tm) app_state \<times> nat, 'h, 't, 'rng) cmd_env"
  defines "ce \<equiv> he_client (me_http me)"
  assumes sv: "server env" and order: "enumerates (set_order env)"
    and post: "post ce = server_post env (codecs ce) (''https://'' @ url) rejection clock supply"
    and cd: "codecs_ok (codecs ce)" and uuids: "\<And>t. parse_uuid env (uuid_to_string ce t) = Some t"
    and cfg: "config_read (me_cli me) (ss_config a) m = (Inr config, m)"
    and url: "list_server (ss_server_url a) (ss_group a) config = Inr url"
    and key: "cf_communication_key config = Some key" "key_pair_ok env (me_http me) key"
    and w: "mc_world m = (st, k)"
  shows "\<exists>r m' st' k'. sessions_cmd me (Sessions a) m = (r, m') \<and> mc_world m' = (st', k') \<and>
    (r = Inr () \<longleftrightarrow> (\<forall>sid\<in>listed (system_of st) (ck_pubkey key).
       visitable env (ck_pubkey key) (ss_close_all a) st sid)) \<and>
    (r = Inr () \<longrightarrow>
       live env (system_of st') = (\<lambda>sid. if ss_close_all a \<and> sid \<in> listed (system_of st) (ck_pubkey key)
         then None else live env (system_of st) sid) \<and>
       listed (system_of st') (ck_pubkey key) =
         (if ss_close_all a then {} else listed (system_of st) (ck_pubkey key))) \<and>
    (\<forall>sid. live env (system_of st') sid = live env (system_of st) sid \<or>
       ss_close_all a \<and> sid \<in> listed (system_of st) (ck_pubkey key) \<and>
       visitable env (ck_pubkey key) True st sid \<and> live env (system_of st') sid = None)"
proof -
  let ?he = "me_http me" and ?url = "''https://'' @ url" and ?pk = "ck_pubkey key"
  let ?s0 = "client_base url (st, k) :: (('sm, 'cs, 'tm) app_state \<times> nat, 'h, 't) http_base"
  let ?t = "supply (Suc k)" and ?c = "\<lparr>cl_host_port = ?url, cl_access_token = Some (supply (Suc k))\<rparr>"
  note post = post[unfolded ce_def] and cd = cd[unfolded ce_def]
  have s0: "hb_world ?s0 = (st, k)" "hb_client ?s0 = client_new ?url" by (simp_all add: client_base_def)
  obtain st1 where l: "http_login ?he (Some (ck_privkey key)) (Some ?pk) ?s0 = (Inr \<lparr>lo_access_token = ?t\<rparr>,
      ?s0\<lparr>hb_world := (st1, Suc (Suc k)), hb_client := ?c\<rparr>)"
    and st1: "as_sessions st1 = as_sessions st" "as_sessions_by_pubkey st1 = as_sessions_by_pubkey st"
    and t: "d_get (tok_ops env) ?t (as_access_tokens st1) = Some ?pk"
    by (rule server.http_login_server[OF sv post cd key(2) s0])
  let ?s1 = "?s0\<lparr>hb_world := (st1, Suc (Suc k)), hb_client := ?c\<rparr>"
    and ?s2 = "?s0\<lparr>hb_world := (st1, Suc (Suc (Suc k))), hb_client := ?c\<rparr>"
  define user where "user = \<lparr>us_pubkey = ?pk, us_current_token = ?t\<rparr>"
  define ids where "ids = ls_session_ids (projr (fst (list_sessions env user st1)))"
  have u: "user_from_request env (Some (uuid_to_string (he_client ?he) ?t)) st1 = Inr user"
    using t uuids[unfolded ce_def] by (simp add: user_from_request_def user_def)
  have same: "live env (system_of st1) = live env (system_of st)" "listed (system_of st1) = listed (system_of st)"
    "visitable env p c st1 = visitable env p c st" for p c
    using st1 by (simp_all add: live_def listed_def visitable_def fun_eq_iff)
  have ids: "distinct ids" "set ids = listed (system_of st1) (us_pubkey user)"
    using order by (auto simp: ids_def list_sessions_def listed_def listed_in_def split: option.splits)
  have p: "post (he_client ?he) = server_post env (codecs (he_client ?he)) (cl_host_port ?c) rejection clock supply"
    using post by simp
  have "client_op (client_list_sessions (he_client ?he)) ?s1 = (Inr \<lparr>ls_session_ids = ids\<rparr>, ?s2)"
    using client_list_sessions_server[OF p cd refl, of st1] u
    by (simp add: client_op_def on_server_def authenticated_def ids_def list_sessions_def)
  then have body: "sessions_cmd me (Sessions a) m = with_client url (\<lambda>_.
      (if ids = [] then first_io (eprintln ''No active sessions.'')
       else for_io ids (list_one me (ss_close_all a) config)) (m, ?s2)) m"
    using cfg url key(1) l w
    by (simp add: sessions_cmd_def own_key_def with_client_def try_io_def second_io_def)
  obtain r st' where v: "for_io ids (visit_session env user (ss_close_all a)) st1 = (r, st')" by fastforce
  have "\<exists>m' k'. (if ids = [] then first_io (eprintln ''No active sessions.'')
      else for_io ids (list_one me (ss_close_all a) config)) (m, ?s2) =
      (map_err Server_Error r, (m', ?s2\<lparr>hb_world := (st', k')\<rparr>))"
  proof (cases "ids = []")
    case True
    with v show ?thesis
      by (auto simp: first_io_def eprintln_def eprint_def intro!: exI[of _ "Suc (Suc (Suc k))"])
  next
    case False
    have s2: "hb_world ?s2 = (st1, Suc (Suc (Suc k)))" "hb_client ?s2 = ?c" by simp_all
    have sub: "set ids \<subseteq> listed (system_of st1) (us_pubkey user)" using ids(2) by simp
    show ?thesis
      using False server.list_all_server[OF sv post cd s2 u ids(1) sub v] by simp
  qed
  then obtain m' k' where b: "(if ids = [] then first_io (eprintln ''No active sessions.'')
      else for_io ids (list_one me (ss_close_all a) config)) (m, ?s2) =
      (map_err Server_Error r, (m', ?s2\<lparr>hb_world := (st', k')\<rparr>))" by blast
  have "sessions_cmd me (Sessions a) m = (map_err Server_Error r, m'\<lparr>mc_world := (st', k')\<rparr>)"
    using body b by (simp add: with_client_def)
  moreover have "map_err Server_Error r = Inr () \<longleftrightarrow> r = Inr ()" by simp
  moreover note server.visits_spec[OF sv ids(1) eq_refl[OF ids(2)] v, unfolded ids(2) same]
  ultimately show ?thesis
    by (intro exI[of _ "map_err Server_Error r"] exI[of _ "m'\<lparr>mc_world := (st', k')\<rparr>"] exI[of _ st'] exI[of _ k'])
      (simp add: user_def)
qed

section \<open>Witness\<close>

text \<open>User 7, who created session 3 at the server of the example.\<close>

definition ex_sessions_config :: config where
  "ex_sessions_config = config_default\<lparr>cf_communication_key :=
     Some \<lparr>ck_privkey = PrivateKey (replicate 32 7), ck_pubkey = ex_key 7\<rparr>\<rparr>"

definition ex_sessions_env ::
    "(((uuid, session) timed_map, (uuid, unit) timed_map, (uuid, public_key) timed_map) app_state \<times> nat,
      unit, unit, unit) cmd_env" where
  "ex_sessions_env = \<lparr>me_cli = command_cli ex_sessions_config ex_sessions_config,
     me_http = \<lparr>he_client = ex_client_env, he_snow = ex_snow, he_xsign = (\<lambda>sk _ _. replicate 64 (hd sk)),
       he_draw = (\<lambda>w. ((), w)), he_sleep = (\<lambda>w. w), he_uuid_bytes = (\<lambda>u. [ucast u]),
       he_parse_uuid = (\<lambda>s. None), he_order = ex_order\<rparr>,
     me_parse_url = (\<lambda>_. None)\<rparr>"

definition ex_sessions_args where
  "ex_sessions_args = \<lparr>ss_config = Some ''p'', ss_server_url = Some ''localhost:443'', ss_group = None,
     ss_close_all = True\<rparr>"

theorem sessions_cmd_correct_witness:
  "\<exists>m' st' k'. sessions_cmd ex_sessions_env (Sessions ex_sessions_args)
       (command_machine [] (sy_app (ex_sys ex_created), 9)) = (Inr (), m') \<and> mc_world m' = (st', k') \<and>
     live ref_env (system_of (sy_app (ex_sys ex_created))) 3 \<noteq> None \<and> live ref_env (system_of st') 3 = None \<and>
     listed (system_of st') (ex_key 7) = {}"
proof -
  let ?me = ex_sessions_env and ?st = "sy_app (ex_sys ex_created)" and ?m = "command_machine [] (sy_app (ex_sys ex_created), 9 :: nat)"
  let ?key = "\<lparr>ck_privkey = PrivateKey (replicate 32 7), ck_pubkey = ex_key 7\<rparr>"
  have h: "he_client (me_http ?me) = ex_client_env" "me_cli ?me = command_cli ex_sessions_config ex_sessions_config"
    by (simp_all add: ex_sessions_env_def)
  have order: "enumerates (set_order ref_env)"
    unfolding ref_env_def by (simp add: enumerates_sorted_list_of_set)
  have post: "post (he_client (me_http ?me)) = server_post ref_env (codecs (he_client (me_http ?me)))
      (''https://'' @ ''localhost:443'') \<lparr>rp_status = 404, rp_body = []\<rparr> (\<lambda>k. k) of_nat"
    by (simp add: h ex_client_env_def)
  have cd: "codecs_ok (codecs (he_client (me_http ?me)))" by (simp add: h ex_client_env_def ex_codecs_ok)
  have uuids: "parse_uuid ref_env (uuid_to_string (he_client (me_http ?me)) t) = Some t" for t
    by (simp add: h ex_client_env_def)
  have cfg: "config_read (me_cli ?me) (ss_config ex_sessions_args) ?m =
      (Inr (ex_sessions_config\<lparr>cf_path := Some ''p''\<rparr>), ?m)"
    by (simp add: h ex_sessions_args_def command_config)
  have url: "list_server (ss_server_url ex_sessions_args) (ss_group ex_sessions_args)
      (ex_sessions_config\<lparr>cf_path := Some ''p''\<rparr>) = Inr ''localhost:443''"
    by (simp add: ex_sessions_args_def list_server_def)
  have key: "cf_communication_key (ex_sessions_config\<lparr>cf_path := Some ''p''\<rparr>) = Some ?key"
    "key_pair_ok ref_env (me_http ?me) ?key"
    by (simp_all add: ex_sessions_config_def ex_sessions_env_def key_pair_ok_def private_key_sign_def)
  have w: "mc_world ?m = (?st, 9)" by simp
  have st: "live ref_env (system_of ?st) 3 = Some ex_session" "listed (system_of ?st) (ex_key 7) = {3}"
    unfolding ex_sys_created by (simp_all add: live_def listed_def listed_in_def index_insert_def)
  then have v: "\<forall>sid\<in>listed (system_of ?st) (ck_pubkey ?key).
      visitable ref_env (ck_pubkey ?key) (ss_close_all ex_sessions_args) ?st sid"
    by (simp add: visitable_def ex_session_def)
  show ?thesis
    using sessions_cmd_correct[OF ref_server.server_axioms order post cd uuids cfg url key w] v st
    by (auto simp: ex_sessions_args_def)
qed

end
