(* ===== verification/Spec2Isabelle.thy ===== *)
theory Spec2Isabelle
  imports Coordinator_Session_Props Dkg_Session_Props Cipher_Props Coordinator_Props Participant_Props Dkg_Client_Props
    Contacts_Props Merkle_Paths Zcash_Sign_Props
    Dealer_Command_Props Coordinator_Command_Props Dkg_Command_Props Participant_Command_Props Programs
    Config_Types Sessions_Props
begin

text \<open>
  A development of the FROST tools: the server \<open>frostd\<close>, the client library and command line
  programs \<open>frost-client\<close>, and \<open>zcash-sign\<close>, which prepares and applies signatures of Zcash
  transactions. Participants of a FROST signing or key generation session talk through the server,
  which only relays end-to-end encrypted messages; \<open>frost-client\<close> is the other end.

  \<^bold>\<open>Server\<close> (\<open>frostd/src\<close>).
  \<^item> \<open>Api\<close>: argument, output and error types (\<open>frost-client/src/api.rs\<close>).
  \<^item> \<open>Delay_Map\<close>: the crate \<open>delay_map\<close> as an interface, with two instances.
  \<^item> \<open>Server\<close>: state (\<open>state.rs\<close>), authentication (\<open>user.rs\<close>), the nine handlers (\<open>functions.rs\<close>)
    and the router (\<open>lib.rs\<close>). \<open>Server_Runs\<close>: runs of requests and expiry tasks.
  \<^item> \<open>Server_Index\<close>, \<open>Server_Delivery\<close>, \<open>Server_Auth\<close>, \<open>Server_Timeouts\<close>: the session lists, the
    queues, the challenges and tokens, and the deadlines of a run. \<open>Server_Examples\<close>: runs for the
    witnesses.

  \<^bold>\<open>Session state machines\<close> (\<open>frost-client/src/session.rs\<close>).
  \<^item> \<open>Session_Machine\<close>: what the two machines share. \<open>Coordinator_Session\<close> and \<open>Dkg_Session\<close> are the
    machines, \<open>.._Runs\<close> their runs over lists of messages and \<open>.._Props\<close> what the runs guarantee:
    which messages are accepted, that a complete exchange yields exactly what was sent in any order,
    and that a finished echo broadcast means agreement. \<open>Gather\<close> has the lemmas on collecting maps.

  \<^bold>\<open>Clients\<close> (\<open>frost-client/src\<close>).
  \<^item> \<open>Cipher\<close>, \<open>Cipher_Props\<close>: end-to-end encryption (\<open>cipher.rs\<close>) over the Noise library.
  \<^item> \<open>Client\<close>: the HTTP client (\<open>client.rs\<close>) and its composition with the modelled server.
  \<^item> \<open>Loops\<close>: computations that may not return. \<open>poll_until\<close> is a \<open>partial_function\<close> whose value
    \<open>None\<close> is a loop that never ends, so no fuel is needed and ``returns'' is a statement.
  \<^item> \<open>Console\<close>, \<open>Http_Comms\<close>: user input, and what the HTTP transports share; \<open>Http_Examples\<close> has a
    scripted world for the witnesses.
  \<^item> \<open>Coordinator\<close>, with the transports \<open>Coordinator_Cli\<close>, \<open>Coordinator_Socket\<close>, \<open>Coordinator_Http\<close>
    and the arguments in \<open>Coordinator_Args\<close> (\<open>coordinator/\<close>); \<open>Participant\<close>, \<open>Participant_Cli\<close>,
    \<open>Participant_Http\<close> (\<open>participant/\<close>); \<open>Dkg_Client\<close>, \<open>Dkg_Client_Cli\<close>, \<open>Dkg_Client_Http\<close>,
    \<open>Dkg_Client_Runs\<close> (\<open>dkg/\<close>). The trait \<open>Comms\<close> of each is a record of operations, the laws a run
    relies on are a locale, and every transport is an interpretation of it. The theories \<open>.._Props\<close>
    state what a run returns or signs.
  \<^item> \<open>Files\<close>: directories, files and atomic writes (\<open>cli/write_atomic.rs\<close>). \<open>Trusted_Dealer\<close>
    (\<open>trusted_dealer/\<close>). \<open>Config\<close>, \<open>Contacts\<close>: the configuration file and the commands on it
    (\<open>cli/config.rs\<close>, \<open>contact.rs\<close>, \<open>group.rs\<close>, \<open>init.rs\<close>), refined from an abstract address book.
  \<^item> \<open>Dealer_Command\<close>, \<open>Commands\<close>: the commands that create and use groups (\<open>cli/trusted_dealer.rs\<close>,
    \<open>dkg.rs\<close>, \<open>coordinator.rs\<close>, \<open>participant.rs\<close>, \<open>session.rs\<close>) and the dispatch of \<open>main.rs\<close>, on top of
    the runs above; \<open>.._Command_Props\<close> state what each leaves on disk and whom it deals with, and
    \<open>Command_Examples\<close> has machines for their witnesses. \<open>Config_Types\<close>: all of them keep the
    configuration files well-formed. \<open>Sessions_Props\<close>: \<open>sessions\<close> run against the modelled server.
    \<open>Programs\<close>: the other main functions.

  \<^bold>\<open>zcash-sign\<close> (\<open>zcash-sign/src\<close>).
  \<^item> \<open>Sinsemilla\<close>: the bit manipulation of the Orchard node hash against the hash of a bit string.
    \<open>Merkle\<close>, \<open>Merkle_Props\<close>, \<open>Merkle_Paths\<close>: commitment trees and witnesses (\<open>transaction_plan.rs\<close>)
    against the complete binary tree over the leaves.
  \<^item> \<open>Zcash_Sign\<close>, \<open>Zcash_Sign_Props\<close>: plans, the signing of PCZT files and the commands (\<open>sign.rs\<close>,
    \<open>main.rs\<close>).

  \<^bold>\<open>Assumptions.\<close> Third-party crates are parameters, with the laws they document as named
  hypotheses: \<open>delay_map\<close>, \<open>snow\<close> and \<open>xeddsa\<close>, JSON, TOML, postcard and bech32 round trips, the
  operations of \<open>frost-core\<close>. New UUIDs of a run are fresh. A handler of the server runs without
  interleaving, but \<open>login\<close>, which takes its two locks one after the other, and the expiry of a
  session are steps of their own. The order of a hash map is a parameter that lists its keys
  without repetition. While a client sleeps, the world makes progress as an arbitrary function says.
  Text is a list of bytes, and only ASCII blanks are trimmed. Writing to the console does not fail.
  Arithmetic overflow is a panic, and a panic is an error value.

  \<^bold>\<open>Not modelled.\<close> Start-up of server and programs (argument parsing, TLS, sockets, tracing), which
  only calls libraries; wiping of memory; progress messages on standard error, except those of the
  commands, where they are the output; \<open>zcash-sign/src/sign_ywallet.rs\<close>, which the build excludes
  (\<open>cfg(false)\<close>).
\<close>

end
